(* ===== verification/Py_Prelude.thy ===== *)
theory Py_Prelude
  imports Main "HOL-Library.Sublist"
begin

text \<open>
  Shared vocabulary of the development: the exceptions of the Python code, results that may
  be an exception, ordered dictionaries, and the string methods of Python 2 byte strings
  that the modelled modules call (strip, split, join, replace, isdigit, int, str, ...),
  each an executable function, with the lemmas about them that the component theories
  share.  A string is a list of 8-bit characters; white space is the six ASCII white space
  characters that \<^verbatim>\<open>str.strip\<close> and \<^verbatim>\<open>str.split\<close> use there.
\<close>

named_theorems res_iff "when a computation that may raise returns normally"
named_theorems str_simps "evaluation of the string methods"

section \<open>Exceptions and results\<close>

text \<open>
  The classes of the exceptions that the code raises, catches or lets through.  The string of an exception is its message, or the
  name or value that the message is about; \<open>PyException\<close> stands for the classes that no code tells apart.
\<close>

datatype exn =
    IndexError
  | KeyError string
  | ValueError string
  | TypeError string
  | NameError string
  | UnboundLocalError string
  | AttributeError string
  | ImportError string
  | IOError string
  | OSError string
  | DistutilsError string
  | NoMatches string
  | MultipleMatches string
  | AssertionError
  | RuntimeError string
  | KeyboardInterrupt
  | SystemExit int
  | PyException string

type_synonym 'a res = "exn + 'a"

definition rbind :: "'e + 'a \<Rightarrow> ('a \<Rightarrow> 'e + 'b) \<Rightarrow> 'e + 'b" where
  "rbind m f = (case m of Inl e \<Rightarrow> Inl e | Inr x \<Rightarrow> f x)"

lemma rbind_Inl [simp]: "rbind (Inl e) f = Inl e"
  by (simp add: rbind_def)

lemma rbind_Inr [simp]: "rbind (Inr x) f = f x"
  by (simp add: rbind_def)

lemma rbind_cong [fundef_cong]:
  assumes "m = m'" and "\<And>x. m' = Inr x \<Longrightarrow> f x = g x"
  shows "rbind m f = rbind m' g"
  using assms by (cases m') auto

lemma rbind_eq_Inr [res_iff]: "rbind m f = Inr y \<longleftrightarrow> (\<exists>x. m = Inr x \<and> f x = Inr y)"
  by (cases m) auto

lemma rbind_eq_Inl: "rbind m f = Inl e \<longleftrightarrow> m = Inl e \<or> (\<exists>x. m = Inr x \<and> f x = Inl e)"
  by (cases m) auto

lemma rbind_assoc: "rbind (rbind m f) g = rbind m (\<lambda>x. rbind (f x) g)"
  by (cases m) auto

text \<open>A list traversal that stops at the first exception, as a \<^verbatim>\<open>for\<close> loop does.\<close>

fun mapR :: "('a \<Rightarrow> 'e + 'b) \<Rightarrow> 'a list \<Rightarrow> 'e + 'b list" where
  "mapR f [] = Inr []"
| "mapR f (x # xs) = rbind (f x) (\<lambda>y. rbind (mapR f xs) (\<lambda>ys. Inr (y # ys)))"

lemma mapR_Inr: "(\<And>x. x \<in> set xs \<Longrightarrow> f x = Inr (g x)) \<Longrightarrow> mapR f xs = Inr (map g xs)"
  by (induction xs) auto

lemma mapR_length: "mapR f xs = Inr ys \<Longrightarrow> length ys = length xs"
  by (induction xs arbitrary: ys) (auto simp: res_iff)

text \<open>Left fold of a fallible step.\<close>

fun foldR :: "('s \<Rightarrow> 'a \<Rightarrow> 'e + 's) \<Rightarrow> 's \<Rightarrow> 'a list \<Rightarrow> 'e + 's" where
  "foldR f s [] = Inr s"
| "foldR f s (x # xs) = rbind (f s x) (\<lambda>s'. foldR f s' xs)"

lemma foldR_append: "foldR f s (xs @ ys) = rbind (foldR f s xs) (\<lambda>s'. foldR f s' ys)"
  by (induction xs arbitrary: s) (simp_all add: rbind_assoc)

lemma foldR_invariant:
  assumes "foldR f s xs = Inr t" "I s" "\<And>x u v. x \<in> set xs \<Longrightarrow> I u \<Longrightarrow> f u x = Inr v \<Longrightarrow> I v"
  shows "I t"
  using assms
proof (induction xs arbitrary: s)
  case (Cons x xs)
  from Cons.prems(1) obtain u where u: "f s x = Inr u" "foldR f u xs = Inr t" by (auto simp: rbind_eq_Inr)
  from Cons.IH [OF u(2)] Cons.prems(2,3) u(1) show ?case by auto
qed simp

text \<open>Indexing a list raises \<^verbatim>\<open>IndexError\<close> out of range (only non-negative constants occur).\<close>

definition at :: "'a list \<Rightarrow> nat \<Rightarrow> 'a res" where
  "at xs i = (if i < length xs then Inr (xs ! i) else Inl IndexError)"

lemma at_in_range [simp]: "i < length xs \<Longrightarrow> at xs i = Inr (xs ! i)"
  by (simp add: at_def)

lemma at_out_of_range [simp]: "length xs \<le> i \<Longrightarrow> at xs i = Inl IndexError"
  by (simp add: at_def)

lemma at_eq_Inr [res_iff]: "at xs i = Inr x \<longleftrightarrow> i < length xs \<and> x = xs ! i"
  by (auto simp: at_def)

text \<open>Which exceptions a computation may raise.\<close>

definition raises_only :: "('e \<Rightarrow> bool) \<Rightarrow> 'e + 'a \<Rightarrow> bool" where
  "raises_only P m \<longleftrightarrow> (case m of Inl e \<Rightarrow> P e | Inr x \<Rightarrow> True)"

lemma raises_only_simps [simp]:
  "raises_only P (Inr x)" "raises_only P (Inl e) \<longleftrightarrow> P e"
  by (simp_all add: raises_only_def)

lemma raises_only_rbind:
  "raises_only P m \<Longrightarrow> (\<And>x. m = Inr x \<Longrightarrow> raises_only P (f x)) \<Longrightarrow> raises_only P (rbind m f)"
  by (cases m) auto

lemma raises_only_at: "P IndexError \<Longrightarrow> raises_only P (at xs i)"
  by (simp add: at_def)

text \<open>\<^verbatim>\<open>max\<close> with an ordering that may raise: the first maximal element.\<close>

fun py_max :: "('a \<Rightarrow> 'a \<Rightarrow> bool res) \<Rightarrow> 'a \<Rightarrow> 'a list \<Rightarrow> 'a res" where
  "py_max gt m [] = Inr m"
| "py_max gt m (x # xs) = rbind (gt x m) (\<lambda>b. py_max gt (if b then x else m) xs)"

section \<open>Dictionaries\<close>

text \<open>
  A dictionary is an association list in iteration order; a store keeps the position of an
  existing key and appends a new one.
\<close>

type_synonym 'v pydict = "(string \<times> 'v) list"

fun dict_set :: "'k \<Rightarrow> 'v \<Rightarrow> ('k \<times> 'v) list \<Rightarrow> ('k \<times> 'v) list" where
  "dict_set k v [] = [(k, v)]"
| "dict_set k v ((k', v') # d) = (if k = k' then (k, v) # d else (k', v') # dict_set k v d)"

definition dict_get :: "(string \<times> 'v) list \<Rightarrow> string \<Rightarrow> 'v res" where
  "dict_get d k = (case map_of d k of None \<Rightarrow> Inl (KeyError k) | Some v \<Rightarrow> Inr v)"

definition dict_del :: "'k \<Rightarrow> ('k \<times> 'v) list \<Rightarrow> ('k \<times> 'v) list" where
  "dict_del k d = filter (\<lambda>kv. fst kv \<noteq> k) d"

lemma map_of_dict_set [simp]: "map_of (dict_set k v d) = (map_of d)(k \<mapsto> v)"
  by (induction d) auto

lemma keys_dict_set [simp]: "fst ` set (dict_set k v d) = insert k (fst ` set d)"
proof -
  have "fst ` set (dict_set k v d) = dom (map_of (dict_set k v d))"
    by (simp only: dom_map_of_conv_image_fst)
  then show ?thesis by (simp add: dom_map_of_conv_image_fst)
qed

lemma distinct_dict_set [simp]: "distinct (map fst d) \<Longrightarrow> distinct (map fst (dict_set k v d))"
proof (induction d)
  case (Cons a d)
  obtain k' v' where a: "a = (k', v')" by (cases a)
  have "set (map fst (dict_set k v d)) = insert k (set (map fst d))" by simp
  with Cons show ?case by (auto simp: a)
qed simp

lemma dict_get_set: "dict_get (dict_set k v d) j = (if j = k then Inr v else dict_get d j)"
  by (simp add: dict_get_def)

lemma dict_get_eq_Inr [res_iff]: "dict_get d k = Inr v \<longleftrightarrow> map_of d k = Some v"
  by (auto simp: dict_get_def split: option.splits)

lemma map_of_dict_del [simp]: "map_of (dict_del k d) = (map_of d)(k := None)"
  by (induction d) (auto simp: dict_del_def fun_eq_iff)

section \<open>Characters\<close>

definition is_ws :: "char \<Rightarrow> bool" where
  "is_ws c \<longleftrightarrow> c \<in> set [CHR '' '', CHR 0x09, CHR 0x0A, CHR 0x0B, CHR 0x0C, CHR 0x0D]"

definition is_digit :: "char \<Rightarrow> bool" where
  "is_digit c \<longleftrightarrow> c \<in> set ''0123456789''"

definition is_alpha :: "char \<Rightarrow> bool" where
  "is_alpha c \<longleftrightarrow> c \<in> set ''abcdefghijklmnopqrstuvwxyzABCDEFGHIJKLMNOPQRSTUVWXYZ''"

definition digit_val :: "char \<Rightarrow> nat" where
  "digit_val c = of_char c - 48"

definition digit_char :: "nat \<Rightarrow> char" where
  "digit_char d = ''0123456789'' ! d"

lemma digit_not_alpha [simp]: "is_digit c \<Longrightarrow> \<not> is_alpha c"
  by (auto simp: is_digit_def is_alpha_def)

lemma digit_not_ws [simp]: "is_digit c \<Longrightarrow> \<not> is_ws c"
  by (auto simp: is_digit_def is_ws_def)

lemma less_10_cases: "d < 10 \<Longrightarrow> d \<in> {0, 1, 2, 3, 4, 5, 6, 7, 8, 9::nat}"
  by auto

lemma is_digit_digit_char [simp]: "d < 10 \<Longrightarrow> is_digit (digit_char d)"
  by (drule less_10_cases) (auto simp: is_digit_def digit_char_def)

lemma digit_val_digit_char [simp]: "d < 10 \<Longrightarrow> digit_val (digit_char d) = d"
  by (drule less_10_cases) (auto simp: digit_val_def digit_char_def)

text \<open>\<^verbatim>\<open>s.lower()\<close> changes the ASCII capitals.\<close>

definition lower_char :: "char \<Rightarrow> char" where
  "lower_char c = (let n = (of_char c :: nat) in if 65 \<le> n \<and> n \<le> 90 then char_of (n + 32) else c)"

definition lower :: "string \<Rightarrow> string" where
  "lower s = map lower_char s"

section \<open>Stripping\<close>

definition lstrip :: "string \<Rightarrow> string" where
  "lstrip s = dropWhile is_ws s"

definition rstrip :: "string \<Rightarrow> string" where
  "rstrip s = rev (dropWhile is_ws (rev s))"

definition strip :: "string \<Rightarrow> string" where
  "strip s = rstrip (lstrip s)"

text \<open>What stripping achieves: no white space at either end.\<close>

definition stripped :: "string \<Rightarrow> bool" where
  "stripped s \<longleftrightarrow> s = [] \<or> (\<not> is_ws (hd s) \<and> \<not> is_ws (last s))"

lemma dropWhile_hd: "dropWhile P xs \<noteq> [] \<Longrightarrow> \<not> P (hd (dropWhile P xs))"
  by (induction xs) auto

lemma rstrip_prefix: "prefix (rstrip s) s"
proof -
  have "s = rev (dropWhile is_ws (rev s)) @ rev (takeWhile is_ws (rev s))"
    by (metis rev_append rev_rev_ident takeWhile_dropWhile_id)
  then show ?thesis unfolding rstrip_def by (rule prefixI)
qed

lemma rstrip_last: "rstrip s \<noteq> [] \<Longrightarrow> \<not> is_ws (last (rstrip s))"
  unfolding rstrip_def using dropWhile_hd [of is_ws "rev s"] by (simp add: last_rev)

lemma stripped_strip [simp]: "stripped (strip s)"
proof (cases "strip s = []")
  case False
  then have ne: "rstrip (lstrip s) \<noteq> []" by (simp add: strip_def)
  obtain zs where "lstrip s = rstrip (lstrip s) @ zs"
    using rstrip_prefix [of "lstrip s"] by (auto simp: prefix_def)
  with ne have "hd (rstrip (lstrip s)) = hd (lstrip s)"
    by (metis hd_append2)
  moreover from ne have "lstrip s \<noteq> []" by (auto simp: rstrip_def)
  ultimately have "\<not> is_ws (hd (strip s))"
    using dropWhile_hd [of is_ws s] by (simp add: strip_def lstrip_def)
  with rstrip_last [OF ne] show ?thesis by (simp add: stripped_def strip_def)
qed (simp add: stripped_def)

lemma strip_id [simp]: "stripped s \<Longrightarrow> strip s = s"
proof (cases s)
  case (Cons c cs)
  assume "stripped s"
  with Cons have "\<not> is_ws (hd s)" "\<not> is_ws (last s)" "s \<noteq> []"
    by (auto simp: stripped_def)
  then have "dropWhile is_ws s = s" "dropWhile is_ws (rev s) = rev s"
    by (metis dropWhile.simps(2) list.collapse)
       (metis \<open>\<not> is_ws (last s)\<close> \<open>s \<noteq> []\<close> dropWhile.simps(2) hd_rev list.collapse rev_is_Nil_conv)
  then show ?thesis by (simp add: strip_def lstrip_def rstrip_def)
qed (simp add: strip_def lstrip_def rstrip_def)

lemma strip_idem [simp]: "strip (strip s) = strip s"
  by simp

lemma strip_Nil [simp]: "strip [] = []"
  by (simp add: strip_def lstrip_def rstrip_def)

lemma set_strip: "set (strip s) \<subseteq> set s"
  unfolding strip_def lstrip_def rstrip_def
  by (metis (no_types, lifting) set_dropWhileD set_rev subsetI)

lemma stripped_digits: "list_all is_digit s \<Longrightarrow> stripped s"
  unfolding stripped_def by (cases s) (auto simp: list_all_iff)

section \<open>Splitting and joining\<close>

text \<open>\<^verbatim>\<open>s.split(c)\<close> for a one-character separator, generalised to a predicate.\<close>

fun split_by :: "(char \<Rightarrow> bool) \<Rightarrow> string \<Rightarrow> string list" where
  "split_by P [] = [[]]"
| "split_by P (x # xs) =
     (if P x then [] # split_by P xs
      else (case split_by P xs of [] \<Rightarrow> [[x]] | w # ws \<Rightarrow> (x # w) # ws))"

abbreviation split_on :: "char \<Rightarrow> string \<Rightarrow> string list" where
  "split_on c s \<equiv> split_by (\<lambda>x. x = c) s"

text \<open>\<^verbatim>\<open>s.split()\<close>: the maximal runs of characters that are not white space.\<close>

definition words :: "string \<Rightarrow> string list" where
  "words s = filter (\<lambda>w. w \<noteq> []) (split_by is_ws s)"

fun join :: "string \<Rightarrow> string list \<Rightarrow> string" where
  "join sep [] = []"
| "join sep [w] = w"
| "join sep (w # ws) = w @ sep @ join sep ws"

text \<open>\<^verbatim>\<open>s.split(c, 1)\<close>: at most one split.\<close>

fun split1 :: "char \<Rightarrow> string \<Rightarrow> string list" where
  "split1 c s = (if c \<in> set s
     then [takeWhile (\<lambda>x. x \<noteq> c) s, tl (dropWhile (\<lambda>x. x \<noteq> c) s)] else [s])"

text \<open>\<^verbatim>\<open>s.replace(c, t)\<close> for a one-character \<open>c\<close>.\<close>

definition replace1 :: "char \<Rightarrow> string \<Rightarrow> string \<Rightarrow> string" where
  "replace1 c t s = concat (map (\<lambda>x. if x = c then t else [x]) s)"

abbreviation startswith :: "string \<Rightarrow> string \<Rightarrow> bool" where
  "startswith s p \<equiv> prefix p s"

abbreviation endswith :: "string \<Rightarrow> string \<Rightarrow> bool" where
  "endswith s p \<equiv> suffix p s"

definition contains :: "string \<Rightarrow> string \<Rightarrow> bool" where
  "contains s p \<longleftrightarrow> list_ex (\<lambda>t. prefix p t) (suffixes s)"

text \<open>\<^verbatim>\<open>s.split(sep)\<close> for a separator of any length: leftmost, non-overlapping.\<close>

function split_sub :: "string \<Rightarrow> string \<Rightarrow> string list" where
  "split_sub sep [] = [[]]"
| "split_sub sep (x # xs) =
     (if sep \<noteq> [] \<and> prefix sep (x # xs)
      then [] # split_sub sep (drop (length sep) (x # xs))
      else (case split_sub sep xs of [] \<Rightarrow> [[x]] | w # ws \<Rightarrow> (x # w) # ws))"
  by pat_completeness auto
termination
  by (relation "measure (\<lambda>(sep, s). length s)") (auto simp: prefix_def)

lemma split_by_not_Nil [simp]: "split_by P s \<noteq> []"
  by (induction s) (auto split: list.splits)

lemma split_sub_not_Nil [simp]: "split_sub sep s \<noteq> []"
  by (induction sep s rule: split_sub.induct) (auto split: list.splits)

lemma split_by_no_sep: "w \<in> set (split_by P s) \<Longrightarrow> x \<in> set w \<Longrightarrow> \<not> P x"
proof (induction s arbitrary: w)
  case (Cons y s)
  then show ?case
    by (cases "split_by P s") (auto split: if_splits, metis+)
qed auto

lemma split_by_subset: "w \<in> set (split_by P s) \<Longrightarrow> set w \<subseteq> set s"
proof (induction s arbitrary: w)
  case (Cons y s)
  then show ?case
    by (cases "split_by P s") (auto split: if_splits, blast+)
qed auto

lemma split_by_none: "(\<And>x. x \<in> set s \<Longrightarrow> \<not> P x) \<Longrightarrow> split_by P s = [s]"
  by (induction s) auto

lemma split_by_append:
  "P c \<Longrightarrow> split_by P (s @ c # t) = split_by P s @ split_by P t"
proof (induction s)
  case (Cons x s)
  then show ?case by (cases "split_by P s") auto
qed simp

text \<open>The words of a string cut at a white space character.\<close>

lemma words_Nil [simp]: "words [] = []"
  by (simp add: words_def)

lemma words_append: "is_ws c \<Longrightarrow> words (s @ c # t) = words s @ words t"
  by (simp add: words_def split_by_append)

lemma words_Cons: "is_ws c \<Longrightarrow> words (c # t) = words t"
  using words_append [of c "[]" t] by simp

lemma words_single: "\<lbrakk>w \<noteq> []; \<And>c. c \<in> set w \<Longrightarrow> \<not> is_ws c\<rbrakk> \<Longrightarrow> words w = [w]"
  by (simp add: words_def split_by_none)

lemma split_by_append_sep:
  "(\<And>x. x \<in> set s \<Longrightarrow> \<not> P x) \<Longrightarrow> P c \<Longrightarrow> split_by P (s @ c # t) = s # split_by P t"
  by (induction s) auto

lemma join_Cons: "ws \<noteq> [] \<Longrightarrow> join sep (w # ws) = w @ sep @ join sep ws"
  by (cases ws) auto

lemma split_on_join:
  assumes "ws \<noteq> []" and "\<And>w. w \<in> set ws \<Longrightarrow> c \<notin> set w"
  shows "split_on c (join [c] ws) = ws"
  using assms
proof (induction ws)
  case (Cons w ws)
  have w: "\<And>x. x \<in> set w \<Longrightarrow> \<not> x = c" using Cons.prems(2) [of w] by auto
  show ?case
  proof (cases "ws = []")
    case True
    then show ?thesis using split_by_none [of w, OF w] by simp
  next
    case False
    with Cons have "split_on c (join [c] ws) = ws" by simp
    then show ?thesis using split_by_append_sep [of w, OF w] False by (simp add: join_Cons)
  qed
qed simp

lemma join_split_on: "join [c] (split_on c s) = s"
proof (induction s)
  case (Cons x s)
  obtain w ws where s: "split_on c s = w # ws"
    by (cases "split_on c s") auto
  show ?case
  proof (cases "x = c")
    case True
    then show ?thesis using Cons s by (simp add: join_Cons)
  next
    case False
    then show ?thesis using Cons s by (cases ws) auto
  qed
qed simp

lemma replace1_Nil [simp]: "replace1 c t [] = []"
  by (simp add: replace1_def)

lemma replace1_Cons [simp]: "replace1 c t (x # s) = (if x = c then t else [x]) @ replace1 c t s"
  by (simp add: replace1_def)

lemma replace1_append [simp]: "replace1 c t (r @ s) = replace1 c t r @ replace1 c t s"
  by (simp add: replace1_def)

lemma replace1_id: "c \<notin> set s \<Longrightarrow> replace1 c t s = s"
  by (induction s) auto

lemma set_replace1_empty: "set (replace1 c [] s) = set s - {c}"
  by (induction s) auto

section \<open>Decimal numbers\<close>

fun nat_str :: "nat \<Rightarrow> string" where
  "nat_str n = (if n < 10 then [digit_char n] else nat_str (n div 10) @ [digit_char (n mod 10)])"

declare nat_str.simps [simp del]

definition int_str :: "int \<Rightarrow> string" where
  "int_str i = (if i < 0 then CHR ''-'' # nat_str (nat (- i)) else nat_str (nat i))"

fun digits_val :: "nat \<Rightarrow> string \<Rightarrow> nat" where
  "digits_val a [] = a"
| "digits_val a (c # cs) = digits_val (10 * a + digit_val c) cs"

text \<open>\<^verbatim>\<open>s.isdigit()\<close>: non-empty and digits only.\<close>

definition str_isdigit :: "string \<Rightarrow> bool" where
  "str_isdigit s \<longleftrightarrow> s \<noteq> [] \<and> list_all is_digit s"

text \<open>\<^verbatim>\<open>int(s)\<close>: surrounding white space and one sign are allowed; \<open>None\<close> is the
  \<^verbatim>\<open>ValueError\<close>.\<close>

definition unsigned_int :: "string \<Rightarrow> int option" where
  "unsigned_int s = (if str_isdigit s then Some (int (digits_val 0 s)) else None)"

definition py_int :: "string \<Rightarrow> int option" where
  "py_int s = (case strip s of
       [] \<Rightarrow> None
     | c # cs \<Rightarrow> (if c = CHR ''-'' then map_option uminus (unsigned_int cs)
                 else if c = CHR ''+'' then unsigned_int cs
                 else unsigned_int (c # cs)))"

definition int_or_raise :: "string \<Rightarrow> int res" where
  "int_or_raise s = (case py_int s of None \<Rightarrow> Inl (ValueError s) | Some i \<Rightarrow> Inr i)"

lemma digits_val_append: "digits_val a (s @ t) = digits_val (digits_val a s) t"
  by (induction s arbitrary: a) auto

lemma nat_str_digits [simp]: "list_all is_digit (nat_str n)"
proof (induction n rule: nat_str.induct)
  case (1 n)
  then show ?case by (subst nat_str.simps) auto
qed

lemma nat_str_not_Nil [simp]: "nat_str n \<noteq> []"
  by (subst nat_str.simps) auto

lemma digits_val_nat_str [simp]: "digits_val 0 (nat_str n) = n"
proof (induction n rule: nat_str.induct)
  case (1 n)
  then show ?case by (subst nat_str.simps) (auto simp: digits_val_append)
qed

lemma str_isdigit_nat_str [simp]: "str_isdigit (nat_str n)"
  by (simp add: str_isdigit_def nat_str_digits)

lemma py_int_digits: "str_isdigit s \<Longrightarrow> py_int s = Some (int (digits_val 0 s))"
proof -
  assume d: "str_isdigit s"
  then have "strip s = s" by (simp add: str_isdigit_def stripped_digits)
  moreover from d obtain c cs where "s = c # cs" "is_digit c"
    by (cases s) (auto simp: str_isdigit_def)
  moreover from this have "c \<noteq> CHR ''-''" "c \<noteq> CHR ''+''" by (auto simp: is_digit_def)
  ultimately show ?thesis using d by (simp add: py_int_def unsigned_int_def)
qed

lemma py_int_nat_str [simp]: "py_int (nat_str n) = Some (int n)"
  by (simp add: py_int_digits)

lemma int_str_nonneg: "0 \<le> i \<Longrightarrow> int_str i = nat_str (nat i)"
  by (simp add: int_str_def)

lemma nat_str_digit_in: "x \<in> set (nat_str n) \<Longrightarrow> is_digit x"
  using nat_str_digits [of n] by (simp add: list_all_iff)

lemma raises_only_int: "(\<And>m. P (ValueError m)) \<Longrightarrow> raises_only P (int_or_raise s)"
  by (simp add: int_or_raise_def split: option.splits)

lemmas raises_intros = raises_only_rbind raises_only_at raises_only_int

lemma int_or_raise_eq_Inr [res_iff]: "int_or_raise s = Inr i \<longleftrightarrow> py_int s = Some i"
  by (auto simp: int_or_raise_def split: option.splits)

end
