(* ===== verification/Py_World.thy ===== *)
theory Py_World
  imports Py_Prelude
begin

text \<open>
  Programs with effects.  A program (type \<open>st\<close>) maps a state to its outcome, an exception or a
  value, and the state after it.  Where the only state is what was done to the outside world
  (type \<open>io\<close>), it is the list of effects performed so far, oldest first: what the outside world
  answers may depend on everything done before.  The type of the effects is a parameter, each
  component has its own.  Also here: the values a parsed JSON
  configuration holds, and \<^verbatim>\<open>str.format\<close>.
\<close>

named_theorems io_simps "execution of the primitive programs"

section \<open>Programs over a trace of effects\<close>

type_synonym ('s, 'a) st = "'s \<Rightarrow> 'a res \<times> 's"

type_synonym ('ev, 'a) io = "('ev list, 'a) st"

definition iret :: "'a \<Rightarrow> ('s, 'a) st" where
  "iret x = (\<lambda>t. (Inr x, t))"

definition iraise :: "exn \<Rightarrow> ('s, 'a) st" where
  "iraise e = (\<lambda>t. (Inl e, t))"

definition ibind :: "('s, 'a) st \<Rightarrow> ('a \<Rightarrow> ('s, 'b) st) \<Rightarrow> ('s, 'b) st" where
  "ibind m f = (\<lambda>t. case m t of (Inl e, t') \<Rightarrow> (Inl e, t') | (Inr x, t') \<Rightarrow> f x t')"

definition ilift :: "'a res \<Rightarrow> ('s, 'a) st" where
  "ilift r = (\<lambda>t. (r, t))"

definition emit :: "'ev \<Rightarrow> ('ev, unit) io" where
  "emit e = (\<lambda>t. (Inr (), t @ [e]))"

abbreviation iseq :: "('s, unit) st \<Rightarrow> ('s, 'b) st \<Rightarrow> ('s, 'b) st" where
  "iseq m n \<equiv> ibind m (\<lambda>_. n)"

text \<open>\<^verbatim>\<open>for x in xs: f(x)\<close>, with a value threaded through the iterations.\<close>

fun ifold :: "('a \<Rightarrow> 'x \<Rightarrow> ('s, 'a) st) \<Rightarrow> 'a \<Rightarrow> 'x list \<Rightarrow> ('s, 'a) st" where
  "ifold f s [] = iret s"
| "ifold f s (x # xs) = ibind (f s x) (\<lambda>s'. ifold f s' xs)"

abbreviation ifor :: "'x list \<Rightarrow> ('x \<Rightarrow> ('s, unit) st) \<Rightarrow> ('s, unit) st" where
  "ifor xs f \<equiv> ifold (\<lambda>_ x. f x) () xs"

text \<open>\<^verbatim>\<open>try: m except\<close> the exceptions that satisfy \<open>P\<close>.\<close>

definition icatch :: "('s, 'a) st \<Rightarrow> (exn \<Rightarrow> bool) \<Rightarrow> (exn \<Rightarrow> ('s, 'a) st) \<Rightarrow> ('s, 'a) st" where
  "icatch m P h = (\<lambda>t. case m t of
       (Inl e, t') \<Rightarrow> if P e then h e t' else (Inl e, t')
     | (Inr x, t') \<Rightarrow> (Inr x, t'))"

text \<open>\<^verbatim>\<open>except Exception\<close> does not catch the two exceptions outside that class.\<close>

definition is_Exception :: "exn \<Rightarrow> bool" where
  "is_Exception e \<longleftrightarrow> (case e of KeyboardInterrupt \<Rightarrow> False | SystemExit _ \<Rightarrow> False | _ \<Rightarrow> True)"

lemma icatch_Inr: "m t = (Inr x, t') \<Longrightarrow> icatch m P h t = (Inr x, t')"
  by (simp add: icatch_def)

lemma icatch_Inl: "m t = (Inl e, t') \<Longrightarrow> icatch m P h t = (if P e then h e t' else (Inl e, t'))"
  by (simp add: icatch_def)

lemma ibind_Inr: "m t = (Inr x, t') \<Longrightarrow> ibind m f t = f x t'"
  by (simp add: ibind_def)

lemma ibind_Inl: "m t = (Inl e, t') \<Longrightarrow> ibind m f t = (Inl e, t')"
  by (simp add: ibind_def)

lemma io_exec [simp, io_simps]:
  "iret x t = (Inr x, t)" "iraise e t = (Inl e, t)" "ilift r t = (r, t)"
  by (simp_all add: iret_def iraise_def ilift_def)

lemma emit_exec [simp, io_simps]: "emit ev t = (Inr (), t @ [ev])"
  by (simp add: emit_def)

lemma ibind_exec [io_simps]:
  "ibind (iret x) f t = f x t" "ibind (iraise e) f t = (Inl e, t)"
  "ibind (ilift (Inr x)) f t = f x t" "ibind (ilift (Inl e)) f t = (Inl e, t)"
  by (simp_all add: ibind_def)

lemma ibind_ilift [simp]: "ibind (ilift r) f t = (case r of Inl e \<Rightarrow> (Inl e, t) | Inr x \<Rightarrow> f x t)"
  by (auto simp: ibind_def split: sum.splits)

lemma ibind_emit [simp]: "ibind (emit ev) f t = f () (t @ [ev])"
  by (simp add: ibind_def)

lemma ibind_iret [simp]: "ibind (iret x) f t = f x t"
  by (simp add: ibind_def)

lemma ibind_assoc: "ibind (ibind m f) g = ibind m (\<lambda>x. ibind (f x) g)"
  by (rule ext) (auto simp: ibind_def split: prod.splits sum.splits)

lemma ibind_eq_Inr:
  "ibind m f t = (Inr y, u) \<longleftrightarrow> (\<exists>x t'. m t = (Inr x, t') \<and> f x t' = (Inr y, u))"
  by (auto simp: ibind_def split: prod.splits sum.splits)

section \<open>What a program adds to the trace\<close>

text \<open>A program only appends, and every effect it appends satisfies \<open>P\<close>.\<close>

definition emits :: "('ev \<Rightarrow> bool) \<Rightarrow> ('ev, 'a) io \<Rightarrow> bool" where
  "emits P m \<longleftrightarrow> (\<forall>t. \<exists>new. snd (m t) = t @ new \<and> list_all P new)"

lemma emits_iret [simp]: "emits P (iret x)"
  by (simp add: emits_def)

lemma emits_iraise [simp]: "emits P (iraise e)"
  by (simp add: emits_def)

lemma emits_ilift [simp]: "emits P (ilift r)"
  by (simp add: emits_def)

lemma emits_emit [simp]: "emits P (emit e) \<longleftrightarrow> P e"
  by (simp add: emits_def)

lemma emits_ibind:
  assumes "emits P m" "\<And>x t t'. m t = (Inr x, t') \<Longrightarrow> emits P (f x)"
  shows "emits P (ibind m f)"
  unfolding emits_def
proof
  fix t
  obtain r t' where m: "m t = (r, t')" by (cases "m t")
  with assms(1) obtain new where new: "t' = t @ new" "list_all P new"
    unfolding emits_def by (metis snd_conv)
  show "\<exists>new. snd (ibind m f t) = t @ new \<and> list_all P new"
  proof (cases r)
    case (Inl e)
    then show ?thesis using m new by (simp add: ibind_def)
  next
    case (Inr x)
    have "emits P (f x)" using assms(2) m Inr by blast
    then obtain more where "snd (f x t') = t' @ more" "list_all P more"
      unfolding emits_def by blast
    then show ?thesis using Inr m new by (simp add: ibind_def)
  qed
qed

lemma emits_ilift_bind: "(\<And>x. r = Inr x \<Longrightarrow> emits P (f x)) \<Longrightarrow> emits P (ibind (ilift r) f)"
  by (cases r) (auto simp: emits_def)

lemma emits_ifold: "(\<And>s x. emits P (f s x)) \<Longrightarrow> emits P (ifold f s xs)"
  by (induction xs arbitrary: s) (auto intro: emits_ibind)

lemma emits_mono: "emits P m \<Longrightarrow> (\<And>e. P e \<Longrightarrow> Q e) \<Longrightarrow> emits Q m"
  unfolding emits_def by (metis list.pred_mono_strong)

lemmas emits_intros = emits_ilift_bind emits_ibind emits_ifold

text \<open>
  A program runs through phases \<open>ks\<close>: what it appends is a sequence of blocks, one for each
  phase in order, and the effects of the block for \<open>k\<close> satisfy \<open>Q k\<close>.  A run that stops
  early leaves the remaining blocks empty.
\<close>

definition phased :: "('k \<Rightarrow> 'ev \<Rightarrow> bool) \<Rightarrow> 'k list \<Rightarrow> ('ev, 'a) io \<Rightarrow> bool" where
  "phased Q ks m \<longleftrightarrow>
     (\<forall>t. \<exists>bs. snd (m t) = t @ concat bs \<and> list_all2 (\<lambda>k b. list_all (Q k) b) ks bs)"

lemma phased_emits: "emits (Q k) m \<Longrightarrow> phased Q [k] m"
  unfolding emits_def phased_def
  by (metis append_Nil2 concat.simps list_all2_Cons list_all2_Nil)

lemma empty_blocks: "\<exists>bs. concat bs = [] \<and> list_all2 (\<lambda>k b. list_all (Q k) b) ks bs"
proof (induction ks)
  case (Cons k ks)
  then obtain bs where "concat bs = []" "list_all2 (\<lambda>k b. list_all (Q k) b) ks bs" by blast
  then have "concat ([] # bs) = [] \<and> list_all2 (\<lambda>k b. list_all (Q k) b) (k # ks) ([] # bs)"
    by simp
  then show ?case by blast
qed auto

lemma phased_ibind:
  assumes m: "phased Q ks m" and f: "\<And>x. phased Q ls (f x)"
  shows "phased Q (ks @ ls) (ibind m f)"
  unfolding phased_def
proof
  fix t
  obtain r t' where run: "m t = (r, t')" by (cases "m t")
  with m obtain bs where bs: "t' = t @ concat bs" "list_all2 (\<lambda>k b. list_all (Q k) b) ks bs"
    unfolding phased_def by (metis snd_conv)
  obtain cs where cs: "snd (ibind m f t) = t' @ concat cs"
      "list_all2 (\<lambda>k b. list_all (Q k) b) ls cs"
  proof (cases r)
    case (Inl e)
    then show ?thesis using run that empty_blocks [of Q ls] by (auto simp: ibind_def)
  next
    case (Inr x)
    then show ?thesis using run that f [of x] by (auto simp: ibind_def phased_def)
  qed
  have "snd (ibind m f t) = t @ concat (bs @ cs)" using bs cs by simp
  moreover have "list_all2 (\<lambda>k b. list_all (Q k) b) (ks @ ls) (bs @ cs)"
    using bs cs by (blast intro: list_all2_appendI)
  ultimately show "\<exists>bs. snd (ibind m f t) = t @ concat bs
      \<and> list_all2 (\<lambda>k b. list_all (Q k) b) (ks @ ls) bs" by blast
qed

lemma phased_cons:
  assumes m: "emits (Q k) m" and f: "\<And>x. phased Q ls (f x)"
  shows "phased Q (k # ls) (ibind m f)"
  using phased_ibind [OF phased_emits [where Q = Q and k = k, OF m] f] by simp

lemma phased_more:
  assumes m: "emits (Q k) m" and f: "\<And>x. phased Q (k # ls) (f x)"
  shows "phased Q (k # ls) (ibind m f)"
  unfolding phased_def
proof
  fix t
  obtain bs where bs: "snd (ibind m f t) = t @ concat bs"
      "list_all2 (\<lambda>k b. list_all (Q k) b) (k # k # ls) bs"
    using phased_cons [of Q k m "k # ls" f, OF m f] unfolding phased_def by blast
  then obtain b c cs where "bs = b # c # cs" by (auto simp: list_all2_Cons1)
  with bs have "snd (ibind m f t) = t @ concat ((b @ c) # cs)"
    "list_all2 (\<lambda>k b. list_all (Q k) b) (k # ls) ((b @ c) # cs)" by auto
  then show "\<exists>bs. snd (ibind m f t) = t @ concat bs
      \<and> list_all2 (\<lambda>k b. list_all (Q k) b) (k # ls) bs" by blast
qed

text \<open>A loop that completes has run one block of effects for each element, in order.\<close>

lemma ifor_blocks:
  assumes "\<And>x t t'. f x t = (Inr (), t') \<Longrightarrow> \<exists>b. t' = t @ b \<and> B x b"
  shows "ifor xs f t = (Inr (), t') \<Longrightarrow> \<exists>bs. t' = t @ concat bs \<and> list_all2 B xs bs"
proof (induction xs arbitrary: t)
  case (Cons x xs)
  then obtain u where u: "f x t = (Inr (), u)" "ifor xs f u = (Inr (), t')"
    by (auto simp: ibind_eq_Inr)
  from assms [OF u(1)] obtain b where b: "u = t @ b" "B x b" by blast
  from Cons.IH [OF u(2)] obtain bs where "t' = u @ concat bs" "list_all2 B xs bs" by blast
  with b have "t' = t @ concat (b # bs) \<and> list_all2 B (x # xs) (b # bs)" by simp
  then show ?case by blast
qed auto

text \<open>A program that never returns normally.\<close>

definition fails :: "('ev, 'a) io \<Rightarrow> bool" where
  "fails m \<longleftrightarrow> (\<forall>t. \<exists>e. fst (m t) = Inl e)"

lemma fails_iraise [simp]: "fails (iraise e)"
  by (simp add: fails_def)

lemma fails_ibind_right:
  assumes "\<And>x t t'. m t = (Inr x, t') \<Longrightarrow> fails (f x)"
  shows "fails (ibind m f)"
  unfolding fails_def
proof
  fix t
  obtain r t' where m: "m t = (r, t')" by (cases "m t")
  show "\<exists>e. fst (ibind m f t) = Inl e"
    using assms m by (cases r) (auto simp: ibind_def fails_def)
qed

lemma fails_ibind_left: "fails m \<Longrightarrow> fails (ibind m f)"
proof (rule fails_ibind_right)
  fix x t t' assume "fails m" "m t = (Inr x, t')"
  then show "fails (f x)" unfolding fails_def by (metis Inl_Inr_False fst_conv)
qed

lemma fails_ilift_bind: "(\<And>x. r = Inr x \<Longrightarrow> fails (f x)) \<Longrightarrow> fails (ibind (ilift r) f)"
  by (intro fails_ibind_right) auto

lemma emits_ibind_fails: "fails m \<Longrightarrow> emits P m \<Longrightarrow> emits P (ibind m f)"
  by (intro emits_ibind) (auto simp: fails_def, metis Inl_Inr_False fst_conv)

section \<open>Values of a parsed configuration\<close>

datatype pyval =
    PNone
  | PBool bool
  | PInt int
  | PFloat string
  | PStr string
  | PList "pyval list"
  | PDict "(string \<times> pyval) list"

text \<open>\<^verbatim>\<open>v[k]\<close> with a string key, \<^verbatim>\<open>v.get(k)\<close>, and the items that a loop iterates over.\<close>

definition getitem :: "pyval \<Rightarrow> string \<Rightarrow> pyval res" where
  "getitem v k = (case v of PDict d \<Rightarrow> dict_get d k | _ \<Rightarrow> Inl (TypeError k))"

definition getdefault :: "pyval \<Rightarrow> string \<Rightarrow> pyval res" where
  "getdefault v k = (case v of
       PDict d \<Rightarrow> Inr (case map_of d k of None \<Rightarrow> PNone | Some x \<Rightarrow> x)
     | _ \<Rightarrow> Inl (AttributeError ''get''))"

definition iteritems :: "pyval \<Rightarrow> (string \<times> pyval) list res" where
  "iteritems v = (case v of PDict d \<Rightarrow> Inr d | _ \<Rightarrow> Inl (AttributeError ''iteritems''))"

section \<open>str and repr\<close>

definition hex_digit :: "nat \<Rightarrow> char" where
  "hex_digit d = ''0123456789abcdef'' ! d"

text \<open>\<^verbatim>\<open>repr\<close> of a unicode string: quoted, non-printable characters escaped.\<close>

definition repr_char :: "char \<Rightarrow> char \<Rightarrow> string" where
  "repr_char q c =
     (if c = CHR 0x5C \<or> c = q then [CHR 0x5C, c]
      else if c = CHR 0x09 then CHR 0x5C # ''t''
      else if c = CHR 0x0A then CHR 0x5C # ''n''
      else if c = CHR 0x0D then CHR 0x5C # ''r''
      else (let n = (of_char c :: nat) in
            if n < 32 \<or> 127 \<le> n
            then CHR 0x5C # CHR ''x'' # [hex_digit (n div 16), hex_digit (n mod 16)]
            else [c]))"

definition repr_str :: "string \<Rightarrow> string" where
  "repr_str s =
     (let q = (if CHR 0x27 \<in> set s \<and> CHR 0x22 \<notin> set s then CHR 0x22 else CHR 0x27)
      in CHR ''u'' # q # concat (map (repr_char q) s) @ [q])"

text \<open>\<^verbatim>\<open>repr\<close> of a byte string has no prefix.\<close>

definition repr_bytes :: "string \<Rightarrow> string" where
  "repr_bytes s = tl (repr_str s)"

fun py_repr :: "pyval \<Rightarrow> string" where
  "py_repr PNone = ''None''"
| "py_repr (PBool b) = (if b then ''True'' else ''False'')"
| "py_repr (PInt i) = int_str i"
| "py_repr (PFloat s) = s"
| "py_repr (PStr s) = repr_str s"
| "py_repr (PList vs) = ''['' @ join '', '' (map py_repr vs) @ '']''"
| "py_repr (PDict d) =
     ''{'' @ join '', '' (map (\<lambda>(k, v). repr_str k @ '': '' @ py_repr v) d) @ ''}''"

definition py_str :: "pyval \<Rightarrow> string" where
  "py_str v = (case v of PStr s \<Rightarrow> s | _ \<Rightarrow> py_repr v)"

section \<open>str.format\<close>

text \<open>Automatically numbered fields \<^verbatim>\<open>{}\<close> and the escapes \<^verbatim>\<open>{{\<close> and \<^verbatim>\<open>}}\<close>.\<close>

fun py_format :: "string \<Rightarrow> string list \<Rightarrow> string res" where
  "py_format [] args = Inr []"
| "py_format [c] args =
     (if c = CHR ''{'' \<or> c = CHR ''}'' then Inl (ValueError ''format'') else Inr [c])"
| "py_format (c # d # s) args =
     (if c = CHR ''{'' then
        (if d = CHR ''{'' then rbind (py_format s args) (\<lambda>r. Inr (CHR ''{'' # r))
         else if d = CHR ''}'' then
           (case args of
              [] \<Rightarrow> Inl IndexError
            | a # as \<Rightarrow> rbind (py_format s as) (\<lambda>r. Inr (a @ r)))
         else Inl (ValueError ''format''))
      else if c = CHR ''}'' then
        (if d = CHR ''}'' then rbind (py_format s args) (\<lambda>r. Inr (CHR ''}'' # r))
         else Inl (ValueError ''format''))
      else rbind (py_format (d # s) args) (\<lambda>r. Inr (c # r)))"

text \<open>The text before the first brace is kept.\<close>

definition plain :: "string \<Rightarrow> bool" where
  "plain s \<longleftrightarrow> CHR ''{'' \<notin> set s \<and> CHR ''}'' \<notin> set s"

lemma py_format_plain_append:
  assumes "plain p"
  shows "py_format (p @ s) args = rbind (py_format s args) (\<lambda>r. Inr (p @ r))"
  using assms
proof (induction p)
  case Nil
  then show ?case by (cases "py_format s args") auto
next
  case (Cons c p)
  then have IH: "py_format (p @ s) args = rbind (py_format s args) (\<lambda>r. Inr (p @ r))"
    and c: "c \<noteq> CHR ''{''" "c \<noteq> CHR ''}''" by (auto simp: plain_def)
  show ?case
  proof (cases "p @ s")
    case Nil
    then show ?thesis using c by simp
  next
    case (Cons d q)
    then show ?thesis using c IH by (cases "py_format s args") auto
  qed
qed

lemma py_format_field: "py_format (CHR ''{'' # CHR ''}'' # s) (a # as)
    = rbind (py_format s as) (\<lambda>r. Inr (a @ r))"
  by simp

lemma py_format_prefix:
  assumes "plain p" "py_format (p @ s) args = Inr r"
  shows "prefix p r"
  using assms by (auto simp: py_format_plain_append res_iff)

end
