(* ===== verification/Hpa_Automation.thy ===== *)
theory Hpa_Automation
  imports Py_World
begin

text \<open>
  \<^verbatim>\<open>cloud/onap/cli/hpa_automation.py\<close>: the script that deploys a network service on ONAP by
  running the \<^verbatim>\<open>oclip\<close> command line tool, uploading packages over HTTP and inserting policy
  models into a database.  Every function of the script is a program over the trace of its
  effects.  The answers of the outside world (command output, HTTP responses, directory
  listings, files) are the fields of \<open>hpa_env\<close>; they may depend on everything done before.
  The rows of \<^verbatim>\<open>add_policy_models\<close> are in theory Hpa\_Policy\_Models; here they are the
  parameters of the function that inserts them.
\<close>

section \<open>Effects and environment\<close>

datatype hpa_event =
    SetEnv string string
  | OsSystem string
  | OsPopen string
  | PrintV pyval
  | HttpPut string string
  | DbConnect string string string string
  | DbExecute string "string list"
  | DbExecuteMany string "string list list"
  | DbCommit

record hpa_env =
  popen_out :: "hpa_event list \<Rightarrow> string \<Rightarrow> string"
  put_response :: "hpa_event list \<Rightarrow> string \<Rightarrow> string res"
  list_dir :: "string \<Rightarrow> string list res"
  open_rb :: "string \<Rightarrow> unit res"
  load_config :: "string \<Rightarrow> pyval res"
  db_result :: "hpa_event list \<Rightarrow> hpa_event \<Rightarrow> unit res"
  db_rowcount :: "hpa_event list \<Rightarrow> int"

type_synonym 'a hpa = "(hpa_event, 'a) io"

definition os_system :: "string \<Rightarrow> unit hpa" where
  "os_system c = emit (OsSystem c)"

definition os_popen :: "hpa_env \<Rightarrow> string \<Rightarrow> string hpa" where
  "os_popen E c = (\<lambda>t. (Inr (popen_out E t c), t @ [OsPopen c]))"

text \<open>A statement for the database, which may fail.\<close>

definition db_step :: "hpa_env \<Rightarrow> hpa_event \<Rightarrow> unit hpa" where
  "db_step E ev = (\<lambda>t. (db_result E t ev, t @ [ev]))"

definition print_str :: "string \<Rightarrow> unit hpa" where
  "print_str s = emit (PrintV (PStr s))"

text \<open>\<^verbatim>\<open>"...".format(...)\<close> over looked-up parameters, in argument order.\<close>

definition par :: "pyval \<Rightarrow> string \<Rightarrow> string res" where
  "par p k = rbind (getitem p k) (\<lambda>v. Inr (py_str v))"

definition get :: "pyval \<Rightarrow> string \<Rightarrow> string res" where
  "get v k = rbind (getdefault v k) (\<lambda>x. Inr (py_str x))"

abbreviation lit :: "string \<Rightarrow> string res" where
  "lit s \<equiv> Inr s"

definition cmd :: "string \<Rightarrow> string res list \<Rightarrow> string hpa" where
  "cmd template args = ilift (rbind (mapR (\<lambda>a. a) args) (py_format template))"

section \<open>Parsing the output of the tool\<close>

definition get_out_helper :: "string \<Rightarrow> string list" where
  "get_out_helper s =
     words (replace1 CHR ''+'' [] (replace1 CHR ''|'' [] (replace1 CHR ''-'' [] s)))"

definition get_out_helper_2 :: "string \<Rightarrow> string list" where
  "get_out_helper_2 s = words (replace1 CHR ''+'' [] (replace1 CHR ''|'' [] s))"

section \<open>Environment and cloud registration\<close>

text \<open>\<^verbatim>\<open>os.environ\<close> accepts strings only.\<close>

definition environ_value :: "pyval \<Rightarrow> string res" where
  "environ_value v = (case v of PStr s \<Rightarrow> Inr s | _ \<Rightarrow> Inl (TypeError ''environ''))"

definition set_open_cli_env :: "pyval \<Rightarrow> unit hpa" where
  "set_open_cli_env p =
     ibind (ilift (rbind (getitem p ''open_cli_product'') environ_value)) (\<lambda>product.
     ibind (emit (SetEnv ''OPEN_CLI_PRODUCT_IN_USE'' product)) (\<lambda>_.
     ibind (ilift (rbind (getitem p ''open_cli_home'') environ_value)) (\<lambda>home.
     emit (SetEnv ''OPEN_CLI_HOME'' home))))"

definition create_complex :: "pyval \<Rightarrow> unit hpa" where
  "create_complex p =
     ibind (cmd ''oclip complex-create -j {} -r {} -x {} -y {} -lt {} -l {} -i {} -lo {}                          -S {} -la {} -g {} -w {} -z {} -k {} -o {} -q {} -m {} -u {} -p {}''
              [par p ''street2'', par p ''physical_location'', par p ''complex_name'',
               par p ''data_center_code'', par p ''latitude'', par p ''region'',
               par p ''street1'', par p ''longitude'', par p ''state'', par p ''lata'',
               par p ''city'', par p ''postal-code'', par p ''complex_name'',
               par p ''country'', par p ''elevation'', par p ''identity_url'',
               par p ''aai_url'', par p ''aai_username'', par p ''aai_password''])
       os_system"

definition register_cloud_helper :: "string \<Rightarrow> pyval \<Rightarrow> pyval \<Rightarrow> unit hpa" where
  "register_cloud_helper cloud_region values p =
     ibind (ibind (cmd (''oclip cloud-create -e {} -b {} -I {{'' @
                         [CHR 0x5C, CHR 0x5C, CHR 0x5C] @ ''\"openstack-region-id'' @
                         [CHR 0x5C, CHR 0x5C, CHR 0x5C] @ ''\":'' @
                         [CHR 0x5C, CHR 0x5C, CHR 0x5C] @ ''\"{}'' @
                         [CHR 0x5C, CHR 0x5C, CHR 0x5C] @
                         ''\"}}     -x {} -y {} -j {} -w {} -l {} -url {} -n {} -q {} -r {} -Q {} -i {} -g {} -z {} -k {} -c {} -m {} -u {} -p {}'')
                     [get values ''esr-system-info-id'', get values ''user-name'',
                      lit cloud_region, par p ''cloud-owner'', lit cloud_region,
                      get values ''password'', get values ''cloud-region-version'',
                      get values ''default-tenant'', get values ''service-url'',
                      par p ''complex_name'', get values ''cloud-type'',
                      par p ''owner-defined-type'', get values ''system-type'',
                      get values ''identity-url'', par p ''cloud-zone'',
                      get values ''ssl-insecure'', get values ''system-status'',
                      get values ''cloud-domain'', par p ''aai_url'',
                      par p ''aai_username'', par p ''aai_password''])
       os_system) (\<lambda>_.
     ibind (ibind (cmd ''oclip complex-associate -x {} -y {} -z {} -m {} -u {} -p {}''
                     [par p ''complex_name'', lit cloud_region, par p ''cloud-owner'',
                      par p ''aai_url'', par p ''aai_username'', par p ''aai_password''])
       os_system) (\<lambda>_.
     ibind (cmd ''oclip multicloud-register-cloud -y {} -x {} -m {}''
              [par p ''cloud-owner'', lit cloud_region, par p ''multicloud_url''])
       os_system))"

definition register_all_clouds :: "pyval \<Rightarrow> unit hpa" where
  "register_all_clouds p =
     ibind (ilift (rbind (getitem p ''cloud_region_data'') iteritems)) (\<lambda>clouds.
       ifor clouds (\<lambda>(cloud_region, values). register_cloud_helper cloud_region values p))"

section \<open>Service type, customer, subscriptions, VNF managers\<close>

definition create_service_type :: "pyval \<Rightarrow> unit hpa" where
  "create_service_type p =
     ibind (cmd ''oclip service-type-create -x {} -m {} -u {} -p {}''
              [par p ''service_name'', par p ''aai_url'', par p ''aai_username'',
               par p ''aai_password''])
       os_system"

definition create_customer :: "pyval \<Rightarrow> unit hpa" where
  "create_customer p =
     ibind (cmd ''oclip customer-create -x {} -y {} -m {} -u {} -p {}''
              [par p ''customer_name'', par p ''subscriber_name'', par p ''aai_url'',
               par p ''aai_username'', par p ''aai_password''])
       os_system"

text \<open>The first region creates the subscription, every further one is added to it.\<close>

definition subscription_cmd :: "pyval \<Rightarrow> nat \<Rightarrow> string \<Rightarrow> pyval \<Rightarrow> string hpa" where
  "subscription_cmd p subscription_check cloud_region cloud_region_values =
     (if subscription_check = 0 then
        cmd ''oclip subscription-create -x {} -c {} -z {} -e {} -y {} -r {} -m {} -u {} -p {}''
          [par p ''customer_name'', get cloud_region_values ''tenant-id'',
           par p ''cloud-owner'', par p ''service_name'',
           get cloud_region_values ''default-tenant'', lit cloud_region,
           par p ''aai_url'', par p ''aai_username'', par p ''aai_password'']
      else
        cmd ''oclip subscription-cloud-add -x {} -c {} -z {} -e {} -y {} -r {} -m {} -u {} -p {}''
          [par p ''customer_name'', get cloud_region_values ''tenant-id'',
           par p ''cloud-owner'', par p ''service_name'',
           get cloud_region_values ''default-tenant'', lit cloud_region,
           par p ''aai_url'', par p ''aai_username'', par p ''aai_password''])"

definition add_customer_subscription :: "pyval \<Rightarrow> unit hpa" where
  "add_customer_subscription p =
     ibind (ilift (rbind (getitem p ''cloud_region_data'') iteritems)) (\<lambda>regions.
     ibind (ifold (\<lambda>subscription_check (cloud_region, cloud_region_values).
              ibind (subscription_cmd p subscription_check cloud_region cloud_region_values)
                (\<lambda>subscription_string.
              ibind (os_system subscription_string) (\<lambda>_.
              iret (subscription_check + 1)))) 0 regions) (\<lambda>_.
     iret ()))"

definition register_vnfm_helper :: "string \<Rightarrow> pyval \<Rightarrow> pyval \<Rightarrow> unit hpa" where
  "register_vnfm_helper vnfm_key values p =
     ibind (cmd ''oclip vnfm-create -b {} -c {} -e {} -v {} -g {} -x {} -i {} -j {} -q {}     -m {} -u {} -p {}''
              [lit vnfm_key, get values ''type'', get values ''vendor'',
               get values ''version'', get values ''url'', get values ''vim-id'',
               get values ''user-name'', get values ''user-password'',
               get values ''vnfm-version'', par p ''aai_url'', par p ''aai_username'',
               par p ''aai_password''])
       os_system"

definition register_vnfm :: "pyval \<Rightarrow> unit hpa" where
  "register_vnfm p =
     ibind (ilift (rbind (getitem p ''vnfm_params'') iteritems)) (\<lambda>vnfms.
       ifor vnfms (\<lambda>(vnfm_key, values). register_vnfm_helper vnfm_key values p))"

section \<open>The SDC design functions\<close>

text \<open>Run a command, split its output and take tokens of it.\<close>

definition popen_tokens :: "hpa_env \<Rightarrow> (string \<Rightarrow> string list) \<Rightarrow> string \<Rightarrow> string list hpa" where
  "popen_tokens E helper command =
     ibind (os_popen E command) (\<lambda>command_out. iret (helper command_out))"

definition create_vlm :: "hpa_env \<Rightarrow> pyval \<Rightarrow> string list hpa" where
  "create_vlm E p =
     ibind (cmd ''oclip vlm-create -x {} -u {} -p {} -m {}''
              [par p ''vendor-name'', par p ''sdc_creator'', par p ''sdc_password'',
               par p ''sdc_onboarding_url''])
       (\<lambda>vlm_create_string.
     ibind (popen_tokens E get_out_helper vlm_create_string) (\<lambda>out_list.
     ibind (ilift (at out_list 3)) (\<lambda>vlm_id.
     ibind (ilift (at out_list 5)) (\<lambda>vlm_version.
     ibind (cmd ''oclip vlm-entitlement-pool-create -x {} -y {} -e {} -z {} -k {} -g {} -l {} -u {} -p {} -m {}''
              [par p ''entitlement-pool-name'', lit vlm_id, lit vlm_version,
               par p ''entitlement-description'', par p ''vendor-name'',
               par p ''expiry-date'', par p ''start-date'', par p ''sdc_creator'',
               par p ''sdc_password'', par p ''sdc_onboarding_url''])
       (\<lambda>entitlement_string.
     ibind (popen_tokens E get_out_helper entitlement_string) (\<lambda>out_list.
     ibind (ilift (at out_list 3)) (\<lambda>entitlement_id.
     ibind (cmd ''oclip vlm-key-group-create -c {} -e {} -x {} -y {} -u {} -p {} -m {}''
              [lit vlm_id, lit vlm_version, par p ''key-group-name'',
               par p ''key-group-type'', par p ''sdc_creator'', par p ''sdc_password'',
               par p ''sdc_onboarding_url''])
       (\<lambda>key_group_string.
     ibind (popen_tokens E get_out_helper key_group_string) (\<lambda>out_list.
     ibind (ilift (at out_list 3)) (\<lambda>key_group_id.
     ibind (cmd ''oclip vlm-feature-group-create -x {} -y {} -e {} -z {} -g {} -b {} -c {} -u {} -p {} -m {}''
              [par p ''feature-grp-name'', lit vlm_id, lit vlm_version,
               par p ''feature-grp-desc'', lit key_group_id, lit entitlement_id,
               par p ''part-no'', par p ''sdc_creator'', par p ''sdc_password'',
               par p ''sdc_onboarding_url''])
       (\<lambda>feature_group_string.
     ibind (popen_tokens E get_out_helper feature_group_string) (\<lambda>out_list.
     ibind (ilift (at out_list 3)) (\<lambda>feature_group_id.
     ibind (cmd ''oclip vlm-aggreement-create -x {} -y {} -e {} -z {} -g {} -u {} -p {} -m {}''
              [par p ''agreement-name'', lit vlm_id, lit vlm_version,
               par p ''agreement-desc'', lit feature_group_id, par p ''sdc_creator'',
               par p ''sdc_password'', par p ''sdc_onboarding_url''])
       (\<lambda>agreement_string.
     ibind (popen_tokens E get_out_helper agreement_string) (\<lambda>out_list.
     ibind (ilift (at out_list 3)) (\<lambda>agreement_id.
     ibind (cmd ''oclip vlm-submit -x {} -y {} -u {} -p {} -m {}''
              [lit vlm_id, lit vlm_version, par p ''sdc_creator'', par p ''sdc_password'',
               par p ''sdc_onboarding_url''])
       (\<lambda>submit_string.
     ibind (os_system submit_string) (\<lambda>_.
     iret [feature_group_id, agreement_id, vlm_version, vlm_id]))))))))))))))))))"

text \<open>
  \<^verbatim>\<open>vsp_ids\<close> is not defined in the function nor in the module (the function's dictionary is
  called \<^verbatim>\<open>vsp_dict\<close>): both its uses raise \<^verbatim>\<open>NameError\<close>.
\<close>

definition create_vsp_body ::
    "hpa_env \<Rightarrow> pyval \<Rightarrow> string list \<Rightarrow> string \<Rightarrow> pyval \<Rightarrow> unit hpa" where
  "create_vsp_body E p in_list name value =
     ibind (cmd ''oclip vsp-create -j {} -o {} -e {} -x {} -y {} -i {} -c {} -g {} -u {} -p {} -m {}''
              [at in_list 0, par p ''onboarding-method'', par p ''vendor-name'',
               get value ''vsp-name'', get value ''vsp-desc'', at in_list 1, at in_list 2,
               at in_list 3, par p ''sdc_creator'', par p ''sdc_password'',
               par p ''sdc_onboarding_url''])
       (\<lambda>create_string.
     ibind (popen_tokens E get_out_helper create_string) (\<lambda>out_list.
     ibind (ilift (at out_list 3)) (\<lambda>vsp_id.
     ibind (ilift (at out_list 5)) (\<lambda>vsp_version.
     ibind (ibind (cmd ''oclip vsp-add-artifact -x {} -y {} -z {} -u {} -p {} -m {}''
                     [lit vsp_id, lit vsp_version, get value ''path'',
                      par p ''sdc_creator'', par p ''sdc_password'',
                      par p ''sdc_onboarding_url''])
       os_system) (\<lambda>_.
     ibind (ibind (cmd ''oclip vsp-validate -x {} -y {} -u {} -p {} -m {}''
                     [lit vsp_id, lit vsp_version, par p ''sdc_creator'',
                      par p ''sdc_password'', par p ''sdc_onboarding_url''])
       os_system) (\<lambda>_.
     ibind (ibind (cmd ''oclip vsp-submit -x {} -y {} -u {} -p {} -m {}''
                     [lit vsp_id, lit vsp_version, par p ''sdc_creator'',
                      par p ''sdc_password'', par p ''sdc_onboarding_url''])
       os_system) (\<lambda>_.
     ibind (ibind (cmd ''oclip vsp-package -x {} -y {} -u {} -p {} -m {}''
                     [lit vsp_id, lit vsp_version, par p ''sdc_creator'',
                      par p ''sdc_password'', par p ''sdc_onboarding_url''])
       os_system) (\<lambda>_.
     iraise (NameError ''vsp_ids'')))))))))"

definition create_vsp :: "hpa_env \<Rightarrow> pyval \<Rightarrow> string list \<Rightarrow> string pydict hpa" where
  "create_vsp E p in_list =
     ibind (ilift (rbind (getitem p ''vnf'') iteritems)) (\<lambda>vnfs.
     ibind (ifor vnfs (\<lambda>(name, value). create_vsp_body E p in_list name value)) (\<lambda>_.
     iraise (NameError ''vsp_ids'')))"

text \<open>\<^verbatim>\<open>d[k]\<close> in a dictionary of strings, formatted.\<close>

abbreviation sub :: "string pydict \<Rightarrow> string \<Rightarrow> string res" where
  "sub d k \<equiv> dict_get d k"

definition create_vf_model_body ::
    "hpa_env \<Rightarrow> pyval \<Rightarrow> string pydict \<Rightarrow> string pydict \<Rightarrow> string \<Rightarrow> pyval
     \<Rightarrow> string pydict hpa" where
  "create_vf_model_body E p vsp_dict vf_dict name value =
     ibind (cmd ''oclip vf-model-create -y {} -g {} -x {} -z {} -b {} -u {} -p {} -m {}''
              [get value ''vf-description'', get value ''vsp-version'',
               get value ''vf-name'', par p ''vendor-name'', sub vsp_dict name,
               par p ''sdc_creator'', par p ''sdc_password'', par p ''sdc_catalog_url''])
       (\<lambda>create_string.
     ibind (os_system create_string) (\<lambda>_.
     ibind (cmd ''oclip vf-model-list -m {} -u {} -p {} | grep {}''
              [par p ''sdc_catalog_url'', par p ''sdc_creator'', par p ''sdc_password'',
               get value ''vf-name''])
       (\<lambda>list_string.
     ibind (popen_tokens E get_out_helper_2 list_string) (\<lambda>output.
     ibind (ilift (at output 1)) (\<lambda>vf_unique_id.
     ibind (ibind (cmd ''oclip vf-model-certify -b {} -r {} -u {} -p {} -m {}''
                     [lit vf_unique_id, get value ''vf-remarks'', par p ''sdc_creator'',
                      par p ''sdc_password'', par p ''sdc_catalog_url''])
       os_system) (\<lambda>_.
     ibind (cmd ''oclip vf-model-list -m {} -u {} -p {} | grep {}''
              [par p ''sdc_catalog_url'', par p ''sdc_creator'', par p ''sdc_password'',
               get value ''vf-name''])
       (\<lambda>list_string.
     ibind (popen_tokens E get_out_helper_2 list_string) (\<lambda>output.
     ibind (ilift (at output 1)) (\<lambda>vf_id.
     iret (dict_set name vf_id vf_dict))))))))))"

definition create_vf_model :: "hpa_env \<Rightarrow> pyval \<Rightarrow> string pydict \<Rightarrow> string pydict hpa" where
  "create_vf_model E p vsp_dict =
     ibind (ilift (rbind (getitem p ''vnfs'') iteritems)) (\<lambda>vnfs.
     ifold (\<lambda>vf_dict (name, value). create_vf_model_body E p vsp_dict vf_dict name value)
       [] vnfs)"

definition create_service_model :: "hpa_env \<Rightarrow> pyval \<Rightarrow> string pydict \<Rightarrow> string list hpa" where
  "create_service_model E p vf_dict =
     ibind (ilift (getitem p ''vnfs'')) (\<lambda>vnfs.
     ibind (cmd ''oclip service-model-create -z {} -y {} -e {} -x {} -c {} -b {} -u {} -p {} -m {} |grep ID''
              [par p ''project-code'', par p ''service-model-desc'', par p ''icon-id'',
               par p ''service-model-name'', par p ''category-display'',
               par p ''category'', par p ''sdc_creator'', par p ''sdc_password'',
               par p ''sdc_catalog_url''])
       (\<lambda>create_string.
     ibind (popen_tokens E get_out_helper_2 create_string) (\<lambda>out_list.
     ibind (ilift (at out_list 1)) (\<lambda>service_model_id.
     ibind (ilift (iteritems vnfs)) (\<lambda>items.
     ibind (ifor items (\<lambda>(name, value).
       ibind (cmd ''oclip service-model-add-vf -x {} -b {} -y {} -z {} -u {} -p {} -m {}''
                [lit service_model_id, par p ''vf-version'', sub vf_dict name,
                 get value ''vf-name'', par p ''sdc_creator'', par p ''sdc_password'',
                 par p ''sdc_catalog_url''])
         os_system)) (\<lambda>_.
     ibind (ibind (cmd ''oclip service-model-test-request -b {} -r {} -u {} -p {} -m {}''
                     [lit service_model_id, par p ''service-test-remarks'',
                      par p ''sdc_creator'', par p ''sdc_password'',
                      par p ''sdc_catalog_url''])
       os_system) (\<lambda>_.
     ibind (ibind (cmd ''oclip service-model-test-start -b {} -u {} -p {} -m {}''
                     [lit service_model_id, par p ''sdc_tester'', par p ''sdc_password'',
                      par p ''sdc_catalog_url''])
       os_system) (\<lambda>_.
     ibind (ibind (cmd ''oclip service-model-test-accept -b {} -r {} -u {} -p {} -m {}''
                     [lit service_model_id, par p ''service-accept-remarks'',
                      par p ''sdc_tester'', par p ''sdc_password'',
                      par p ''sdc_catalog_url''])
       os_system) (\<lambda>_.
     ibind (cmd ''oclip service-model-list -u {} -p {} -m {} |grep {}''
              [par p ''sdc_creator'', par p ''sdc_password'', par p ''sdc_catalog_url'',
               par p ''service-model-name''])
       (\<lambda>list_string.
     ibind (popen_tokens E get_out_helper_2 list_string) (\<lambda>service_model_values.
     ibind (ilift (at service_model_values 1)) (\<lambda>service_model_uniqueId.
     ibind (ibind (cmd ''oclip service-model-approve -b {} -r {} -u {} -p {} -m {}''
                     [lit service_model_uniqueId, par p ''service-approve-remarks'',
                      par p ''sdc_governor'', par p ''sdc_password'',
                      par p ''sdc_catalog_url''])
       os_system) (\<lambda>_.
     ibind (ibind (cmd ''oclip service-model-distribute -b {} -u {} -p {} -m {}''
                     [lit service_model_uniqueId, par p ''sdc_operator'',
                      par p ''sdc_password'', par p ''sdc_catalog_url''])
       os_system) (\<lambda>_.
     iret service_model_values))))))))))))))"

section \<open>Policies\<close>

text \<open>The insertions of \<^verbatim>\<open>add_policy_models\<close>, for given statements and rows.\<close>

definition insert_policy_rows ::
    "hpa_env \<Rightarrow> string \<Rightarrow> string list \<Rightarrow> string \<Rightarrow> string list list \<Rightarrow> unit hpa" where
  "insert_policy_rows E hpa_sql hpa_val sql val =
     ibind (db_step E (DbConnect ''policydb'' ''policy_user'' ''policy_user'' ''onap_sdk'')) (\<lambda>_.
     ibind (db_step E (DbExecute hpa_sql hpa_val)) (\<lambda>_.
     ibind (db_step E (DbExecuteMany sql val)) (\<lambda>_.
     ibind (db_step E DbCommit) (\<lambda>_.
     (\<lambda>t. emit (PrintV (PList [PInt (db_rowcount E t), PStr ''was inserted.''])) t)))))"

text \<open>\<^verbatim>\<open>os.path.splitext(name)[0]\<close> and \<^verbatim>\<open>os.path.join\<close>.\<close>

definition splitext_root :: "string \<Rightarrow> string" where
  "splitext_root name =
     (let ext = takeWhile (\<lambda>c. c \<noteq> CHR ''.'') (rev name);
          root = rev (drop (length ext + 1) (rev name))
      in if CHR ''.'' \<in> set name \<and> CHR ''/'' \<notin> set ext
            \<and> list_ex (\<lambda>c. c \<noteq> CHR ''.'')
                 (rev (takeWhile (\<lambda>c. c \<noteq> CHR ''/'') (rev root)))
         then root else name)"

definition path_join :: "string \<Rightarrow> string \<Rightarrow> string" where
  "path_join a b =
     (if startswith b ''/'' then b
      else if a = [] \<or> endswith a ''/'' then a @ b
      else a @ ''/'' @ b)"

definition path_of :: "pyval \<Rightarrow> string res" where
  "path_of v = (case v of PStr s \<Rightarrow> Inr s | _ \<Rightarrow> Inl (TypeError ''path''))"

definition add_policies :: "hpa_env \<Rightarrow> pyval \<Rightarrow> unit hpa" where
  "add_policies E p =
     ibind (ilift (rbind (rbind (getitem p ''policy_directory'') path_of) (list_dir E)))
       (\<lambda>policies.
     ifor policies (\<lambda>policy.
       ibind (cmd ''{}.{}'' [par p ''policy_scope'', lit (splitext_root policy)])
         (\<lambda>policy_name.
       ibind (ilift (rbind (rbind (getitem p ''policy_directory'') path_of)
                       (\<lambda>d. Inr (path_join d policy)))) (\<lambda>policy_file.
       ibind (ibind (cmd ''oclip policy-create-outdated -m {} -u {} -p {} -x {} -S {} -T {} -o {} -b $(cat {})''
                       [par p ''policy_url'', par p ''policy_username'',
                        par p ''policy_password'', lit policy_name,
                        par p ''policy_scope'', par p ''policy_config_type'',
                        par p ''policy_onapName'', lit policy_file])
         os_system) (\<lambda>_.
       ibind (cmd ''oclip policy-push-outdated -m {} -u {} -p {} -x {} -b {} -c {}''
                [par p ''policy_url'', par p ''policy_username'',
                 par p ''policy_password'', lit policy_name, par p ''policy_config_type'',
                 par p ''policy_pdp_group''])
         os_system)))))"

section \<open>Packages and the network service\<close>

text \<open>
  \<^verbatim>\<open>onboard_vnf\<close> refers to \<^verbatim>\<open>ns_onboard_string\<close>, a local of another function, when it runs the
  command: \<^verbatim>\<open>NameError\<close> in the first iteration, before the command is run.
\<close>

definition onboard_vnf :: "hpa_env \<Rightarrow> pyval \<Rightarrow> string pydict hpa" where
  "onboard_vnf E p =
     ibind (ilift (rbind (getitem p ''vnfs'') iteritems)) (\<lambda>vnfs.
     ibind (ifor vnfs (\<lambda>(key, value).
       ibind (cmd ''oclip vfc-catalog-onboard-vnf -c {}''
                [get value ''csar-id''])
         (\<lambda>vnf_onboard_string.
       iraise (NameError ''ns_onboard_string'')))) (\<lambda>_.
     iret []))"

definition onboard_ns :: "hpa_env \<Rightarrow> pyval \<Rightarrow> string hpa" where
  "onboard_ns E p =
     ibind (cmd ''oclip vfc-catalog-onboard-ns -c {}''
              [par p ''ns-csar-id''])
       (os_popen E)"

definition create_ns :: "hpa_env \<Rightarrow> pyval \<Rightarrow> string \<Rightarrow> string hpa" where
  "create_ns E p csar_id =
     ibind (ilift (getitem p ''ns'')) (\<lambda>ns.
     ibind (cmd ''oclip vfc-nslcm-create -m {} -c {} -n {} -q {} -S {}''
              [par p ''vfc-url'', lit csar_id, get ns ''name'', par p ''customer_name'',
               par p ''service_name''])
       (\<lambda>ns_create_string.
     ibind (print_str ns_create_string) (\<lambda>_.
     ibind (os_popen E ns_create_string) (\<lambda>ns_create_out.
     ibind (print_str ns_create_out) (\<lambda>_.
     ilift (at (get_out_helper_2 ns_create_out) 3))))))"

definition instantiate_ns :: "hpa_env \<Rightarrow> pyval \<Rightarrow> string \<Rightarrow> string hpa" where
  "instantiate_ns E p ns_instance_id =
     ibind (cmd ''oclip vfc-nslcm-instantiate -m {} -i {} -c {} -n {}''
              [par p ''vfc-url'', lit ns_instance_id, par p ''location'',
               par p ''sdc-controller-id''])
       (\<lambda>ns_instantiate_string.
     ibind (print_str ns_instantiate_string) (\<lambda>_.
     os_popen E ns_instantiate_string))"

definition create_ns_package :: "hpa_env \<Rightarrow> pyval \<Rightarrow> string hpa" where
  "create_ns_package E p =
     ibind (ilift (getitem p ''ns'')) (\<lambda>ns.
     ibind (cmd ''oclip vfc-catalog-create-ns -m {} -c {} -e {}''
              [par p ''vfc-url'', get ns ''key'', get ns ''value''])
       (\<lambda>create_ns_string.
     ibind (popen_tokens E get_out_helper_2 create_ns_string) (\<lambda>out_list.
     ilift (at out_list 4))))"

definition create_vnf_package :: "hpa_env \<Rightarrow> pyval \<Rightarrow> string pydict hpa" where
  "create_vnf_package E p =
     ibind (ilift (rbind (getitem p ''vnfs'') iteritems)) (\<lambda>vnfs.
     ifold (\<lambda>outputs (vnf_key, vnf_values).
       ibind (cmd ''oclip vfc-catalog-create-vnf -m {} -c {} -e {}''
                [par p ''vfc-url'', get vnf_values ''key'', get vnf_values ''value''])
         (\<lambda>create_vnf_string.
       ibind (popen_tokens E get_out_helper_2 create_vnf_string) (\<lambda>out_list.
       ibind (ilift (at out_list 4)) (\<lambda>package_id.
       iret (dict_set vnf_key package_id outputs))))) [] vnfs)"

text \<open>\<^verbatim>\<open>requests.put(url, files={'file': open(path, 'rb')})\<close>: the file is opened first.\<close>

definition put_file :: "hpa_env \<Rightarrow> string \<Rightarrow> pyval \<Rightarrow> string hpa" where
  "put_file E url path =
     ibind (ilift (rbind (path_of path) (\<lambda>f. rbind (open_rb E f) (\<lambda>_. Inr f)))) (\<lambda>f.
     (\<lambda>t. (put_response E t url, t @ [HttpPut url f])))"

definition upload_ns_package :: "hpa_env \<Rightarrow> pyval \<Rightarrow> string \<Rightarrow> string hpa" where
  "upload_ns_package E p ns_package_output =
     ibind (ilift (getitem p ''ns'')) (\<lambda>ns.
     ibind (cmd ''{}/api/nsd/v1/ns_descriptors/{}/nsd_content''
              [par p ''vfc-url'', lit ns_package_output])
       (\<lambda>ns_upload_string.
     ibind (print_str ns_upload_string) (\<lambda>_.
     ibind (ilift (getdefault ns ''path'')) (\<lambda>path.
     ibind (emit (PrintV path)) (\<lambda>_.
     put_file E ns_upload_string path)))))"

text \<open>\<^verbatim>\<open>resp\<close> is unbound after a loop over no VNFs.\<close>

definition upload_vnf_package :: "hpa_env \<Rightarrow> pyval \<Rightarrow> string pydict \<Rightarrow> string hpa" where
  "upload_vnf_package E p vnf_package_output =
     ibind (ilift (rbind (getitem p ''vnfs'') iteritems)) (\<lambda>vnfs.
     ibind (ifold (\<lambda>_ (vnf_key, vnf_values).
       ibind (cmd ''{}/api/vnfpkgm/v1/vnf_packages/{}/package_content''
                [par p ''vfc-url'', sub vnf_package_output vnf_key,
                 sub vnf_package_output vnf_key])
         (\<lambda>vnf_upload_str.
       ibind (ilift (getdefault vnf_values ''path'')) (\<lambda>path.
       ibind (put_file E vnf_upload_str path) (\<lambda>resp.
       iret (Some resp))))) None vnfs) (\<lambda>resp.
     case resp of None \<Rightarrow> iraise (UnboundLocalError ''resp'') | Some r \<Rightarrow> iret r))"

section \<open>The script\<close>

definition print_dict :: "string pydict \<Rightarrow> unit hpa" where
  "print_dict d = emit (PrintV (PDict (map (\<lambda>(k, v). (k, PStr v)) d)))"

definition deploy_from_sdc :: "hpa_env \<Rightarrow> pyval \<Rightarrow> string hpa" where
  "deploy_from_sdc E p =
     ibind (print_str ''use csar file is distributed by sdc'') (\<lambda>_.
     ibind (onboard_vnf E p) (\<lambda>vnf_onboard_output.
     ibind (print_dict vnf_onboard_output) (\<lambda>_.
     ibind (onboard_ns E p) (\<lambda>ns_onboard_out.
     ibind (print_str ns_onboard_out) (\<lambda>_.
     iret [])))))"

definition deploy_from_local :: "hpa_env \<Rightarrow> pyval \<Rightarrow> string hpa" where
  "deploy_from_local E p =
     ibind (print_str ''use csar file is uploaded by local'') (\<lambda>_.
     ibind (create_vnf_package E p) (\<lambda>vnf_package_output.
     ibind (print_dict vnf_package_output) (\<lambda>_.
     ibind (create_ns_package E p) (\<lambda>ns_package_output.
     ibind (print_str ns_package_output) (\<lambda>_.
     ibind (upload_vnf_package E p vnf_package_output) (\<lambda>upload_vnf_out.
     ibind (print_str upload_vnf_out) (\<lambda>_.
     ibind (upload_ns_package E p ns_package_output) (\<lambda>upload_ns_out.
     ibind (print_str upload_ns_out) (\<lambda>_.
     iret ns_package_output)))))))))"

text \<open>
  The module body after argument parsing: \<open>config_file_path\<close> and \<open>model\<close> are the values of
  \<^verbatim>\<open>-f\<close> and \<^verbatim>\<open>-t\<close> (\<open>None\<close> when absent), \<open>add_policy_models\<close> is the database step.
\<close>

definition hpa_main ::
    "hpa_env \<Rightarrow> unit hpa \<Rightarrow> string option \<Rightarrow> string option \<Rightarrow> unit hpa" where
  "hpa_main E add_policy_models config_file_path model =
     (case config_file_path of
        None \<Rightarrow> iraise (SystemExit 1)
      | Some path \<Rightarrow>
          ibind (ilift (load_config E path)) (\<lambda>parameters.
          ibind (set_open_cli_env parameters) (\<lambda>_.
          ibind (create_complex parameters) (\<lambda>_.
          ibind (register_all_clouds parameters) (\<lambda>_.
          ibind (create_service_type parameters) (\<lambda>_.
          ibind (create_customer parameters) (\<lambda>_.
          ibind (add_customer_subscription parameters) (\<lambda>_.
          ibind (register_vnfm parameters) (\<lambda>_.
          ibind (if model = Some ''sdc'' then deploy_from_sdc E parameters
                 else deploy_from_local E parameters) (\<lambda>ns_package_output.
          ibind add_policy_models (\<lambda>_.
          ibind (add_policies E parameters) (\<lambda>_.
          ibind (create_ns E parameters ns_package_output) (\<lambda>ns_instance_id.
          ibind (print_str ns_instance_id) (\<lambda>_.
          ibind (instantiate_ns E parameters ns_instance_id) (\<lambda>instantiate_ns_output.
          print_str instantiate_ns_output)))))))))))))))"

section \<open>The phases of a run\<close>

text \<open>The effects that belong to each step of the script; a command is known by its start.\<close>

definition phase_cmds :: "nat \<Rightarrow> string list" where
  "phase_cmds k =
     [[], [''oclip complex-create ''],
      [''oclip cloud-create '', ''oclip complex-associate '', ''oclip multicloud-register-cloud ''],
      [''oclip service-type-create ''], [''oclip customer-create ''],
      [''oclip subscription-create '', ''oclip subscription-cloud-add ''],
      [''oclip vnfm-create ''], [''oclip vfc-catalog-''], [],
      [''oclip policy-create-outdated '', ''oclip policy-push-outdated ''],
      [''oclip vfc-nslcm-create ''], [''oclip vfc-nslcm-instantiate '']] ! k"

definition phase_cmd :: "nat \<Rightarrow> string \<Rightarrow> bool" where
  "phase_cmd k c \<longleftrightarrow> list_ex (\<lambda>q. prefix q c) (phase_cmds k)"

fun in_phase :: "nat \<Rightarrow> hpa_event \<Rightarrow> bool" where
  "in_phase k (SetEnv x v) = (k = 0)"
| "in_phase k (OsSystem c) = phase_cmd k c"
| "in_phase k (OsPopen c) = phase_cmd k c"
| "in_phase k (PrintV v) = (k \<in> set [7, 8, 10, 11])"
| "in_phase k (HttpPut u f) = (k = 7)"
| "in_phase k (DbConnect h u w d) = (k = 8)"
| "in_phase k (DbExecute s v) = (k = 8)"
| "in_phase k (DbExecuteMany s v) = (k = 8)"
| "in_phase k DbCommit = (k = 8)"

definition lead :: "string \<Rightarrow> string" where
  "lead t = takeWhile (\<lambda>c. c \<noteq> CHR ''{'' \<and> c \<noteq> CHR ''}'') t"

lemma plain_lead: "plain (lead t)"
  unfolding plain_def lead_def by (auto dest: set_takeWhileD)

lemma cmd_lead: "cmd t args u = (Inr r, u') \<Longrightarrow> prefix (lead t) r"
proof -
  assume "cmd t args u = (Inr r, u')"
  then obtain as where "py_format t as = Inr r" by (auto simp: cmd_def res_iff)
  moreover have "t = lead t @ dropWhile (\<lambda>c. c \<noteq> CHR ''{'' \<and> c \<noteq> CHR ''}'') t"
    by (simp add: lead_def)
  ultimately show ?thesis using py_format_prefix [OF plain_lead] by metis
qed

lemma emits_cmd [simp]: "emits P (cmd t args)"
  by (simp add: cmd_def)

text \<open>A command whose literal beginning shows its phase.\<close>

definition cmd_in :: "nat \<Rightarrow> string \<Rightarrow> bool" where
  "cmd_in k t \<longleftrightarrow> phase_cmd k (lead t)"

lemmas cmd_in_simps = cmd_in_def lead_def phase_cmd_def phase_cmds_def

lemma phase_cmd_mono: "phase_cmd k c \<Longrightarrow> prefix c r \<Longrightarrow> phase_cmd k r"
  unfolding phase_cmd_def by (auto simp: list_ex_iff intro: prefix_order.trans)

lemma cmd_phase: "cmd t args u = (Inr r, u') \<Longrightarrow> cmd_in k t \<Longrightarrow> phase_cmd k r"
  unfolding cmd_in_def by (blast dest: cmd_lead intro: phase_cmd_mono)

lemma emits_system: "phase_cmd k c \<Longrightarrow> emits (in_phase k) (os_system c)"
  by (simp add: os_system_def)

lemma emits_popen: "phase_cmd k c \<Longrightarrow> emits (in_phase k) (os_popen E c)"
  by (simp add: os_popen_def emits_def)

lemma emits_popen_tokens: "phase_cmd k c \<Longrightarrow> emits (in_phase k) (popen_tokens E h c)"
  unfolding popen_tokens_def by (intro emits_ibind emits_popen) auto

lemma emits_print: "k \<in> set [7, 8, 10, 11] \<Longrightarrow> emits (in_phase k) (print_str s)"
  by (simp add: print_str_def)

lemma emits_answer: "P ev \<Longrightarrow> emits P (\<lambda>t. (r t, t @ [ev]))"
  by (simp add: emits_def)

lemma phase_put: "emits (in_phase 7) (put_file E url path)"
  unfolding put_file_def by (intro emits_ilift_bind emits_answer) auto

lemmas phase_intros = emits_ibind emits_ifold emits_print phase_put
lemmas phase_leaves = emits_system [OF cmd_phase] emits_popen [OF cmd_phase]
  emits_popen_tokens [OF cmd_phase]

lemma phase_env: "emits (in_phase 0) (set_open_cli_env p)"
  unfolding set_open_cli_env_def by (intro emits_ilift_bind emits_ibind) auto

lemma phase_complex: "emits (in_phase 1) (create_complex p)"
  unfolding create_complex_def
  by (auto intro!: phase_intros intro: phase_leaves simp: cmd_in_simps)

lemma phase_cloud: "emits (in_phase 2) (register_all_clouds p)"
  unfolding register_all_clouds_def register_cloud_helper_def
  by (auto intro!: phase_intros intro: phase_leaves simp: cmd_in_simps)

lemma phase_service_type: "emits (in_phase 3) (create_service_type p)"
  unfolding create_service_type_def
  by (auto intro!: phase_intros intro: phase_leaves simp: cmd_in_simps)

lemma phase_customer: "emits (in_phase 4) (create_customer p)"
  unfolding create_customer_def
  by (auto intro!: phase_intros intro: phase_leaves simp: cmd_in_simps)

lemma phase_vnfm: "emits (in_phase 6) (register_vnfm p)"
  unfolding register_vnfm_def register_vnfm_helper_def
  by (auto intro!: phase_intros intro: phase_leaves simp: cmd_in_simps)

lemma subscription_cmd_lead:
  "subscription_cmd p n region values t = (Inr s, t') \<Longrightarrow>
     prefix (if n = 0 then ''oclip subscription-create '' else ''oclip subscription-cloud-add '') s"
  by (auto simp: subscription_cmd_def lead_def dest!: cmd_lead split: if_splits
      elim!: prefix_order.trans [rotated])

lemma phase_subscription: "emits (in_phase 5) (add_customer_subscription p)"
proof -
  have "phase_cmd 5 s" if "subscription_cmd p n r v t = (Inr s, t')" for n r v s t t'
    using subscription_cmd_lead [OF that] by (auto simp: phase_cmd_def phase_cmds_def split: if_splits)
  moreover have "emits P (subscription_cmd p n r v)" for P n r v
    by (simp add: subscription_cmd_def)
  ultimately show ?thesis
    unfolding add_customer_subscription_def
    by (auto intro!: phase_intros intro: emits_system)
qed

lemma phase_sdc: "emits (in_phase 7) (deploy_from_sdc E p)"
  unfolding deploy_from_sdc_def onboard_vnf_def onboard_ns_def
  by (auto intro!: phase_intros intro: phase_leaves simp: cmd_in_simps print_dict_def)

lemma phase_create_package: "emits (in_phase 7) (create_vnf_package E p)"
  "emits (in_phase 7) (create_ns_package E p)"
  unfolding create_vnf_package_def create_ns_package_def
  by (auto intro!: phase_intros intro: phase_leaves simp: cmd_in_simps)

lemma phase_upload: "emits (in_phase 7) (upload_vnf_package E p outs)"
  "emits (in_phase 7) (upload_ns_package E p out)"
  unfolding upload_vnf_package_def upload_ns_package_def
  by (auto intro!: phase_intros split: option.splits)

lemma phase_local: "emits (in_phase 7) (deploy_from_local E p)"
  unfolding deploy_from_local_def
  by (intro emits_ibind phase_create_package phase_upload)
     (auto intro!: emits_print simp: print_dict_def)

lemma phase_policies: "emits (in_phase 9) (add_policies E p)"
  unfolding add_policies_def
  by (auto intro!: phase_intros intro: phase_leaves simp: cmd_in_simps)

lemma phase_insert: "emits (in_phase 8) (insert_policy_rows E s1 v1 s2 v2)"
  unfolding insert_policy_rows_def db_step_def
  by (intro emits_ibind emits_answer) (auto simp: emits_def)

lemma phase_create_ns: "emits (in_phase 10) (create_ns E p c)"
  unfolding create_ns_def
  by (auto intro!: phase_intros intro: phase_leaves simp: cmd_in_simps)

lemma phase_instantiate: "emits (in_phase 11) (instantiate_ns E p c)"
  unfolding instantiate_ns_def
  by (auto intro!: phase_intros intro: phase_leaves simp: cmd_in_simps)

text \<open>The commands of different phases are different.\<close>

lemma phase_cmds_incomparable:
  "list_all (\<lambda>i. list_all (\<lambda>j. i = j \<or>
     list_all (\<lambda>q. list_all (\<lambda>r. \<not> prefix q r) (phase_cmds j)) (phase_cmds i)) [0..<12]) [0..<12]"
  by code_simp

lemma phase_cmd_unique:
  assumes "phase_cmd i c" "phase_cmd j c" "i < 12" "j < 12"
  shows "i = j"
proof (rule ccontr)
  assume ij: "i \<noteq> j"
  from assms obtain q r where q: "q \<in> set (phase_cmds i)" "prefix q c"
      and r: "r \<in> set (phase_cmds j)" "prefix r c"
    unfolding phase_cmd_def list_ex_iff by blast
  from q(2) r(2) have "prefix q r \<or> prefix r q" by (blast dest: prefix_same_cases)
  moreover have "i \<in> set [0..<12]" "j \<in> set [0..<12]" using assms(3,4) by simp_all
  ultimately show False
    using phase_cmds_incomparable ij q(1) r(1) unfolding list_all_iff by metis
qed

lemma hpa_main_phased:
  "phased in_phase [0, 1, 2, 3, 4, 5, 6, 7, 8, 9, 10, 11]
     (hpa_main E (insert_policy_rows E hpa_sql hpa_val sql val) config_file_path model)"
proof -
  have print: "emits (in_phase 11) (print_str s)" "emits (in_phase 10) (print_str s)" for s
    by (simp_all add: emits_print)
  have deploy: "emits (in_phase 7) (if model = Some ''sdc'' then deploy_from_sdc E p
      else deploy_from_local E p)" for p
    by (simp add: phase_sdc phase_local)
  show ?thesis
  proof (cases config_file_path)
    case None
    then show ?thesis
      using empty_blocks [of in_phase "[0, 1, 2, 3, 4, 5, 6, 7, 8, 9, 10, 11]"]
      by (simp add: hpa_main_def phased_def)
  next
    case (Some path)
    show ?thesis
      unfolding hpa_main_def Some option.case
      by (rule phased_more, simp, rule phased_cons, rule phase_env, rule phased_cons,
          rule phase_complex, rule phased_cons, rule phase_cloud, rule phased_cons,
          rule phase_service_type, rule phased_cons, rule phase_customer, rule phased_cons,
          rule phase_subscription, rule phased_cons, rule phase_vnfm, rule phased_cons,
          rule deploy, rule phased_cons, rule phase_insert, rule phased_cons,
          rule phase_policies, rule phased_more, rule phase_create_ns, rule phased_cons,
          rule print, rule phased_more, rule phase_instantiate, rule phased_emits, rule print)
  qed
qed

text \<open>
  C4: A run of hpa_automation.py performs its effects in the documented order: whatever the
  configuration, the tool, the HTTP server and the file system answer, and wherever the run
  stops, its trace is a concatenation of twelve blocks in which block k only holds effects
  (commands known by their sub-command, uploads, database statements, prints) of step k:
  environment, complex, clouds, service type, customer, subscriptions, VNFM, packages, policy
  models, policies, network service creation, instantiation.
\<close>
theorem hpa_main_phases:
  "\<exists>bs. snd (hpa_main E (insert_policy_rows E hpa_sql hpa_val sql val) config_file_path model t)
        = t @ concat bs
     \<and> list_all2 (\<lambda>k b. list_all (in_phase k) b) [0..<12] bs"
proof -
  have eq: "[0..<12] = [0, 1, 2, 3, 4, 5, 6, 7, 8, 9, 10, 11 :: nat]" by (simp add: upt_rec)
  show ?thesis
    unfolding eq using hpa_main_phased [unfolded phased_def, rule_format, of E hpa_sql hpa_val sql val config_file_path model t] .
qed

section \<open>The branches that cannot complete\<close>

theorem create_vsp_never_returns:
  "\<exists>e. fst (create_vsp E p in_list t) = Inl e"
proof -
  have "fails (create_vsp E p in_list)"
    unfolding create_vsp_def by (intro fails_ilift_bind fails_ibind_right) simp
  then show ?thesis by (simp add: fails_def)
qed

lemma onboard_vnf_fails:
  assumes "getitem p ''vnfs'' = Inr (PDict (kv # vnfs))"
  shows "fails (onboard_vnf E p)"
proof -
  have body: "fails (case kv of (key, value) \<Rightarrow>
      ibind (cmd ''oclip vfc-catalog-onboard-vnf -c {}'' [get value ''csar-id''])
        (\<lambda>vnf_onboard_string. iraise (NameError ''ns_onboard_string'')))" for kv :: "string \<times> pyval"
    by (cases kv) (auto intro: fails_ibind_right)
  show ?thesis
    unfolding onboard_vnf_def
    by (rule fails_ilift_bind, rule fails_ibind_left)
       (auto simp: assms iteritems_def intro!: fails_ibind_left body)
qed

lemma deploy_from_sdc_fails:
  "getitem p ''vnfs'' = Inr (PDict (kv # vnfs)) \<Longrightarrow> fails (deploy_from_sdc E p)"
  unfolding deploy_from_sdc_def
  by (intro fails_ibind_right fails_ibind_left onboard_vnf_fails)

text \<open>
  C23: With "-t sdc" and at least one VNF in the configuration the script always ends with an
  exception (onboard_vnf refers to an undefined variable), before any policy, network service
  creation or instantiation: every effect it performed belongs to one of the first eight steps.
\<close>
theorem sdc_deployment_aborts:
  assumes "load_config E path = Inr p" "getitem p ''vnfs'' = Inr (PDict (kv # vnfs))"
  shows "\<exists>e new. hpa_main E add_policy_models (Some path) (Some ''sdc'') t = (Inl e, t @ new)
     \<and> list_all (\<lambda>ev. \<exists>k < 8. in_phase k ev) new"
proof -
  let ?P = "\<lambda>ev. \<exists>k < 8. in_phase k ev"
  let ?m = "hpa_main E add_policy_models (Some path) (Some ''sdc'')"
  have le: "emits ?P m" if "emits (in_phase k) m" "k < 8" for k and m :: "unit hpa"
    using that by (auto intro: emits_mono)
  have sdc: "emits ?P (deploy_from_sdc E p)"
    by (rule emits_mono [OF phase_sdc]) (rule exI [of _ 7], simp)
  note fail = deploy_from_sdc_fails [OF assms(2)]
  have "emits ?P ?m"
    unfolding hpa_main_def option.case assms(1)
    by (rule emits_ilift_bind, simp, rule emits_ibind, rule le [OF phase_env], simp,
        rule emits_ibind, rule le [OF phase_complex], simp,
        rule emits_ibind, rule le [OF phase_cloud], simp,
        rule emits_ibind, rule le [OF phase_service_type], simp,
        rule emits_ibind, rule le [OF phase_customer], simp,
        rule emits_ibind, rule le [OF phase_subscription], simp,
        rule emits_ibind, rule le [OF phase_vnfm], simp,
        rule emits_ibind_fails, rule fail, rule sdc)
  moreover have "fails ?m"
    unfolding hpa_main_def option.case assms(1)
    by (rule fails_ilift_bind, simp) (intro fails_ibind_right fails_ibind_left [OF fail])
  moreover obtain r u where "?m t = (r, u)" by (cases "?m t")
  ultimately show ?thesis
    unfolding emits_def fails_def by (metis fst_conv snd_conv)
qed

end
