(* ===== verification/Hpa_Runs.thy ===== *)
theory Hpa_Runs
  imports Hpa_Automation
begin

text \<open>
  What complete runs of \<^verbatim>\<open>hpa_automation.py\<close> do: the tokens \<^verbatim>\<open>get_out_helper\<close> finds in the tables
  the tool prints, the commands a completed step has run, and conditions on the configuration
  and on the answers of the outside world under which the whole script completes.
\<close>

section \<open>Tables\<close>

text \<open>
  The tool prints its results as a table: borders of \<^verbatim>\<open>+\<close> and \<^verbatim>\<open>-\<close>, and rows of cells between
  bars.  \<open>get_out_helper\<close> returns exactly the cells, row by row.
\<close>

definition table_border :: "nat \<Rightarrow> string" where
  "table_border n = ''+'' @ replicate n CHR ''-'' @ ''+''"

definition table_row :: "string list \<Rightarrow> string" where
  "table_row cells = concat (map (\<lambda>c. ''| '' @ c @ '' '') cells) @ ''|''"

definition render_table :: "nat \<Rightarrow> string list list \<Rightarrow> string" where
  "render_table n rows =
     table_border n @ concat (map (\<lambda>r. CHR 0x0A # table_row r @ CHR 0x0A # table_border n) rows)"

definition table_cell :: "string \<Rightarrow> bool" where
  "table_cell c \<longleftrightarrow> c \<noteq> [] \<and> list_all (\<lambda>x. \<not> is_ws x \<and> x \<notin> set ''-|+'') c"

abbreviation unbox :: "string \<Rightarrow> string" where
  "unbox s \<equiv> replace1 CHR ''+'' [] (replace1 CHR ''|'' [] (replace1 CHR ''-'' [] s))"

lemma unbox_border: "unbox (table_border n) = []"
  by (induction n) (auto simp: table_border_def)

lemma unbox_cell:
  assumes "table_cell c"
  shows "unbox c = c"
proof -
  have "CHR ''-'' \<notin> set c" "CHR ''|'' \<notin> set c" "CHR ''+'' \<notin> set c"
    using assms unfolding table_cell_def list_all_iff by auto
  then show ?thesis by (simp add: replace1_id)
qed

lemma unbox_ws: "is_ws c \<Longrightarrow> unbox (c # s) = c # unbox s"
  by (auto simp: is_ws_def)

lemma words_cell: "table_cell c \<Longrightarrow> words c = [c]"
  by (auto simp: table_cell_def list_all_iff intro: words_single)

lemma is_ws_simps [simp]: "is_ws CHR '' ''" "is_ws CHR 0x0A"
  by (simp_all add: is_ws_def)

lemma words_row_rest:
  "list_all table_cell cells \<Longrightarrow>
     words (unbox (table_row cells) @ CHR 0x0A # s) = cells @ words s"
proof (induction cells)
  case Nil
  then show ?case by (simp add: table_row_def words_Cons)
next
  case (Cons c cells)
  then have c: "table_cell c" and IH: "words (unbox (table_row cells) @ CHR 0x0A # s) = cells @ words s"
    by auto
  have "unbox (table_row (c # cells)) = CHR '' '' # c @ CHR '' '' # unbox (table_row cells)"
    using unbox_cell [OF c] by (simp add: table_row_def)
  then show ?case
    using words_append [of "CHR '' ''" c] IH words_cell [OF c]
    by (simp add: words_Cons)
qed

theorem get_out_helper_table:
  assumes "list_all (list_all table_cell) rows"
  shows "get_out_helper (render_table n rows) = concat rows"
proof -
  have "words (unbox (concat (map (\<lambda>r. CHR 0x0A # table_row r @ CHR 0x0A # table_border n) rows)))
      = concat rows"
    using assms
  proof (induction rows)
    case (Cons r rows)
    then show ?case
      using words_row_rest [of r] by (simp add: words_Cons unbox_border)
  qed simp
  then show ?thesis
    by (simp add: get_out_helper_def render_table_def unbox_border)
qed

theorem get_out_helper_table_witness:
  "get_out_helper (render_table 12 [[''property'', ''value''], [''ID'', ''4f2a'']]) ! 3 = ''4f2a''"
proof -
  have "list_all (list_all table_cell) [[''property'', ''value''], [''ID'', ''4f2a'']]"
    by code_simp
  then show ?thesis by (simp add: get_out_helper_table)
qed

lemma get_out_helper_loses_hyphens:
  "get_out_helper ''| ID | 4f2a-77 |'' = [''ID'', ''4f2a77'']"
  "get_out_helper_2 ''| ID | 4f2a-77 |'' = [''ID'', ''4f2a-77'']"
  by code_simp+

section \<open>The commands of completed steps\<close>

lemma system_block:
  assumes "ibind (cmd tmpl args) os_system t = (Inr (), t')"
  shows "\<exists>c. t' = t @ [OsSystem c] \<and> prefix (lead tmpl) c"
proof -
  from assms obtain c u where c: "cmd tmpl args t = (Inr c, u)" "os_system c u = (Inr (), t')"
    by (auto simp: ibind_eq_Inr)
  then have "u = t" by (simp add: cmd_def)
  with c cmd_lead [OF c(1)] show ?thesis by (auto simp: os_system_def)
qed

definition cloud_block :: "string \<times> pyval \<Rightarrow> hpa_event list \<Rightarrow> bool" where
  "cloud_block r b \<longleftrightarrow> (\<exists>c1 c2 c3. b = [OsSystem c1, OsSystem c2, OsSystem c3]
     \<and> prefix ''oclip cloud-create '' c1 \<and> prefix ''oclip complex-associate '' c2
     \<and> prefix ''oclip multicloud-register-cloud '' c3)"

lemma system_seq:
  assumes "ibind (ibind (cmd tmpl args) os_system) (\<lambda>_. m) u = (Inr x, u')" "prefix q (lead tmpl)"
  shows "\<exists>c. prefix q c \<and> m (u @ [OsSystem c]) = (Inr x, u')"
proof -
  from assms(1) obtain y v where "ibind (cmd tmpl args) os_system u = (Inr y, v)" "m v = (Inr x, u')"
    by (auto simp only: ibind_eq_Inr [of "ibind (cmd tmpl args) os_system"])
  with system_block [of tmpl args u v] assms(2) show ?thesis
    by (auto intro: prefix_order.trans)
qed

lemma register_cloud_block:
  assumes "register_cloud_helper r v p u = (Inr (), u')"
  shows "\<exists>b. u' = u @ b \<and> cloud_block (r, v) b"
proof -
  from assms [unfolded register_cloud_helper_def, THEN system_seq, of "''oclip cloud-create ''"]
  obtain c1 where c1: "prefix ''oclip cloud-create '' c1" and "ibind
      (ibind (cmd ''oclip complex-associate -x {} -y {} -z {} -m {} -u {} -p {}''
         [par p ''complex_name'', lit r, par p ''cloud-owner'', par p ''aai_url'',
          par p ''aai_username'', par p ''aai_password'']) os_system)
      (\<lambda>_. ibind (cmd ''oclip multicloud-register-cloud -y {} -x {} -m {}''
         [par p ''cloud-owner'', lit r, par p ''multicloud_url'']) os_system)
      (u @ [OsSystem c1]) = (Inr (), u')"
    by (auto simp: lead_def)
  from this(2) [THEN system_seq, of "''oclip complex-associate ''"]
  obtain c2 where c2: "prefix ''oclip complex-associate '' c2" and "ibind
      (cmd ''oclip multicloud-register-cloud -y {} -x {} -m {}''
         [par p ''cloud-owner'', lit r, par p ''multicloud_url'']) os_system
      ((u @ [OsSystem c1]) @ [OsSystem c2]) = (Inr (), u')"
    by (auto simp: lead_def)
  from system_block [OF this(2)] obtain c3
    where "prefix ''oclip multicloud-register-cloud '' c3"
      "u' = u @ [OsSystem c1, OsSystem c2, OsSystem c3]"
    by (auto simp: lead_def prefix_def)
  with c1 c2 show ?thesis unfolding cloud_block_def by auto
qed

theorem register_all_clouds_commands:
  assumes "getitem p ''cloud_region_data'' = Inr (PDict regions)"
    and "register_all_clouds p t = (Inr (), t')"
  shows "\<exists>bs. t' = t @ concat bs \<and> list_all2 cloud_block regions bs"
proof -
  from assms have "ifor regions (\<lambda>(r, v). register_cloud_helper r v p) t = (Inr (), t')"
    by (simp add: register_all_clouds_def iteritems_def)
  then show ?thesis
    by (rule ifor_blocks [rotated]) (auto dest: register_cloud_block)
qed

text \<open>A loop that counts its iterations and performs one effect in each.\<close>

lemma counted_loop:
  assumes "\<And>n x t m t'. f n x t = (Inr m, t') \<Longrightarrow> m = n + 1 \<and> (\<exists>e. t' = t @ [e] \<and> P n e)"
  shows "ifold f n xs t = (Inr m, t') \<Longrightarrow>
     \<exists>es. t' = t @ es \<and> length es = length xs \<and> (\<forall>i < length es. P (n + i) (es ! i))"
proof (induction xs arbitrary: n t)
  case (Cons x xs)
  then obtain k u where k: "f n x t = (Inr k, u)" and rest: "ifold f k xs u = (Inr m, t')"
    by (auto simp: ibind_eq_Inr)
  from assms [OF k] obtain e where e: "k = n + 1" "u = t @ [e]" "P n e" by blast
  from Cons.IH [OF rest] obtain es where "t' = u @ es" "length es = length xs"
    "\<forall>i < length es. P (k + i) (es ! i)" by blast
  with e have "t' = t @ (e # es) \<and> length (e # es) = length (x # xs)
      \<and> (\<forall>i < length (e # es). P (n + i) ((e # es) ! i))"
    by (auto simp: nth_Cons split: nat.split)
  then show ?case by blast
qed auto

theorem add_customer_subscription_commands:
  fixes regions :: "(string \<times> pyval) list"
  assumes "getitem p ''cloud_region_data'' = Inr (PDict regions)"
    and "add_customer_subscription p t = (Inr (), t')"
  shows "\<exists>cs. t' = t @ map OsSystem cs \<and> length cs = length regions
     \<and> (\<forall>i < length cs. prefix (if i = 0 then ''oclip subscription-create ''
                                 else ''oclip subscription-cloud-add '') (cs ! i))"
proof -
  let ?body = "\<lambda>n (r, v). ibind (subscription_cmd p n r v) (\<lambda>c. ibind (os_system c) (\<lambda>_. iret (n + 1)))"
  let ?start = "\<lambda>n :: nat. if n = 0 then ''oclip subscription-create '' else ''oclip subscription-cloud-add ''"
  have "m = n + 1 \<and> (\<exists>e. u' = u @ [e] \<and> (\<exists>c. e = OsSystem c \<and> prefix (?start n) c))"
    if run: "?body n rv u = (Inr m, u')" for n rv u m u'
  proof -
    obtain r v where rv: "rv = (r, v)" by (cases rv)
    with run obtain c w where sub: "subscription_cmd p n r v u = (Inr c, w)"
        and "os_system c w = (Inr (), u')" "m = n + 1"
      by (auto simp: ibind_eq_Inr)
    moreover from sub have "w = u" by (auto simp: subscription_cmd_def cmd_def split: if_splits)
    moreover from sub have "prefix (?start n) c" by (rule subscription_cmd_lead)
    ultimately show ?thesis by (auto simp: os_system_def)
  qed
  moreover from assms obtain m where "ifold ?body 0 regions t = (Inr m, t')"
    by (auto simp: add_customer_subscription_def iteritems_def ibind_eq_Inr)
  ultimately obtain es where es: "t' = t @ es" "length es = length regions"
    "\<forall>i < length es. \<exists>c. es ! i = OsSystem c \<and> prefix (?start i) c"
    using counted_loop [of ?body "\<lambda>n e. \<exists>c. e = OsSystem c \<and> prefix (?start n) c" 0 regions t m t']
    by auto
  let ?c = "\<lambda>e. case e of OsSystem c \<Rightarrow> c | _ \<Rightarrow> []"
  have "t' = t @ map OsSystem (map ?c es)"
    unfolding es(1) by (rule arg_cong [where f = "(@) t"], rule nth_equalityI) (use es(3) in fastforce)+
  then show ?thesis using es(2,3) by (intro exI [of _ "map ?c es"]) fastforce
qed

section \<open>Programs that return\<close>

definition returns :: "('ev, 'a) io \<Rightarrow> ('a \<Rightarrow> bool) \<Rightarrow> bool" where
  "returns m Q \<longleftrightarrow> (\<forall>t. \<exists>x t'. m t = (Inr x, t') \<and> Q x)"

lemma returns_iret: "Q x \<Longrightarrow> returns (iret x) Q"
  by (simp add: returns_def)

lemma returns_emit: "Q () \<Longrightarrow> returns (emit e) Q"
  by (simp add: returns_def)

lemma returns_ibind:
  assumes "returns m Q" "\<And>x. Q x \<Longrightarrow> returns (f x) R"
  shows "returns (ibind m f) R"
  unfolding returns_def
proof
  fix t
  from assms(1) obtain x u where "m t = (Inr x, u)" "Q x" unfolding returns_def by blast
  with assms(2) [of x] show "\<exists>y t'. ibind m f t = (Inr y, t') \<and> R y"
    by (simp add: ibind_def returns_def)
qed

lemma returns_ilift_bind: "r = Inr x \<Longrightarrow> returns (f x) R \<Longrightarrow> returns (ibind (ilift r) f) R"
  by (simp add: returns_def)

lemma returns_ilift: "r = Inr x \<Longrightarrow> Q x \<Longrightarrow> returns (ilift r) Q"
  by (simp add: returns_def)

lemma returns_ifold:
  assumes "\<And>pre x post s. \<lbrakk>xs = pre @ x # post; I pre s\<rbrakk> \<Longrightarrow> returns (f s x) (I (pre @ [x]))"
    and "I [] s"
  shows "returns (ifold f s xs) (I xs)"
proof -
  have "returns (ifold f s post) (I xs)" if "xs = pre @ post" "I pre s" for pre post s
    using that
  proof (induction post arbitrary: pre s)
    case Nil
    then show ?case by (simp add: returns_def)
  next
    case (Cons x post)
    show ?case
      unfolding ifold.simps
      by (rule returns_ibind [OF assms(1)]) (use Cons in auto)
  qed
  from this [of "[]" xs] assms(2) show ?thesis by simp
qed

lemma returns_ifor:
  "(\<And>x. x \<in> set xs \<Longrightarrow> returns (f x) (\<lambda>_. True)) \<Longrightarrow> returns (ifor xs f) (\<lambda>_. True)"
  by (rule returns_ifold [where I = "\<lambda>_ _. True"]) auto

text \<open>The number of fields of a template; formatting succeeds with that many arguments.\<close>

fun fields :: "string \<Rightarrow> nat option" where
  "fields [] = Some 0"
| "fields [c] = (if c = CHR ''{'' \<or> c = CHR ''}'' then None else Some 0)"
| "fields (c # d # s) =
     (if c = CHR ''{'' then
        (if d = CHR ''{'' then fields s
         else if d = CHR ''}'' then map_option Suc (fields s) else None)
      else if c = CHR ''}'' then (if d = CHR ''}'' then fields s else None)
      else fields (d # s))"

lemma py_format_fields:
  "fields t = Some n \<Longrightarrow> n \<le> length args \<Longrightarrow> \<exists>r. py_format t args = Inr r"
proof (induction t args arbitrary: n rule: py_format.induct)
  case (3 c d s args)
  note IH = 3(1-4) and prems = 3(5-)
  consider "c = CHR ''{''" "d = CHR ''{''" | "c = CHR ''{''" "d = CHR ''}''"
    | "c = CHR ''}''" "d = CHR ''}''" | "c \<noteq> CHR ''{''" "c \<noteq> CHR ''}''"
    using prems(1) by (auto split: if_splits)
  then show ?case
  proof cases
    case 1
    with IH(1) [of n] prems show ?thesis by auto
  next
    case 2
    with prems obtain m a as where "fields s = Some m" "n = Suc m" "args = a # as"
      by (cases args) auto
    with 2 IH(2) [of a as m] prems show ?thesis by auto
  next
    case 3
    with IH(3) [of n] prems show ?thesis by auto
  next
    case 4
    with IH(4) [of n] prems show ?thesis by auto
  qed
qed (auto split: if_splits)

definition fits :: "string \<Rightarrow> 'a list \<Rightarrow> bool" where
  "fits t args \<longleftrightarrow> (case fields t of None \<Rightarrow> False | Some n \<Rightarrow> n \<le> length args)"

lemma returns_cmd:
  assumes "fits t args" "list_all (\<lambda>a. \<exists>s. a = Inr s) args"
  shows "returns (cmd t args) (\<lambda>_. True)"
proof -
  from assms(2) have "\<exists>vs. mapR (\<lambda>a. a) args = Inr vs"
    by (induction args) auto
  then obtain vs where vs: "mapR (\<lambda>a. a) args = Inr vs" by blast
  moreover from assms(1) obtain n where "fields t = Some n" "n \<le> length args"
    by (auto simp: fits_def split: option.splits)
  ultimately obtain r where "py_format t vs = Inr r"
    using py_format_fields [of t n vs] mapR_length [OF vs] by auto
  with vs show ?thesis by (simp add: cmd_def returns_def)
qed

section \<open>Configurations with which the script completes\<close>

text \<open>
  The keys every run looks up at the top level of the configuration, the sections that are
  dictionaries of dictionaries, and the values that must be strings.
\<close>

definition required_keys :: "string list" where
  "required_keys =
     [''street2'', ''physical_location'', ''complex_name'', ''data_center_code'', ''latitude'',
      ''region'', ''street1'', ''longitude'', ''state'', ''lata'', ''city'', ''postal-code'',
      ''country'', ''elevation'', ''identity_url'', ''aai_url'', ''aai_username'',
      ''aai_password'', ''cloud-owner'', ''owner-defined-type'', ''cloud-zone'',
      ''multicloud_url'', ''service_name'', ''customer_name'', ''subscriber_name'', ''vfc-url'',
      ''policy_scope'', ''policy_url'', ''policy_username'', ''policy_password'',
      ''policy_config_type'', ''policy_onapName'', ''policy_pdp_group'', ''location'',
      ''sdc-controller-id'']"

fun is_dict :: "pyval \<Rightarrow> bool" where
  "is_dict (PDict d) = True"
| "is_dict _ = False"

definition openable :: "hpa_env \<Rightarrow> pyval \<Rightarrow> bool" where
  "openable E v = (case getdefault v ''path'' of
       Inr (PStr f) \<Rightarrow> open_rb E f = Inr ()
     | _ \<Rightarrow> False)"

definition dict_section :: "pyval \<Rightarrow> string \<Rightarrow> (pyval \<Rightarrow> bool) \<Rightarrow> bool" where
  "dict_section p k ok = (case getitem p k of
       Inr (PDict d) \<Rightarrow> list_all (\<lambda>(_, v). ok v) d
     | _ \<Rightarrow> False)"

definition string_at :: "pyval \<Rightarrow> string \<Rightarrow> bool" where
  "string_at p k = (case getitem p k of Inr (PStr s) \<Rightarrow> True | _ \<Rightarrow> False)"

definition deployable :: "hpa_env \<Rightarrow> pyval \<Rightarrow> bool" where
  "deployable E p \<longleftrightarrow>
     list_all (\<lambda>k. \<not> isl (getitem p k)) required_keys
     \<and> string_at p ''open_cli_product'' \<and> string_at p ''open_cli_home''
     \<and> dict_section p ''cloud_region_data'' is_dict \<and> dict_section p ''vnfm_params'' is_dict
     \<and> dict_section p ''vnfs'' (\<lambda>v. is_dict v \<and> openable E v)
     \<and> getitem p ''vnfs'' \<noteq> Inr (PDict [])
     \<and> (case getitem p ''ns'' of Inr ns \<Rightarrow> is_dict ns \<and> openable E ns | _ \<Rightarrow> False)
     \<and> (case getitem p ''policy_directory'' of Inr (PStr d) \<Rightarrow> \<not> isl (list_dir E d) | _ \<Rightarrow> False)"

text \<open>Every upload is answered, whatever the response, and every statement is executed.\<close>

definition services_answer :: "hpa_env \<Rightarrow> bool" where
  "services_answer E \<longleftrightarrow> (\<forall>t url. \<not> isl (put_response E t url)) \<and> (\<forall>t ev. db_result E t ev = Inr ())"

text \<open>Every command answers with a table of at least five tokens.\<close>

definition tables :: "hpa_env \<Rightarrow> bool" where
  "tables E \<longleftrightarrow> (\<forall>t c. 5 \<le> length (get_out_helper_2 (popen_out E t c)))"

lemma par_ok:
  assumes "deployable E p" "k \<in> set required_keys"
  shows "\<exists>s. par p k = Inr s"
proof -
  have "\<not> isl (getitem p k)" using assms unfolding deployable_def list_all_iff by blast
  then show ?thesis by (cases "getitem p k") (auto simp: par_def)
qed

lemma get_ok [simp]: "is_dict v \<Longrightarrow> \<exists>s. get v k = Inr s"
  by (cases v) (auto simp: get_def getdefault_def)

lemma dict_sectionD:
  "dict_section p k P \<Longrightarrow> \<exists>d. getitem p k = Inr (PDict d) \<and> (\<forall>(x, v) \<in> set d. P v)"
  unfolding dict_section_def by (auto simp: list_all_iff split: sum.splits pyval.splits)

lemma returns_system: "returns (os_system c) (\<lambda>_. True)"
  by (simp add: os_system_def returns_emit)

lemma returns_popen: "tables E \<Longrightarrow> returns (os_popen E c) (\<lambda>s. 5 \<le> length (get_out_helper_2 s))"
  by (simp add: os_popen_def returns_def tables_def)

lemma par_okD: "deployable E p \<Longrightarrow> list_all (\<lambda>k. \<exists>s. par p k = Inr s) required_keys"
  by (simp add: list_all_iff par_ok)

lemmas par_facts = par_okD [unfolded required_keys_def, simplified]

lemma returns_system_cmd:
  assumes "fits t args" "list_all (\<lambda>a. \<exists>s. a = Inr s) args"
  shows "returns (ibind (cmd t args) os_system) (\<lambda>_. True)"
  by (rule returns_ibind [OF returns_cmd [OF assms] returns_system])

lemma returns_env:
  assumes "deployable E p"
  shows "returns (set_open_cli_env p) (\<lambda>_. True)"
proof -
  from assms obtain a b where "getitem p ''open_cli_product'' = Inr (PStr a)"
      "getitem p ''open_cli_home'' = Inr (PStr b)"
    unfolding deployable_def string_at_def by (auto split: sum.splits pyval.splits)
  then show ?thesis
    unfolding set_open_cli_env_def
    by (intro returns_ilift_bind [of _ a] returns_ilift_bind [of _ b] returns_ibind [OF returns_emit]
        returns_emit) (simp_all add: environ_value_def)
qed

lemma returns_complex:
  assumes "deployable E p"
  shows "returns (create_complex p) (\<lambda>_. True)"
  unfolding create_complex_def
  by (rule returns_system_cmd) (use par_facts [OF assms] in \<open>simp_all add: fits_def\<close>)

lemma returns_section:
  assumes "dict_section p k ok" "\<And>x v. ok v \<Longrightarrow> returns (f (x, v)) (\<lambda>_. True)"
  shows "returns (ibind (ilift (rbind (getitem p k) iteritems)) (\<lambda>d. ifor d f)) (\<lambda>_. True)"
proof -
  from dict_sectionD [OF assms(1)] obtain d where "getitem p k = Inr (PDict d)"
    and d: "\<forall>(x, v) \<in> set d. ok v" by blast
  then have "rbind (getitem p k) iteritems = Inr d" by (simp add: iteritems_def)
  then show ?thesis
    by (rule returns_ilift_bind) (rule returns_ifor, use d assms(2) in fastforce)
qed

lemma returns_clouds:
  assumes "deployable E p"
  shows "returns (register_all_clouds p) (\<lambda>_. True)"
  unfolding register_all_clouds_def register_cloud_helper_def
  by (rule returns_section [where ok = is_dict])
     (use assms par_facts [OF assms] in \<open>auto simp: deployable_def fits_def intro!: returns_ibind [OF returns_system_cmd] returns_system_cmd\<close>)

lemma returns_mono: "returns m Q \<Longrightarrow> (\<And>x. Q x \<Longrightarrow> R x) \<Longrightarrow> returns m R"
  unfolding returns_def by meson

lemma returns_simple_steps:
  assumes "deployable E p"
  shows "returns (create_service_type p) (\<lambda>_. True)" "returns (create_customer p) (\<lambda>_. True)"
  unfolding create_service_type_def create_customer_def
  by (rule returns_system_cmd, use par_facts [OF assms] in \<open>simp_all add: fits_def\<close>)+

lemma returns_vnfm:
  assumes "deployable E p"
  shows "returns (register_vnfm p) (\<lambda>_. True)"
  unfolding register_vnfm_def register_vnfm_helper_def
  by (rule returns_section [where ok = is_dict])
     (use assms par_facts [OF assms] in \<open>auto simp: deployable_def fits_def intro!: returns_system_cmd\<close>)

lemma returns_subscription_cmd:
  assumes "deployable E p" "is_dict v"
  shows "returns (subscription_cmd p n r v) (\<lambda>_. True)"
  unfolding subscription_cmd_def
  using par_facts [OF assms(1)] assms(2) by (simp add: returns_cmd fits_def)

lemma returns_subscription:
  assumes "deployable E p"
  shows "returns (add_customer_subscription p) (\<lambda>_. True)"
proof -
  from assms obtain d where d: "getitem p ''cloud_region_data'' = Inr (PDict d)"
      "\<forall>(x, v) \<in> set d. is_dict v"
    unfolding deployable_def using dict_sectionD by blast
  have step: "returns (ibind (subscription_cmd p n r v) (\<lambda>c. ibind (os_system c) (\<lambda>_. iret (n + 1))))
      (\<lambda>_. True)" if "is_dict v" for n r v
    by (intro returns_ibind [OF returns_subscription_cmd [OF assms that]]
        returns_ibind [OF returns_system] returns_iret) simp
  have "returns (ifold (\<lambda>n (r, v). ibind (subscription_cmd p n r v)
      (\<lambda>c. ibind (os_system c) (\<lambda>_. iret (n + 1)))) 0 d) (\<lambda>_. True)"
    by (rule returns_ifold [where I = "\<lambda>_ _. True"]) (use d(2) step in fastforce)+
  then show ?thesis
    unfolding add_customer_subscription_def
    by (intro returns_ilift_bind [of _ d]) (auto simp: d iteritems_def returns_iret intro: returns_ibind)
qed

lemma returns_popen_token:
  assumes "tables E" "fits t args" "list_all (\<lambda>a. \<exists>s. a = Inr s) args" "i < 5"
    and "\<And>x. returns (f x) Q"
  shows "returns (ibind (cmd t args) (\<lambda>c. ibind (popen_tokens E get_out_helper_2 c)
     (\<lambda>out. ibind (ilift (at out i)) f))) Q"
proof (rule returns_ibind [OF returns_cmd [OF assms(2,3)]])
  fix c
  have "returns (popen_tokens E get_out_helper_2 c) (\<lambda>out. 5 \<le> length out)"
    unfolding popen_tokens_def by (rule returns_ibind [OF returns_popen [OF assms(1)]] returns_iret)+
  then show "returns (ibind (popen_tokens E get_out_helper_2 c) (\<lambda>out. ibind (ilift (at out i)) f)) Q"
    by (rule returns_ibind) (use assms(4,5) in \<open>auto intro!: returns_ilift_bind simp: at_def\<close>)
qed

text \<open>The packages created are one for each VNF of the configuration.\<close>

lemma returns_create_vnf_package:
  assumes "deployable E p" "tables E" "getitem p ''vnfs'' = Inr (PDict vnfs)"
  shows "returns (create_vnf_package E p) (\<lambda>d. fst ` set d = fst ` set vnfs)"
proof -
  have d: "\<forall>(x, v) \<in> set vnfs. is_dict v"
    using assms unfolding deployable_def dict_section_def by (auto simp: list_all_iff)
  note [simp] = par_facts [OF assms(1)] fits_def
  have step: "returns (ibind (cmd ''oclip vfc-catalog-create-vnf -m {} -c {} -e {}''
                [par p ''vfc-url'', get v ''key'', get v ''value''])
         (\<lambda>create_vnf_string.
       ibind (popen_tokens E get_out_helper_2 create_vnf_string) (\<lambda>out_list.
       ibind (ilift (at out_list 4)) (\<lambda>package_id.
       iret (dict_set k package_id outputs)))))
     (\<lambda>d. fst ` set d = insert k (fst ` set outputs))" if "is_dict v" for k v outputs
    by (rule returns_popen_token [OF assms(2)]) (simp_all add: that, rule returns_iret, rule keys_dict_set)
  show ?thesis
    unfolding create_vnf_package_def
  proof (rule returns_ilift_bind [of _ vnfs], simp add: assms iteritems_def,
      rule returns_ifold [where I = "\<lambda>pre d. fst ` set d = fst ` set pre"])
    fix pre x post and outputs :: "string pydict"
    assume "vnfs = pre @ x # post" "fst ` set outputs = fst ` set pre"
    moreover obtain k v where "x = (k, v)" by (cases x)
    ultimately show "returns (case x of (vnf_key, vnf_values) \<Rightarrow>
        ibind (cmd ''oclip vfc-catalog-create-vnf -m {} -c {} -e {}''
                [par p ''vfc-url'', get vnf_values ''key'', get vnf_values ''value''])
         (\<lambda>create_vnf_string.
       ibind (popen_tokens E get_out_helper_2 create_vnf_string) (\<lambda>out_list.
       ibind (ilift (at out_list 4)) (\<lambda>package_id.
       iret (dict_set vnf_key package_id outputs)))))
       (\<lambda>d. fst ` set d = fst ` set (pre @ [x]))"
      using step [of v k outputs] d by simp
  qed simp
qed

lemma returns_put_file:
  "services_answer E \<Longrightarrow> path_of f = Inr s \<Longrightarrow> open_rb E s = Inr () \<Longrightarrow> returns (put_file E url f) (\<lambda>_. True)"
  unfolding put_file_def
  by (rule returns_ilift_bind) (auto simp: returns_def services_answer_def isl_def, metis old.sum.exhaust)

lemma openableD: "openable E v \<Longrightarrow>
    \<exists>f s. getdefault v ''path'' = Inr f \<and> path_of f = Inr s \<and> open_rb E s = Inr ()"
  unfolding openable_def by (auto simp: path_of_def split: sum.splits pyval.splits)

lemma returns_upload_vnf_package:
  assumes "deployable E p" "getitem p ''vnfs'' = Inr (PDict vnfs)" "fst ` set outs = fst ` set vnfs"
    and up: "services_answer E"
  shows "returns (upload_vnf_package E p outs) (\<lambda>_. True)"
proof -
  have d: "\<forall>(x, v) \<in> set vnfs. openable E v" and ne: "vnfs \<noteq> []"
    using assms unfolding deployable_def dict_section_def by (auto simp: list_all_iff)
  note [simp] = par_facts [OF assms(1)] fits_def
  have step: "returns (ibind (cmd ''{}/api/vnfpkgm/v1/vnf_packages/{}/package_content''
                [par p ''vfc-url'', sub outs k, sub outs k]) (\<lambda>vnf_upload_str.
       ibind (ilift (getdefault v ''path'')) (\<lambda>path.
       ibind (put_file E vnf_upload_str path) (\<lambda>resp. iret (Some resp))))) (\<lambda>r. r \<noteq> None)"
    if "openable E v" "k \<in> fst ` set outs" for k v
  proof -
    from openableD [OF that(1)] obtain f s where f: "getdefault v ''path'' = Inr f"
      "path_of f = Inr s" "open_rb E s = Inr ()" by blast
    from that(2) have "k \<in> dom (map_of outs)" by (simp add: dom_map_of_conv_image_fst)
    then obtain y where y: "sub outs k = Inr y" by (auto simp: dict_get_eq_Inr)
    then show ?thesis
      by (intro returns_ibind [OF returns_cmd] returns_ilift_bind [OF f(1)]
          returns_ibind [OF returns_put_file [OF up f(2,3)]] returns_iret) (simp_all add: y)
  qed
  show ?thesis
    unfolding upload_vnf_package_def
  proof (rule returns_ilift_bind [of _ vnfs], simp add: assms iteritems_def,
      rule returns_ibind, rule returns_ifold [where I = "\<lambda>pre r. pre = [] \<or> r \<noteq> None"])
    fix pre x post and r :: "string option"
    assume "vnfs = pre @ x # post"
    moreover obtain k v where "x = (k, v)" by (cases x)
    ultimately show "returns (case x of (vnf_key, vnf_values) \<Rightarrow>
       ibind (cmd ''{}/api/vnfpkgm/v1/vnf_packages/{}/package_content''
                [par p ''vfc-url'', sub outs vnf_key, sub outs vnf_key])
         (\<lambda>vnf_upload_str.
       ibind (ilift (getdefault vnf_values ''path'')) (\<lambda>path.
       ibind (put_file E vnf_upload_str path) (\<lambda>resp. iret (Some resp)))))
       (\<lambda>r. pre @ [x] = [] \<or> r \<noteq> None)"
      using step [of v k] d assms(3) by simp
  next
    fix r assume "vnfs = [] \<or> r \<noteq> None"
    with ne show "returns (case r of None \<Rightarrow> iraise (UnboundLocalError ''resp'') | Some r \<Rightarrow> iret r)
      (\<lambda>_. True)" by (auto intro: returns_iret)
  qed simp
qed

lemma ibind_iret_right [simp]: "ibind (ilift r) iret = ilift r"
  by (rule ext) (auto split: sum.splits)

lemma returns_print: "returns (print_str s) (\<lambda>_. True)"
  by (simp add: print_str_def returns_emit)

lemma returns_create_ns_package:
  assumes "deployable E p" "tables E"
  shows "returns (create_ns_package E p) (\<lambda>_. True)"
proof -
  from assms(1) obtain ns where ns: "getitem p ''ns'' = Inr ns" "is_dict ns"
    unfolding deployable_def by (auto split: sum.splits)
  show ?thesis
    unfolding create_ns_package_def
  proof (rule returns_ilift_bind [OF ns(1)])
    show "returns (ibind (cmd ''oclip vfc-catalog-create-ns -m {} -c {} -e {}''
              [par p ''vfc-url'', get ns ''key'', get ns ''value''])
       (\<lambda>create_ns_string.
     ibind (popen_tokens E get_out_helper_2 create_ns_string) (\<lambda>out_list.
     ilift (at out_list 4)))) (\<lambda>_. True)"
      using returns_popen_token [of E "''oclip vfc-catalog-create-ns -m {} -c {} -e {}''"
          "[par p ''vfc-url'', get ns ''key'', get ns ''value'']" 4 iret "\<lambda>_. True"]
        par_facts [OF assms(1)] ns(2) assms(2)
      by (simp add: fits_def ibind_iret_right returns_iret)
  qed
qed

lemma returns_upload_ns_package:
  assumes "deployable E p" and up: "services_answer E"
  shows "returns (upload_ns_package E p out) (\<lambda>_. True)"
proof -
  from assms obtain ns where ns: "getitem p ''ns'' = Inr ns" "openable E ns"
    unfolding deployable_def by (auto split: sum.splits)
  from openableD [OF ns(2)] obtain f s where f: "getdefault ns ''path'' = Inr f"
    "path_of f = Inr s" "open_rb E s = Inr ()" by blast
  show ?thesis
    unfolding upload_ns_package_def
    by (intro returns_ilift_bind [OF ns(1)] returns_ibind [OF returns_cmd] returns_ilift_bind [OF f(1)]
        returns_ibind [OF returns_print] returns_ibind [OF returns_emit [where Q = "\<lambda>_. True"]]
        returns_put_file [OF up f(2,3)])
       (use par_facts [OF assms(1)] in \<open>simp_all add: fits_def\<close>)
qed

lemma returns_local:
  assumes "deployable E p" "tables E" and up: "services_answer E"
  shows "returns (deploy_from_local E p) (\<lambda>_. True)"
proof -
  from assms obtain vnfs where vnfs: "getitem p ''vnfs'' = Inr (PDict vnfs)"
    unfolding deployable_def by (blast dest: dict_sectionD)
  note prints = returns_ibind [OF returns_print] returns_ibind [OF returns_emit [where Q = "\<lambda>_. True"]]
  show ?thesis
    unfolding deploy_from_local_def print_dict_def
    by (intro prints returns_ibind [OF returns_create_vnf_package [OF assms(1,2) vnfs]]
        returns_ibind [OF returns_create_ns_package [OF assms(1,2)]]
        returns_ibind [OF returns_upload_vnf_package [OF assms(1) vnfs _ up]]
        returns_ibind [OF returns_upload_ns_package [OF assms(1) up]] returns_iret) simp_all
qed

lemma returns_policies:
  assumes "deployable E p"
  shows "returns (add_policies E p) (\<lambda>_. True)"
proof -
  from assms have "case getitem p ''policy_directory'' of Inr (PStr d) \<Rightarrow> \<not> isl (list_dir E d) | _ \<Rightarrow> False"
    unfolding deployable_def by blast
  then obtain d where d0: "getitem p ''policy_directory'' = Inr (PStr d)" "\<not> isl (list_dir E d)"
    by (auto split: sum.splits pyval.splits)
  then obtain ls where "list_dir E d = Inr ls" by (cases "list_dir E d") auto
  with d0(1) have ls: "list_dir E d = Inr ls"
    and d: "rbind (getitem p ''policy_directory'') path_of = Inr d" by (simp_all add: path_of_def)
  show ?thesis
    unfolding add_policies_def d rbind_Inr
    by (rule returns_ilift_bind [OF ls], rule returns_ifor,
        intro returns_ibind [OF returns_cmd] returns_ilift_bind [OF refl]
          returns_ibind [OF returns_system_cmd] returns_system_cmd returns_system)
       (use par_facts [OF assms] in \<open>simp_all add: fits_def\<close>)
qed

lemma returns_ns_lifecycle:
  assumes "deployable E p" "tables E"
  shows "returns (create_ns E p c) (\<lambda>_. True)" "returns (instantiate_ns E p c) (\<lambda>_. True)"
proof -
  from assms(1) obtain ns where ns: "getitem p ''ns'' = Inr ns" "is_dict ns"
    unfolding deployable_def by (auto split: sum.splits)
  note steps = returns_ibind [OF returns_cmd] returns_ibind [OF returns_print]
  show "returns (create_ns E p c) (\<lambda>_. True)"
    unfolding create_ns_def
    by (intro returns_ilift_bind [OF ns(1)] steps returns_ibind [OF returns_popen [OF assms(2)]]
        returns_ilift [OF at_in_range])
       (use par_facts [OF assms(1)] ns(2) in \<open>simp_all add: fits_def\<close>)
  show "returns (instantiate_ns E p c) (\<lambda>_. True)"
    unfolding instantiate_ns_def
    by (intro steps returns_mono [OF returns_popen [OF assms(2)]])
       (use par_facts [OF assms(1)] in \<open>simp_all add: fits_def\<close>)
qed

lemma returns_insert: "services_answer E \<Longrightarrow> returns (insert_policy_rows E s1 v1 s2 v2) (\<lambda>_. True)"
  unfolding insert_policy_rows_def db_step_def services_answer_def returns_def by (simp add: ibind_def)

section \<open>A small configuration\<close>

definition lab_regions :: "(string \<times> pyval) list" where
  "lab_regions = [(''r1'', PDict [(''tenant-id'', PStr ''t1'')]), (''r2'', PDict [(''user-name'', PStr ''u'')])]"

definition lab_config :: pyval where
  "lab_config = PDict
     [(''cloud_region_data'', PDict lab_regions), (''cloud-owner'', PStr ''o''), (''complex_name'', PStr ''c''),
      (''owner-defined-type'', PStr ''t''), (''cloud-zone'', PStr ''z''), (''aai_url'', PStr ''a''),
      (''aai_username'', PStr ''u''), (''aai_password'', PStr ''p''), (''multicloud_url'', PStr ''m''),
      (''customer_name'', PStr ''n''), (''service_name'', PStr ''s''),
      (''vnfs'', PDict [(''vgw'', PDict [(''csar-id'', PStr ''i'')])])]"

lemma lab_regions_at: "getitem lab_config ''cloud_region_data'' = Inr (PDict lab_regions)"
  by (simp add: lab_config_def getitem_def dict_get_def)

definition vlm_env :: hpa_env where
  "vlm_env = \<lparr>
     popen_out = \<lambda>t c. ''| property | value | | ID | vlm1 | | version | v1 |'',
     put_response = \<lambda>t u. Inr [], list_dir = \<lambda>d. Inr [], open_rb = \<lambda>f. Inr (),
     load_config = \<lambda>f. Inr PNone, db_result = \<lambda>t ev. Inr (), db_rowcount = \<lambda>t. 0 \<rparr>"

theorem register_all_clouds_commands_witness:
  "\<exists>bs. snd (register_all_clouds lab_config []) = [] @ concat bs \<and> list_all2 cloud_block lab_regions bs"
proof (rule register_all_clouds_commands [OF lab_regions_at])
  have "fst (register_all_clouds lab_config []) = Inr ()" by code_simp
  then show "register_all_clouds lab_config [] = (Inr (), snd (register_all_clouds lab_config []))"
    by (metis prod.collapse)
qed

theorem add_customer_subscription_commands_witness:
  "\<exists>cs. snd (add_customer_subscription lab_config []) = [] @ map OsSystem cs
     \<and> length cs = length lab_regions
     \<and> (\<forall>i < length cs. prefix (if i = 0 then ''oclip subscription-create ''
                                 else ''oclip subscription-cloud-add '') (cs ! i))"
proof (rule add_customer_subscription_commands [OF lab_regions_at])
  have "fst (add_customer_subscription lab_config []) = Inr ()" by code_simp
  then show "add_customer_subscription lab_config [] = (Inr (), snd (add_customer_subscription lab_config []))"
    by (metis prod.collapse)
qed

theorem sdc_deployment_aborts_witness:
  "\<exists>e new. hpa_main (vlm_env\<lparr>load_config := \<lambda>_. Inr lab_config\<rparr>) (iret ()) (Some ''lab.json'') (Some ''sdc'') []
       = (Inl e, [] @ new) \<and> list_all (\<lambda>ev. \<exists>k < 8. in_phase k ev) new"
  by (rule sdc_deployment_aborts [where p = lab_config and vnfs = "[]"
        and kv = "(''vgw'', PDict [(''csar-id'', PStr ''i'')])"])
     (simp_all add: lab_config_def getitem_def dict_get_def)

section \<open>The license model\<close>

lemma system_exec: "ibind (os_system c) f t = f () (t @ [OsSystem c])"
  by (simp add: os_system_def)

lemma popen_exec: "ibind (popen_tokens E h c) f t = f (h (popen_out E t c)) (t @ [OsPopen c])"
  by (simp add: popen_tokens_def os_popen_def ibind_def)

lemma cmd_exec: "ibind (cmd tm args) f t = (Inr y, t')
    \<longleftrightarrow> (\<exists>c. cmd tm args t = (Inr c, t) \<and> f c t = (Inr y, t'))"
  by (auto simp: cmd_def split: sum.splits)

lemma at_exec: "ibind (ilift (at xs i)) f t = (Inr y, t') \<longleftrightarrow> i < length xs \<and> f (xs ! i) t = (Inr y, t')"
  by (auto simp: at_def)

lemmas run_simps = cmd_exec popen_exec system_exec at_exec

theorem create_vlm_results:
  assumes "create_vlm E p t = (Inr ids, t')"
  shows "\<exists>c1 c2 c3 c4 c5 c6 fg ag version vlm.
     ids = [fg, ag, version, vlm]
     \<and> t' = t @ [OsPopen c1, OsPopen c2, OsPopen c3, OsPopen c4, OsPopen c5, OsSystem c6]
     \<and> prefix ''oclip vlm-create '' c1 \<and> prefix ''oclip vlm-entitlement-pool-create '' c2
     \<and> prefix ''oclip vlm-key-group-create '' c3 \<and> prefix ''oclip vlm-feature-group-create '' c4
     \<and> prefix ''oclip vlm-aggreement-create '' c5 \<and> prefix ''oclip vlm-submit '' c6
     \<and> at (get_out_helper (popen_out E t c1)) 3 = Inr vlm
     \<and> at (get_out_helper (popen_out E t c1)) 5 = Inr version
     \<and> at (get_out_helper (popen_out E (t @ [OsPopen c1, OsPopen c2, OsPopen c3]) c4)) 3 = Inr fg
     \<and> at (get_out_helper (popen_out E (t @ [OsPopen c1, OsPopen c2, OsPopen c3, OsPopen c4]) c5)) 3 = Inr ag"
  using assms unfolding create_vlm_def
  by (simp only: run_simps, auto simp: lead_def dest!: cmd_lead, auto simp: prefix_def)

definition vlm_config :: pyval where
  "vlm_config = PDict (map (\<lambda>k. (k, PStr ''x''))
     [''vendor-name'', ''sdc_creator'', ''sdc_password'', ''sdc_onboarding_url'',
      ''entitlement-pool-name'', ''entitlement-description'', ''expiry-date'', ''start-date'',
      ''key-group-name'', ''key-group-type'', ''feature-grp-name'', ''feature-grp-desc'',
      ''part-no'', ''agreement-name'', ''agreement-desc''])"

theorem create_vlm_results_witness:
  "\<exists>c1 c2 c3 c4 c5 c6. snd (create_vlm vlm_env vlm_config [])
     = [OsPopen c1, OsPopen c2, OsPopen c3, OsPopen c4, OsPopen c5, OsSystem c6]"
proof -
  have "fst (create_vlm vlm_env vlm_config []) = Inr [''vlm1'', ''vlm1'', ''v1'', ''vlm1'']"
    by code_simp
  then have "create_vlm vlm_env vlm_config []
      = (Inr [''vlm1'', ''vlm1'', ''v1'', ''vlm1''], snd (create_vlm vlm_env vlm_config []))"
    by (metis prod.collapse)
  from create_vlm_results [OF this] show ?thesis by (metis append_Nil)
qed

end
