(* ===== verification/Hpa_Policy_Models.thy ===== *)
theory Hpa_Policy_Models
  imports Hpa_Automation
begin

text \<open>
  The SQL statements and the rows of policy models that \<^verbatim>\<open>add_policy_models\<close> of
  \<^verbatim>\<open>cloud/onap/cli/hpa_automation.py\<close> inserts, and those of the script
  \<^verbatim>\<open>cloud/onap/cli/insert_policy_models.py\<close>.  The strings are cut where the source continues
  a string on the next line, so that the white space the continuation adds is visible.
\<close>

text \<open>The statements and rows of \<^verbatim>\<open>add_policy_models\<close>.\<close>

definition hpa_sql :: string where
  "hpa_sql =
     ''INSERT INTO optimizationmodels (modelname, description, dependency, imported_by,'' @
     ''               '' @
     ''attributes, ref_attributes, sub_attributes, version, annotation, enumValues,'' @
     ''               '' @
     ''dataOrderInfo) VALUES (%s, %s, %s, %s, %s, %s, %s, %s, %s, %s, %s)''"

definition models_sql :: string where
  "models_sql =
     ''INSERT INTO microservicemodels (modelname, description, dependency, imported_by,'' @
     ''           '' @
     ''attributes, ref_attributes, sub_attributes, version, annotation, enumValues,'' @
     ''           '' @
     ''dataOrderInfo) VALUES (%s, %s, %s, %s, %s, %s, %s, %s, %s, %s, %s)''"

definition hpa_val :: "string list" where
  "hpa_val =
     [''hpaPolicy'',
      ''HPA Tests Model'',
      ''[]'',
      ''demo'',
      ''identity=string:defaultValue-null:required-true:MANY-false:description-null'',
      ''policyScope=MANY-true,policyType=POLICYTYPE:MANY-false,resources=MANY-true,flavorFea'' @
      ''tures=flavorFeatures_properties:MANY-true:description-null'',
      ''{\"directives_properties\":{\"attributes\":\"directives_attributes_properties:required-fa'' @
      ''lse:MANY-true:description-null\",'' @
      ''         '' @
      ''\"type\":\"string:defaultValue-null:required-false:MANY-false:description-null\"},'' @
      ''         '' @
      ''\"directives_attributes_properties\":{\"attribute_name\":\"string:defaultValue-null:requi'' @
      ''red-false:MANY-false:description-null\",'' @
      ''         '' @
      ''\"attribute_value\":\"string:defaultValue-null:required-false:MANY-false:description-nu'' @
      ''ll\"},'' @
      ''         '' @
      ''\"flavorProperties_properties\":{\"score\":\"string:defaultValue-null:required-false:MANY'' @
      ''-false:description-null\",'' @
      ''         '' @
      ''\"hpa-feature-attributes\":\"hpa-feature-attributes_properties:required-true:MANY-true:'' @
      ''description-null\",'' @
      ''         '' @
      ''\"directives\":\"directives_properties:required-true:MANY-true:description-null\",'' @
      ''         '' @
      ''\"hpa-version\":\"string:defaultValue-null:required-true:MANY-false:description-null\",'' @
      ''         '' @
      ''\"hpa-feature\":\"string:defaultValue-null:required-true:MANY-false:description-null\",'' @
      ''         '' @
      ''\"mandatory\":\"string:defaultValue-null:required-true:MANY-false:description-null\",'' @
      ''         '' @
      ''\"architecture\":\"string:defaultValue-null:required-true:MANY-false:description-null\"}'' @
      '','' @
      ''         '' @
      ''\"flavorFeatures_properties\":{\"directives\":\"directives_properties:required-true:MANY-'' @
      ''true:description-null\",'' @
      ''         '' @
      ''\"flavorProperties\":\"flavorProperties_properties:required-true:MANY-true:description-'' @
      ''null\",'' @
      ''         '' @
      ''\"id\":\"string:defaultValue-null:required-true:MANY-false:description-null\",'' @
      ''         '' @
      ''\"type\":\"string:defaultValue-null:required-true:MANY-false:description-null\"},'' @
      ''         '' @
      ''\"hpa-feature-attributes_properties\":{\"unit\":\"string:defaultValue-null:required-false'' @
      '':MANY-false:description-null\",'' @
      ''         '' @
      ''\"hpa-attribute-value\":\"string:defaultValue-null:required-true:MANY-false:description'' @
      ''-null\",'' @
      ''         '' @
      ''\"hpa-attribute-key\":\"string:defaultValue-null:required-true:MANY-false:description-n'' @
      ''ull\",'' @
      ''         '' @
      ''\"operator\":\"OPERATOR:defaultValue-null:required-false:MANY-false:description-null\"}}'',
      ''test1'',
      ''policyScope=matching-true, policyType=matching-true'',
      ''OPERATOR=[<,<equal-sign,>,>equal-sign,equal-sign,!equal-sign,any,all,subset,], POLIC'' @
      ''YTYPE=[hpa,]'',
      ''\"\"'']"

definition models_val :: "string list list" where
  "models_val =
     [[''distancePolicy'',
       ''distancePolicy'',
       ''[]'',
       ''demo'',
       ''identity=string:defaultValue-null:required-true:MANY-false:description-null'',
       ''policyScope=MANY-true,distanceProperties=distanceProperties_properties:MANY-false:de'' @
       ''scription-null,policyType=POLICYTYPE:MANY-false,'' @
       ''          '' @
       ''resources=MANY-true,applicableResources=APPLICABLERESOURCES:MANY-false'',
       ''{\"distanceProperties_properties\":{\"locationInfo\":\"string:defaultValue-null:required-'' @
       ''true:MANY-false:description-null\",'' @
       ''           '' @
       ''\"distance\":\"distance_properties:required-true:MANY-false:description-null\"},'' @
       ''           '' @
       ''\"distance_properties\":{\"unit\":\"UNIT:defaultValue-null:required-true:MANY-false:descr'' @
       ''iption-null\",'' @
       ''           '' @
       ''\"value\":\"string:defaultValue-null:required-true:MANY-false:description-null\",\"operat'' @
       ''or\":\"OPERATOR:defaultValue-null:required-true:MANY-false:description-null\"}}'',
       ''test1'',
       ''policyScope=matching-true, policyType=matching-true'',
       ''OPERATOR=[<,<equal-sign,>,>equal-sign,equal-sign,], APPLICABLERESOURCES=[any,all,], '' @
       ''POLICYTYPE=[distance_to_location,] '',
       ''\"\"''],
      [''optimizationPolicy'',
       ''Optimization policy model'',
       ''[]'',
       ''demo'',
       ''identity=string:defaultValue-null:required-true:MANY-false:description-null'',
       ''objectiveParameter=objectiveParameter_properties:MANY-false:description-null,policyS'' @
       ''cope=MANY-true,policyType=POLICYTYPE:MANY-false,'' @
       ''          '' @
       ''objective=objectiveParameter_properties:MANY-false:description-null'',
       ''{\"parameterAttributes_properties\":{\"customerLocationInfo\":\"string:defaultValue-null:'' @
       ''required-true:MANY-false:description-null\",'' @
       ''           '' @
       ''\"parameter\":\"string:defaultValue-null:required-true:MANY-false:description-null\",'' @
       ''           '' @
       ''\"resources\":\"string:defaultValue-null:required-true:MANY-false:description-null\",'' @
       ''           '' @
       ''\"weight\":\"string:defaultValue-null:required-true:MANY-false:description-null\",'' @
       ''           '' @
       ''\"operator\":\"OPERATOR:defaultValue-null:required-true:MANY-false:description-null\"},'' @
       ''           '' @
       ''\"objectiveParameter_properties\":{\"parameterAttributes\":\"parameterAttributes_properti'' @
       ''es:required-true:MANY-true:description-null\",'' @
       ''           '' @
       ''\"operator\":\"OPERATOR:defaultValue-null:required-true:MANY-false:description-null\"}}'',
       ''test1'',
       ''policyScope=matching-true, policyType=matching-true'',
       ''OPERATOR=[*,+,-,/,%,], POLICYTYPE=[placement_optimization,]'',
       ''\"\"''],
      [''queryPolicy'',
       ''Query policy model'',
       ''[]'',
       ''demo'',
       ''identity=string:defaultValue-null:required-true:MANY-false:description-null'',
       ''policyScope=MANY-true,policyType=POLICYTYPE:MANY-false,queryProperties=queryProperti'' @
       ''es_properties:MANY-true:description-null'',
       ''{\"queryProperties_properties\":{\"attribute_location\":\"string:defaultValue-null:requir'' @
       ''ed-true:MANY-false:description-null\",'' @
       ''           '' @
       ''\"attribute\":\"string:defaultValue-null:required-true:MANY-false:description-null\",\"va'' @
       ''lue\":\"string:defaultValue-null:required-true:MANY-false:description-null\"}}'',
       ''test1'',
       ''policyScope=matching-true, policyType=matching-true'',
       ''POLICYTYPE=[request_param_query,]'',
       ''\"\"''],
      [''vnfPolicy'',
       ''VnfPolicy model'',
       ''[]'',
       ''demo'',
       ''identity=string:defaultValue-null:required-true:MANY-false:description-null'',
       ''policyScope=MANY-true,policyType=POLICYTYPE:MANY-false,resources=MANY-true,'' @
       ''          '' @
       ''vnfProperties=vnfProperties_properties:MANY-true:description-null,applicableResource'' @
       ''s=APPLICABLERESOURCES:MANY-false'',
       ''{\"vnfProperties_properties\":{\"serviceType\":\"string:defaultValue-null:required-true:M'' @
       ''ANY-false:description-null\",'' @
       ''           '' @
       ''\"inventoryProvider\":\"string:defaultValue-null:required-true:MANY-false:description-n'' @
       ''ull\",'' @
       ''           '' @
       ''\"inventoryType\":\"INVENTORYTYPE:defaultValue-null:required-true:MANY-false:descriptio'' @
       ''n-null\",'' @
       ''         '' @
       ''\"customerId\":\"string:defaultValue-null:required-true:MANY-false:description-null\"}}'',
       ''test1'',
       ''policyScope=matching-true, policyType=matching-true'',
       ''INVENTORYTYPE=[serviceInstanceId,vnfName,cloudRegionId,vimId,], APPLICABLERESOURCES='' @
       ''[any,all,], POLICYTYPE=[vnfPolicy,]'',
       ''\"\"''],
      [''vim_fit'',
       ''Capacity policy model'',
       ''[]'',
       ''demo'',
       ''identity=string:defaultValue-null:required-true:MANY-false:description-null'',
       ''policyScope=MANY-true,policyType=POLICYTYPE:MANY-false,capacityProperties=capacityPr'' @
       ''operties_properties:MANY-false:description-null,'' @
       ''          '' @
       ''resources=MANY-true,applicableResources=APPLICABLERESOURCES:MANY-false'',
       ''{\"capacityProperties_properties\":{\"request\":\"string:defaultValue-null:required-true:'' @
       ''MANY-false:description-null\",'' @
       ''           '' @
       ''\"controller\":\"string:defaultValue-null:required-true:MANY-false:description-null\"}}'',
       ''test1'',
       ''policyScope=matching-true, policyType=matching-true '',
       '' APPLICABLERESOURCES=[any,all,], POLICYTYPE=[vim_fit,]'',
       ''\"\"''],
      [''affinityPolicy'',
       ''Affinity policy model'',
       ''[]'',
       ''demo'',
       ''identity=string:defaultValue-null:required-true:MANY-false:description-null'',
       ''policyScope=MANY-true,policyType=POLICYTYPE:MANY-false,affinityProperties=affinityPr'' @
       ''operties_properties:MANY-false:description-null,'' @
       ''          '' @
       ''resources=MANY-true,applicableResources=APPLICABLERESOURCES:MANY-false'',
       ''{\"affinityProperties_properties\":{\"qualifier\":\"QUALIFIER:defaultValue-null:required-'' @
       ''true:MANY-false:description-null\",'' @
       ''           '' @
       ''\"category\":\"string:defaultValue-null:required-true:MANY-false:description-null\"}}'',
       ''test1'',
       ''policyScope=matching-true, policyType=matching-true '',
       '' APPLICABLERESOURCES=[any,all,], POLICYTYPE=[zone,], QUALIFIER=[same,different,]'',
       ''\"\"''],
      [''pciPolicy'',
       ''Pci policy model'',
       ''[]'',
       ''demo'',
       ''identity=string:defaultValue-null:required-true:MANY-false:description-null'',
       ''policyScope=MANY-true,policyType=POLICYTYPE:MANY-false,resources=MANY-true,pciProper'' @
       ''ties=pciProperties_properties:MANY-true:description-null'',
       ''{\"pciProperties_properties\":{\"pciOptimizationTimeConstraint\":\"string:defaultValue-nu'' @
       ''ll:required-false:MANY-false:description-null\",'' @
       ''           '' @
       ''\"pciOptimizationNwConstraint\":\"string:defaultValue-null:required-false:MANY-false:de'' @
       ''scription-null\",'' @
       ''           '' @
       ''\"algoCategory\":\"string:defaultValue-null:required-false:MANY-false:description-null\"'' @
       '','' @
       ''           '' @
       ''\"pciOptmizationAlgoName\":\"string:defaultValue-null:required-false:MANY-false:descrip'' @
       ''tion-null\",'' @
       ''           '' @
       ''\"pciOptimizationPriority\":\"string:defaultValue-null:required-false:MANY-false:descri'' @
       ''ption-null\"}}'',
       ''test1'',
       ''olicyScope=matching-true, policyType=matching-true '',
       '' POLICYTYPE=[pciPolicy,]'',
       ''\"\"''],
      [''subscriberPolicy'',
       ''Subscriber Policy Model'',
       ''[]'',
       ''demo'',
       ''identity=string:defaultValue-null:required-true:MANY-false:description-null'',
       ''policyScope=MANY-true,policyType=POLICYTYPE:MANY-false,properties=properties_propert'' @
       ''ies:MANY-false:description-type of a policy'',
       ''{\"properties_properties\":{\"provStatus\":\"PROVSTATUS:defaultValue-null:required-true:M'' @
       ''ANY-false:description-null\",'' @
       ''           '' @
       ''\"subscriberName\":\"SUBSCRIBERNAME:defaultValue-null:required-true:MANY-false:descript'' @
       ''ion-null\",'' @
       ''           '' @
       ''\"subscriberRole\":\"SUBSCRIBERROLE:defaultValue-null:required-true:MANY-false:descript'' @
       ''ion-null\"}}'',
       ''test1'',
       ''policyScope=matching-true, policyType=matching-true, properties=matching-true '',
       '' SUBSCRIBERNAME=[], SUBSCRIBERROLE=[], POLICYTYPE=[subscriberPolicy,], PROVSTATUS=[]'',
       ''\"\"'']]"

text \<open>The statements and rows of \<^verbatim>\<open>insert_policy_models.py\<close>.\<close>

definition script_hpa_sql :: string where
  "script_hpa_sql =
     ''INSERT INTO optimizationmodels (modelname, description, dependency, imported_by,'' @
     '' '' @
     ''attributes, ref_attributes, sub_attributes, version, annotation, enumValues,'' @
     '' '' @
     ''dataOrderInfo) VALUES (%s, %s, %s, %s, %s, %s, %s, %s, %s, %s, %s)''"

definition script_models_sql :: string where
  "script_models_sql =
     ''INSERT INTO microservicemodels (modelname, description, dependency, imported_by,'' @
     '' '' @
     ''attributes, ref_attributes, sub_attributes, version, annotation, enumValues,'' @
     '' '' @
     ''dataOrderInfo) VALUES (%s, %s, %s, %s, %s, %s, %s, %s, %s, %s, %s)''"

definition script_hpa_val :: "string list" where
  "script_hpa_val =
     [''hpaPolicy'',
      ''HPA Tests Model'',
      ''[]'',
      ''demo'',
      ''identity=string:defaultValue-null:required-true:MANY-false:description-null'',
      ''policyScope=MANY-true,policyType=POLICYTYPE:MANY-false,resources=MANY-true,flavorFea'' @
      ''tures=flavorFeatures_properties:MANY-true:description-null'',
      ''{\"directives_properties\":{\"attributes\":\"directives_attributes_properties:required-fa'' @
      ''lse:MANY-true:description-null\",'' @
      ''\"type\":\"string:defaultValue-null:required-false:MANY-false:description-null\"},'' @
      ''\"directives_attributes_properties\":{\"attribute_name\":\"string:defaultValue-null:requi'' @
      ''red-false:MANY-false:description-null\",'' @
      ''\"attribute_value\":\"string:defaultValue-null:required-false:MANY-false:description-nu'' @
      ''ll\"},'' @
      ''\"flavorProperties_properties\":{\"score\":\"string:defaultValue-null:required-false:MANY'' @
      ''-false:description-null\",'' @
      ''\"hpa-feature-attributes\":\"hpa-feature-attributes_properties:required-true:MANY-true:'' @
      ''description-null\",'' @
      ''\"directives\":\"directives_properties:required-true:MANY-true:description-null\",'' @
      ''\"hpa-version\":\"string:defaultValue-null:required-true:MANY-false:description-null\",'' @
      ''\"hpa-feature\":\"string:defaultValue-null:required-true:MANY-false:description-null\",'' @
      ''\"mandatory\":\"string:defaultValue-null:required-true:MANY-false:description-null\",'' @
      ''\"architecture\":\"string:defaultValue-null:required-true:MANY-false:description-null\"}'' @
      '','' @
      ''\"flavorFeatures_properties\":{\"directives\":\"directives_properties:required-true:MANY-'' @
      ''true:description-null\",'' @
      ''\"flavorProperties\":\"flavorProperties_properties:required-true:MANY-true:description-'' @
      ''null\",'' @
      ''\"id\":\"string:defaultValue-null:required-true:MANY-false:description-null\",'' @
      ''\"type\":\"string:defaultValue-null:required-true:MANY-false:description-null\"},'' @
      ''\"hpa-feature-attributes_properties\":{\"unit\":\"string:defaultValue-null:required-false'' @
      '':MANY-false:description-null\",'' @
      ''\"hpa-attribute-value\":\"string:defaultValue-null:required-true:MANY-false:description'' @
      ''-null\",'' @
      ''\"hpa-attribute-key\":\"string:defaultValue-null:required-true:MANY-false:description-n'' @
      ''ull\",'' @
      ''\"operator\":\"OPERATOR:defaultValue-null:required-false:MANY-false:description-null\"}}'',
      ''test1'',
      ''policyScope=matching-true, policyType=matching-true'',
      ''OPERATOR=[<,<equal-sign,>,>equal-sign,equal-sign,!equal-sign,any,all,subset,], POLIC'' @
      ''YTYPE=[hpa,]'',
      ''\"\"'']"

definition script_models_val :: "string list list" where
  "script_models_val =
     [[''distancePolicy'',
       ''distancePolicy'',
       ''[]'',
       ''demo'',
       ''identity=string:defaultValue-null:required-true:MANY-false:description-null'',
       ''policyScope=MANY-true,distanceProperties=distanceProperties_properties:MANY-false:de'' @
       ''scription-null,policyType=POLICYTYPE:MANY-false,'' @
       ''resources=MANY-true,applicableResources=APPLICABLERESOURCES:MANY-false'',
       ''{\"distanceProperties_properties\":{\"locationInfo\":\"string:defaultValue-null:required-'' @
       ''true:MANY-false:description-null\",'' @
       ''\"distance\":\"distance_properties:required-true:MANY-false:description-null\"},'' @
       ''\"distance_properties\":{\"unit\":\"UNIT:defaultValue-null:required-true:MANY-false:descr'' @
       ''iption-null\",'' @
       ''\"value\":\"string:defaultValue-null:required-true:MANY-false:description-null\",\"operat'' @
       ''or\":\"OPERATOR:defaultValue-null:required-true:MANY-false:description-null\"}}'',
       ''test1'',
       ''policyScope=matching-true, policyType=matching-true'',
       ''OPERATOR=[<,<equal-sign,>,>equal-sign,equal-sign,], APPLICABLERESOURCES=[any,all,], '' @
       ''POLICYTYPE=[distance_to_location,] '',
       ''\"\"''],
      [''optimizationPolicy'',
       ''Optimization policy model'',
       ''[]'',
       ''demo'',
       ''identity=string:defaultValue-null:required-true:MANY-false:description-null'',
       ''objectiveParameter=objectiveParameter_properties:MANY-false:description-null,policyS'' @
       ''cope=MANY-true,policyType=POLICYTYPE:MANY-false,'' @
       ''objective=objectiveParameter_properties:MANY-false:description-null'',
       ''{\"parameterAttributes_properties\":{\"customerLocationInfo\":\"string:defaultValue-null:'' @
       ''required-true:MANY-false:description-null\",'' @
       ''\"parameter\":\"string:defaultValue-null:required-true:MANY-false:description-null\",'' @
       ''\"resources\":\"string:defaultValue-null:required-true:MANY-false:description-null\",'' @
       ''\"weight\":\"string:defaultValue-null:required-true:MANY-false:description-null\",'' @
       ''\"operator\":\"OPERATOR:defaultValue-null:required-true:MANY-false:description-null\"},'' @
       ''\"objectiveParameter_properties\":{\"parameterAttributes\":\"parameterAttributes_properti'' @
       ''es:required-true:MANY-true:description-null\",'' @
       ''\"operator\":\"OPERATOR:defaultValue-null:required-true:MANY-false:description-null\"}}'',
       ''test1'',
       ''policyScope=matching-true, policyType=matching-true'',
       ''OPERATOR=[*,+,-,/,%,], POLICYTYPE=[placement_optimization,]'',
       ''\"\"''],
      [''queryPolicy'',
       ''Query policy model'',
       ''[]'',
       ''demo'',
       ''identity=string:defaultValue-null:required-true:MANY-false:description-null'',
       ''policyScope=MANY-true,policyType=POLICYTYPE:MANY-false,queryProperties=queryProperti'' @
       ''es_properties:MANY-true:description-null'',
       ''{\"queryProperties_properties\":{\"attribute_location\":\"string:defaultValue-null:requir'' @
       ''ed-true:MANY-false:description-null\",'' @
       ''\"attribute\":\"string:defaultValue-null:required-true:MANY-false:description-null\",\"va'' @
       ''lue\":\"string:defaultValue-null:required-true:MANY-false:description-null\"}}'',
       ''test1'',
       ''policyScope=matching-true, policyType=matching-true'',
       ''POLICYTYPE=[request_param_query,]'',
       ''\"\"''],
      [''vnfPolicy'',
       ''VnfPolicy model'',
       ''[]'',
       ''demo'',
       ''identity=string:defaultValue-null:required-true:MANY-false:description-null'',
       ''policyScope=MANY-true,policyType=POLICYTYPE:MANY-false,resources=MANY-true,'' @
       ''vnfProperties=vnfProperties_properties:MANY-true:description-null,applicableResource'' @
       ''s=APPLICABLERESOURCES:MANY-false'',
       ''{\"vnfProperties_properties\":{\"serviceType\":\"string:defaultValue-null:required-true:M'' @
       ''ANY-false:description-null\",'' @
       ''\"inventoryProvider\":\"string:defaultValue-null:required-true:MANY-false:description-n'' @
       ''ull\",'' @
       ''\"inventoryType\":\"INVENTORYTYPE:defaultValue-null:required-true:MANY-false:descriptio'' @
       ''n-null\",'' @
       ''\"customerId\":\"string:defaultValue-null:required-true:MANY-false:description-null\"}}'',
       ''test1'',
       ''policyScope=matching-true, policyType=matching-true'',
       ''INVENTORYTYPE=[serviceInstanceId,vnfName,cloudRegionId,vimId,], APPLICABLERESOURCES='' @
       ''[any,all,], POLICYTYPE=[vnfPolicy,]'',
       ''\"\"''],
      [''vim_fit'',
       ''Capacity policy model'',
       ''[]'',
       ''demo'',
       ''identity=string:defaultValue-null:required-true:MANY-false:description-null'',
       ''policyScope=MANY-true,policyType=POLICYTYPE:MANY-false,capacityProperties=capacityPr'' @
       ''operties_properties:MANY-false:description-null,'' @
       ''resources=MANY-true,applicableResources=APPLICABLERESOURCES:MANY-false'',
       ''{\"capacityProperties_properties\":{\"request\":\"string:defaultValue-null:required-true:'' @
       ''MANY-false:description-null\",'' @
       ''\"controller\":\"string:defaultValue-null:required-true:MANY-false:description-null\"}}'',
       ''test1'',
       ''policyScope=matching-true, policyType=matching-true '',
       '' APPLICABLERESOURCES=[any,all,], POLICYTYPE=[vim_fit,]'',
       ''\"\"''],
      [''affinityPolicy'',
       ''Affinity policy model'',
       ''[]'',
       ''demo'',
       ''identity=string:defaultValue-null:required-true:MANY-false:description-null'',
       ''policyScope=MANY-true,policyType=POLICYTYPE:MANY-false,affinityProperties=affinityPr'' @
       ''operties_properties:MANY-false:description-null,'' @
       ''resources=MANY-true,applicableResources=APPLICABLERESOURCES:MANY-false'',
       ''{\"affinityProperties_properties\":{\"qualifier\":\"QUALIFIER:defaultValue-null:required-'' @
       ''true:MANY-false:description-null\",'' @
       ''\"category\":\"string:defaultValue-null:required-true:MANY-false:description-null\"}}'',
       ''test1'',
       ''policyScope=matching-true, policyType=matching-true '',
       '' APPLICABLERESOURCES=[any,all,], POLICYTYPE=[zone,], QUALIFIER=[same,different,]'',
       ''\"\"''],
      [''pciPolicy'',
       ''Pci policy model'',
       ''[]'',
       ''demo'',
       ''identity=string:defaultValue-null:required-true:MANY-false:description-null'',
       ''policyScope=MANY-true,policyType=POLICYTYPE:MANY-false,resources=MANY-true,pciProper'' @
       ''ties=pciProperties_properties:MANY-true:description-null'',
       ''{\"pciProperties_properties\":{\"pciOptimizationTimeConstraint\":\"string:defaultValue-nu'' @
       ''ll:required-false:MANY-false:description-null\",'' @
       ''\"pciOptimizationNwConstraint\":\"string:defaultValue-null:required-false:MANY-false:de'' @
       ''scription-null\",'' @
       ''\"algoCategory\":\"string:defaultValue-null:required-false:MANY-false:description-null\"'' @
       '','' @
       ''\"pciOptmizationAlgoName\":\"string:defaultValue-null:required-false:MANY-false:descrip'' @
       ''tion-null\",'' @
       ''\"pciOptimizationPriority\":\"string:defaultValue-null:required-false:MANY-false:descri'' @
       ''ption-null\"}}'',
       ''test1'',
       ''olicyScope=matching-true, policyType=matching-true '',
       '' POLICYTYPE=[pciPolicy,]'',
       ''\"\"''],
      [''subscriberPolicy'',
       ''Subscriber Policy Model'',
       ''[]'',
       ''demo'',
       ''identity=string:defaultValue-null:required-true:MANY-false:description-null'',
       ''policyScope=MANY-true,policyType=POLICYTYPE:MANY-false,properties=properties_propert'' @
       ''ies:MANY-false:description-type of a policy'',
       ''{\"properties_properties\":{\"provStatus\":\"PROVSTATUS:defaultValue-null:required-true:M'' @
       ''ANY-false:description-null\",'' @
       ''\"subscriberName\":\"SUBSCRIBERNAME:defaultValue-null:required-true:MANY-false:descript'' @
       ''ion-null\",'' @
       ''\"subscriberRole\":\"SUBSCRIBERROLE:defaultValue-null:required-true:MANY-false:descript'' @
       ''ion-null\"}}'',
       ''test1'',
       ''policyScope=matching-true, policyType=matching-true, properties=matching-true '',
       '' SUBSCRIBERNAME=[], SUBSCRIBERROLE=[], POLICYTYPE=[subscriberPolicy,], PROVSTATUS=[]'',
       ''\"\"'']]"

definition add_policy_models :: "hpa_env \<Rightarrow> unit hpa" where
  "add_policy_models E = insert_policy_rows E hpa_sql hpa_val models_sql models_val"

text \<open>
  \<^verbatim>\<open>insert_policy_models.py\<close> takes the connection parameters from \<^verbatim>\<open>sys.argv\<close>, but never imports
  \<^verbatim>\<open>sys\<close>: the first argument raises \<^verbatim>\<open>NameError\<close>.
\<close>

definition insert_policy_models :: "hpa_env \<Rightarrow> unit hpa" where
  "insert_policy_models E =
     ibind (iraise (NameError ''sys'')) (\<lambda>(host, user, passwd).
     ibind (db_step E (DbConnect host user passwd ''onap_sdk'')) (\<lambda>_.
     ibind (db_step E (DbExecute script_hpa_sql script_hpa_val)) (\<lambda>_.
     ibind (db_step E (DbExecuteMany script_models_sql script_models_val)) (\<lambda>_.
     ibind (db_step E DbCommit) (\<lambda>_.
     (\<lambda>t. emit (PrintV (PList [PInt (db_rowcount E t), PStr ''was inserted.''])) t))))))"

section \<open>Rows and statements\<close>

text \<open>The column names of an INSERT statement and the number of its placeholders.\<close>

definition columns :: "string \<Rightarrow> string list" where
  "columns s = map strip (split_on CHR '',''
     (takeWhile (\<lambda>c. c \<noteq> CHR '')'') (tl (dropWhile (\<lambda>c. c \<noteq> CHR ''('') s))))"

definition placeholders :: "string \<Rightarrow> nat" where
  "placeholders s = length (split_sub ''%s'' s) - 1"

definition fits_statement :: "string \<Rightarrow> string list \<Rightarrow> bool" where
  "fits_statement s row \<longleftrightarrow>
     length row = length (columns s) \<and> placeholders s = length (columns s) \<and> distinct (columns s)"

definition squeeze :: "string \<Rightarrow> string" where
  "squeeze s = filter (\<lambda>c. \<not> is_ws c) s"

definition same_text :: "string \<Rightarrow> string \<Rightarrow> bool" where
  "same_text a b \<longleftrightarrow> squeeze a = squeeze b"

lemma row_lengths: "length hpa_val = 11" "list_all (\<lambda>r. length r = 11) models_val"
  "length script_hpa_val = 11" "list_all (\<lambda>r. length r = 11) script_models_val"
  by (simp_all only: hpa_val_def models_val_def script_hpa_val_def script_models_val_def
      list.size list.pred_inject) simp_all

lemma statement_columns:
  "length (columns hpa_sql) = 11" "length (columns models_sql) = 11"
  "distinct (columns hpa_sql)" "distinct (columns models_sql)"
  "placeholders hpa_sql = 11" "placeholders models_sql = 11"
  by code_simp+

theorem policy_rows_fit_statements:
  "fits_statement hpa_sql hpa_val \<and> list_all (fits_statement models_sql) models_val
   \<and> ((\<forall>t ev. db_result E t ev = Inr ()) \<longrightarrow> add_policy_models E t =
       (Inr (), t @ [DbConnect ''policydb'' ''policy_user'' ''policy_user'' ''onap_sdk'',
                     DbExecute hpa_sql hpa_val, DbExecuteMany models_sql models_val, DbCommit,
                     PrintV (PList [PInt (db_rowcount E (t @
                       [DbConnect ''policydb'' ''policy_user'' ''policy_user'' ''onap_sdk'',
                        DbExecute hpa_sql hpa_val, DbExecuteMany models_sql models_val, DbCommit])),
                       PStr ''was inserted.''])]))"
proof (intro conjI)
  show "fits_statement hpa_sql hpa_val"
    by (simp add: fits_statement_def row_lengths statement_columns)
  show "list_all (fits_statement models_sql) models_val"
    using row_lengths(2) by (simp add: fits_statement_def statement_columns list_all_iff)
qed (simp add: add_policy_models_def insert_policy_rows_def db_step_def ibind_def)

lemma squeeze_append: "squeeze (a @ b) = squeeze a @ squeeze b"
  by (simp add: squeeze_def)

lemma squeeze_blank:
  "squeeze '' '' = []"
  "squeeze ''         '' = []"
  "squeeze ''          '' = []"
  "squeeze ''           '' = []"
  "squeeze ''               '' = []"
  by (simp_all add: squeeze_def is_ws_def)

lemmas squeeze_simps = same_text_def squeeze_append squeeze_blank append_Nil append_assoc
  append_Nil2 list_all2_Cons list_all2_Nil simp_thms

theorem script_inserts_same_models:
  "same_text script_hpa_sql hpa_sql \<and> same_text script_models_sql models_sql
   \<and> list_all2 same_text script_hpa_val hpa_val
   \<and> list_all2 (list_all2 same_text) script_models_val models_val
   \<and> insert_policy_models E t = (Inl (NameError ''sys''), t)"
proof (intro conjI)
  show "same_text script_hpa_sql hpa_sql" "same_text script_models_sql models_sql"
    by (simp_all only: script_hpa_sql_def hpa_sql_def script_models_sql_def models_sql_def squeeze_simps)
  show "list_all2 same_text script_hpa_val hpa_val"
    by (simp only: script_hpa_val_def hpa_val_def squeeze_simps)
  show "list_all2 (list_all2 same_text) script_models_val models_val"
    by (simp only: script_models_val_def models_val_def squeeze_simps)
qed (simp add: insert_policy_models_def ibind_exec)

end
