(* ===== verification/Hpa_Config.thy ===== *)
theory Hpa_Config
  imports Hpa_Runs
begin

text \<open>
  The configuration file \<^verbatim>\<open>cloud/onap/cli/vcpe_config.json\<close> shipped beside \<^verbatim>\<open>hpa_automation.py\<close>
  meets the conditions under which the script completes.
\<close>

text \<open>\<^verbatim>\<open>cloud/onap/cli/vcpe_config.json\<close>, as \<^verbatim>\<open>json.load\<close> returns it.\<close>

definition vcpe_config :: pyval where
  "vcpe_config =
     PDict
     [(''open_cli_product'', PStr ''onap-dublin''),
      (''open_cli_home'', PStr ''/opt/oclip''),
      (''aai_url'', PStr ''https://10.12.5.224:30233''),
      (''aai_username'', PStr ''AAI''),
      (''aai_password'', PStr ''AAI''),
      (''sdc_onboarding_url'', PStr ''http://10.43.89.129:8081''),
      (''sdc_catalog_url'', PStr ''http://10.12.5.224:30205''),
      (''sdc_password'', PStr ''demo123456!''),
      (''sdc_creator'', PStr ''cs0008''),
      (''sdc_tester'', PStr ''jm0007''),
      (''sdc_governor'', PStr ''gv0001''),
      (''sdc_operator'', PStr ''op0001''),
      (''multicloud_url'', PStr ''http://10.12.5.224:30280''),
      (''policy_url'', PStr ''https://10.12.5.224:30694''),
      (''policy_username'', PStr ''testpdp''),
      (''policy_password'', PStr ''alpha123''),
      (''policy_directory'', PStr ''/opt/oclip/dublin/vcpe_policies''),
      (''policy_scope'', PStr ''OSDF_DUBLIN''),
      (''policy_onapName'', PStr ''SampleDemo''),
      (''policy_config_type'', PStr ''MicroService''),
      (''policy_pdp_group'', PStr ''default''),
      (''//'', PStr ''#Parameters to vfc''),
      (''temp_resource_module_name'', PStr ''resource_name''),
      (''complex_name'', PStr ''clli1''),
      (''street1'', PStr ''street1''),
      (''street2'', PStr ''street2''),
      (''physical_location'', PStr ''phy_type''),
      (''data_center_code'', PStr ''code1''),
      (''latitude'', PStr ''32.89948''),
      (''longitude'', PStr ''97.045443''),
      (''lata'', PStr ''example-lata-val-28399''),
      (''elevation'', PStr ''example-elevation-val-28399''),
      (''region'', PStr ''northwest''),
      (''state'', PStr ''oregon''),
      (''city'', PStr ''hillsboro''),
      (''postal-code'', PStr ''00000''),
      (''country'', PStr ''USA''),
      (''identity_url'', PStr ''example-identity-url-val-56898''),
      (''service-model-name'', PStr ''vcpe-hpa''),
      (''cloud_region_data'', PDict
         [(''ONAP-POD-01-Rail-05'', PDict
             [(''cloud-region-version'', PStr ''titanium_cloud''),
              (''esr-system-info-id'', PStr ''5c85ce1f-aa78-4ebf-8d6f-4b62784e9bc7''),
              (''service-url'', PStr ''http://10.12.11.1:5000/v3''),
              (''user-name'', PStr ''${cloud-username}''),
              (''password'', PStr ''${cloud-password}''),
              (''system-type'', PStr ''VIM''),
              (''ssl-insecure'', PBool True),
              (''cloud-domain'', PStr ''Default''),
              (''default-tenant'', PStr ''Integration-HPA''),
              (''tenant-id'', PStr ''709ba629fe194f8699b12f9d6ffd86a0''),
              (''cloud-type'', PStr ''openstack''),
              (''identity-url'', PStr ''WillBeUpdatedByMultiCloud''),
              (''system-status'', PStr ''active'')]),
          (''ONAP-POD-01-Rail-06'', PDict
             [(''cloud-region-version'', PStr ''titanium_cloud''),
              (''esr-system-info-id'', PStr ''5c85ce1f-aa78-4ebf-8d6f-4b62773e9bc7''),
              (''service-url'', PStr ''http://10.12.11.1:5000/v3''),
              (''user-name'', PStr ''${cloud-username}''),
              (''password'', PStr ''${cloud-password}''),
              (''system-type'', PStr ''VIM''),
              (''ssl-insecure'', PBool True),
              (''cloud-domain'', PStr ''Default''),
              (''default-tenant'', PStr ''Integration-HPA''),
              (''tenant-id'', PStr ''709ba629fe194f8699b12f9d6ffd86a0''),
              (''cloud-type'', PStr ''openstack''),
              (''identity-url'', PStr ''WillBeUpdatedByMultiCloud''),
              (''system-status'', PStr ''active'')]),
          (''ONAP-POD-01-Rail-07'', PDict
             [(''cloud-region-version'', PStr ''titanium_cloud''),
              (''esr-system-info-id'', PStr ''4c85ce1f-aa78-4ebf-8d6f-4b62773e9bc7''),
              (''service-url'', PStr ''http://10.12.11.1:5000/v3''),
              (''user-name'', PStr ''${cloud-username}''),
              (''password'', PStr ''${cloud-password}''),
              (''system-type'', PStr ''VIM''),
              (''ssl-insecure'', PBool True),
              (''cloud-domain'', PStr ''Default''),
              (''default-tenant'', PStr ''Integration-HPA''),
              (''tenant-id'', PStr ''709ba629fe194f8699b12f9d6ffd86a0''),
              (''cloud-type'', PStr ''openstack''),
              (''identity-url'', PStr ''WillBeUpdatedByMultiCloud''),
              (''system-status'', PStr ''active'')])]),
      (''cloud-owner'', PStr ''CloudOwner''),
      (''owner-defined-type'', PStr ''t1''),
      (''cloud-zone'', PStr ''CloudZone''),
      (''service_name'', PStr ''vCPE''),
      (''customer_name'', PStr ''hpa_cust''),
      (''subscriber_name'', PStr ''hpa_cust''),
      (''vendor-name'', PStr ''Intel''),
      (''entitlement-pool-name'', PStr ''hpa-pool''),
      (''entitlement-description'', PStr ''hpa-pool''),
      (''start-date'', PStr ''04/23/2019''),
      (''expiry-date'', PStr ''12/31/2040''),
      (''key-group-name'', PStr ''hpa-key''),
      (''key-group-type'', PStr ''Universal''),
      (''feature-grp-name'', PStr ''hpa-feature''),
      (''feature-grp-desc'', PStr ''hpa-feature''),
      (''part-no'', PStr ''hpa-part''),
      (''agreement-name'', PStr ''hpa-agreement''),
      (''agreement-desc'', PStr ''hpa-agreement''),
      (''onboarding-method'', PStr ''NetworkPackage''),
      (''project-code'', PStr ''000000''),
      (''service-model-desc'', PStr (CHR 0x27 # ''hpa service model'' @ [CHR 0x27])),
      (''icon-id'', PStr ''network_l_1-3''),
      (''category-display'', PStr (CHR 0x27 # ''Network L1-3'' @ [CHR 0x27])),
      (''category'', PStr (CHR 0x27 # ''network l1-3'' @ [CHR 0x27])),
      (''service-test-remarks'', PStr ''test''),
      (''service-accept-remarks'', PStr ''accepted''),
      (''service-approve-remarks'', PStr ''approved''),
      (''vfc-url'', PStr ''http://10.12.5.224:30280''),
      (''vnfs'', PDict
         [(''infra'', PDict
             [(''path'', PStr ''/opt/oclip/dublin/infra.csar''),
              (''csar-id'', PStr ''You need change it''),
              (''vsp-name'', PStr ''infra-hpa-vsp''),
              (''vsp-desc'', PStr ''infra-hpa-vsp-desc''),
              (''vsp-version'', PStr ''1.0''),
              (''vf-name'', PStr ''infra-hpa-vf''),
              (''vf-description'', PStr ''infra-hpa-vf''),
              (''vf-remarks'', PStr ''remarkss''),
              (''vf-version'', PStr ''1.0''),
              (''key'', PStr ''key2''),
              (''value'', PStr ''value2'')]),
          (''vgmux'', PDict
             [(''path'', PStr ''/opt/oclip/dublin/vgmux.csar''),
              (''csar-id'', PStr ''You need change it''),
              (''vsp-name'', PStr ''vgmux-hpa-vsp''),
              (''vsp-desc'', PStr ''vgmux-hpa-vsp-desc''),
              (''vsp-version'', PStr ''1.0''),
              (''vf-name'', PStr ''vgmux-hpa-vf''),
              (''vf-description'', PStr ''vgmux-hpa-vf''),
              (''vf-remarks'', PStr ''remarkss''),
              (''vf-version'', PStr ''1.0''),
              (''key'', PStr ''key2''),
              (''value'', PStr ''value2'')]),
          (''vbng'', PDict
             [(''path'', PStr ''/opt/oclip/dublin/vbng.csar''),
              (''csar-id'', PStr ''You need change it''),
              (''vsp-name'', PStr ''vbng-hpa-vsp''),
              (''vsp-desc'', PStr ''vbng-hpa-vsp-desc''),
              (''vsp-version'', PStr ''1.0''),
              (''vf-name'', PStr ''vbng-hpa-vf''),
              (''vf-description'', PStr ''vbng-hpa-vf''),
              (''vf-remarks'', PStr ''remarkss''),
              (''vf-version'', PStr ''1.0''),
              (''key'', PStr ''key2''),
              (''value'', PStr ''value2'')]),
          (''vbrgemu'', PDict
             [(''path'', PStr ''/opt/oclip/dublin/vbrgemu.csar''),
              (''csar-id'', PStr ''You need change it''),
              (''vsp-name'', PStr ''vbrgemu-hpa-vsp''),
              (''vsp-desc'', PStr ''vbgremu-hpa-vsp-desc''),
              (''vsp-version'', PStr ''1.0''),
              (''vf-name'', PStr ''vbgremu-hpa-vf''),
              (''vf-description'', PStr ''vbgremu-hpa-vf''),
              (''vf-remarks'', PStr ''remarkss''),
              (''vf-version'', PStr ''1.0''),
              (''key'', PStr ''key2''),
              (''value'', PStr ''value2'')]),
          (''vgw'', PDict
             [(''path'', PStr ''/opt/oclip/dublin/vgw.csar''),
              (''csar-id'', PStr ''You need change it''),
              (''vsp-name'', PStr ''vgw-hpa-vsp''),
              (''vsp-desc'', PStr ''vgw-hpa-vsp-desc''),
              (''vsp-version'', PStr ''1.0''),
              (''vf-name'', PStr ''vgw-hpa-vf''),
              (''vf-description'', PStr ''vgw-hpa-vf''),
              (''vf-remarks'', PStr ''remarkss''),
              (''vf-version'', PStr ''1.0''),
              (''key'', PStr ''key2''),
              (''value'', PStr ''value2'')])]),
      (''ns'', PDict
         [(''csar-id'', PStr ''You need change it''),
          (''key'', PStr ''key1''),
          (''value'', PStr ''value1''),
          (''path'', PStr ''/opt/oclip/dublin/ns_vgw.csar''),
          (''name'', PStr ''vcpe1'')]),
      (''location'', PStr ''CloudOwner_ONAP-POD-01-Rail-07''),
      (''vnfm_params'', PDict
         [(''GVNFMDRIVER'', PDict
             [(''type'', PStr ''gvnfmdriver''),
              (''vendor'', PStr ''vfc''),
              (''version'', PStr ''v1.0''),
              (''url'', PStr ''http://msb-iag:80/''),
              (''vim-id'', PStr ''CloudOwner_ONAP-POD-01-Rail-07''),
              (''user-name'', PStr ''admin''),
              (''user-password'', PStr ''admin''),
              (''vnfm-version'', PStr ''v1.0'')])]),
      (''sdc-controller-id'', PStr ''2'')]"

definition sample_env :: hpa_env where
  "sample_env = \<lparr>
     popen_out = \<lambda>t c. ''| ID | 4f2a | state | created | x |'',
     put_response = \<lambda>t u. Inr ''<Response [202]>'',
     list_dir = \<lambda>d. Inr [''hpa_policy_vcpe.json''],
     open_rb = \<lambda>f. Inr (),
     load_config = \<lambda>f. Inr vcpe_config,
     db_result = \<lambda>t ev. Inr (),
     db_rowcount = \<lambda>t. 10 \<rparr>"

text \<open>The required keys, looked up in four groups.\<close>

lemma vcpe_keys:
  "list_all (\<lambda>k. \<not> isl (getitem vcpe_config k)) (take 9 required_keys)"
  "list_all (\<lambda>k. \<not> isl (getitem vcpe_config k)) (take 9 (drop 9 required_keys))"
  "list_all (\<lambda>k. \<not> isl (getitem vcpe_config k)) (take 9 (drop 18 required_keys))"
  "list_all (\<lambda>k. \<not> isl (getitem vcpe_config k)) (drop 27 required_keys)"
  subgoal by code_simp
  subgoal by code_simp
  subgoal by code_simp
  subgoal by code_simp
  done

lemma vcpe_deployable: "deployable sample_env vcpe_config"
proof -
  have "required_keys = take 9 required_keys @ take 9 (drop 9 required_keys)
      @ take 9 (drop 18 required_keys) @ drop 27 required_keys"
    by (simp add: required_keys_def)
  then have "list_all (\<lambda>k. \<not> isl (getitem vcpe_config k)) required_keys"
    using vcpe_keys by (metis list_all_append)
  moreover have "string_at vcpe_config ''open_cli_product'' \<and> string_at vcpe_config ''open_cli_home''
      \<and> dict_section vcpe_config ''cloud_region_data'' is_dict
      \<and> dict_section vcpe_config ''vnfm_params'' is_dict" by code_simp
  moreover have "dict_section vcpe_config ''vnfs'' (\<lambda>v. is_dict v \<and> openable sample_env v)
     \<and> getitem vcpe_config ''vnfs'' \<noteq> Inr (PDict [])" by code_simp
  moreover have "(case getitem vcpe_config ''ns'' of Inr ns \<Rightarrow> is_dict ns \<and> openable sample_env ns | _ \<Rightarrow> False)
     \<and> (case getitem vcpe_config ''policy_directory'' of
          Inr (PStr d) \<Rightarrow> \<not> isl (list_dir sample_env d) | _ \<Rightarrow> False)" by code_simp
  ultimately show ?thesis unfolding deployable_def by blast
qed



end
