(* ===== verification/Stv_Extension.thy ===== *)
theory Stv_Extension
  imports Py_World
begin

text \<open>
  \<^verbatim>\<open>stevedore/extension.py\<close>: the base class \<^verbatim>\<open>ExtensionManager\<close>, which discovers the entry points
  of a namespace, loads them as extensions and calls a function on each of them.  Python
  objects (plugins, the objects they return, results) are values of a type parameter.  The
  state is the class attribute \<^verbatim>\<open>ENTRY_POINT_CACHE\<close>, shared by all managers, and the log of what
  was done; the attributes of a manager are a record that its operations return updated.
  \<^verbatim>\<open>pkg_resources\<close>, the plugins and the callbacks are arbitrary programs over that state.
\<close>

section \<open>The state\<close>

record entry_point =
  ep_name :: string
  ep_module_name :: string
  ep_attrs :: "string list"
  ep_new_api :: bool \<comment> \<open>has both \<^verbatim>\<open>resolve\<close> and \<^verbatim>\<open>require\<close>\<close>

datatype stv_event =
    IterEntryPoints string
  | Required string
  | Loaded string
  | Called string
  | LogFound string
  | LogNotLoaded string exn
  | LogCallError string exn
  | LogIgnored string
  | LogMissing "string list"
  | LogMissingExtension string

record stv_world =
  entry_point_cache :: "(string \<times> entry_point list) list"
  stv_log :: "stv_event list"

type_synonym 'a stv = "(stv_world, 'a) st"

definition log_ev :: "stv_event \<Rightarrow> unit stv" where
  "log_ev ev = (\<lambda>w. (Inr (), w\<lparr>stv_log := stv_log w @ [ev]\<rparr>))"

text \<open>What \<^verbatim>\<open>pkg_resources\<close> does; \<^verbatim>\<open>ep_load\<close> is \<^verbatim>\<open>ep.load(require=...)\<close>.\<close>

record 'o stv_env =
  iter_entry_points :: "string \<Rightarrow> entry_point list stv"
  ep_require :: "entry_point \<Rightarrow> unit stv"
  ep_resolve :: "entry_point \<Rightarrow> 'o stv"
  ep_load :: "entry_point \<Rightarrow> bool \<Rightarrow> 'o stv"
  obj_true :: "'o \<Rightarrow> bool"

record 'o extension =
  ext_name :: string
  ext_entry_point :: entry_point
  ext_plugin :: 'o
  ext_obj :: "'o option"

definition Extension :: "string \<Rightarrow> entry_point \<Rightarrow> 'o \<Rightarrow> 'o option \<Rightarrow> 'o extension" where
  "Extension name ep plugin obj =
     \<lparr>ext_name = name, ext_entry_point = ep, ext_plugin = plugin, ext_obj = obj\<rparr>"

definition entry_point_target :: "'o extension \<Rightarrow> string res" where
  "entry_point_target e =
     rbind (at (ep_attrs (ext_entry_point e)) 0)
       (\<lambda>a. Inr (ep_module_name (ext_entry_point e) @ '':'' @ a))"

text \<open>
  \<^verbatim>\<open>on_load_failure_callback(manager, ep, err)\<close>; the manager, which has no extensions yet, is left out: a
  callback that reads its attributes is a program made from the same arguments.
\<close>

type_synonym failure_callback = "entry_point \<Rightarrow> exn \<Rightarrow> unit stv"

record 'o manager =
  mg_namespace :: string
  mg_propagate_map_exceptions :: bool
  mg_on_load_failure_callback :: "failure_callback option"
  mg_extensions :: "'o extension list"
  mg_by_name_cache :: "(string \<times> 'o extension) list option"

section \<open>Loading\<close>

definition init_attributes :: "string \<Rightarrow> bool \<Rightarrow> failure_callback option \<Rightarrow> 'o manager" where
  "init_attributes namespace propagate callback =
     \<lparr>mg_namespace = namespace, mg_propagate_map_exceptions = propagate,
      mg_on_load_failure_callback = callback, mg_extensions = [], mg_by_name_cache = None\<rparr>"

definition init_plugins :: "'o extension list \<Rightarrow> ('o, 'z) manager_scheme \<Rightarrow> ('o, 'z) manager_scheme" where
  "init_plugins extensions m = m\<lparr>mg_extensions := extensions, mg_by_name_cache := None\<rparr>"

definition list_entry_points :: "'o stv_env \<Rightarrow> string \<Rightarrow> entry_point list stv" where
  "list_entry_points E namespace = (\<lambda>w.
     case map_of (entry_point_cache w) namespace of
       Some eps \<Rightarrow> (Inr eps, w)
     | None \<Rightarrow>
         ibind (log_ev (IterEntryPoints namespace)) (\<lambda>_.
         ibind (iter_entry_points E namespace) (\<lambda>eps.
         (\<lambda>w. (Inr eps, w\<lparr>entry_point_cache := dict_set namespace eps (entry_point_cache w)\<rparr>)))) w)"

definition entry_points_names :: "'o stv_env \<Rightarrow> string \<Rightarrow> string list stv" where
  "entry_points_names E namespace =
     ibind (list_entry_points E namespace) (\<lambda>eps. iret (map ep_name eps))"

text \<open>
  \<^verbatim>\<open>_load_one_plugin\<close>; \<open>invoke\<close> is the call with the constructor's arguments when
  \<^verbatim>\<open>invoke_on_load\<close> is set.  Subclasses return \<open>None\<close> for entry points they do not want.
\<close>

definition load_one_plugin ::
    "'o stv_env \<Rightarrow> ('o \<Rightarrow> 'o stv) option \<Rightarrow> bool \<Rightarrow> entry_point \<Rightarrow> 'o extension option stv" where
  "load_one_plugin E invoke verify_requirements ep =
     ibind (if ep_new_api ep then
              ibind (if verify_requirements
                     then ibind (log_ev (Required (ep_name ep))) (\<lambda>_. ep_require E ep)
                     else iret ()) (\<lambda>_.
              ibind (log_ev (Loaded (ep_name ep))) (\<lambda>_. ep_resolve E ep))
            else ibind (log_ev (Loaded (ep_name ep))) (\<lambda>_. ep_load E ep verify_requirements))
       (\<lambda>plugin.
     ibind (case invoke of
              None \<Rightarrow> iret None
            | Some call \<Rightarrow> ibind (call plugin) (\<lambda>obj. iret (Some obj))) (\<lambda>obj.
     iret (Some (Extension (ep_name ep) ep plugin obj))))"

text \<open>Which exceptions the loading loop handles.\<close>

definition load_handled :: "exn \<Rightarrow> bool" where
  "load_handled e \<longleftrightarrow> is_Exception e \<and> e \<noteq> AssertionError"

definition load_step ::
    "failure_callback option \<Rightarrow> (entry_point \<Rightarrow> 'o extension option stv)
     \<Rightarrow> 'o extension list \<Rightarrow> entry_point \<Rightarrow> 'o extension list stv" where
  "load_step callback load_one extensions ep =
     ibind (log_ev (LogFound (ep_name ep))) (\<lambda>_.
     icatch (ibind (load_one ep) (\<lambda>ext. case ext of
               Some e \<Rightarrow> iret (extensions @ [e])
             | None \<Rightarrow> iret extensions))
       load_handled
       (\<lambda>err. ibind (case callback of
                 Some f \<Rightarrow> f ep err
               | None \<Rightarrow> log_ev (LogNotLoaded (ep_name ep) err)) (\<lambda>_.
              iret extensions)))"

definition load_plugins ::
    "'o stv_env \<Rightarrow> ('o, 'z) manager_scheme \<Rightarrow> (entry_point \<Rightarrow> 'o extension option stv)
     \<Rightarrow> 'o extension list stv" where
  "load_plugins E m load_one =
     ibind (list_entry_points E (mg_namespace m))
       (ifold (load_step (mg_on_load_failure_callback m) load_one) [])"

definition ExtensionManager ::
    "'o stv_env \<Rightarrow> string \<Rightarrow> ('o \<Rightarrow> 'o stv) option \<Rightarrow> bool \<Rightarrow> failure_callback option \<Rightarrow> bool
     \<Rightarrow> 'o manager stv" where
  "ExtensionManager E namespace invoke propagate callback verify_requirements =
     (let m = init_attributes namespace propagate callback
      in ibind (load_plugins E m (load_one_plugin E invoke verify_requirements)) (\<lambda>extensions.
         iret (init_plugins extensions m)))"

definition em_make_test_instance ::
    "'o extension list \<Rightarrow> string \<Rightarrow> bool \<Rightarrow> failure_callback option \<Rightarrow> 'o manager" where
  "em_make_test_instance extensions namespace propagate callback =
     init_plugins extensions (init_attributes namespace propagate callback)"

section \<open>Access by name\<close>

definition by_name_dict :: "'o extension list \<Rightarrow> (string \<times> 'o extension) list" where
  "by_name_dict = foldl (\<lambda>d e. dict_set (ext_name e) e d) []"

definition extensions_by_name ::
    "('o, 'z) manager_scheme \<Rightarrow> (string \<times> 'o extension) list \<times> ('o, 'z) manager_scheme" where
  "extensions_by_name m = (case mg_by_name_cache m of
       Some d \<Rightarrow> (d, m)
     | None \<Rightarrow> (let d = by_name_dict (mg_extensions m) in (d, m\<lparr>mg_by_name_cache := Some d\<rparr>)))"

definition em_names :: "('o, 'z) manager_scheme \<Rightarrow> string list" where
  "em_names m = map ext_name (mg_extensions m)"

definition em_items ::
    "('o, 'z) manager_scheme \<Rightarrow> (string \<times> 'o extension) list \<times> ('o, 'z) manager_scheme" where
  "em_items m = extensions_by_name m"

definition em_getitem ::
    "('o, 'z) manager_scheme \<Rightarrow> string \<Rightarrow> 'o extension res \<times> ('o, 'z) manager_scheme" where
  "em_getitem m name = (case extensions_by_name m of (d, m') \<Rightarrow> (dict_get d name, m'))"

definition em_contains :: "('o, 'z) manager_scheme \<Rightarrow> string \<Rightarrow> bool" where
  "em_contains m name \<longleftrightarrow> list_ex (\<lambda>e. ext_name e = name) (mg_extensions m)"

section \<open>Calling the extensions\<close>

text \<open>\<^verbatim>\<open>func(e, *args, **kwds)\<close> is a program of the extension.\<close>

definition invoke_one_plugin ::
    "bool \<Rightarrow> ('o extension \<Rightarrow> 'r stv) \<Rightarrow> 'r list \<Rightarrow> 'o extension \<Rightarrow> 'r list stv" where
  "invoke_one_plugin propagate func response e =
     icatch (ibind (func e) (\<lambda>r. iret (response @ [r])))
       is_Exception
       (\<lambda>err. if propagate then iraise err
              else ibind (log_ev (LogCallError (ext_name e) err)) (\<lambda>_. iret response))"

definition no_extensions_msg :: "string \<Rightarrow> string" where
  "no_extensions_msg namespace = ''No '' @ namespace @ '' extensions found''"

definition em_map :: "('o, 'z) manager_scheme \<Rightarrow> ('o extension \<Rightarrow> 'r stv) \<Rightarrow> 'r list stv" where
  "em_map m func =
     (if mg_extensions m = [] then iraise (NoMatches (no_extensions_msg (mg_namespace m)))
      else ifold (invoke_one_plugin (mg_propagate_map_exceptions m) func) [] (mg_extensions m))"

text \<open>\<^verbatim>\<open>getattr(extension.obj, method_name)(...)\<close>, given how methods of objects are called.\<close>

definition call_extension_method ::
    "('o option \<Rightarrow> string \<Rightarrow> 'r stv) \<Rightarrow> string \<Rightarrow> 'o extension \<Rightarrow> 'r stv" where
  "call_extension_method call_method method_name extension = call_method (ext_obj extension) method_name"

definition em_map_method ::
    "('o, 'z) manager_scheme \<Rightarrow> ('o option \<Rightarrow> string \<Rightarrow> 'r stv) \<Rightarrow> string \<Rightarrow> 'r list stv" where
  "em_map_method m call_method method_name =
     em_map m (call_extension_method call_method method_name)"

section \<open>Lookup by name\<close>

definition last_named :: "string \<Rightarrow> 'o extension list \<Rightarrow> 'o extension option" where
  "last_named n es = find (\<lambda>e. ext_name e = n) (rev es)"

lemma by_name_dict_snoc: "by_name_dict (es @ [e]) = dict_set (ext_name e) e (by_name_dict es)"
  by (simp add: by_name_dict_def)

lemma map_of_by_name_dict: "map_of (by_name_dict es) n = last_named n es"
proof (induction es rule: rev_induct)
  case Nil
  then show ?case by (simp add: by_name_dict_def last_named_def)
next
  case (snoc e es)
  then show ?case by (simp add: by_name_dict_snoc last_named_def)
qed

lemma last_named_None: "last_named n es = None \<longleftrightarrow> n \<notin> ext_name ` set es"
  by (auto simp: last_named_def find_None_iff)

lemma find_SomeD: "find P xs = Some x \<Longrightarrow> x \<in> set xs \<and> P x"
  by (induction xs) (auto split: if_splits)

lemma last_named_Some: "last_named n es = Some e \<Longrightarrow> e \<in> set es \<and> ext_name e = n"
  unfolding last_named_def by (drule find_SomeD) simp

lemma last_named_distinct:
  assumes "distinct (map ext_name es)" "e \<in> set es"
  shows "last_named (ext_name e) es = Some e"
proof (cases "last_named (ext_name e) es")
  case None
  with assms(2) show ?thesis by (auto simp: last_named_None)
next
  case (Some e')
  with last_named_Some [OF Some] assms show ?thesis by (auto simp: distinct_map dest: inj_onD)
qed

text \<open>The cached dictionary is the one of the current extensions.\<close>

definition by_name_inv :: "('o, 'z) manager_scheme \<Rightarrow> bool" where
  "by_name_inv m \<longleftrightarrow> (case mg_by_name_cache m of
       None \<Rightarrow> True
     | Some d \<Rightarrow> \<forall>n. map_of d n = last_named n (mg_extensions m))"

lemma by_name_inv_init [simp]: "by_name_inv (init_plugins es m)"
  by (simp add: by_name_inv_def init_plugins_def)

lemma extensions_by_name_inv:
  assumes "by_name_inv m" "extensions_by_name m = (d, m')"
  shows "map_of d n = last_named n (mg_extensions m) \<and> by_name_inv m'
     \<and> mg_extensions m' = mg_extensions m"
  using assms
  by (auto simp: by_name_inv_def extensions_by_name_def Let_def map_of_by_name_dict split: option.splits)

lemma em_getitem_inv:
  assumes "by_name_inv m" "em_getitem m n = (r, m')"
  shows "r = (case last_named n (mg_extensions m) of None \<Rightarrow> Inl (KeyError n) | Some e \<Rightarrow> Inr e)
     \<and> by_name_inv m' \<and> mg_extensions m' = mg_extensions m"
proof -
  obtain d m1 where d: "extensions_by_name m = (d, m1)" by (cases "extensions_by_name m")
  with assms(2) have "r = dict_get d n" "m' = m1" by (simp_all add: em_getitem_def)
  with extensions_by_name_inv [OF assms(1) d, of n] show ?thesis by (simp add: dict_get_def)
qed

text \<open>A sequence of lookups, the manager threaded through.\<close>

fun em_getitems :: "('o, 'z) manager_scheme \<Rightarrow> string list \<Rightarrow> 'o extension res list \<times> ('o, 'z) manager_scheme" where
  "em_getitems m [] = ([], m)"
| "em_getitems m (n # ns) = (case em_getitem m n of (r, m1) \<Rightarrow>
     (case em_getitems m1 ns of (rs, m2) \<Rightarrow> (r # rs, m2)))"

lemma em_getitems_inv:
  "by_name_inv m \<Longrightarrow> em_getitems m ns = (rs, m') \<Longrightarrow>
     rs = map (\<lambda>n. case last_named n (mg_extensions m) of None \<Rightarrow> Inl (KeyError n) | Some e \<Rightarrow> Inr e) ns
     \<and> by_name_inv m' \<and> mg_extensions m' = mg_extensions m"
proof (induction ns arbitrary: m rs)
  case (Cons n ns)
  obtain r m1 where r: "em_getitem m n = (r, m1)" by (cases "em_getitem m n")
  obtain qs m2 where q: "em_getitems m1 ns = (qs, m2)" by (cases "em_getitems m1 ns")
  from em_getitem_inv [OF Cons.prems(1) r] Cons.IH [of m1 qs] Cons.prems(2) r q
  show ?case by simp
qed auto

theorem em_lookup_last:
  assumes "em_getitems (em_make_test_instance es namespace propagate callback) ns = (rs, m)"
  shows "rs = map (\<lambda>n. case last_named n es of None \<Rightarrow> Inl (KeyError n) | Some e \<Rightarrow> Inr e) ns
     \<and> (\<forall>n. em_contains m n \<longleftrightarrow> last_named n es \<noteq> None) \<and> em_names m = map ext_name es"
proof -
  let ?m = "em_make_test_instance es namespace propagate callback"
  have "by_name_inv ?m" by (simp add: em_make_test_instance_def)
  moreover have "mg_extensions ?m = es" by (simp add: em_make_test_instance_def init_plugins_def)
  ultimately show ?thesis
    using em_getitems_inv [OF _ assms]
    by (auto simp: em_contains_def list_ex_iff last_named_None em_names_def)
qed

section \<open>What a loading loop returns\<close>

text \<open>
  The contract between the loading loop and the \<^verbatim>\<open>_load_one_plugin\<close> methods of the classes: an
  extension is named after the entry point it comes from and satisfies what the class asks for.
\<close>

locale plugin_loader =
  fixes load_one :: "entry_point \<Rightarrow> 'o extension option stv"
    and accepts :: "'o extension \<Rightarrow> bool"
  assumes load_one_ext:
    "load_one ep w = (Inr (Some e), w') \<Longrightarrow>
       ext_name e = ep_name ep \<and> ext_entry_point e = ep \<and> accepts e"
begin

definition loaded_from :: "entry_point list \<Rightarrow> 'o extension list \<Rightarrow> bool" where
  "loaded_from eps es \<longleftrightarrow> subseq (map ext_entry_point es) eps
     \<and> (\<forall>e \<in> set es. ext_name e = ep_name (ext_entry_point e) \<and> accepts e)"

lemma load_step_cases:
  assumes "load_step callback load_one es ep w = (Inr es', w')"
  shows "es' = es \<or> (\<exists>e. es' = es @ [e] \<and> ext_name e = ep_name ep \<and> ext_entry_point e = ep \<and> accepts e)"
proof -
  let ?body = "ibind (load_one ep) (\<lambda>ext. case ext of Some e \<Rightarrow> iret (es @ [e]) | None \<Rightarrow> iret es)"
  obtain w1 where "log_ev (LogFound (ep_name ep)) w = (Inr (), w1)" by (simp add: log_ev_def)
  then have run: "icatch ?body load_handled (\<lambda>err. ibind (case callback of Some f \<Rightarrow> f ep err
      | None \<Rightarrow> log_ev (LogNotLoaded (ep_name ep) err)) (\<lambda>_. iret es)) w1 = (Inr es', w')"
    using assms by (simp add: load_step_def ibind_def)
  obtain r w2 where body: "?body w1 = (r, w2)" by (cases "?body w1")
  show ?thesis
  proof (cases r)
    case (Inl err)
    then show ?thesis
      using run body by (auto simp: icatch_def ibind_eq_Inr split: if_splits)
  next
    case (Inr es2)
    with run body have "es2 = es'" by (simp add: icatch_def)
    with body Inr show ?thesis
      by (auto simp: ibind_eq_Inr split: option.splits dest!: load_one_ext)
  qed
qed

lemma load_loop:
  assumes "ifold (load_step callback load_one) es eps w = (Inr es', w')"
    and "loaded_from pre es"
  shows "loaded_from (pre @ eps) es'"
  using assms
proof (induction eps arbitrary: pre es w)
  case (Cons ep eps)
  then obtain es1 w1 where step: "load_step callback load_one es ep w = (Inr es1, w1)"
    and rest: "ifold (load_step callback load_one) es1 eps w1 = (Inr es', w')"
    by (auto simp: ibind_eq_Inr)
  have "loaded_from (pre @ [ep]) es1"
    using load_step_cases [OF step] Cons.prems(2)
    by (auto simp: loaded_from_def subseq_rev_drop_many intro: list_emb_append_mono subseq_order.trans)
  from Cons.IH [OF rest this] show ?case by simp
qed auto

lemma load_plugins_loaded:
  assumes "load_plugins E m load_one w = (Inr es, w')"
  shows "\<exists>eps w1. list_entry_points E (mg_namespace m) w = (Inr eps, w1) \<and> loaded_from eps es"
proof -
  from assms obtain eps w1 where "list_entry_points E (mg_namespace m) w = (Inr eps, w1)"
    and "ifold (load_step (mg_on_load_failure_callback m) load_one) [] eps w1 = (Inr es, w')"
    by (auto simp: load_plugins_def ibind_eq_Inr)
  with load_loop [of _ "[]" eps w1 es w' "[]"] show ?thesis by (auto simp: loaded_from_def)
qed

end

lemma load_one_plugin_ext:
  "load_one_plugin E invoke verify ep w = (Inr (Some e), w') \<Longrightarrow>
     ext_name e = ep_name ep \<and> ext_entry_point e = ep"
  by (auto simp: load_one_plugin_def ibind_eq_Inr Extension_def)

interpretation base: plugin_loader "load_one_plugin E invoke verify" "\<lambda>_. True"
  by unfold_locales (auto dest: load_one_plugin_ext)

section \<open>What map returns\<close>

text \<open>The specification: every extension is called; the exceptions are logged in between.\<close>

fun call_all ::
    "('o extension \<Rightarrow> 'r stv) \<Rightarrow> 'o extension list \<Rightarrow> stv_world \<Rightarrow> 'r res list \<times> stv_world" where
  "call_all f [] w = ([], w)"
| "call_all f (e # es) w =
     (case f e w of
        (Inr v, w1) \<Rightarrow> (case call_all f es w1 of (rs, w2) \<Rightarrow> (Inr v # rs, w2))
      | (Inl x, w1) \<Rightarrow>
          (case call_all f es (snd (log_ev (LogCallError (ext_name e) x) w1)) of
             (rs, w2) \<Rightarrow> (Inl x # rs, w2)))"

definition results :: "'r res list \<Rightarrow> 'r list" where
  "results rs = concat (map (\<lambda>r. case r of Inl x \<Rightarrow> [] | Inr v \<Rightarrow> [v]) rs)"

definition tolerable :: "'r res \<Rightarrow> bool" where
  "tolerable r \<longleftrightarrow> (case r of Inl x \<Rightarrow> is_Exception x | Inr v \<Rightarrow> True)"

lemma call_all_length: "call_all f es w = (rs, w') \<Longrightarrow> length rs = length es"
  by (induction es arbitrary: w rs) (auto split: prod.splits sum.splits)

lemma log_ev_exec: "log_ev ev w = (Inr (), snd (log_ev ev w))"
  by (simp add: log_ev_def)

lemma invoke_tolerant_loop:
  "call_all f es w = (rs, w') \<Longrightarrow> list_all tolerable rs \<Longrightarrow>
     ifold (invoke_one_plugin False f) response es w = (Inr (response @ results rs), w')"
proof (induction es arbitrary: response w rs)
  case Nil
  then show ?case by (simp add: results_def)
next
  case (Cons e es)
  obtain r w1 where r: "f e w = (r, w1)" by (cases "f e w")
  define w2 where "w2 = (case r of Inl x \<Rightarrow> snd (log_ev (LogCallError (ext_name e) x) w1) | Inr v \<Rightarrow> w1)"
  obtain qs w3 where q: "call_all f es w2 = (qs, w3)" by (cases "call_all f es w2")
  have rs: "rs = r # qs" "w3 = w'"
    using Cons.prems(1) r q by (auto simp: w2_def split: sum.splits)
  have step: "invoke_one_plugin False f response e w = (Inr (response @ results [r]), w2)"
    using r Cons.prems(2) rs
    by (auto simp: invoke_one_plugin_def icatch_def ibind_def w2_def results_def tolerable_def log_ev_def
        split: sum.splits)
  have "ifold (invoke_one_plugin False f) (response @ results [r]) es w2
      = (Inr ((response @ results [r]) @ results qs), w')"
    by (rule Cons.IH) (use q rs Cons.prems(2) in auto)
  then show ?case
    using step by (simp add: ibind_Inr rs results_def)
qed

text \<open>
  C6: Without propagation, map over a manager with extensions calls the function on every
  extension in order and returns the results of the calls that did not fail, when every failure
  is an ordinary exception.
\<close>
theorem em_map_tolerant:
  assumes "mg_extensions m \<noteq> []" "\<not> mg_propagate_map_exceptions m"
    and "call_all f (mg_extensions m) w = (rs, w')" "list_all tolerable rs"
  shows "em_map m f w = (Inr (results rs), w') \<and> length rs = length (mg_extensions m)"
  using assms invoke_tolerant_loop [OF assms(3,4), of "[]"] call_all_length [OF assms(3)]
  by (simp add: em_map_def)

text \<open>With propagation, the calls are a sequence that stops at the first exception.\<close>

fun in_sequence :: "('x \<Rightarrow> ('s, 'a) st) \<Rightarrow> 'x list \<Rightarrow> ('s, 'a list) st" where
  "in_sequence f [] = iret []"
| "in_sequence f (x # xs) = ibind (f x) (\<lambda>y. ibind (in_sequence f xs) (\<lambda>ys. iret (y # ys)))"

lemma invoke_propagating:
  "invoke_one_plugin True f response e = ibind (f e) (\<lambda>r. iret (response @ [r]))"
  by (rule ext) (auto simp: invoke_one_plugin_def icatch_def ibind_def split: prod.splits sum.splits)

lemma invoke_propagating_loop:
  "ifold (invoke_one_plugin True f) response es w
     = ibind (in_sequence f es) (\<lambda>rs. iret (response @ rs)) w"
proof (induction es arbitrary: response w)
  case (Cons e es)
  then show ?case
    by (auto simp: invoke_propagating ibind_def split: prod.splits sum.splits)
qed simp

theorem em_map_propagating:
  assumes "mg_extensions m \<noteq> []" "mg_propagate_map_exceptions m"
  shows "em_map m f w = in_sequence f (mg_extensions m) w"
proof -
  have "em_map m f w = ibind (in_sequence f (mg_extensions m)) (\<lambda>rs. iret ([] @ rs)) w"
    using assms by (simp only: em_map_def if_False invoke_propagating_loop if_cancel)
  then show ?thesis by (auto simp: ibind_def split: prod.splits sum.splits)
qed

section \<open>The entry point cache\<close>

text \<open>
  A namespace is in the cache once it has been scanned, and it is scanned at most once; programs
  that keep this and the cached lists.
\<close>

definition scan_inv :: "stv_world \<Rightarrow> bool" where
  "scan_inv w \<longleftrightarrow> (\<forall>ns. count_list (stv_log w) (IterEntryPoints ns)
     \<le> (if map_of (entry_point_cache w) ns = None then 0 else 1))"

definition respectful :: "'a stv \<Rightarrow> bool" where
  "respectful p \<longleftrightarrow> (\<forall>w. scan_inv w \<longrightarrow> scan_inv (snd (p w))
     \<and> map_of (entry_point_cache w) \<subseteq>\<^sub>m map_of (entry_point_cache (snd (p w))))"

text \<open>Entry points are found without touching the managers' cache and without an exception.\<close>

definition scanner :: "(string \<Rightarrow> entry_point list stv) \<Rightarrow> bool" where
  "scanner iter \<longleftrightarrow> (\<forall>ns w. \<exists>eps w'. iter ns w = (Inr eps, w')
     \<and> entry_point_cache w' = entry_point_cache w
     \<and> (\<forall>n. count_list (stv_log w') (IterEntryPoints n) = count_list (stv_log w) (IterEntryPoints n)))"

lemma respectful_iret [simp]: "respectful (iret x)" "respectful (iraise e)" "respectful (ilift r)"
  by (simp_all add: respectful_def)

lemma respectful_log: "(\<And>ns. ev \<noteq> IterEntryPoints ns) \<Longrightarrow> respectful (log_ev ev)"
  by (auto simp: respectful_def log_ev_def scan_inv_def)

lemma respectful_ibind:
  assumes "respectful m" "\<And>x. respectful (f x)"
  shows "respectful (ibind m f)"
  using assms unfolding respectful_def ibind_def
  by (auto split: prod.splits sum.splits) (metis map_le_trans snd_conv)+

lemma respectful_icatch:
  assumes "respectful m" "\<And>e. P e \<Longrightarrow> respectful (h e)"
  shows "respectful (icatch m P h)"
  using assms unfolding respectful_def icatch_def
  by (auto split: prod.splits sum.splits) (metis map_le_trans snd_conv)+

lemma respectful_ifold: "(\<And>s x. respectful (f s x)) \<Longrightarrow> respectful (ifold f s xs)"
  by (induction xs arbitrary: s) (auto intro: respectful_ibind)

lemma respectful_list_entry_points:
  assumes "scanner (iter_entry_points E)"
  shows "respectful (list_entry_points E ns)"
  unfolding respectful_def
proof (intro allI impI)
  fix w assume inv: "scan_inv w"
  show "scan_inv (snd (list_entry_points E ns w))
     \<and> map_of (entry_point_cache w) \<subseteq>\<^sub>m map_of (entry_point_cache (snd (list_entry_points E ns w)))"
  proof (cases "map_of (entry_point_cache w) ns")
    case None
    let ?w = "w\<lparr>stv_log := stv_log w @ [IterEntryPoints ns]\<rparr>"
    from assms obtain eps w' where it: "iter_entry_points E ns ?w = (Inr eps, w')"
      "entry_point_cache w' = entry_point_cache w"
      "\<And>n. count_list (stv_log w') (IterEntryPoints n) = count_list (stv_log ?w) (IterEntryPoints n)"
      unfolding scanner_def by (metis stv_world.select_convs(1) stv_world.simps(4) stv_world.ext_inject stv_world.surjective stv_world.update_convs(2))
    let ?cache = "dict_set ns eps (entry_point_cache w)"
    have run: "list_entry_points E ns w = (Inr eps, w'\<lparr>entry_point_cache := ?cache\<rparr>)"
      using None it by (simp add: list_entry_points_def log_ev_def ibind_def)
    have count: "count_list (stv_log w') (IterEntryPoints n)
        = count_list (stv_log w) (IterEntryPoints n) + (if ns = n then 1 else 0)" for n
      by (simp add: it(3))
    have inv_at: "count_list (stv_log w) (IterEntryPoints n)
        \<le> (if map_of (entry_point_cache w) n = None then 0 else 1)" for n
      using inv by (simp add: scan_inv_def)
    have "count_list (stv_log w') (IterEntryPoints n) \<le> (if map_of ?cache n = None then 0 else 1)" for n
      using count [of n] inv_at [of n] None by (cases "ns = n") auto
    then show ?thesis
      using None by (auto simp: run scan_inv_def map_le_def)
  next
    case (Some eps)
    then show ?thesis using inv by (simp add: list_entry_points_def)
  qed
qed

definition respectful_env :: "'o stv_env \<Rightarrow> bool" where
  "respectful_env E \<longleftrightarrow> scanner (iter_entry_points E) \<and> (\<forall>ep. respectful (ep_require E ep))
     \<and> (\<forall>ep. respectful (ep_resolve E ep)) \<and> (\<forall>ep b. respectful (ep_load E ep b))"

lemma respectful_load_one:
  assumes "respectful_env E" "\<And>call p. invoke = Some call \<Longrightarrow> respectful (call p)"
  shows "respectful (load_one_plugin E invoke verify ep)"
  using assms unfolding load_one_plugin_def respectful_env_def
  by (auto intro!: respectful_ibind respectful_log split: option.splits)

lemma respectful_load_plugins:
  assumes "respectful_env E" "\<And>ep. respectful (load_one ep)"
    and "\<And>call ep err. mg_on_load_failure_callback m = Some call \<Longrightarrow> respectful (call ep err)"
  shows "respectful (load_plugins E m load_one)"
  using assms unfolding load_plugins_def load_step_def respectful_env_def
  by (auto intro!: respectful_ibind respectful_ifold respectful_icatch respectful_log
      respectful_list_entry_points split: option.splits)

lemma respectful_ExtensionManager:
  assumes "respectful_env E" "\<And>call p. invoke = Some call \<Longrightarrow> respectful (call p)"
    and "\<And>call ep err. callback = Some call \<Longrightarrow> respectful (call ep err)"
  shows "respectful (ExtensionManager E ns invoke propagate callback verify)"
  unfolding ExtensionManager_def Let_def
  by (intro respectful_ibind respectful_load_plugins respectful_load_one assms)
     (auto simp: init_attributes_def assms)

section \<open>A concrete package index\<close>

text \<open>Two entry points share a name, one does not load, one call fails.\<close>

definition demo_ep :: "string \<Rightarrow> string \<Rightarrow> entry_point" where
  "demo_ep name module =
     \<lparr>ep_name = name, ep_module_name = module, ep_attrs = [''Plugin''], ep_new_api = True\<rparr>"

definition demo_env :: "string stv_env" where
  "demo_env = \<lparr>
     iter_entry_points = \<lambda>ns. iret [demo_ep ''a'' ''m1'', demo_ep ''b'' ''m2'', demo_ep ''a'' ''m3'',
                                  demo_ep ''broken'' ''m4''],
     ep_require = \<lambda>ep. iret (),
     ep_resolve = \<lambda>ep. if ep_name ep = ''broken'' then iraise (ImportError ''m4'')
                       else iret (ep_module_name ep),
     ep_load = \<lambda>ep b. iret (ep_module_name ep),
     obj_true = \<lambda>p. p \<noteq> []\<rparr>"

definition no_world :: stv_world where
  "no_world = \<lparr>entry_point_cache = [], stv_log = []\<rparr>"

definition demo_extensions :: "string extension list" where
  "demo_extensions = map (\<lambda>(n, m). Extension n (demo_ep n m) m None) [(''a'', ''m1''), (''b'', ''m2''), (''a'', ''m3'')]"

definition demo_call :: "string extension \<Rightarrow> string stv" where
  "demo_call e = (if ext_name e = ''b'' then iraise (ValueError ''b'')
     else ibind (log_ev (Called (ext_name e))) (\<lambda>_. iret (ext_plugin e)))"

lemma demo_respectful: "respectful_env demo_env"
  by (auto simp: respectful_env_def demo_env_def scanner_def)

theorem em_lookup_last_witness:
  "\<exists>m. em_getitems (em_make_test_instance demo_extensions ''n'' False None) [''a'', ''c'']
     = ([Inr (demo_extensions ! 2), Inl (KeyError ''c'')], m) \<and> em_contains m ''b'' \<and> \<not> em_contains m ''c''"
proof -
  obtain rs m where run: "em_getitems (em_make_test_instance demo_extensions ''n'' False None) [''a'', ''c''] = (rs, m)"
    by fastforce
  note found = em_lookup_last [OF run]
  then have "rs = [Inr (demo_extensions ! 2), Inl (KeyError ''c'')]"
    by (simp add: last_named_def demo_extensions_def Extension_def)
  moreover have "em_contains m ''b''" "\<not> em_contains m ''c''"
    using found by (simp_all add: last_named_def demo_extensions_def Extension_def)
  ultimately show ?thesis using run by blast
qed

theorem em_map_tolerant_witness:
  "\<exists>w'. em_map (em_make_test_instance demo_extensions ''n'' False None) demo_call no_world = (Inr [''m1'', ''m3''], w')"
proof -
  let ?m = "em_make_test_instance demo_extensions ''n'' False None"
  have ext: "mg_extensions ?m = demo_extensions" by (simp add: em_make_test_instance_def init_plugins_def)
  obtain rs w' where run: "call_all demo_call demo_extensions no_world = (rs, w')" by fastforce
  then have rs: "rs = [Inr ''m1'', Inl (ValueError ''b''), Inr ''m3'']"
    by (auto simp: demo_extensions_def Extension_def demo_call_def log_ev_def ibind_def no_world_def)
  have "em_map ?m demo_call no_world = (Inr (results rs), w') \<and> length rs = length (mg_extensions ?m)"
    by (rule em_map_tolerant)
       (use run rs in \<open>simp_all add: ext tolerable_def is_Exception_def, simp_all add: demo_extensions_def em_make_test_instance_def init_attributes_def init_plugins_def\<close>)
  then show ?thesis by (simp add: rs results_def)
qed

theorem em_map_propagating_witness:
  "fst (em_map (em_make_test_instance demo_extensions ''n'' True None) demo_call no_world) = Inl (ValueError ''b'')"
proof -
  let ?m = "em_make_test_instance demo_extensions ''n'' True None"
  have "mg_extensions ?m = demo_extensions \<and> mg_propagate_map_exceptions ?m"
    by (simp add: em_make_test_instance_def init_plugins_def init_attributes_def)
  moreover have "demo_extensions \<noteq> []" by (simp add: demo_extensions_def)
  ultimately have "em_map ?m demo_call no_world = in_sequence demo_call demo_extensions no_world"
    using em_map_propagating [of ?m demo_call no_world] by simp
  then show ?thesis
    by (simp add: demo_extensions_def Extension_def demo_call_def log_ev_def ibind_def)
qed

end
