(* ===== verification/Stv_Named.thy ===== *)
theory Stv_Named
  imports Stv_Extension
begin

text \<open>
  \<^verbatim>\<open>stevedore/named.py\<close>, \<^verbatim>\<open>stevedore/driver.py\<close> and \<^verbatim>\<open>stevedore/hook.py\<close>: the manager of the
  extensions with given names, optionally in the order of the names, the manager of exactly one
  driver and the manager of all extensions of one name.  The set of missing names is a list
  without duplicates, in the order of the names asked for.
\<close>

section \<open>Named extensions\<close>

record 'o named_manager = "'o manager" +
  nm_names :: "string list"
  nm_missing_names :: "string list"
  nm_name_order :: bool

definition named_init_attributes ::
    "string \<Rightarrow> string list \<Rightarrow> bool \<Rightarrow> bool \<Rightarrow> failure_callback option \<Rightarrow> 'o named_manager" where
  "named_init_attributes namespace names name_order propagate callback =
     manager.extend (init_attributes namespace propagate callback)
       \<lparr>nm_names = names, nm_missing_names = [], nm_name_order = name_order\<rparr>"

definition named_init_plugins ::
    "'o extension list \<Rightarrow> 'o named_manager \<Rightarrow> 'o named_manager res" where
  "named_init_plugins extensions m =
     (let m1 = init_plugins extensions m
      in if nm_name_order m1 then
           (case em_getitems m1 (filter (\<lambda>n. n \<notin> set (nm_missing_names m1)) (nm_names m1)) of
              (found, m2) \<Rightarrow> rbind (mapR (\<lambda>r. r) found) (\<lambda>es. Inr (m2\<lparr>mg_extensions := es\<rparr>)))
         else Inr m1)"

definition named_load_one ::
    "string list \<Rightarrow> 'o stv_env \<Rightarrow> ('o \<Rightarrow> 'o stv) option \<Rightarrow> bool \<Rightarrow> entry_point
     \<Rightarrow> 'o extension option stv" where
  "named_load_one names E invoke verify_requirements ep =
     (if ep_name ep \<notin> set names then iret None
      else load_one_plugin E invoke verify_requirements ep)"

type_synonym missing_callback = "string list \<Rightarrow> unit stv"

text \<open>\<open>_init_plugins\<close> is a parameter: the driver manager overrides it.\<close>

definition named_construct ::
    "('o extension list \<Rightarrow> 'o named_manager \<Rightarrow> 'o named_manager res)
     \<Rightarrow> 'o stv_env \<Rightarrow> string \<Rightarrow> string list \<Rightarrow> ('o \<Rightarrow> 'o stv) option \<Rightarrow> bool \<Rightarrow> bool
     \<Rightarrow> failure_callback option \<Rightarrow> missing_callback option \<Rightarrow> bool \<Rightarrow> bool
     \<Rightarrow> 'o named_manager stv" where
  "named_construct init E namespace names invoke name_order propagate on_load_failure
     on_missing_entrypoints verify_requirements warn_on_missing_entrypoint =
     (let m = named_init_attributes namespace names name_order propagate on_load_failure
      in ibind (load_plugins E m (named_load_one names E invoke verify_requirements)) (\<lambda>extensions.
         (let missing = filter (\<lambda>n. n \<notin> set (map ext_name extensions)) (remdups names);
              m' = m\<lparr>nm_missing_names := missing\<rparr>
          in ibind (if missing \<noteq> [] then
                      (case on_missing_entrypoints of
                         Some callback \<Rightarrow> callback missing
                       | None \<Rightarrow> if warn_on_missing_entrypoint then log_ev (LogMissing missing)
                                 else iret ())
                    else iret ()) (\<lambda>_.
             ilift (init extensions m')))))"

definition NamedExtensionManager ::
    "'o stv_env \<Rightarrow> string \<Rightarrow> string list \<Rightarrow> ('o \<Rightarrow> 'o stv) option \<Rightarrow> bool \<Rightarrow> bool
     \<Rightarrow> failure_callback option \<Rightarrow> missing_callback option \<Rightarrow> bool \<Rightarrow> bool
     \<Rightarrow> 'o named_manager stv" where
  "NamedExtensionManager = named_construct named_init_plugins"

definition named_make_test_instance ::
    "'o extension list \<Rightarrow> string \<Rightarrow> bool \<Rightarrow> failure_callback option \<Rightarrow> 'o named_manager res" where
  "named_make_test_instance extensions namespace propagate callback =
     named_init_plugins extensions
       (named_init_attributes namespace (map ext_name extensions) False propagate callback)"

section \<open>One driver\<close>

definition driver_init_plugins ::
    "'o extension list \<Rightarrow> 'o named_manager \<Rightarrow> 'o named_manager res" where
  "driver_init_plugins extensions m =
     rbind (named_init_plugins extensions m) (\<lambda>m1.
       if mg_extensions m1 = [] then
         rbind (at (nm_names m1) 0) (\<lambda>name.
           Inl (NoMatches (''No '' @ repr_bytes (mg_namespace m1) @ '' driver found, looking for ''
                           @ repr_bytes name)))
       else if 1 < length (mg_extensions m1) then
         rbind (mapR entry_point_target (mg_extensions m1)) (\<lambda>targets.
           Inl (MultipleMatches (''Multiple '' @ repr_bytes (mg_namespace m1) @ '' drivers found: ''
                                 @ join '','' targets)))
       else Inr m1)"

text \<open>\<^verbatim>\<open>_default_on_load_failure\<close> re-raises the exception that is being handled.\<close>

definition default_on_load_failure :: failure_callback where
  "default_on_load_failure ep err = iraise err"

definition DriverManager ::
    "'o stv_env \<Rightarrow> string \<Rightarrow> string \<Rightarrow> ('o \<Rightarrow> 'o stv) option \<Rightarrow> failure_callback option
     \<Rightarrow> bool \<Rightarrow> bool \<Rightarrow> 'o named_manager stv" where
  "DriverManager E namespace name invoke on_load_failure verify_requirements warn_on_missing_entrypoint =
     named_construct driver_init_plugins E namespace [name] invoke False False
       (Some (case on_load_failure of None \<Rightarrow> default_on_load_failure | Some f \<Rightarrow> f))
       None verify_requirements warn_on_missing_entrypoint"

definition driver_make_test_instance ::
    "'o extension \<Rightarrow> string \<Rightarrow> bool \<Rightarrow> failure_callback option \<Rightarrow> 'o named_manager res" where
  "driver_make_test_instance extension namespace propagate callback =
     driver_init_plugins [extension]
       (named_init_attributes namespace [ext_name extension] False propagate callback)"

definition driver_call :: "'o named_manager \<Rightarrow> ('o extension \<Rightarrow> 'r stv) \<Rightarrow> 'r option stv" where
  "driver_call m func =
     ibind (em_map m func) (\<lambda>results. iret (case results of [] \<Rightarrow> None | r # _ \<Rightarrow> Some r))"

definition driver_driver :: "'o stv_env \<Rightarrow> 'o named_manager \<Rightarrow> 'o res" where
  "driver_driver E m =
     rbind (at (mg_extensions m) 0) (\<lambda>ext. Inr (case ext_obj ext of
         Some obj \<Rightarrow> if obj_true E obj then obj else ext_plugin ext
       | None \<Rightarrow> ext_plugin ext))"

section \<open>Hooks\<close>

record 'o hook_manager = "'o named_manager" +
  hk_name :: string

definition HookManager ::
    "'o stv_env \<Rightarrow> string \<Rightarrow> string \<Rightarrow> ('o \<Rightarrow> 'o stv) option \<Rightarrow> failure_callback option \<Rightarrow> bool
     \<Rightarrow> missing_callback option \<Rightarrow> bool \<Rightarrow> 'o hook_manager stv" where
  "HookManager E namespace name invoke on_load_failure verify_requirements
     on_missing_entrypoints warn_on_missing_entrypoint =
     ibind (named_construct named_init_plugins E namespace [name] invoke False False on_load_failure
              on_missing_entrypoints verify_requirements warn_on_missing_entrypoint)
       (\<lambda>m. iret (named_manager.extend m \<lparr>hk_name = name\<rparr>))"

definition hook_getitem :: "'o hook_manager \<Rightarrow> string \<Rightarrow> 'o extension list res" where
  "hook_getitem m name =
     (if name \<noteq> hk_name m then Inl (KeyError name) else Inr (mg_extensions m))"

section \<open>Named managers\<close>

interpretation named: plugin_loader "named_load_one names E invoke verify" "\<lambda>e. ext_name e \<in> set names"
  by unfold_locales (auto simp: named_load_one_def dest!: load_one_plugin_ext split: if_splits)

lemma named_construct_loads:
  assumes "named_construct init E namespace names invoke name_order propagate on_fail on_missing verify warn w
      = (Inr m, w')"
  shows "\<exists>eps w1 w2 es. list_entry_points E namespace w = (Inr eps, w1)
     \<and> load_plugins E (named_init_attributes namespace names name_order propagate on_fail)
         (named_load_one names E invoke verify) w = (Inr es, w2)
     \<and> subseq (map ext_entry_point es) eps
     \<and> (\<forall>e \<in> set es. ext_name e = ep_name (ext_entry_point e) \<and> ext_name e \<in> set names)
     \<and> init es ((named_init_attributes namespace names name_order propagate on_fail)
          \<lparr>nm_missing_names := filter (\<lambda>n. n \<notin> ext_name ` set es) (remdups names)\<rparr>) = Inr m"
proof -
  let ?m = "named_init_attributes namespace names name_order propagate on_fail"
  have ns: "mg_namespace ?m = namespace"
    by (simp add: named_init_attributes_def init_attributes_def manager.defs)
  from assms obtain es w2 where es: "load_plugins E ?m (named_load_one names E invoke verify) w = (Inr es, w2)"
    and init: "init es (?m\<lparr>nm_missing_names := filter (\<lambda>n. n \<notin> ext_name ` set es) (remdups names)\<rparr>) = Inr m"
    by (auto simp: named_construct_def Let_def ibind_eq_Inr)
  from named.load_plugins_loaded [OF es] es init show ?thesis
    unfolding named.loaded_from_def ns by blast
qed

lemma named_attributes [simp]:
  "nm_name_order (named_init_attributes namespace names name_order propagate cb) = name_order"
  "nm_names (named_init_attributes namespace names name_order propagate cb) = names"
  "mg_namespace (named_init_attributes namespace names name_order propagate cb) = namespace"
  "mg_propagate_map_exceptions (named_init_attributes namespace names name_order propagate cb) = propagate"
  by (simp_all add: named_init_attributes_def init_attributes_def manager.defs)

lemma em_getitem_frame: "em_getitem m n = (r, m') \<Longrightarrow> \<exists>c. m' = m\<lparr>mg_by_name_cache := c\<rparr>"
  by (auto simp: em_getitem_def extensions_by_name_def Let_def split: option.splits)
     (metis manager.surjective manager.update_convs(5))+

lemma em_getitems_frame: "em_getitems m ns = (rs, m') \<Longrightarrow> \<exists>c. m' = m\<lparr>mg_by_name_cache := c\<rparr>"
proof (induction ns arbitrary: m rs m')
  case Nil
  then show ?case by (metis em_getitems.simps(1) manager.surjective manager.update_convs(5) prod.inject)
next
  case (Cons n ns)
  obtain r m1 where r: "em_getitem m n = (r, m1)" by fastforce
  obtain qs m2 where q: "em_getitems m1 ns = (qs, m2)" by fastforce
  from Cons.IH [OF q] em_getitem_frame [OF r] Cons.prems r q show ?case by auto
qed

lemma mapR_found:
  "\<forall>n \<in> set ns. n \<in> ext_name ` set es \<Longrightarrow>
     mapR (\<lambda>r. r) (map (\<lambda>n. case last_named n es of None \<Rightarrow> Inl (KeyError n) | Some e \<Rightarrow> Inr e) ns)
       = Inr (map (\<lambda>n. the (last_named n es)) ns)"
  by (induction ns) (auto split: option.splits simp: last_named_None)

lemma named_init_plugins_ordered:
  assumes "nm_name_order m" "nm_missing_names m = filter (\<lambda>n. n \<notin> ext_name ` set es) (remdups (nm_names m))"
  shows "\<exists>m2. named_init_plugins es m = Inr m2
     \<and> mg_extensions m2 = map (\<lambda>n. the (last_named n es)) (filter (\<lambda>n. n \<in> ext_name ` set es) (nm_names m))
     \<and> nm_missing_names m2 = nm_missing_names m"
proof -
  let ?m = "init_plugins es m"
  let ?ns = "filter (\<lambda>n. n \<notin> set (nm_missing_names ?m)) (nm_names ?m)"
  have ns: "?ns = filter (\<lambda>n. n \<in> ext_name ` set es) (nm_names m)"
    using assms(2) by (auto simp: init_plugins_def intro!: filter_cong)
  obtain rs m2 where run: "em_getitems ?m ?ns = (rs, m2)" by fastforce
  have "mg_extensions ?m = es" by (simp add: init_plugins_def)
  with em_getitems_inv [OF by_name_inv_init run]
  have rs: "rs = map (\<lambda>n. case last_named n es of None \<Rightarrow> Inl (KeyError n) | Some e \<Rightarrow> Inr e) ?ns"
    by simp
  have "mapR (\<lambda>r. r) rs = Inr (map (\<lambda>n. the (last_named n es)) ?ns)"
    unfolding rs by (rule mapR_found) (simp add: ns)
  moreover have "nm_missing_names m2 = nm_missing_names m"
    using em_getitems_frame [OF run] by (auto simp: init_plugins_def)
  ultimately show ?thesis
    using assms(1) run ns by (simp add: named_init_plugins_def Let_def init_plugins_def)
qed


section \<open>Drivers\<close>

lemma driver_init_plugins_cases:
  assumes "nm_name_order m = False" "nm_names m = [name]"
  shows "case es of
      [] \<Rightarrow> \<exists>msg. driver_init_plugins es m = Inl (NoMatches msg)
    | [e] \<Rightarrow> driver_init_plugins es m = Inr (init_plugins [e] m)
    | _ \<Rightarrow> (\<exists>msg. driver_init_plugins es m = Inl (MultipleMatches msg))
          \<or> (driver_init_plugins es m = Inl IndexError \<and> (\<exists>e \<in> set es. ep_attrs (ext_entry_point e) = []))"
proof -
  have init: "named_init_plugins es m = Inr (init_plugins es m)"
    "nm_names (init_plugins es m) = [name]" "mg_extensions (init_plugins es m) = es"
    using assms by (simp_all add: named_init_plugins_def Let_def init_plugins_def)
  have targets: "(\<exists>ts. mapR entry_point_target es = Inr ts)
      \<or> (mapR entry_point_target es = Inl IndexError \<and> (\<exists>e \<in> set es. ep_attrs (ext_entry_point e) = []))" for es
    by (induction es) (auto simp: entry_point_target_def at_def)
  consider "es = []" | e where "es = [e]" | e1 e2 rest where "es = e1 # e2 # rest"
    by (cases es rule: remdups_adj.cases) auto
  then show ?thesis
  proof cases
    case 1
    then show ?thesis using init by (simp add: driver_init_plugins_def)
  next
    case 2
    then show ?thesis using init by (simp add: driver_init_plugins_def)
  next
    case 3
    then have "driver_init_plugins es m = rbind (mapR entry_point_target es) (\<lambda>targets.
        Inl (MultipleMatches (''Multiple '' @ repr_bytes (mg_namespace (init_plugins es m))
          @ '' drivers found: '' @ join '','' targets)))"
      using init by (simp add: driver_init_plugins_def)
    with 3 targets [of es] show ?thesis by (auto simp del: mapR.simps)
  qed
qed

text \<open>
  C15: A DriverManager exists exactly when one extension of the name loads: none gives
  NoMatches, several give MultipleMatches (IndexError when an entry point names no attribute),
  and its driver is the invoked object or else the plugin.
\<close>
theorem driver_manager_outcomes:
  fixes on_load_failure :: "failure_callback option"
  defines "cb \<equiv> Some (case on_load_failure of None \<Rightarrow> default_on_load_failure | Some f \<Rightarrow> f)"
  assumes "load_plugins E (named_init_attributes namespace [name] False False cb)
      (named_load_one [name] E invoke verify) w = (Inr es, w1)"
  shows "case es of
      [] \<Rightarrow> \<exists>msg. fst (DriverManager E namespace name invoke on_load_failure verify warn w) = Inl (NoMatches msg)
    | [e] \<Rightarrow> \<exists>m. fst (DriverManager E namespace name invoke on_load_failure verify warn w) = Inr m
          \<and> mg_extensions m = [e] \<and> ext_name e = name
          \<and> driver_driver E m = Inr (case ext_obj e of
               Some obj \<Rightarrow> if obj_true E obj then obj else ext_plugin e | None \<Rightarrow> ext_plugin e)
    | _ \<Rightarrow> (\<exists>msg. fst (DriverManager E namespace name invoke on_load_failure verify warn w)
              = Inl (MultipleMatches msg))
          \<or> (fst (DriverManager E namespace name invoke on_load_failure verify warn w) = Inl IndexError
             \<and> (\<exists>e \<in> set es. ep_attrs (ext_entry_point e) = []))"
proof -
  let ?m = "(named_init_attributes namespace [name] False False cb)
    \<lparr>nm_missing_names := filter (\<lambda>n. n \<notin> set (map ext_name es)) (remdups [name])\<rparr>"
  have run: "fst (DriverManager E namespace name invoke on_load_failure verify warn w)
      = driver_init_plugins es ?m"
    using assms by (simp add: DriverManager_def named_construct_def Let_def ibind_def log_ev_def)
  have one: "ext_name e = name" if "es = [e]" for e
    using named.load_plugins_loaded [OF assms(2)] that unfolding named.loaded_from_def by auto
  show ?thesis
    unfolding run using driver_init_plugins_cases [of ?m name es] one
    by (cases es rule: remdups_adj.cases) (auto simp: init_plugins_def driver_driver_def)
qed

section \<open>Hook managers\<close>

theorem hook_manager_extensions:
  assumes "HookManager E namespace name invoke on_fail verify on_missing warn w = (Inr m, w')"
  shows "hook_getitem m name = Inr (mg_extensions m)
     \<and> (\<forall>e \<in> set (mg_extensions m). ext_name e = name)
     \<and> (\<forall>n. n \<noteq> name \<longrightarrow> hook_getitem m n = Inl (KeyError n) \<and> \<not> em_contains m n)
     \<and> (em_contains m name \<longleftrightarrow> mg_extensions m \<noteq> [])"
proof -
  from assms obtain m1 where m1: "named_construct named_init_plugins E namespace [name] invoke False False
      on_fail on_missing verify warn w = (Inr m1, w')" and m: "m = named_manager.extend m1 \<lparr>hk_name = name\<rparr>"
    by (auto simp: HookManager_def ibind_eq_Inr)
  from named_construct_loads [OF m1] have "\<forall>e \<in> set (mg_extensions m1). ext_name e = name"
    by (auto simp: named_init_plugins_def Let_def init_plugins_def)
  moreover have "mg_extensions m = mg_extensions m1" "hk_name m = name"
    by (simp_all add: m named_manager.defs)
  ultimately show ?thesis
    by (auto simp: hook_getitem_def em_contains_def list_ex_iff ex_in_conv)
qed

section \<open>Witnesses\<close>

definition run_value :: "'a res \<times> 'w \<Rightarrow> 'a" where
  "run_value r = projr (fst r)"


theorem driver_manager_outcomes_witness:
  "\<exists>m. fst (DriverManager demo_env ''n'' ''b'' None None False True no_world) = Inr m
       \<and> driver_driver demo_env m = Inr ''m2''"
proof -
  let ?run = "load_plugins demo_env (named_init_attributes ''n'' [''b''] False False (Some default_on_load_failure))
      (named_load_one [''b''] demo_env None False) no_world"
  let ?e = "Extension ''b'' (demo_ep ''b'' ''m2'') ''m2'' None"
  have "fst ?run = Inr [?e]" by code_simp
  then have "?run = (Inr [?e], snd ?run)" by (metis prod.collapse)
  then show ?thesis
    using driver_manager_outcomes [of demo_env "''n''" "''b''" None None False no_world "[?e]" "snd ?run" True]
    by (auto simp: Extension_def)
qed

theorem hook_manager_extensions_witness:
  "\<exists>m. fst (HookManager demo_env ''n'' ''a'' None None False None False no_world) = Inr m
       \<and> hook_getitem m ''a'' = Inr (mg_extensions m) \<and> em_contains m ''a''"
proof -
  let ?run = "HookManager demo_env ''n'' ''a'' None None False None False no_world"
  have ok: "\<not> isl (fst ?run)" "mg_extensions (run_value ?run) \<noteq> []" by code_simp+
  from ok(1) have run: "?run = (Inr (run_value ?run), snd ?run)"
    by (cases "fst ?run") (auto simp: run_value_def prod_eq_iff)
  from hook_manager_extensions [OF run] ok(2) run show ?thesis by (metis fst_conv)
qed

end
