(* ===== verification/Stv_Enabled.thy ===== *)
theory Stv_Enabled
  imports Stv_Extension
begin

text \<open>
  \<^verbatim>\<open>stevedore/enabled.py\<close> and \<^verbatim>\<open>stevedore/dispatch.py\<close>: managers that keep only the extensions a
  check function accepts, and managers whose \<^verbatim>\<open>map\<close> calls only the extensions selected by a
  filter function or by a list of names.
\<close>

section \<open>Enabled extensions\<close>

record 'o enabled_manager = "'o manager" +
  en_check_func :: "'o extension \<Rightarrow> bool stv"

definition enabled_load_one ::
    "('o extension \<Rightarrow> bool stv) \<Rightarrow> 'o stv_env \<Rightarrow> ('o \<Rightarrow> 'o stv) option \<Rightarrow> bool
     \<Rightarrow> entry_point \<Rightarrow> 'o extension option stv" where
  "enabled_load_one check_func E invoke verify_requirements ep =
     ibind (load_one_plugin E invoke verify_requirements ep) (\<lambda>ext. case ext of
       None \<Rightarrow> iret None
     | Some e \<Rightarrow> ibind (check_func e) (\<lambda>ok.
         if ok then iret (Some e)
         else ibind (log_ev (LogIgnored (ep_name ep))) (\<lambda>_. iret None)))"

definition enabled_init_attributes ::
    "string \<Rightarrow> ('o extension \<Rightarrow> bool stv) \<Rightarrow> bool \<Rightarrow> failure_callback option \<Rightarrow> 'o enabled_manager" where
  "enabled_init_attributes namespace check_func propagate callback =
     manager.extend (init_attributes namespace propagate callback)
       \<lparr>en_check_func = check_func\<rparr>"

definition EnabledExtensionManager ::
    "'o stv_env \<Rightarrow> string \<Rightarrow> ('o extension \<Rightarrow> bool stv) \<Rightarrow> ('o \<Rightarrow> 'o stv) option \<Rightarrow> bool
     \<Rightarrow> failure_callback option \<Rightarrow> bool \<Rightarrow> 'o enabled_manager stv" where
  "EnabledExtensionManager E namespace check_func invoke propagate callback verify_requirements =
     (let m = enabled_init_attributes namespace check_func propagate callback
      in ibind (load_plugins E m (enabled_load_one check_func E invoke verify_requirements))
           (\<lambda>extensions. iret (init_plugins extensions m)))"

definition passes :: "('o extension \<Rightarrow> bool stv) \<Rightarrow> 'o extension \<Rightarrow> bool" where
  "passes check_func e \<longleftrightarrow> (\<exists>w w'. check_func e w = (Inr True, w'))"

lemma enabled_load_one_ext:
  "enabled_load_one check E invoke verify ep w = (Inr (Some e), w') \<Longrightarrow>
     ext_name e = ep_name ep \<and> ext_entry_point e = ep \<and> passes check e"
  unfolding enabled_load_one_def passes_def
  by (auto simp: ibind_eq_Inr split: option.splits if_splits dest: load_one_plugin_ext)

interpretation enabled: plugin_loader "enabled_load_one check E invoke verify" "passes check"
  by unfold_locales (rule enabled_load_one_ext)

text \<open>
  C33: Every extension of an EnabledExtensionManager passes the check function, carries the name
  of its entry point, and the extensions come in the order of the entry points of the namespace.
\<close>
theorem enabled_extensions_pass:
  assumes "EnabledExtensionManager E namespace check invoke propagate callback verify w = (Inr m, w')"
  shows "\<exists>eps w1. list_entry_points E namespace w = (Inr eps, w1)
     \<and> subseq (map ext_entry_point (mg_extensions m)) eps
     \<and> (\<forall>e \<in> set (mg_extensions m). ext_name e = ep_name (ext_entry_point e) \<and> passes check e)
     \<and> mg_namespace m = namespace"
proof -
  let ?m = "enabled_init_attributes namespace check propagate callback"
  have ns: "mg_namespace ?m = namespace"
    by (simp add: enabled_init_attributes_def init_attributes_def manager.defs)
  from assms obtain es where es: "load_plugins E ?m (enabled_load_one check E invoke verify) w = (Inr es, w')"
    and m: "m = init_plugins es ?m"
    by (auto simp: EnabledExtensionManager_def ibind_eq_Inr Let_def)
  from enabled.load_plugins_loaded [OF es] m show ?thesis
    by (auto simp: ns enabled.loaded_from_def init_plugins_def)
qed

section \<open>Dispatch by a filter function\<close>

definition dispatch_map ::
    "('o, 'z) manager_scheme \<Rightarrow> ('o extension \<Rightarrow> bool stv) \<Rightarrow> ('o extension \<Rightarrow> 'r stv) \<Rightarrow> 'r list stv" where
  "dispatch_map m filter_func func =
     (if mg_extensions m = [] then iraise (NoMatches (no_extensions_msg (mg_namespace m)))
      else ifold (\<lambda>response e.
             ibind (filter_func e) (\<lambda>selected.
             if selected
             then invoke_one_plugin (mg_propagate_map_exceptions m) func response e
             else iret response)) [] (mg_extensions m))"

definition dispatch_map_method ::
    "('o, 'z) manager_scheme \<Rightarrow> ('o extension \<Rightarrow> bool stv) \<Rightarrow> ('o option \<Rightarrow> string \<Rightarrow> 'r stv)
     \<Rightarrow> string \<Rightarrow> 'r list stv" where
  "dispatch_map_method m filter_func call_method method_name =
     dispatch_map m filter_func (call_extension_method call_method method_name)"

lemma filtered_loop:
  "ifold (\<lambda>response e. ibind (iret (p e)) (\<lambda>b. if b then f response e else iret response)) r es w
     = ifold f r (filter p es) w"
  by (induction es arbitrary: r w) (auto simp: ibind_def split: prod.splits sum.splits)

text \<open>A filter without effects: dispatching is mapping over the selected extensions.\<close>

theorem dispatch_map_filters:
  assumes "mg_extensions m \<noteq> []"
  shows "dispatch_map m (\<lambda>e. iret (p e)) func w =
     (if filter p (mg_extensions m) = [] then (Inr [], w)
      else em_map (m\<lparr>mg_extensions := filter p (mg_extensions m)\<rparr>) func w)"
  using assms filtered_loop [of p "invoke_one_plugin (mg_propagate_map_exceptions m) func" "[]" "mg_extensions m" w]
  by (simp add: dispatch_map_def em_map_def)

section \<open>Dispatch by names\<close>

record 'o name_dispatch_manager = "'o enabled_manager" +
  nd_by_name :: "(string \<times> 'o extension) list"

definition name_dispatch_init_plugins ::
    "'o extension list \<Rightarrow> 'o name_dispatch_manager \<Rightarrow> 'o name_dispatch_manager" where
  "name_dispatch_init_plugins extensions m =
     (let m' = init_plugins extensions m
      in m'\<lparr>nd_by_name := foldl (\<lambda>d e. dict_set (ext_name e) e d) [] (mg_extensions m')\<rparr>)"

definition NameDispatchExtensionManager ::
    "'o stv_env \<Rightarrow> string \<Rightarrow> ('o extension \<Rightarrow> bool stv) \<Rightarrow> ('o \<Rightarrow> 'o stv) option \<Rightarrow> bool
     \<Rightarrow> failure_callback option \<Rightarrow> bool \<Rightarrow> 'o name_dispatch_manager stv" where
  "NameDispatchExtensionManager E namespace check_func invoke propagate callback verify_requirements =
     (let m = enabled_manager.extend (enabled_init_attributes namespace check_func propagate callback)
                \<lparr>nd_by_name = []\<rparr>
      in ibind (load_plugins E m (enabled_load_one check_func E invoke verify_requirements))
           (\<lambda>extensions. iret (name_dispatch_init_plugins extensions m)))"

definition name_dispatch_map ::
    "'o name_dispatch_manager \<Rightarrow> string list \<Rightarrow> ('o extension \<Rightarrow> 'r stv) \<Rightarrow> 'r list stv" where
  "name_dispatch_map m names func =
     ifold (\<lambda>response name. case dict_get (nd_by_name m) name of
         Inl _ \<Rightarrow> ibind (log_ev (LogMissingExtension name)) (\<lambda>_. iret response)
       | Inr e \<Rightarrow> invoke_one_plugin (mg_propagate_map_exceptions m) func response e) [] names"

definition name_dispatch_map_method ::
    "'o name_dispatch_manager \<Rightarrow> string list \<Rightarrow> ('o option \<Rightarrow> string \<Rightarrow> 'r stv) \<Rightarrow> string
     \<Rightarrow> 'r list stv" where
  "name_dispatch_map_method m names call_method method_name =
     name_dispatch_map m names (call_extension_method call_method method_name)"

text \<open>A function whose outcome depends on the extension only, not on what happened before.\<close>

definition has_outcome :: "('o extension \<Rightarrow> 'r stv) \<Rightarrow> ('o extension \<Rightarrow> 'r res) \<Rightarrow> bool" where
  "has_outcome f out \<longleftrightarrow> (\<forall>e w. fst (f e w) = out e)"

lemma name_dispatch_by_name:
  "dict_get (nd_by_name (name_dispatch_init_plugins es m)) n
     = (case last_named n es of None \<Rightarrow> Inl (KeyError n) | Some e \<Rightarrow> Inr e)"
  using map_of_by_name_dict [of es n]
  by (simp add: name_dispatch_init_plugins_def init_plugins_def dict_get_def by_name_dict_def Let_def)

lemma name_dispatch_step:
  assumes "has_outcome f out" "\<And>e. tolerable (out e)"
  shows "fst (invoke_one_plugin False f response e w) = Inr (response @ results [out e])"
  using assms(1) [unfolded has_outcome_def, rule_format, of e w] assms(2) [of e]
  by (cases "f e w")
     (auto simp: invoke_one_plugin_def icatch_def ibind_def results_def tolerable_def log_ev_def
       split: sum.splits)


section \<open>Witnesses\<close>

definition demo_check :: "string extension \<Rightarrow> bool stv" where
  "demo_check e = iret (ext_name e = ''a'')"

theorem enabled_extensions_pass_witness:
  "\<exists>m w'. EnabledExtensionManager demo_env ''n'' demo_check None False None False no_world = (Inr m, w')
     \<and> (\<forall>e \<in> set (mg_extensions m). passes demo_check e) \<and> length (mg_extensions m) = 2"
proof -
  obtain r w' where run: "EnabledExtensionManager demo_env ''n'' demo_check None False None False no_world = (r, w')"
    by fastforce
  then obtain m where m: "r = Inr m" and len: "length (mg_extensions m) = 2"
    by (auto simp: EnabledExtensionManager_def Let_def load_plugins_def list_entry_points_def demo_env_def no_world_def
        enabled_init_attributes_def init_attributes_def manager.defs log_ev_def ibind_def load_step_def icatch_def
        enabled_load_one_def load_one_plugin_def demo_ep_def demo_check_def Extension_def init_plugins_def
        load_handled_def is_Exception_def)
  show ?thesis using enabled_extensions_pass [OF run [unfolded m]] run m len by blast
qed

theorem dispatch_map_filters_witness:
  "fst (dispatch_map (em_make_test_instance demo_extensions ''n'' False None) (\<lambda>e. iret (ext_name e = ''z''))
     demo_call no_world) = Inr []"
  by (subst dispatch_map_filters) (simp_all add: em_make_test_instance_def init_plugins_def demo_extensions_def Extension_def)

definition demo_name_dispatch :: "string name_dispatch_manager" where
  "demo_name_dispatch =
     enabled_manager.extend (enabled_init_attributes ''n'' demo_check False None) \<lparr>nd_by_name = []\<rparr>"


end
