(* ===== verification/Stv_Managers.thy ===== *)
theory Stv_Managers
  imports Stv_Named Stv_Enabled
begin

text \<open>
  The managers of \<^verbatim>\<open>stevedore\<close> together: they share the class attribute \<^verbatim>\<open>ENTRY_POINT_CACHE\<close>.
  A step creates a manager of any class (its construction may fail), lists the entry points of a
  namespace or maps a function over the extensions of a manager; in every reachable state a
  namespace has been scanned at most once and its list of entry points no longer changes.
  The plugins, callbacks and functions called may run any program that keeps the invariant of the
  cache, so they may create managers themselves.
\<close>

section \<open>Every operation keeps the cache\<close>

definition respectful_arguments :: "('o \<Rightarrow> 'o stv) option \<Rightarrow> failure_callback option \<Rightarrow> bool" where
  "respectful_arguments invoke callback \<longleftrightarrow>
     (\<forall>call p. invoke = Some call \<longrightarrow> respectful (call p))
     \<and> (\<forall>call ep err. callback = Some call \<longrightarrow> respectful (call ep err))"

lemma respectfulD:
  "respectful p \<Longrightarrow> scan_inv w \<Longrightarrow>
     scan_inv (snd (p w)) \<and> map_of (entry_point_cache w) \<subseteq>\<^sub>m map_of (entry_point_cache (snd (p w)))"
  by (simp add: respectful_def)

lemma respectful_plain:
  assumes "respectful_env E" "respectful_arguments invoke callback"
  shows "respectful (ExtensionManager E ns invoke propagate callback verify)"
  using assms by (auto intro: respectful_ExtensionManager simp: respectful_arguments_def)

lemma respectful_names_listed: "respectful_env E \<Longrightarrow> respectful (entry_points_names E ns)"
  by (auto simp: entry_points_names_def respectful_env_def intro!: respectful_ibind respectful_list_entry_points)

lemma respectful_enabled_load_one:
  assumes "respectful_env E" "respectful_arguments invoke callback" "\<And>e. respectful (check e)"
  shows "respectful (enabled_load_one check E invoke verify ep)"
  unfolding enabled_load_one_def
  using assms by (auto intro!: respectful_ibind respectful_load_one respectful_log
      simp: respectful_arguments_def split: option.splits)

lemma callback_of_attributes [simp]:
  "mg_on_load_failure_callback (init_attributes ns propagate callback) = callback"
  "mg_on_load_failure_callback (enabled_init_attributes ns check propagate callback) = callback"
  "mg_on_load_failure_callback (named_init_attributes ns names name_order propagate callback) = callback"
  "mg_on_load_failure_callback
     (enabled_manager.extend (enabled_init_attributes ns check propagate callback) \<lparr>nd_by_name = []\<rparr>) = callback"
  by (simp_all add: init_attributes_def enabled_init_attributes_def named_init_attributes_def
      manager.defs enabled_manager.defs)

lemma respectful_loading:
  assumes "respectful_env E" "respectful_arguments invoke (mg_on_load_failure_callback m)"
    "\<And>ep. respectful (load_one ep)" "\<And>es. respectful (finish es)"
  shows "respectful (ibind (load_plugins E m load_one) finish)"
  using assms by (intro respectful_ibind respectful_load_plugins) (auto simp: respectful_arguments_def)

lemma respectful_EnabledExtensionManager:
  assumes "respectful_env E" "respectful_arguments invoke callback" "\<And>e. respectful (check e)"
  shows "respectful (EnabledExtensionManager E ns check invoke propagate callback verify)"
  unfolding EnabledExtensionManager_def Let_def
  by (rule respectful_loading) (auto intro!: respectful_enabled_load_one assms simp: assms)

lemma respectful_NameDispatchExtensionManager:
  assumes "respectful_env E" "respectful_arguments invoke callback" "\<And>e. respectful (check e)"
  shows "respectful (NameDispatchExtensionManager E ns check invoke propagate callback verify)"
  unfolding NameDispatchExtensionManager_def Let_def
  by (rule respectful_loading) (auto intro!: respectful_enabled_load_one assms simp: assms)

lemma respectful_named_construct:
  assumes "respectful_env E" "respectful_arguments invoke callback"
    "\<And>call names. on_missing = Some call \<Longrightarrow> respectful (call names)"
  shows "respectful (named_construct init E ns names invoke name_order propagate callback on_missing verify warn)"
  unfolding named_construct_def Let_def
  by (rule respectful_loading)
     (use assms in \<open>auto intro!: respectful_ibind respectful_load_one respectful_log
        simp: named_load_one_def respectful_arguments_def split: option.splits\<close>)

lemma respectful_invoke:
  "(\<And>e. respectful (f e)) \<Longrightarrow> respectful (invoke_one_plugin propagate f response e)"
  by (auto simp: invoke_one_plugin_def intro!: respectful_ibind respectful_icatch respectful_log)

lemma respectful_DriverManager:
  assumes "respectful_env E" "respectful_arguments invoke callback"
  shows "respectful (DriverManager E ns name invoke callback verify warn)"
  unfolding DriverManager_def using assms
  by (cases callback)
     (auto intro!: respectful_named_construct simp: respectful_arguments_def default_on_load_failure_def)

lemma respectful_HookManager:
  assumes "respectful_env E" "respectful_arguments invoke callback"
    "\<And>call missing. on_missing = Some call \<Longrightarrow> respectful (call missing)"
  shows "respectful (HookManager E ns name invoke callback verify on_missing warn)"
  unfolding HookManager_def
  by (rule respectful_ibind [OF respectful_named_construct]) (use assms in auto)

lemma respectful_maps:
  assumes "\<And>e. respectful (f e)"
  shows "respectful (em_map m f)" "(\<And>e. respectful (sel e)) \<Longrightarrow> respectful (dispatch_map m sel f)"
    "respectful (name_dispatch_map d names f)"
  unfolding em_map_def dispatch_map_def name_dispatch_map_def
  using assms by (auto intro!: respectful_ifold respectful_invoke respectful_ibind respectful_log split: sum.splits)

section \<open>Reachable states\<close>

inductive manager_step :: "'o stv_env \<Rightarrow> stv_world \<Rightarrow> stv_world \<Rightarrow> bool" for E :: "'o stv_env" where
  new_plain: "respectful_arguments invoke callback \<Longrightarrow>
     manager_step E w (snd (ExtensionManager E ns invoke propagate callback verify w))"
| new_enabled: "respectful_arguments invoke callback \<Longrightarrow> (\<And>e. respectful (check e)) \<Longrightarrow>
     manager_step E w (snd (EnabledExtensionManager E ns check invoke propagate callback verify w))"
| new_name_dispatch: "respectful_arguments invoke callback \<Longrightarrow> (\<And>e. respectful (check e)) \<Longrightarrow>
     manager_step E w (snd (NameDispatchExtensionManager E ns check invoke propagate callback verify w))"
| new_named: "respectful_arguments invoke callback \<Longrightarrow>
     (\<And>call missing. on_missing = Some call \<Longrightarrow> respectful (call missing)) \<Longrightarrow>
     manager_step E w (snd (NamedExtensionManager E ns names invoke name_order propagate callback
       on_missing verify warn w))"
| new_driver: "respectful_arguments invoke callback \<Longrightarrow>
     manager_step E w (snd (DriverManager E ns name invoke callback verify warn w))"
| new_hook: "respectful_arguments invoke callback \<Longrightarrow>
     (\<And>call missing. on_missing = Some call \<Longrightarrow> respectful (call missing)) \<Longrightarrow>
     manager_step E w (snd (HookManager E ns name invoke callback verify on_missing warn w))"
| names_listed: "manager_step E w (snd (entry_points_names E ns w))"
| mapped: "(\<And>e. respectful (f e)) \<Longrightarrow> manager_step E w (snd (em_map (m :: 'o manager) (f :: 'o extension \<Rightarrow> 'o stv) w))"
| dispatched: "(\<And>e. respectful (sel e)) \<Longrightarrow> (\<And>e. respectful (f e)) \<Longrightarrow>
     manager_step E w (snd (dispatch_map (m :: 'o enabled_manager) sel (f :: 'o extension \<Rightarrow> 'o stv) w))"
| dispatched_by_name: "(\<And>e. respectful (f e)) \<Longrightarrow>
     manager_step E w (snd (name_dispatch_map d names (f :: 'o extension \<Rightarrow> 'o stv) w))"

lemma manager_step_respects:
  assumes "respectful_env E" "manager_step E w w'" "scan_inv w"
  shows "scan_inv w' \<and> map_of (entry_point_cache w) \<subseteq>\<^sub>m map_of (entry_point_cache w')"
proof -
  note respectful = respectful_EnabledExtensionManager respectful_NameDispatchExtensionManager
    respectful_named_construct respectful_DriverManager respectful_HookManager respectful_maps
    respectful_names_listed respectful_plain
  show ?thesis
    using assms(2,1,3)
  proof induction
    case (new_plain invoke callback w ns propagate verify)
    then show ?case by (intro respectfulD respectful) 
  next
    case (mapped f w m)
    then show ?case by (intro respectfulD respectful) 
  qed (intro respectfulD respectful; simp add: NamedExtensionManager_def respectful)+
qed

lemma reachable_respects:
  assumes "respectful_env E" "(manager_step E)\<^sup>*\<^sup>* w w'" "scan_inv w"
  shows "scan_inv w' \<and> map_of (entry_point_cache w) \<subseteq>\<^sub>m map_of (entry_point_cache w')"
  using assms(2)
proof induction
  case (step w1 w2)
  with manager_step_respects [OF assms(1) step.hyps(2)] show ?case by (auto intro: map_le_trans)
qed (simp add: assms)

lemma listed_is_cached:
  "list_entry_points E ns w = (Inr eps, w1) \<Longrightarrow> map_of (entry_point_cache w1) ns = Some eps"
  by (auto simp: list_entry_points_def ibind_eq_Inr split: option.splits)

lemma cached_is_listed:
  "map_of (entry_point_cache w) ns = Some eps \<Longrightarrow> list_entry_points E ns w = (Inr eps, w)"
  by (simp add: list_entry_points_def)


text \<open>The hooks of a namespace, then a driver of the same namespace.\<close>

definition demo_hooked :: stv_world where
  "demo_hooked = snd (HookManager demo_env ''n'' ''a'' None None False None True no_world)"

definition demo_driven :: stv_world where
  "demo_driven = snd (DriverManager demo_env ''n'' ''b'' None None False True demo_hooked)"

end
