(* ===== verification/Stv_Example.thy ===== *)
theory Stv_Example
  imports Stv_Named "HOL-Library.Char_ord" "HOL-Library.List_Lexorder"
begin

text \<open>
  The stevedore tutorial of the repository (\<^verbatim>\<open>coding/python/stevedore/example\<close>) and the examples shipped with
  stevedore: formatters for dictionaries, which are plugins, and the programs that load them as driver
  or as extensions and print what they produce.  A generator is the list of what it yields and the exception that
  ends it, if any.
\<close>

section \<open>textwrap\<close>

text \<open>
  \<^verbatim>\<open>textwrap.fill\<close> of the standard library for an empty initial indent: white space becomes blanks, the text
  is cut into chunks (runs of blanks, hyphenated words, dashes, and what is between them), and the chunks are filled into lines.
\<close>

fun expandtabs :: "nat \<Rightarrow> string \<Rightarrow> string" where
  "expandtabs col [] = []"
| "expandtabs col (c # s) =
     (if c = CHR 0x09 then replicate (8 - col mod 8) CHR '' '' @ expandtabs (col + (8 - col mod 8)) s
      else if c = CHR 0x0A \<or> c = CHR 0x0D then c # expandtabs 0 s
      else c # expandtabs (col + 1) s)"

definition munge_whitespace :: "string \<Rightarrow> string" where
  "munge_whitespace s = map (\<lambda>c. if is_ws c then CHR '' '' else c) (expandtabs 0 s)"

definition is_word :: "char \<Rightarrow> bool" where
  "is_word c \<longleftrightarrow> is_alpha c \<or> is_digit c \<or> c = CHR ''_''"

text \<open>The length of the match of the separator expression at a position, 0 when there is none; \<open>prev\<close> is the character before.\<close>

definition hyphenated :: "string \<Rightarrow> nat" where
  "hyphenated s =
     (let punctuation = takeWhile (\<lambda>c. \<not> is_ws c \<and> \<not> is_word c) s;
          w = takeWhile is_word (drop (length punctuation) s);
          n = length punctuation + length w;
          next_word = takeWhile is_word (drop (n + 1) s)
      in if 2 \<le> length w \<and> \<not> is_digit (last w) \<and> startswith (drop n s) ''-''
            \<and> list_ex (\<lambda>c. \<not> is_digit c) (drop 1 next_word)
         then n + 1 else 0)"

definition dashes :: "char option \<Rightarrow> string \<Rightarrow> nat" where
  "dashes prev s =
     (let n = length (takeWhile (\<lambda>c. c = CHR ''-'') s)
      in if 2 \<le> n \<and> (case prev of None \<Rightarrow> False | Some c \<Rightarrow> is_word c \<or> c \<in> set [CHR ''!'', CHR 0x22, CHR 0x27, CHR ''&'', CHR ''.'', CHR '','', CHR ''?''])
            \<and> (case drop n s of [] \<Rightarrow> False | c # _ \<Rightarrow> is_word c)
         then n else 0)"

definition separator :: "char option \<Rightarrow> string \<Rightarrow> nat" where
  "separator prev s =
     (let blanks = length (takeWhile is_ws s)
      in if 0 < blanks then blanks else if 0 < hyphenated s then hyphenated s else dashes prev s)"

text \<open>\<open>pending\<close> is the text since the last separator, and \<open>prev\<close> the character before the position.\<close>

function split_chunks :: "string \<Rightarrow> char option \<Rightarrow> string \<Rightarrow> string list" where
  "split_chunks pending prev [] = [pending]"
| "split_chunks pending prev (c # s) =
     (if 0 < separator prev (c # s)
      then pending # take (separator prev (c # s)) (c # s)
           # split_chunks [] (Some (last (take (separator prev (c # s)) (c # s)))) (drop (separator prev (c # s)) (c # s))
      else split_chunks (pending @ [c]) (Some c) s)"
  by pat_completeness auto
termination
  by (relation "measure (\<lambda>(pending, prev, s). length s)") auto

definition chunks_of :: "string \<Rightarrow> string list" where
  "chunks_of s = filter (\<lambda>c. c \<noteq> []) (split_chunks [] None s)"

text \<open>Chunks are taken while they fit; a chunk longer than a line is broken.\<close>

fun take_fitting :: "int \<Rightarrow> nat \<Rightarrow> string list \<Rightarrow> string list \<times> string list" where
  "take_fitting width cur_len [] = ([], [])"
| "take_fitting width cur_len (c # cs) =
     (if int (cur_len + length c) \<le> width
      then (case take_fitting width (cur_len + length c) cs of (line, rest) \<Rightarrow> (c # line, rest))
      else ([], c # cs))"

definition break_long :: "int \<Rightarrow> string list \<times> string list \<Rightarrow> string list \<times> string list" where
  "break_long width p = (case p of
       (line, c # cs) \<Rightarrow>
         if width < int (length c)
         then (let space_left = (if width < 1 then 1 else nat width - length (concat line))
               in (line @ [take space_left c], drop space_left c # cs))
         else (line, c # cs)
     | (line, []) \<Rightarrow> (line, []))"

definition drop_trailing :: "string list \<Rightarrow> string list" where
  "drop_trailing line = (if line \<noteq> [] \<and> strip (last line) = [] then butlast line else line)"

definition drop_leading :: "string list \<Rightarrow> string list" where
  "drop_leading cs = (case cs of [] \<Rightarrow> [] | c # cs' \<Rightarrow> if strip c = [] then cs' else cs)"

definition next_line :: "bool \<Rightarrow> int \<Rightarrow> string list \<Rightarrow> string list \<times> string list" where
  "next_line first width cs = break_long width (take_fitting width 0 (if first then cs else drop_leading cs))"

abbreviation indent :: string where "indent \<equiv> ''    ''"

definition chunk_size :: "string list \<Rightarrow> nat" where
  "chunk_size cs = sum_list (map (\<lambda>c. length c + 1) cs)"

lemma chunk_size_simps [simp]: "chunk_size [] = 0" "chunk_size (c # cs) = length c + 1 + chunk_size cs"
  by (simp_all add: chunk_size_def)

lemma take_fitting_append: "take_fitting width n cs = (line, rest) \<Longrightarrow> cs = line @ rest"
  by (induction cs arbitrary: n line) (auto split: if_splits prod.splits)

lemma take_fitting_length:
  "take_fitting width n cs = (line, rest) \<Longrightarrow> int n \<le> width \<Longrightarrow> int (n + length (concat line)) \<le> width"
proof (induction cs arbitrary: n line)
  case (Cons c cs)
  show ?case
  proof (cases "int (n + length c) \<le> width")
    case True
    obtain l r where "take_fitting width (n + length c) cs = (l, r)" by fastforce
    with Cons True Cons.IH [of "n + length c" l] show ?thesis by auto
  qed (use Cons.prems in auto)
qed auto

lemma take_fitting_stops: "take_fitting width 0 (c # cs) = ([], rest) \<Longrightarrow> width < int (length c) \<and> rest = c # cs"
  by (auto split: if_splits prod.splits)

lemma chunk_size_append [simp]: "chunk_size (cs @ ds) = chunk_size cs + chunk_size ds"
  by (induction cs) auto

lemma break_long_size: "break_long width (line, rest) = (line', rest') \<Longrightarrow> chunk_size rest' \<le> chunk_size rest"
  by (auto simp: break_long_def Let_def split: list.splits if_splits)

lemma next_line_progress:
  assumes "next_line first width cs = (line, rest)" "cs \<noteq> []" "first \<Longrightarrow> 1 \<le> width"
  shows "chunk_size rest < chunk_size cs"
proof -
  define ds where "ds = (if first then cs else drop_leading cs)"
  obtain l r where fit: "take_fitting width 0 ds = (l, r)" by fastforce
  have next_eq: "break_long width (l, r) = (line, rest)" using assms(1) fit by (simp add: next_line_def ds_def)
  have le: "chunk_size rest \<le> chunk_size r" by (rule break_long_size [OF next_eq])
  have ds: "ds = l @ r" by (rule take_fitting_append [OF fit])
  show ?thesis
  proof (cases "chunk_size ds < chunk_size cs \<or> l \<noteq> []")
    case True
    have "chunk_size ds \<le> chunk_size cs" by (auto simp: ds_def drop_leading_def split: list.splits)
    moreover have "chunk_size r < chunk_size ds" if "l \<noteq> []" using ds that by (cases l) auto
    moreover have "chunk_size r \<le> chunk_size ds" using ds by simp
    ultimately show ?thesis using True le by linarith
  next
    case False
    then have l: "l = []" and size: "\<not> chunk_size ds < chunk_size cs" by auto
    have same: "ds = cs"
      using size by (auto simp: ds_def drop_leading_def split: list.splits if_splits)
    obtain c cs' where cs: "cs = c # cs'" using assms(2) by (cases cs) auto
    from take_fitting_stops [of width c cs' r] fit l same cs
    have long: "width < int (length c)" "r = c # cs'" by auto
    have "c \<noteq> []"
    proof
      assume "c = []"
      then have "\<not> first" using long(1) assms(3) by auto
      then show False using same cs \<open>c = []\<close> by (auto simp: ds_def drop_leading_def)
    qed
    then show ?thesis using next_eq l long cs by (auto simp: break_long_def Let_def)
  qed
qed

text \<open>\<open>first\<close>: no line has been made yet.\<close>

function wrap_lines :: "bool \<Rightarrow> int \<Rightarrow> string list \<Rightarrow> string list" where
  "wrap_lines first width cs =
     (if cs = [] \<or> width \<le> 0 then []
      else (let (line, rest) = next_line first (if first then width else width - 4) cs;
                line' = drop_trailing line
            in if line' = [] then wrap_lines first width rest
               else ((if first then [] else indent) @ concat line') # wrap_lines False width rest))"
  by pat_completeness auto
termination
  by (relation "measure (\<lambda>(first, width, cs). chunk_size cs)") (auto dest!: next_line_progress [OF sym] split: if_splits)

declare wrap_lines.simps [simp del]

definition fill :: "int \<Rightarrow> string \<Rightarrow> string res" where
  "fill width text =
     (if width \<le> 0 then Inl (ValueError (''invalid width '' @ int_str width @ '' (must be > 0)''))
      else Inr (join [CHR 0x0A] (wrap_lines True width (chunks_of (munge_whitespace text)))))"

section \<open>What filling achieves\<close>

abbreviation visible :: "string \<Rightarrow> string" where
  "visible s \<equiv> filter (\<lambda>c. \<not> is_ws c) s"

lemma drop_trailing_length: "length (concat (drop_trailing line)) \<le> length (concat line)"
  by (cases line rule: rev_cases) (auto simp: drop_trailing_def)

lemma next_line_length:
  assumes "next_line first width cs = (line, rest)" "1 \<le> width"
  shows "int (length (concat line)) \<le> width"
proof -
  obtain l r where fit: "take_fitting width 0 (if first then cs else drop_leading cs) = (l, r)" by fastforce
  have "int (length (concat l)) \<le> width" using take_fitting_length [OF fit] assms(2) by simp
  then show ?thesis
    using assms fit by (auto simp: next_line_def break_long_def Let_def split: list.splits if_splits)
qed

lemma wrap_step:
  assumes "cs \<noteq> []" "0 < width" "next_line first (if first then width else width - 4) cs = (line, rest)"
  shows "wrap_lines first width cs =
    (if drop_trailing line = [] then wrap_lines first width rest
     else ((if first then [] else indent) @ concat (drop_trailing line)) # wrap_lines False width rest)"
  using assms by (subst wrap_lines.simps) simp

lemma wrap_lines_induct [case_names Nil step]:
  assumes "\<And>first. P first []"
    and "\<And>first cs line rest. \<lbrakk>cs \<noteq> []; next_line first (if first then width else width - 4) cs = (line, rest);
          P first rest; P False rest\<rbrakk> \<Longrightarrow> P first cs"
    and "0 < width"
  shows "P first cs"
proof (induction "chunk_size cs" arbitrary: first cs rule: less_induct)
  case less
  show ?case
  proof (cases "cs = []")
    case False
    obtain line rest where n: "next_line first (if first then width else width - 4) cs = (line, rest)" by fastforce
    have "chunk_size rest < chunk_size cs" using next_line_progress [OF n False] assms(3) by simp
    with less have "P first rest" "P False rest" by auto
    with assms(2) [OF False n] show ?thesis by simp
  qed (simp add: assms(1))
qed

lemma wrap_lines_Nil [simp]: "wrap_lines first width [] = []"
  by (simp add: wrap_lines.simps)

lemma wrap_lines_length:
  assumes "5 \<le> width"
  shows "\<forall>l \<in> set (wrap_lines first width cs). int (length l) \<le> width"
proof (induction first cs rule: wrap_lines_induct [where width = width])
  case (step first cs line rest)
  have "int (length (concat (drop_trailing line))) \<le> (if first then width else width - 4)"
    using next_line_length [OF step(2)] drop_trailing_length [of line] assms by auto
  with step wrap_step [OF step(1) _ step(2)] assms show ?case by auto
qed (use assms in simp_all)

lemma visible_strip: "strip c = [] \<Longrightarrow> visible c = []"
proof -
  assume "strip c = []"
  then have "\<forall>x \<in> set (dropWhile is_ws c). is_ws x"
    by (simp add: strip_def rstrip_def lstrip_def dropWhile_eq_Nil_conv)
  moreover have "set c = set (takeWhile is_ws c) \<union> set (dropWhile is_ws c)"
    by (metis set_append takeWhile_dropWhile_id)
  ultimately show ?thesis by (auto simp: filter_empty_conv dest: set_takeWhileD)
qed

lemma visible_drop_trailing: "visible (concat (drop_trailing line)) = visible (concat line)"
  by (cases line rule: rev_cases) (auto simp: drop_trailing_def visible_strip)

lemma visible_drop_leading: "visible (concat (drop_leading cs)) = visible (concat cs)"
  by (auto simp: drop_leading_def visible_strip split: list.splits)

lemma break_long_concat: "break_long width (line, rest) = (line', rest') \<Longrightarrow> concat line' @ concat rest' = concat line @ concat rest"
  by (auto simp: break_long_def Let_def split: list.splits if_splits)

lemma visible_next_line:
  assumes "next_line first width cs = (line, rest)"
  shows "visible (concat line) @ visible (concat rest) = visible (concat cs)"
proof -
  obtain l r where fit: "take_fitting width 0 (if first then cs else drop_leading cs) = (l, r)" by fastforce
  have "break_long width (l, r) = (line, rest)" using assms fit by (simp add: next_line_def)
  from break_long_concat [OF this] take_fitting_append [OF fit] 
  have "concat line @ concat rest = concat (if first then cs else drop_leading cs)" by simp
  then have "visible (concat line @ concat rest) = visible (concat cs)" using visible_drop_leading [of cs] by simp
  then show ?thesis by simp
qed

lemma visible_wrap_lines:
  assumes "0 < width"
  shows "visible (concat (wrap_lines first width cs)) = visible (concat cs)"
proof (induction first cs rule: wrap_lines_induct [where width = width])
  case (step first cs line rest)
  have "visible (concat (wrap_lines first width cs)) = visible (concat (drop_trailing line)) @ visible (concat rest)"
    using step wrap_step [OF step(1) assms step(2)] by (auto simp: is_ws_def)
  with visible_next_line [OF step(2)] show ?case by (simp add: visible_drop_trailing)
qed (use assms in simp_all)

lemma visible_expandtabs: "visible (expandtabs col s) = visible s"
  by (induction col s rule: expandtabs.induct) (auto simp: is_ws_def)

lemma visible_munge: "visible (munge_whitespace s) = visible s"
proof -
  have "visible (map (\<lambda>c. if is_ws c then CHR '' '' else c) t) = visible t" for t
    by (induction t) (auto simp: is_ws_def)
  then show ?thesis by (simp add: munge_whitespace_def visible_expandtabs)
qed

lemma split_chunks_concat: "concat (split_chunks pending prev s) = pending @ s"
  by (induction pending prev s rule: split_chunks.induct) auto

lemma chunks_of_concat: "concat (chunks_of s) = s"
proof -
  have "concat (filter (\<lambda>c. c \<noteq> []) cs) = concat cs" for cs :: "string list" by (induction cs) auto
  then show ?thesis by (simp add: chunks_of_def split_chunks_concat)
qed

lemma visible_join: "visible (join [CHR 0x0A] ls) = visible (concat ls)"
  by (induction ls rule: induct_list012) (auto simp: is_ws_def)

lemma fill_spec:
  assumes "5 \<le> width"
  shows "\<exists>ls. fill width text = Inr (join [CHR 0x0A] ls) \<and> (\<forall>l \<in> set ls. int (length l) \<le> width)
     \<and> visible (concat ls) = visible text"
  using assms wrap_lines_length [OF assms] visible_wrap_lines [of width True] 
  by (intro exI [of _ "wrap_lines True width (chunks_of (munge_whitespace text))"])
     (auto simp: fill_def chunks_of_concat visible_munge)

section \<open>The formatters\<close>

type_synonym data = "(string \<times> pyval) list"

type_synonym chunks = "string list \<times> exn option"

fun generate :: "('a \<Rightarrow> string res) \<Rightarrow> 'a list \<Rightarrow> chunks" where
  "generate f [] = ([], None)"
| "generate f (x # xs) = (case f x of
       Inl e \<Rightarrow> ([], Some e)
     | Inr s \<Rightarrow> (case generate f xs of (ss, e) \<Rightarrow> (s # ss, e)))"

text \<open>The keys of a dictionary are distinct, so that the items are sorted by them.\<close>

definition sorted_items :: "data \<Rightarrow> data" where
  "sorted_items d = sort_key fst d"

record formatter = max_width :: int

definition HFormatterBase :: "int \<Rightarrow> formatter" where
  "HFormatterBase width = \<lparr>max_width = width\<rparr>"

definition field_text :: "string \<Rightarrow> string \<times> pyval \<Rightarrow> string" where
  "field_text lead item = lead @ fst item @ '' : '' @ py_str (snd item)"

definition wrapped_field :: "formatter \<Rightarrow> string \<Rightarrow> string \<times> pyval \<Rightarrow> string res" where
  "wrapped_field self lead item =
     rbind (fill (max_width self) (field_text lead item)) (\<lambda>wrapped_text. Inr (wrapped_text @ [CHR 0x0A]))"

definition Simple_hformat :: "formatter \<Rightarrow> data \<Rightarrow> chunks" where
  "Simple_hformat self d = generate (wrapped_field self '': '') (sorted_items d)"

definition Simple_tformat :: "formatter \<Rightarrow> data \<Rightarrow> chunks" where
  "Simple_tformat self d = generate (wrapped_field self []) (sorted_items d)"

text \<open>The formatters shipped with stevedore.\<close>

definition FormatterBase :: "int \<Rightarrow> formatter" where
  "FormatterBase width = \<lparr>max_width = width\<rparr>"

definition Simple_format :: "formatter \<Rightarrow> data \<Rightarrow> chunks" where
  "Simple_format self d = generate (\<lambda>item. Inr (fst item @ '' = '' @ py_str (snd item) @ [CHR 0x0A])) (sorted_items d)"

definition FieldList_format :: "formatter \<Rightarrow> data \<Rightarrow> chunks" where
  "FieldList_format self d = generate (wrapped_field self '': '') (sorted_items d)"

section \<open>The programs\<close>

text \<open>
  What a program prints is a generator too.  \<open>call\<close> is the call of a plugin with the width, \<open>hformat\<close>, \<open>tformat\<close> and
  \<open>format\<close> the methods of the object that results.
\<close>

definition repeated_word :: string where
  "repeated_word = concat (replicate 80 ''word '')"

definition driver_data :: data where
  "driver_data = [(''a'', PStr ''A''), (''b'', PStr ''B''), (''long'', PStr repeated_word)]"

definition extension_data :: data where
  "extension_data = [(''a'', PStr ''A''), (''B'', PStr ''BBB''), (''long'', PStr repeated_word)]"

definition load_as_driver ::
    "'o stv_env \<Rightarrow> ('o \<Rightarrow> int \<Rightarrow> 'o stv) \<Rightarrow> ('o \<Rightarrow> data \<Rightarrow> chunks) \<Rightarrow> string \<Rightarrow> int \<Rightarrow> chunks stv" where
  "load_as_driver E call hformat form width =
     ibind (DriverManager E ''hstevedore.example.formatter'' form (Some (\<lambda>p. call p width)) None False True) (\<lambda>mgr.
     ibind (ilift (driver_driver E mgr)) (\<lambda>driver.
     iret (hformat driver driver_data)))"

fun print_all :: "(string \<times> chunks) list \<Rightarrow> chunks" where
  "print_all [] = ([], None)"
| "print_all ((name, chunks, failure) # rs) =
     (case failure of
        Some e \<Rightarrow> ((''Formatter: '' @ name @ [CHR 0x0A]) # chunks, Some e)
      | None \<Rightarrow> (case print_all rs of (out, e) \<Rightarrow> ((''Formatter: '' @ name @ [CHR 0x0A]) # chunks @ [[CHR 0x0A]] @ out, e)))"

text \<open>The object of an extension is there, since the plugins are invoked.\<close>

definition format_data :: "('o \<Rightarrow> data \<Rightarrow> chunks) \<Rightarrow> data \<Rightarrow> 'o extension \<Rightarrow> (string \<times> chunks) stv" where
  "format_data method d ext =
     (case ext_obj ext of
        None \<Rightarrow> iraise (AttributeError ''hformat'')
      | Some obj \<Rightarrow> iret (ext_name ext, method obj d))"

fun print_formats :: "'o manager \<Rightarrow> data \<Rightarrow> ('o \<Rightarrow> data \<Rightarrow> chunks) list \<Rightarrow> chunks stv" where
  "print_formats mgr d [] = iret ([], None)"
| "print_formats mgr d (method # methods) =
     ibind (em_map mgr (format_data method d)) (\<lambda>results.
       (case print_all results of
          (out, Some e) \<Rightarrow> iret (out, Some e)
        | (out, None) \<Rightarrow> ibind (print_formats mgr d methods) (\<lambda>(out', e). iret (out @ out', e))))"

definition load_as_extension ::
    "'o stv_env \<Rightarrow> ('o \<Rightarrow> int \<Rightarrow> 'o stv) \<Rightarrow> ('o \<Rightarrow> data \<Rightarrow> chunks) \<Rightarrow> ('o \<Rightarrow> data \<Rightarrow> chunks) \<Rightarrow> int \<Rightarrow> chunks stv" where
  "load_as_extension E call hformat tformat width =
     ibind (ExtensionManager E ''hstevedore.example.formatter'' (Some (\<lambda>p. call p width)) False None False) (\<lambda>mgr.
       print_formats mgr extension_data [hformat, tformat])"

text \<open>The same programs as stevedore ships them, with one method and another namespace.\<close>

definition stevedore_load_as_driver ::
    "'o stv_env \<Rightarrow> ('o \<Rightarrow> int \<Rightarrow> 'o stv) \<Rightarrow> ('o \<Rightarrow> data \<Rightarrow> chunks) \<Rightarrow> string \<Rightarrow> int \<Rightarrow> chunks stv" where
  "stevedore_load_as_driver E call format form width =
     ibind (DriverManager E ''stevedore.example.formatter'' form (Some (\<lambda>p. call p width)) None False True) (\<lambda>mgr.
     ibind (ilift (driver_driver E mgr)) (\<lambda>driver.
     iret (format driver driver_data)))"

definition stevedore_load_as_extension ::
    "'o stv_env \<Rightarrow> ('o \<Rightarrow> int \<Rightarrow> 'o stv) \<Rightarrow> ('o \<Rightarrow> data \<Rightarrow> chunks) \<Rightarrow> int \<Rightarrow> chunks stv" where
  "stevedore_load_as_extension E call format width =
     ibind (ExtensionManager E ''stevedore.example.formatter'' (Some (\<lambda>p. call p width)) False None False) (\<lambda>mgr.
       print_formats mgr driver_data [format])"

section \<open>The installed example\<close>

text \<open>The entry points that the setup script of the example declares, and the objects of its class.\<close>

definition simple_entry_point :: "string \<Rightarrow> entry_point" where
  "simple_entry_point name =
     \<lparr>ep_name = name, ep_module_name = ''hstevedore_example.hsimple'', ep_attrs = [''Simple''], ep_new_api = True\<rparr>"

definition example_entry_points :: "entry_point list" where
  "example_entry_points = map simple_entry_point [''simple'', ''plain'']"

datatype plugin = SimpleClass | SimpleObject formatter

definition call_plugin :: "plugin \<Rightarrow> int \<Rightarrow> plugin stv" where
  "call_plugin p width = (case p of
       SimpleClass \<Rightarrow> iret (SimpleObject (HFormatterBase width))
     | SimpleObject f \<Rightarrow> iraise (TypeError ''not callable''))"

definition plugin_method :: "(formatter \<Rightarrow> data \<Rightarrow> chunks) \<Rightarrow> plugin \<Rightarrow> data \<Rightarrow> chunks" where
  "plugin_method method p d = (case p of
       SimpleObject f \<Rightarrow> method f d
     | SimpleClass \<Rightarrow> ([], Some (TypeError ''unbound method'')))"

text \<open>What is relied on: the package is installed, and its entry points resolve to its class.\<close>

definition example_installed :: "plugin stv_env \<Rightarrow> bool" where
  "example_installed E \<longleftrightarrow>
     (\<forall>w. iter_entry_points E ''hstevedore.example.formatter'' w = (Inr example_entry_points, w))
     \<and> (\<forall>ep \<in> set example_entry_points. \<forall>w. ep_resolve E ep w = (Inr SimpleClass, w))
     \<and> (\<forall>f. obj_true E (SimpleObject f))"

lemma example_driver:
  assumes "example_installed E" "form \<in> {''simple'', ''plain''}"
    and "map_of (entry_point_cache w) ''hstevedore.example.formatter'' = None"
  shows "\<exists>w'. load_as_driver E call_plugin hformat form width w
    = (Inr (hformat (SimpleObject (HFormatterBase width)) driver_data), w')"
  using assms
  by (auto simp: load_as_driver_def DriverManager_def named_construct_def Let_def load_plugins_def list_entry_points_def
      example_installed_def example_entry_points_def ibind_def log_ev_def load_step_def icatch_def named_load_one_def load_one_plugin_def
      simple_entry_point_def call_plugin_def driver_init_plugins_def named_init_plugins_def init_plugins_def driver_driver_def Extension_def)

lemma wrapped_field_spec:
  assumes "5 \<le> max_width self"
  shows "\<exists>ls. wrapped_field self lead item = Inr (join [CHR 0x0A] ls @ [CHR 0x0A])
     \<and> (\<forall>l \<in> set ls. int (length l) \<le> max_width self) \<and> visible (concat ls) = visible (field_text lead item)"
  using fill_spec [OF assms, of "field_text lead item"] by (auto simp: wrapped_field_def)

definition renders :: "formatter \<Rightarrow> string \<Rightarrow> string \<times> pyval \<Rightarrow> string \<Rightarrow> bool" where
  "renders self lead item chunk \<longleftrightarrow>
     (\<exists>ls. chunk = join [CHR 0x0A] ls @ [CHR 0x0A] \<and> (\<forall>l \<in> set ls. int (length l) \<le> max_width self)
        \<and> visible (concat ls) = visible (field_text lead item))"

lemma generate_all:
  assumes "\<And>x. x \<in> set xs \<Longrightarrow> \<exists>s. f x = Inr s \<and> Q x s"
  shows "\<exists>ss. generate f xs = (ss, None) \<and> list_all2 Q xs ss"
  using assms
proof (induction xs)
  case (Cons x xs)
  then obtain s ss where "f x = Inr s" "Q x s" "generate f xs = (ss, None)" "list_all2 Q xs ss" by fastforce
  then show ?case by auto
qed simp

lemma wrapped_field_renders:
  assumes "5 \<le> max_width self"
  shows "\<exists>s. wrapped_field self lead item = Inr s \<and> renders self lead item s"
  using wrapped_field_spec [OF assms, of lead item] unfolding renders_def by blast

lemma hformat_renders:
  assumes "5 \<le> max_width self"
  shows "\<exists>chunks. Simple_hformat self d = (chunks, None) \<and> list_all2 (renders self '': '') (sorted_items d) chunks"
    and "\<exists>chunks. Simple_tformat self d = (chunks, None) \<and> list_all2 (renders self []) (sorted_items d) chunks"
  unfolding Simple_hformat_def Simple_tformat_def
  by (rule generate_all, rule wrapped_field_renders [OF assms])+

theorem driver_prints:
  assumes "example_installed E" "form \<in> {''simple'', ''plain''}" "5 \<le> width"
    and "map_of (entry_point_cache w) ''hstevedore.example.formatter'' = None"
  shows "\<exists>chunks w'. load_as_driver E call_plugin (plugin_method Simple_hformat) form width w = (Inr (chunks, None), w')
     \<and> list_all2 (renders (HFormatterBase width) '': '') driver_data chunks"
proof -
  have "sorted_items driver_data = driver_data" by (simp add: sorted_items_def driver_data_def)
  with hformat_renders(1) [of "HFormatterBase width" driver_data] assms(3) obtain chunks where
    "Simple_hformat (HFormatterBase width) driver_data = (chunks, None)"
    "list_all2 (renders (HFormatterBase width) '': '') driver_data chunks" by (auto simp: HFormatterBase_def)
  with example_driver [OF assms(1,2,4), of "plugin_method Simple_hformat" width] show ?thesis
    by (auto simp: plugin_method_def)
qed

definition printed_block :: "string list \<Rightarrow> string \<Rightarrow> string list" where
  "printed_block chunks name = (''Formatter: '' @ name @ [CHR 0x0A]) # chunks @ [[CHR 0x0A]]"

lemma example_extensions:
  assumes "example_installed E"
    and "map_of (entry_point_cache w) ''hstevedore.example.formatter'' = None"
    and "hformat (SimpleObject (HFormatterBase width)) extension_data = (hs, None)"
    and "tformat (SimpleObject (HFormatterBase width)) extension_data = (ts, None)"
  shows "\<exists>w'. load_as_extension E call_plugin hformat tformat width w
    = (Inr (concat (map (printed_block hs) [''simple'', ''plain'']) @ concat (map (printed_block ts) [''simple'', ''plain'']), None), w')"
  using assms
  by (auto simp: load_as_extension_def ExtensionManager_def  Let_def load_plugins_def list_entry_points_def
      example_installed_def example_entry_points_def ibind_def log_ev_def load_step_def icatch_def load_one_plugin_def
      simple_entry_point_def call_plugin_def init_plugins_def init_attributes_def Extension_def
      em_map_def invoke_one_plugin_def format_data_def printed_block_def)


section \<open>Witnesses\<close>

definition demo_installed_example :: "plugin stv_env" where
  "demo_installed_example = \<lparr>iter_entry_points = \<lambda>ns. iret (if ns = ''hstevedore.example.formatter'' then example_entry_points else []),
     ep_require = \<lambda>_. iret (), ep_resolve = \<lambda>_. iret SimpleClass, ep_load = \<lambda>_ _. iret SimpleClass,
     obj_true = \<lambda>_. True\<rparr>"

lemma demo_example_installed: "example_installed demo_installed_example"
  by (simp add: example_installed_def demo_installed_example_def iret_def)

theorem driver_prints_witness:
  "\<exists>chunks w'. load_as_driver demo_installed_example call_plugin (plugin_method Simple_hformat) ''plain'' 60
       \<lparr>entry_point_cache = [], stv_log = []\<rparr> = (Inr (chunks, None), w')
     \<and> length chunks = 3"
proof -
  from driver_prints [OF demo_example_installed, of "''plain''" 60 "\<lparr>entry_point_cache = [], stv_log = []\<rparr>"]
  obtain chunks w' where "load_as_driver demo_installed_example call_plugin (plugin_method Simple_hformat) ''plain'' 60
       \<lparr>entry_point_cache = [], stv_log = []\<rparr> = (Inr (chunks, None), w')"
    "list_all2 (renders (HFormatterBase 60) '': '') driver_data chunks" by auto
  then show ?thesis by (auto dest!: list_all2_lengthD simp: driver_data_def)
qed


end
