(* ===== verification/Stv_Sphinxext.thy ===== *)
theory Stv_Sphinxext
  imports Stv_Named "HOL-Library.Char_ord" "HOL-Library.List_Lexorder"
begin

text \<open>
  \<^verbatim>\<open>stevedore/sphinxext.py\<close>: the directive that documents the plugins of a namespace.  The generators are the lists
  of the pairs of a text and its source; the manager is threaded through them, since looking up a name fills its
  dictionary.  The result is the lines that the directive hands to the parser of the document, which is not modelled.
\<close>

section \<open>Strings\<close>

text \<open>\<^verbatim>\<open>s.splitlines()\<close> of a byte string, and \<^verbatim>\<open>s.title()\<close>.\<close>

fun splitlines :: "string \<Rightarrow> string list" where
  "splitlines [] = []"
| "splitlines (c # s) =
     (if c = CHR 0x0A then [] # splitlines s
      else if c = CHR 0x0D then [] # splitlines (if startswith s [CHR 0x0A] then tl s else s)
      else (case splitlines s of [] \<Rightarrow> [[c]] | l # ls \<Rightarrow> (c # l) # ls))"

definition upper_char :: "char \<Rightarrow> char" where
  "upper_char c = (let n = (of_char c :: nat) in if 97 \<le> n \<and> n \<le> 122 then char_of (n - 32) else c)"

fun title_from :: "bool \<Rightarrow> string \<Rightarrow> string" where
  "title_from inside [] = []"
| "title_from inside (c # s) = (if inside then lower_char c else upper_char c) # title_from (is_alpha c) s"

definition title :: "string \<Rightarrow> string" where
  "title s = title_from False s"

section \<open>The lists\<close>

text \<open>\<open>doc\<close> is \<^verbatim>\<open>_get_docstring\<close>: the documentation of a plugin, or the empty string.\<close>

definition simple_entry :: "('o \<Rightarrow> string) \<Rightarrow> 'o extension \<Rightarrow> (string \<times> string) list res" where
  "simple_entry doc ext =
     (let text = (if doc (ext_plugin ext) = [] then [CHR 0x0A] else doc (ext_plugin ext))
      in rbind (at (splitlines text) 0) (\<lambda>first_line.
           Inr [(''* '' @ ext_name ext @ '' -- '' @ strip first_line, ep_module_name (ext_entry_point ext))]))"

text \<open>\<open>shown\<close> is the text of an entry point.\<close>

definition detailed_entry ::
    "('o \<Rightarrow> string) \<Rightarrow> (entry_point \<Rightarrow> string) \<Rightarrow> string \<Rightarrow> string \<Rightarrow> bool \<Rightarrow> 'o extension \<Rightarrow> (string \<times> string) list res" where
  "detailed_entry doc shown over_mark under_mark titlecase ext =
     (let name = ext_name ext;
          times = (\<lambda>mark. concat (replicate (length name) mark));
          texts = (if over_mark \<noteq> [] then [times over_mark] else [])
            @ [if titlecase then title name else name]
            @ (if under_mark \<noteq> [] then [times under_mark] else [])
            @ [[CHR 0x0A]]
            @ [if doc (ext_plugin ext) \<noteq> [] then doc (ext_plugin ext)
               else ''.. warning:: No documentation found in '' @ shown (ext_entry_point ext)]
            @ [[CHR 0x0A]]
      in Inr (map (\<lambda>t. (t, ep_module_name (ext_entry_point ext))) texts))"

fun list_names ::
    "('o extension \<Rightarrow> (string \<times> string) list res) \<Rightarrow> ('o, 'z) manager_scheme \<Rightarrow> string list
     \<Rightarrow> (string \<times> string) list res" where
  "list_names entry mgr [] = Inr []"
| "list_names entry mgr (name # names) =
     (case em_getitem mgr name of (r, mgr') \<Rightarrow>
        rbind r (\<lambda>ext. rbind (entry ext) (\<lambda>texts.
          rbind (list_names entry mgr' names) (\<lambda>rest. Inr (texts @ rest)))))"

definition simple_list :: "('o \<Rightarrow> string) \<Rightarrow> ('o, 'z) manager_scheme \<Rightarrow> (string \<times> string) list res" where
  "simple_list doc mgr = list_names (simple_entry doc) mgr (sort (em_names mgr))"

definition detailed_list ::
    "('o \<Rightarrow> string) \<Rightarrow> (entry_point \<Rightarrow> string) \<Rightarrow> string \<Rightarrow> string \<Rightarrow> bool \<Rightarrow> ('o, 'z) manager_scheme
     \<Rightarrow> (string \<times> string) list res" where
  "detailed_list doc shown over_mark under_mark titlecase mgr =
     list_names (detailed_entry doc shown over_mark under_mark titlecase) mgr (sort (em_names mgr))"

section \<open>The directive\<close>

record list_plugins =
  lp_content :: "string list"
  lp_options :: "(string \<times> string) list"

definition report_load_failure :: failure_callback where
  "report_load_failure ep err = log_ev (LogNotLoaded (ep_module_name ep) err)"

definition list_plugins_run ::
    "'o stv_env \<Rightarrow> ('o \<Rightarrow> string) \<Rightarrow> (entry_point \<Rightarrow> string) \<Rightarrow> list_plugins \<Rightarrow> (string \<times> string) list stv" where
  "list_plugins_run E doc shown self =
     (let namespace = strip (join '' '' (lp_content self));
          option = (\<lambda>k d. case map_of (lp_options self) k of Some v \<Rightarrow> v | None \<Rightarrow> d)
      in ibind (ExtensionManager E namespace None False (Some report_load_failure) False) (\<lambda>mgr.
         ibind (ilift (if map_of (lp_options self) ''detailed'' \<noteq> None
                       then detailed_list doc shown (option ''overline-style'' []) (option ''underline-style'' ''='')
                              (map_of (lp_options self) ''titlecase'' \<noteq> None) mgr
                       else simple_list doc mgr)) (\<lambda>data.
         iret (concat (map (\<lambda>(text, source). map (\<lambda>line. (line, source)) (splitlines text)) data)))))"

section \<open>What is listed\<close>

lemma splitlines_not_Nil: "s \<noteq> [] \<Longrightarrow> splitlines s \<noteq> []"
  by (cases s) (auto split: list.splits)

lemma list_names_last:
  assumes "by_name_inv mgr" "\<And>n. n \<in> set names \<Longrightarrow> n \<in> ext_name ` set (mg_extensions mgr)"
    and "\<And>e. e \<in> set (mg_extensions mgr) \<Longrightarrow> \<exists>ts. entry e = Inr ts \<and> text e = ts"
  shows "list_names entry mgr names = Inr (concat (map (\<lambda>n. text (the (last_named n (mg_extensions mgr)))) names))"
  using assms
proof (induction names arbitrary: mgr)
  case (Cons n names)
  obtain r mgr' where g: "em_getitem mgr n = (r, mgr')" by fastforce
  obtain e where e: "last_named n (mg_extensions mgr) = Some e" "e \<in> set (mg_extensions mgr)"
    using Cons.prems(2) [of n] last_named_Some by (cases "last_named n (mg_extensions mgr)") (auto simp: last_named_None)
  from em_getitem_inv [OF Cons.prems(1) g] e have "r = Inr e" and m: "by_name_inv mgr'" "mg_extensions mgr' = mg_extensions mgr" by auto
  with Cons.IH [OF m(1)] Cons.prems e g show ?case by fastforce
qed simp

definition simple_line :: "('o \<Rightarrow> string) \<Rightarrow> 'o extension \<Rightarrow> (string \<times> string)" where
  "simple_line doc e =
     (''* '' @ ext_name e @ '' -- '' @ (if doc (ext_plugin e) = [] then [] else strip (hd (splitlines (doc (ext_plugin e))))),
      ep_module_name (ext_entry_point e))"

lemma simple_entry_line: "simple_entry doc e = Inr [simple_line doc e]"
proof (cases "doc (ext_plugin e) = []")
  case False
  then show ?thesis using splitlines_not_Nil [OF False] by (simp add: simple_entry_def simple_line_def hd_conv_nth Let_def)
qed (simp add: simple_entry_def simple_line_def)

lemma simple_list_lines:
  assumes "by_name_inv mgr"
  shows "simple_list doc mgr = Inr (map (\<lambda>n. simple_line doc (the (last_named n (mg_extensions mgr)))) (sort (em_names mgr)))"
proof -
  have "simple_list doc mgr = Inr (concat (map (\<lambda>n. [simple_line doc (the (last_named n (mg_extensions mgr)))]) (sort (em_names mgr))))"
    unfolding simple_list_def by (rule list_names_last [OF assms]) (auto simp: em_names_def simple_entry_line)
  then show ?thesis by (simp add: concat_map_singleton)
qed

text \<open>A simple list has one entry for each extension, sorted by the names, and making it never fails.\<close>

theorem list_plugins_simple:
  assumes "list_plugins_run E doc shown \<lparr>lp_content = content, lp_options = []\<rparr> w = (r, w')"
    and "load_plugins E (init_attributes (strip (join '' '' content)) False (Some report_load_failure) :: 'o manager)
           (load_one_plugin E None False) w = (Inr es, w1)"
  shows "r = Inr (concat (map (\<lambda>n. let (text, source) = simple_line doc (the (last_named n es))
                               in map (\<lambda>line. (line, source)) (splitlines text)) (sort (map ext_name es)))) \<and> w' = w1"
proof -
  let ?m = "init_plugins es (init_attributes (strip (join '' '' content)) False (Some report_load_failure)) :: 'o manager"
  have "by_name_inv ?m" "mg_extensions ?m = es" by (simp_all add: init_plugins_def by_name_inv_def)
  with simple_list_lines [of ?m doc] have "simple_list doc ?m = Inr (map (\<lambda>n. simple_line doc (the (last_named n es))) (sort (map ext_name es)))"
    by (simp add: em_names_def)
  with assms show ?thesis
    by (auto simp: list_plugins_run_def ExtensionManager_def ibind_def Let_def o_def case_prod_unfold)
qed

definition demo_listing :: "string stv_env" where
  "demo_listing = \<lparr>iter_entry_points = \<lambda>ns. iret [\<lparr>ep_name = ''b'', ep_module_name = ''m'', ep_attrs = [''B''], ep_new_api = True\<rparr>,
       \<lparr>ep_name = ''a'', ep_module_name = ''m'', ep_attrs = [''A''], ep_new_api = True\<rparr>],
     ep_require = \<lambda>_. iret (), ep_resolve = \<lambda>ep. iret (ep_name ep), ep_load = \<lambda>_ _. iret [], obj_true = \<lambda>_. True\<rparr>"

theorem list_plugins_simple_witness:
  "\<exists>w'. list_plugins_run demo_listing (\<lambda>p. if p = ''a'' then ''First.'' @ [CHR 0x0A] @ ''More.'' else []) ep_name
      \<lparr>lp_content = [''ns''], lp_options = []\<rparr> \<lparr>entry_point_cache = [], stv_log = []\<rparr>
    = (Inr [(''* a -- First.'', ''m''), (''* b -- '', ''m'')], w')"
proof -
  let ?doc = "\<lambda>p. if p = ''a'' then ''First.'' @ [CHR 0x0A] @ ''More.'' else []"
  let ?ep = "\<lambda>n. \<lparr>ep_name = n, ep_module_name = ''m'', ep_attrs = [if n = ''b'' then ''B'' else ''A''], ep_new_api = True\<rparr>"
  let ?es = "[Extension ''b'' (?ep ''b'') ''b'' None, Extension ''a'' (?ep ''a'') ''a'' None]"
  let ?w = "\<lparr>entry_point_cache = [], stv_log = []\<rparr>"
  obtain w1 where load: "load_plugins demo_listing (init_attributes (strip (join '' '' [''ns''])) False (Some report_load_failure) :: string manager)
           (load_one_plugin demo_listing None False) ?w = (Inr ?es, w1)"
    by (auto simp: load_plugins_def list_entry_points_def demo_listing_def init_attributes_def ibind_def log_ev_def load_step_def
        icatch_def load_one_plugin_def)
  obtain r w' where run: "list_plugins_run demo_listing ?doc ep_name \<lparr>lp_content = [''ns''], lp_options = []\<rparr> ?w = (r, w')"
    by fastforce
  have "sort [''b'', ''a''] = [''a'', ''b'']" by simp
  with list_plugins_simple [OF run load] run show ?thesis
    by (simp add: Extension_def simple_line_def last_named_def strip_def lstrip_def rstrip_def is_ws_def)
qed

end
