(* ===== verification/Vfc_Scripts.thy ===== *)
theory Vfc_Scripts
  imports Py_World
begin

text \<open>
  \<^verbatim>\<open>cloud/onap/vfc-py\<close>: one-request scripts against the VF-C REST interface.  A script is a program
  of its command line over the trace of what it prints and requests; the server's answer to a
  request, or the exception of a request that fails, is a parameter.  The body of a request is the value that \<^verbatim>\<open>json.dumps\<close> serialises.
\<close>

section \<open>Effects\<close>

datatype vfc_event =
    VPrint pyval
  | VRequest string string pyval "(string \<times> string) list"
  | VGet string

type_synonym 'a vfc = "(vfc_event, 'a) io"

type_synonym vfc_server = "vfc_event list \<Rightarrow> string \<Rightarrow> (pyval \<times> pyval) res"

definition vprint :: "string \<Rightarrow> unit vfc" where
  "vprint s = emit (VPrint (PStr s))"

text \<open>The headers of \<^verbatim>\<open>httplib2\<close> requests, and the call with the two values it prints.\<close>

definition json_headers :: "(string \<times> string) list" where
  "json_headers = [(''content-type'', ''application/json''), (''accept'', ''application/json'')]"

definition request_and_print :: "vfc_server \<Rightarrow> string \<Rightarrow> string \<Rightarrow> pyval \<Rightarrow> unit vfc" where
  "request_and_print server url meth body = (\<lambda>t.
     (let t' = t @ [VRequest url meth body json_headers]
      in ibind (ilift (server t' url)) (\<lambda>(resp, content).
           ibind (ilift (getitem resp ''status'')) (\<lambda>status.
             emit (VPrint (PList [status, content])))) t'))"

text \<open>
  The check of the number of arguments prints a hint; the statement \<^verbatim>\<open>exit\<close> after it only mentions
  the built-in function without calling it.
\<close>

definition arguments_hint :: "nat \<Rightarrow> string \<Rightarrow> string list \<Rightarrow> unit vfc" where
  "arguments_hint n hint argv = (if length argv < n then vprint hint else iret ())"

fun pydict_set :: "string \<Rightarrow> pyval \<Rightarrow> pyval \<Rightarrow> pyval" where
  "pydict_set k v (PDict d) = PDict (dict_set k v d)"
| "pydict_set k v x = x"

section \<open>The scripts\<close>

definition get_anything :: "vfc_server \<Rightarrow> (pyval \<Rightarrow> pyval res) \<Rightarrow> unit vfc" where
  "get_anything server to_json =
     (let url = ''http://'' @ ''10.12.5.155'' @ '':30280'' @ ''/api/nslcm/v1/ns''
      in ibind (vprint url) (\<lambda>_.
         ibind (\<lambda>t. (server (t @ [VGet url]) url, t @ [VGet url])) (\<lambda>(status, content).
         ibind (ilift (to_json content)) (\<lambda>json.
         emit (VPrint (PList [status, json]))))))"

definition ns_create_data :: pyval where
  "ns_create_data = PDict
     [(''context'', PDict [(''globalCustomerId'', PStr ''global-customer-id-test1''),
                           (''serviceType'', PStr ''service-type-test1'')]),
      (''csarId'', PStr ''d5d678dc-80ef-461e-8630-d105f43b0a18''),
      (''nsName'', PStr ''ns_vsn''),
      (''description'', PStr ''description'')]"

definition ns_create :: "vfc_server \<Rightarrow> string list \<Rightarrow> unit vfc" where
  "ns_create server argv =
     ibind (arguments_hint 4 (''please input msb ip, csar id, csar name'' @ [CHR 0x0A]) argv) (\<lambda>_.
     ibind (ilift (at argv 1)) (\<lambda>ip.
     ibind (ilift (at argv 2)) (\<lambda>csarid.
     ibind (ilift (at argv 3)) (\<lambda>nsname.
     (let data = pydict_set ''nsName'' (PStr nsname)
                   (pydict_set ''csarId'' (PStr csarid) ns_create_data);
          url = ''http://'' @ ip @ '':30280/api/nslcm/v1/ns''
      in ibind (emit (VPrint data)) (\<lambda>_.
         ibind (vprint url) (\<lambda>_.
         request_and_print server url ''POST'' data)))))))"

definition ns_delete :: "vfc_server \<Rightarrow> unit vfc" where
  "ns_delete server =
     (let url = ''http://10.12.5.155:30280/api/nslcm/v1/ns/fdf71f54-0ef9-4a2e-8b73-cef8a7e8b08e''
      in ibind (vprint url) (\<lambda>_. request_and_print server url ''DELETE'' (PDict [])))"

definition ns_instantiate_data :: pyval where
  "ns_instantiate_data = PDict
     [(''additionalParamForNs'', PDict [(''sdnControllerId'', PStr ''2'')]),
      (''locationConstraints'', PList [PDict
         [(''vnfProfileId'', PStr ''3fca3543-07f5-492f-812c-ed462e4f94f4''),
          (''locationConstraints'', PDict [(''vimId'', PStr ''INTEL_ONAP-POD-01-Rail-07'')])]])]"

definition ns_instantiate :: "vfc_server \<Rightarrow> string list \<Rightarrow> unit vfc" where
  "ns_instantiate server argv =
     ibind (arguments_hint 2
              (''please input msb ip, ns_instance_id, vnf_description_id'' @ [CHR 0x0A]) argv) (\<lambda>_.
     ibind (ilift (at argv 1)) (\<lambda>ip.
     ibind (ilift (at argv 2)) (\<lambda>nsInstanceId.
     (let url = ''http://'' @ ip @ '':30280/api/nslcm/v1/ns/'' @ nsInstanceId @ ''/instantiate''
      in ibind (vprint url) (\<lambda>_.
         request_and_print server url ''POST'' ns_instantiate_data)))))"

definition csar_data :: pyval where
  "csar_data = PDict [(''csarId'', PStr ''d5d678dc-80ef-461e-8630-d105f43b0a18'')]"

text \<open>The two onboarding scripts differ in the resource only.\<close>

definition onboard_from_sdc :: "string \<Rightarrow> vfc_server \<Rightarrow> string list \<Rightarrow> unit vfc" where
  "onboard_from_sdc resource server argv =
     ibind (arguments_hint 3 (''please input msb ip, csar id'' @ [CHR 0x0A]) argv) (\<lambda>_.
     ibind (ilift (at argv 1)) (\<lambda>ip.
     ibind (ilift (at argv 2)) (\<lambda>csarid.
     (let data = pydict_set ''csarId'' (PStr csarid) csar_data;
          url = ''http://'' @ ip @ '':30280/api/catalog/v1/'' @ resource
      in ibind (emit (VPrint data)) (\<lambda>_.
         ibind (vprint url) (\<lambda>_.
         request_and_print server url ''POST'' data))))))"

definition ns_onboard_from_sdc :: "vfc_server \<Rightarrow> string list \<Rightarrow> unit vfc" where
  "ns_onboard_from_sdc = onboard_from_sdc ''nspackages''"

definition vnf_onboard_from_sdc :: "vfc_server \<Rightarrow> string list \<Rightarrow> unit vfc" where
  "vnf_onboard_from_sdc = onboard_from_sdc ''vnfpackages''"

definition ns_terminate :: "vfc_server \<Rightarrow> unit vfc" where
  "ns_terminate server =
     (let url = ''http://10.12.5.155:30280/api/nslcm/v1/ns/f5bebc27-68dd-487b-9b90-be9012e363c6/terminate''
      in ibind (vprint url) (\<lambda>_. request_and_print server url ''POST'' (PDict [])))"

definition vnf_onboard_delete :: "vfc_server \<Rightarrow> unit vfc" where
  "vnf_onboard_delete server =
     (let url = ''http://10.12.5.155:30280'' @ ''/api/catalog/v1/vnfpackages/''
                  @ ''1fdd7a9b-829a-4b79-bf83-87b0770f71c9''
      in ibind (vprint url) (\<lambda>_. request_and_print server url ''DELETE'' (PDict [])))"

definition vnf_unonboard_from_sdc :: "vfc_server \<Rightarrow> unit vfc" where
  "vnf_unonboard_from_sdc server =
     (let url = ''http://10.12.5.155:30280/api/catalog/v1/vnfpackages/af59a474-6391-4500-989c-f78df18d77f0''
      in ibind (vprint url) (\<lambda>_. request_and_print server url ''DELETE'' (PDict [])))"

section \<open>Properties\<close>

fun is_request :: "vfc_event \<Rightarrow> bool" where
  "is_request (VRequest _ _ _ _) = True"
| "is_request (VGet _) = True"
| "is_request (VPrint _) = False"

definition requests :: "vfc_event list \<Rightarrow> vfc_event list" where
  "requests t = filter is_request t"

lemma requests_simps [simp]:
  "requests [] = []" "requests (e # t) = (if is_request e then [e] else []) @ requests t"
  "requests (s @ t) = requests s @ requests t"
  by (simp_all add: requests_def)

lemma request_and_print_requests:
  "requests (snd (request_and_print server url meth body t))
     = requests t @ [VRequest url meth body json_headers]"
  by (auto simp: request_and_print_def Let_def ibind_def ilift_def split: prod.splits sum.splits)

theorem short_command_line_requests_nothing:
  assumes "length argv < n" "n = 4 \<and> script = ns_create \<or> n = 3 \<and> script = ns_instantiate
      \<or> n = 3 \<and> (script = ns_onboard_from_sdc \<or> script = vnf_onboard_from_sdc)"
  shows "\<exists>t'. script server argv t = (Inl IndexError, t') \<and> requests t' = requests t"
  using assms
  by (auto simp: ns_create_def ns_instantiate_def ns_onboard_from_sdc_def vnf_onboard_from_sdc_def
      onboard_from_sdc_def arguments_hint_def vprint_def at_def less_Suc_eq numeral_eq_Suc ibind_def
      split: if_splits)


definition demo_server :: vfc_server where
  "demo_server t url = Inr (PDict [(''status'', PStr ''202'')], PStr ''{}'')"

theorem short_command_line_requests_nothing_witness:
  "\<exists>t'. ns_create demo_server [''ns_create.py'', ''10.0.0.1''] [] = (Inl IndexError, t') \<and> requests t' = requests []"
  by (rule short_command_line_requests_nothing [where n = 4]) simp_all


end
