(* ===== verification/Pbr_Shell.thy ===== *)
theory Pbr_Shell
  imports Py_World
begin

text \<open>
  \<^verbatim>\<open>shlex.split\<close> of the standard library in POSIX mode without comments, as \<^verbatim>\<open>pbr/util.py\<close> and
  \<^verbatim>\<open>pbr/hooks/files.py\<close> use it on POSIX systems, the quoting that \<^verbatim>\<open>hooks/files.py\<close> writes, and the
  two list syntaxes of \<^verbatim>\<open>setup.cfg\<close>.
\<close>

section \<open>shlex.split\<close>

text \<open>
  The state of the lexer: between words, in a word, within quotes, after a backslash within the
  given quotes or a word.  \<open>quoted\<close> tells whether the current word had quotes, so that it counts
  even if it is empty.
\<close>

datatype lexer = Blank | Word | Quote char | Escape "char option"

definition shlex_ws :: "char \<Rightarrow> bool" where
  "shlex_ws c \<longleftrightarrow> c \<in> set [CHR '' '', CHR 0x09, CHR 0x0D, CHR 0x0A]"

abbreviation (input) single_quote :: char where "single_quote \<equiv> CHR 0x27"

abbreviation (input) double_quote :: char where "double_quote \<equiv> CHR 0x22"

abbreviation (input) backslash :: char where "backslash \<equiv> CHR 0x5C"

definition is_quote :: "char \<Rightarrow> bool" where
  "is_quote c \<longleftrightarrow> c = single_quote \<or> c = double_quote"

fun shlex_go :: "lexer \<Rightarrow> bool \<Rightarrow> string \<Rightarrow> string \<Rightarrow> string list res" where
  "shlex_go Blank quoted token [] = Inr []"
| "shlex_go Word quoted token [] = Inr (if token \<noteq> [] \<or> quoted then [token] else [])"
| "shlex_go (Quote q) quoted token [] = Inl (ValueError ''No closing quotation'')"
| "shlex_go (Escape k) quoted token [] = Inl (ValueError ''No escaped character'')"
| "shlex_go Blank quoted token (c # s) =
     (if shlex_ws c then shlex_go Blank False [] s
      else if c = backslash then shlex_go (Escape None) False [] s
      else if is_quote c then shlex_go (Quote c) False [] s
      else shlex_go Word False [c] s)"
| "shlex_go Word quoted token (c # s) =
     (if shlex_ws c then
        rbind (shlex_go Blank False [] s) (\<lambda>ws.
          Inr (if token \<noteq> [] \<or> quoted then token # ws else ws))
      else if is_quote c then shlex_go (Quote c) quoted token s
      else if c = backslash then shlex_go (Escape None) quoted token s
      else shlex_go Word quoted (token @ [c]) s)"
| "shlex_go (Quote q) quoted token (c # s) =
     (if c = q then shlex_go Word True token s
      else if c = backslash \<and> q = double_quote then shlex_go (Escape (Some q)) True token s
      else shlex_go (Quote q) True (token @ [c]) s)"
| "shlex_go (Escape k) quoted token (c # s) =
     (case k of
        None \<Rightarrow> shlex_go Word quoted (token @ [c]) s
      | Some q \<Rightarrow> shlex_go (Quote q) quoted
          (token @ (if c \<noteq> backslash \<and> c \<noteq> q then [backslash] else []) @ [c]) s)"

definition shlex_split :: "string \<Rightarrow> string list res" where
  "shlex_split s = shlex_go Blank False [] s"

text \<open>\<^verbatim>\<open>unquote_path\<close> of \<^verbatim>\<open>hooks/files.py\<close>.\<close>

definition unquote_path :: "string \<Rightarrow> string res" where
  "unquote_path path = rbind (shlex_split path) (\<lambda>ws. Inr (concat ws))"

section \<open>Lists in setup.cfg\<close>

definition split_multiline :: "string \<Rightarrow> string list" where
  "split_multiline value =
     filter (\<lambda>e. e \<noteq> [] \<and> \<not> startswith e ''#'') (map strip (split_on CHR 0x0A value))"

definition split_csv :: "string \<Rightarrow> string list" where
  "split_csv value = filter (\<lambda>e. e \<noteq> []) (map strip (split_on CHR '','' value))"

section \<open>Properties\<close>

definition quoted :: "string \<Rightarrow> string" where
  "quoted s = [single_quote] @ s @ [single_quote]"

lemma shlex_in_quotes:
  "single_quote \<notin> set w \<Longrightarrow>
     shlex_go (Quote single_quote) q t (w @ single_quote # s) = shlex_go Word True (t @ w) s"
  by (induction w arbitrary: q t) auto

lemma shlex_quoted_word:
  "single_quote \<notin> set w \<Longrightarrow> shlex_go Blank q t (quoted w @ s) = shlex_go Word True w s"
  using shlex_in_quotes [of w False "[]" s] by (simp add: quoted_def shlex_ws_def is_quote_def)

lemma shlex_quoted [simp]: "single_quote \<notin> set w \<Longrightarrow> shlex_split (quoted w) = Inr [w]"
  using shlex_quoted_word [of w False "[]" "[]"] by (simp add: shlex_split_def)

lemma shlex_Nil [simp]: "shlex_split [] = Inr []"
  by (simp add: shlex_split_def)

theorem shlex_split_quoted:
  assumes "\<And>w. w \<in> set ws \<Longrightarrow> single_quote \<notin> set w"
  shows "shlex_split (join '' '' (map quoted ws)) = Inr ws"
proof -
  have "shlex_go Blank q t (join '' '' (map quoted ws)) = Inr ws" for q t
    using assms
  proof (induction ws arbitrary: q t)
    case (Cons w ws)
    then have w: "single_quote \<notin> set w" by simp
    show ?case
    proof (cases "ws = []")
      case True
      then show ?thesis using shlex_quoted_word [OF w, of q t "[]"] by simp
    next
      case False
      then have "join '' '' (map quoted (w # ws)) = quoted w @ '' '' @ join '' '' (map quoted ws)"
        by (simp add: join_Cons)
      then show ?thesis
        using shlex_quoted_word [OF w, of q t "'' '' @ join '' '' (map quoted ws)"] Cons
        by (simp add: shlex_ws_def)
    qed
  qed simp
  then show ?thesis by (simp add: shlex_split_def)
qed

lemma split_multiline_items:
  assumes "e \<in> set (split_multiline v)"
  shows "e \<noteq> [] \<and> stripped e \<and> \<not> startswith e ''#'' \<and> CHR 0x0A \<notin> set e"
proof -
  from assms obtain l where l: "l \<in> set (split_on CHR 0x0A v)" "e = strip l" "e \<noteq> []" "\<not> startswith e ''#''"
    by (auto simp: split_multiline_def)
  from split_by_no_sep [OF l(1)] set_strip [of l] have "CHR 0x0A \<notin> set e" unfolding l(2) by blast
  with l show ?thesis by simp
qed

lemma split_multiline_join:
  assumes "\<And>e. e \<in> set es \<Longrightarrow> e \<noteq> [] \<and> stripped e \<and> \<not> startswith e ''#'' \<and> CHR 0x0A \<notin> set e"
  shows "split_multiline (join [CHR 0x0A] es) = es"
proof (cases "es = []")
  case False
  then have "split_on CHR 0x0A (join [CHR 0x0A] es) = es" using assms by (intro split_on_join) auto
  moreover have "map strip es = es" using assms by (simp add: map_idI)
  moreover have "filter (\<lambda>e. e \<noteq> [] \<and> \<not> startswith e ''#'') es = es" using assms by (simp add: filter_id_conv)
  ultimately show ?thesis by (simp add: split_multiline_def)
qed (simp add: split_multiline_def)

end
