(* ===== verification/Pbr_Version.thy ===== *)
theory Pbr_Version
  imports Py_Prelude
    "HOL-Library.Char_ord" "HOL-Library.List_Lexorder"
    "HOL-Library.Option_ord" "HOL-Library.Product_Lexorder"
begin

text \<open>
  \<^verbatim>\<open>pbr/version.py\<close>: semantic versions (class \<^verbatim>\<open>SemanticVersion\<close>: construction, ordering,
  parsing of pip version strings, increment/decrement, the string serialisations) and the
  caching version object (class \<^verbatim>\<open>VersionInfo\<close>).  The ordering is refined to an explicit
  precedence specification, and the interface that users of the ordering rely on is the
  locale \<open>total_preference\<close>.
\<close>

section \<open>The data\<close>

record semver =
  sv_major :: int
  sv_minor :: int
  sv_patch :: int
  sv_prerelease_type :: "string option"
  sv_prerelease :: "int option"
  sv_dev_count :: int

text \<open>Python truth of an optional string, and of an optional number.\<close>

definition truthy :: "string option \<Rightarrow> bool" where
  "truthy t \<longleftrightarrow> t \<noteq> None \<and> t \<noteq> Some []"

definition or_zero :: "int option \<Rightarrow> int" where
  "or_zero i = (case i of None \<Rightarrow> 0 | Some n \<Rightarrow> n)"

definition SemanticVersion ::
    "int \<Rightarrow> int \<Rightarrow> int \<Rightarrow> string option \<Rightarrow> int option \<Rightarrow> int option \<Rightarrow> semver" where
  "SemanticVersion major minor patch prerelease_type prerelease dev_count =
     \<lparr>sv_major = major, sv_minor = minor, sv_patch = patch,
      sv_prerelease_type = prerelease_type,
      sv_prerelease = (if truthy prerelease_type \<and> or_zero prerelease = 0 then Some 0
                       else prerelease),
      sv_dev_count = or_zero dev_count\<rparr>"

text \<open>\<^verbatim>\<open>sys.maxsize\<close> of a 64-bit interpreter.\<close>

definition maxsize :: int where
  "maxsize = 9223372036854775807"

section \<open>Ordering\<close>

definition rc_lookup :: "string option \<Rightarrow> string res" where
  "rc_lookup t = (case t of
       None \<Rightarrow> Inr ''z''
     | Some s \<Rightarrow> if s \<in> set [''a'', ''b'', ''rc''] then Inr s else Inl (KeyError s))"

type_synonym sort_key = "int \<times> int \<times> int \<times> int \<times> string \<times> int option \<times> int"

definition semver_sort_key :: "semver \<Rightarrow> sort_key res" where
  "semver_sort_key v =
     (let uq_dev = (if sv_dev_count v \<noteq> 0 \<and> \<not> truthy (sv_prerelease_type v) then 0 else 1)
      in rbind (rc_lookup (sv_prerelease_type v)) (\<lambda>rc.
           Inr (sv_major v, sv_minor v, sv_patch v, uq_dev, rc, sv_prerelease v,
                if sv_dev_count v \<noteq> 0 then sv_dev_count v else maxsize)))"

definition semver_lt :: "semver \<Rightarrow> semver \<Rightarrow> bool res" where
  "semver_lt v w =
     rbind (semver_sort_key v) (\<lambda>k. rbind (semver_sort_key w) (\<lambda>l. Inr (k < l)))"

definition semver_le :: "semver \<Rightarrow> semver \<Rightarrow> bool res" where
  "semver_le v w = (if v = w then Inr True else semver_lt v w)"

definition semver_ge :: "semver \<Rightarrow> semver \<Rightarrow> bool res" where
  "semver_ge v w = rbind (semver_lt v w) (\<lambda>b. Inr (\<not> b))"

definition semver_gt :: "semver \<Rightarrow> semver \<Rightarrow> bool res" where
  "semver_gt v w = rbind (semver_le v w) (\<lambda>b. Inr (\<not> b))"

section \<open>Increment, decrement, development versions\<close>

definition semver_decrement :: "semver \<Rightarrow> semver" where
  "semver_decrement v =
     (if sv_patch v \<noteq> 0 then
        SemanticVersion (sv_major v) (sv_minor v) (sv_patch v - 1) None None None
      else if sv_minor v \<noteq> 0 then
        SemanticVersion (sv_major v) (sv_minor v - 1) 9999 None None None
      else if sv_major v \<noteq> 0 then
        SemanticVersion (sv_major v - 1) 9999 9999 None None None
      else SemanticVersion 0 9999 9999 None None None)"

text \<open>
  The keyword arguments of \<^verbatim>\<open>increment\<close> are the two flags.  Adding one to a missing serial
  would be a \<^verbatim>\<open>TypeError\<close>; the constructor never leaves one missing.
\<close>

definition semver_increment :: "bool \<Rightarrow> bool \<Rightarrow> semver \<Rightarrow> semver res" where
  "semver_increment minor major v =
     rbind (if truthy (sv_prerelease_type v)
            then (case sv_prerelease v of
                    None \<Rightarrow> Inl (TypeError ''NoneType + int'')
                  | Some p \<Rightarrow> Inr (sv_prerelease_type v, Some (p + 1), sv_patch v))
            else Inr (None, None, sv_patch v + 1))
       (\<lambda>(new_type, new_prerelease, new_patch).
          if major then Inr (SemanticVersion (sv_major v + 1) 0 0 None None None)
          else if minor then
            Inr (SemanticVersion (sv_major v) (sv_minor v + 1) 0 None None None)
          else Inr (SemanticVersion (sv_major v) (sv_minor v) new_patch
                      new_type new_prerelease None))"

definition semver_to_dev :: "int \<Rightarrow> semver \<Rightarrow> semver" where
  "semver_to_dev dev_count v =
     SemanticVersion (sv_major v) (sv_minor v) (sv_patch v) (sv_prerelease_type v)
       (sv_prerelease v) (Some dev_count)"

section \<open>Serialisations\<close>

definition fmt_int_option :: "int option \<Rightarrow> string" where
  "fmt_int_option i = (case i of None \<Rightarrow> ''None'' | Some n \<Rightarrow> int_str n)"

definition semver_brief_string :: "semver \<Rightarrow> string" where
  "semver_brief_string v =
     int_str (sv_major v) @ ''.'' @ int_str (sv_minor v) @ ''.'' @ int_str (sv_patch v)"

text \<open>\<^verbatim>\<open>pre_separator\<close> is \<open>None\<close> for rpm: the released version is then lowered.\<close>

definition semver_long_version :: "string option \<Rightarrow> string \<Rightarrow> semver \<Rightarrow> string" where
  "semver_long_version pre_separator rc_marker v =
     (let unreleased = truthy (sv_prerelease_type v) \<or> sv_dev_count v \<noteq> 0;
          start = (if unreleased \<and> pre_separator = None
                   then semver_brief_string (semver_decrement v)
                   else semver_brief_string v);
          sep = (case pre_separator of None \<Rightarrow> ''.'' | Some s \<Rightarrow> s);
          pre = (if truthy (sv_prerelease_type v)
                 then sep @ rc_marker @ the (sv_prerelease_type v)
                      @ fmt_int_option (sv_prerelease v)
                 else []);
          dev = (if sv_dev_count v \<noteq> 0
                 then (if truthy (sv_prerelease_type v) then ''.'' else sep)
                      @ ''dev'' @ int_str (sv_dev_count v)
                 else [])
      in start @ pre @ dev)"

definition semver_debian_string :: "semver \<Rightarrow> string" where
  "semver_debian_string v = semver_long_version (Some ''~'') [] v"

definition semver_release_string :: "semver \<Rightarrow> string" where
  "semver_release_string v = semver_long_version (Some ''.'') ''0'' v"

definition semver_rpm_string :: "semver \<Rightarrow> string" where
  "semver_rpm_string v = semver_long_version None [] v"

text \<open>The five entries of \<^verbatim>\<open>version_tuple\<close>.\<close>

text \<open>Equality compares the attributes with those of another \<^verbatim>\<open>SemanticVersion\<close>; \<open>None\<close> is an object of another class.\<close>

definition semver_eq :: "semver \<Rightarrow> semver option \<Rightarrow> bool" where
  "semver_eq v other = (case other of None \<Rightarrow> False | Some w \<Rightarrow> v = w)"

definition semver_ne :: "semver \<Rightarrow> semver option \<Rightarrow> bool" where
  "semver_ne v other = (\<not> semver_eq v other)"

definition semver_repr :: "semver \<Rightarrow> string" where
  "semver_repr v = ''pbr.version.SemanticVersion('' @ semver_release_string v @ '')''"

definition semver_type_map :: "string \<Rightarrow> bool \<Rightarrow> string res" where
  "semver_type_map t dev =
     (if t = ''a'' then Inr (if dev then ''alphadev'' else ''alpha'')
      else if t = ''b'' then Inr (if dev then ''betadev'' else ''beta'')
      else if t = ''rc'' then Inr (if dev then ''candidatedev'' else ''candidate'')
      else Inl (KeyError t))"

definition semver_version_tuple ::
    "semver \<Rightarrow> (int \<times> int \<times> int \<times> string \<times> int option) res" where
  "semver_version_tuple v =
     rbind (if truthy (sv_prerelease_type v) then
              rbind (semver_type_map (the (sv_prerelease_type v)) (sv_dev_count v \<noteq> 0))
                (\<lambda>level. Inr (level, if sv_dev_count v \<noteq> 0 then Some (sv_dev_count v)
                                    else sv_prerelease v))
            else if sv_dev_count v \<noteq> 0 then Inr (''dev'', Some (sv_dev_count v - 1))
            else Inr (''final'', Some 0))
       (\<lambda>(level, serial).
          Inr (sv_major v, sv_minor v, sv_patch v, level, serial))"

section \<open>Parsing a pip version string\<close>

definition semver_parse_type :: "string \<Rightarrow> (string \<times> int) res" where
  "semver_parse_type segment =
     (let segment = dropWhile is_digit segment;
          prerelease_type = takeWhile is_alpha segment;
          prerelease = drop (length prerelease_type) segment
      in rbind (int_or_raise prerelease) (\<lambda>i. Inr (prerelease_type, i)))"

text \<open>The components: numeric ones first, at least three, then the rest.\<close>

definition semver_components :: "string \<Rightarrow> string list res" where
  "semver_components version_string =
     (let input_components = split_on CHR ''.'' version_string;
          components = filter str_isdigit input_components;
          digit_len = length components
      in if digit_len = 0 then Inl (ValueError version_string)
         else if digit_len < 3 then
           rbind (if digit_len < length input_components
                  then rbind (at (input_components ! digit_len) 0) (\<lambda>c. Inr (is_digit c))
                  else Inr False)
             (\<lambda>mixed.
                if mixed then
                  (let mixed_component = input_components ! digit_len;
                       last_component = takeWhile is_digit mixed_component;
                       input_components' =
                         take digit_len input_components
                         @ [last_component, drop (length last_component) mixed_component]
                         @ drop (digit_len + 1) input_components;
                       digit_len' = digit_len + 1
                   in Inr (components @ [last_component] @ replicate (3 - digit_len') ''0''
                           @ drop digit_len' input_components'))
                else Inr (components @ replicate (3 - digit_len) ''0''
                          @ drop digit_len input_components))
         else Inr (components @ drop digit_len input_components))"

text \<open>The loop over the trailing \<^verbatim>\<open>devN\<close> and \<^verbatim>\<open>postN\<close> components.\<close>

fun semver_parse_remainder ::
    "string list \<Rightarrow> int option \<Rightarrow> int option \<Rightarrow> (int option \<times> int option) res" where
  "semver_parse_remainder [] dev_count post_count = Inr (dev_count, post_count)"
| "semver_parse_remainder (component # remainder) dev_count post_count =
     (if startswith component ''dev'' then
        rbind (int_or_raise (drop 3 component))
          (\<lambda>n. semver_parse_remainder remainder (Some n) post_count)
      else if startswith component ''post'' then
        rbind (int_or_raise (drop 4 component))
          (\<lambda>n. semver_parse_remainder remainder None (Some n))
      else Inl (ValueError component))"

text \<open>The pre-release type and serial, the dev count and the post count of the remainder.\<close>

definition semver_parse_suffix ::
    "string list \<Rightarrow> (string option \<times> int option \<times> int option \<times> int option) res" where
  "semver_parse_suffix remainder =
     (let starts_with_int =
        (case remainder of [] \<Rightarrow> None
         | r # _ \<Rightarrow> (case py_int r of None \<Rightarrow> None | Some i \<Rightarrow> if i \<noteq> 0 then Some i else None))
      in case starts_with_int of
           Some i \<Rightarrow> Inr (None, None, Some i, None)
         | None \<Rightarrow>
             rbind (case remainder of
                 [] \<Rightarrow> Inr (None, None, [])
               | r # rs \<Rightarrow>
                   rbind (at r 0) (\<lambda>c.
                     if c \<in> set ''0abr''
                     then rbind (semver_parse_type r) (\<lambda>(t, i). Inr (Some t, Some i, rs))
                     else Inr (None, None, r # rs)))
               (\<lambda>(t, i, rest).
                  rbind (semver_parse_remainder rest None None)
                    (\<lambda>(dev, post). Inr (t, i, dev, post))))"

definition from_pip_string_unsafe :: "string \<Rightarrow> semver res" where
  "from_pip_string_unsafe version_string0 =
     (let version_string = dropWhile (\<lambda>c. c \<in> set ''vV'') version_string0
      in if \<not> str_isdigit (take 1 version_string) then Inl (ValueError version_string)
         else rbind (semver_components version_string) (\<lambda>components.
           rbind (rbind (at components 0) int_or_raise) (\<lambda>major.
           rbind (rbind (at components 1) int_or_raise) (\<lambda>minor.
           rbind (at components 2) (\<lambda>c2.
             (let (patch, components') =
                (case py_int c2 of
                   Some p \<Rightarrow> (p, components)
                 | None \<Rightarrow> (0, take 2 components @ [''0''] @ drop 2 components))
              in rbind (semver_parse_suffix (drop 3 components'))
                   (\<lambda>(prerelease_type, prerelease, dev_count, post_count).
                      (let result =
                         SemanticVersion major minor patch prerelease_type prerelease dev_count
                       in if or_zero post_count \<noteq> 0 then
                            (if or_zero dev_count \<noteq> 0 then Inl (ValueError version_string)
                             else rbind (semver_increment False False result)
                                    (\<lambda>r. Inr (semver_to_dev (or_zero post_count) r)))
                          else Inr result))))))))"

definition from_pip_string :: "string \<Rightarrow> semver res" where
  "from_pip_string version_string =
     (case from_pip_string_unsafe version_string of
        Inl IndexError \<Rightarrow> Inl (ValueError version_string)
      | r \<Rightarrow> r)"

section \<open>The caching version object\<close>

text \<open>
  \<^verbatim>\<open>provider_version\<close> stands for \<^verbatim>\<open>pkg_resources\<close> (\<open>None\<close>: \<^verbatim>\<open>DistributionNotFound\<close>) and
  \<^verbatim>\<open>get_version\<close> for the fallback \<^verbatim>\<open>packaging.get_version\<close>, which version.py imports lazily.
\<close>

record version_info =
  vi_package :: string
  vi_cached_version :: "string option"
  vi_semantic :: "semver option"

definition VersionInfo :: "string \<Rightarrow> version_info" where
  "VersionInfo package =
     \<lparr>vi_package = package, vi_cached_version = None, vi_semantic = None\<rparr>"

definition vi_version_from_pkg_resources ::
    "(string \<Rightarrow> string option) \<Rightarrow> (string \<Rightarrow> string res) \<Rightarrow> version_info \<Rightarrow> semver res" where
  "vi_version_from_pkg_resources provider_version get_version vi =
     rbind (case provider_version (vi_package vi) of
              Some s \<Rightarrow> Inr s
            | None \<Rightarrow> get_version (vi_package vi)) from_pip_string"

definition vi_semantic_version ::
    "(string \<Rightarrow> string option) \<Rightarrow> (string \<Rightarrow> string res) \<Rightarrow> version_info
     \<Rightarrow> (semver \<times> version_info) res" where
  "vi_semantic_version provider_version get_version vi =
     (case vi_semantic vi of
        Some v \<Rightarrow> Inr (v, vi)
      | None \<Rightarrow> rbind (vi_version_from_pkg_resources provider_version get_version vi)
                  (\<lambda>v. Inr (v, vi\<lparr>vi_semantic := Some v\<rparr>)))"

definition vi_release_string ::
    "(string \<Rightarrow> string option) \<Rightarrow> (string \<Rightarrow> string res) \<Rightarrow> version_info
     \<Rightarrow> (string \<times> version_info) res" where
  "vi_release_string provider_version get_version vi =
     rbind (vi_semantic_version provider_version get_version vi)
       (\<lambda>(v, vi'). Inr (semver_release_string v, vi'))"

definition vi_version_string ::
    "(string \<Rightarrow> string option) \<Rightarrow> (string \<Rightarrow> string res) \<Rightarrow> version_info
     \<Rightarrow> (string \<times> version_info) res" where
  "vi_version_string provider_version get_version vi =
     rbind (vi_semantic_version provider_version get_version vi)
       (\<lambda>(v, vi'). Inr (semver_brief_string v, vi'))"

text \<open>\<^verbatim>\<open>str()\<close> and \<^verbatim>\<open>repr()\<close> of the object.\<close>

definition vi_str ::
    "(string \<Rightarrow> string option) \<Rightarrow> (string \<Rightarrow> string res) \<Rightarrow> version_info \<Rightarrow> (string \<times> version_info) res" where
  "vi_str = vi_version_string"

definition vi_repr ::
    "(string \<Rightarrow> string option) \<Rightarrow> (string \<Rightarrow> string res) \<Rightarrow> version_info \<Rightarrow> (string \<times> version_info) res" where
  "vi_repr provider_version get_version vi =
     rbind (vi_version_string provider_version get_version vi)
       (\<lambda>(s, vi'). Inr (''pbr.version.VersionInfo('' @ vi_package vi @ '':'' @ s @ '')'', vi'))"

definition vi_cached_version_string ::
    "(string \<Rightarrow> string option) \<Rightarrow> (string \<Rightarrow> string res) \<Rightarrow> string \<Rightarrow> version_info
     \<Rightarrow> (string \<times> version_info) res" where
  "vi_cached_version_string provider_version get_version pre vi =
     (if truthy (vi_cached_version vi) then Inr (the (vi_cached_version vi), vi)
      else rbind (vi_version_string provider_version get_version vi)
             (\<lambda>(s, vi'). Inr (pre @ s, vi'\<lparr>vi_cached_version := Some (pre @ s)\<rparr>)))"

section \<open>Well-formed versions\<close>

definition semver_wf :: "semver \<Rightarrow> bool" where
  "semver_wf v \<longleftrightarrow>
     0 \<le> sv_major v \<and> 0 \<le> sv_minor v \<and> 0 \<le> sv_patch v
     \<and> 0 \<le> sv_dev_count v \<and> sv_dev_count v < maxsize
     \<and> (case sv_prerelease_type v of
          None \<Rightarrow> sv_prerelease v = None
        | Some t \<Rightarrow> t \<in> set [''a'', ''b'', ''rc'']
                    \<and> (\<exists>i. sv_prerelease v = Some i \<and> 0 \<le> i))"

lemma or_zero_simps [simp]: "or_zero None = 0" "or_zero (Some n) = n"
  by (simp_all add: or_zero_def)

lemma truthy_simps [simp]: "\<not> truthy None" "truthy (Some t) \<longleftrightarrow> t \<noteq> []"
  by (simp_all add: truthy_def)

lemma SemanticVersion_sel [simp]:
  "sv_major (SemanticVersion a b c t p d) = a"
  "sv_minor (SemanticVersion a b c t p d) = b"
  "sv_patch (SemanticVersion a b c t p d) = c"
  "sv_prerelease_type (SemanticVersion a b c t p d) = t"
  "sv_dev_count (SemanticVersion a b c t p d) = or_zero d"
  "sv_prerelease (SemanticVersion a b c t p d) =
     (if truthy t \<and> or_zero p = 0 then Some 0 else p)"
  by (simp_all add: SemanticVersion_def)

lemma semver_wf_rebuild:
  assumes "semver_wf v"
  shows "SemanticVersion (sv_major v) (sv_minor v) (sv_patch v) (sv_prerelease_type v)
           (sv_prerelease v) (if sv_dev_count v = 0 then None else Some (sv_dev_count v)) = v"
  using assms
  by (cases v) (auto simp: semver_wf_def SemanticVersion_def split: option.splits)

text \<open>The four shapes of a well-formed version.\<close>

lemma semver_wf_cases [consumes 1, case_names final dev pre predev]:
  assumes "semver_wf v"
  obtains
    "sv_prerelease_type v = None" "sv_prerelease v = None" "sv_dev_count v = 0"
  | "sv_prerelease_type v = None" "sv_prerelease v = None" "0 < sv_dev_count v"
  | t i where "sv_prerelease_type v = Some t" "sv_prerelease v = Some i" "sv_dev_count v = 0"
      "t \<in> set [''a'', ''b'', ''rc'']" "0 \<le> i"
  | t i where "sv_prerelease_type v = Some t" "sv_prerelease v = Some i" "0 < sv_dev_count v"
      "t \<in> set [''a'', ''b'', ''rc'']" "0 \<le> i"
proof -
  have "0 \<le> sv_dev_count v" using assms by (simp add: semver_wf_def)
  then consider "sv_dev_count v = 0" | "0 < sv_dev_count v" by linarith
  then show thesis
  proof cases
    case 1
    show thesis
      by (cases "sv_prerelease_type v") (use 1 that(1,3) assms in \<open>auto simp: semver_wf_def\<close>)
  next
    case 2
    show thesis
      by (cases "sv_prerelease_type v") (use 2 that(2,4) assms in \<open>auto simp: semver_wf_def\<close>)
  qed
qed

section \<open>Ordering\<close>

text \<open>
  The precedence of the documentation, spelled out: release number first; within one
  release, unqualified development versions, then alpha, beta and release candidates, then
  the release; within one pre-release kind the serial; and a development version before the
  version it leads to.
\<close>

definition semver_stage :: "semver \<Rightarrow> nat" where
  "semver_stage v =
     (case sv_prerelease_type v of
        None \<Rightarrow> if sv_dev_count v = 0 then 4 else 0
      | Some t \<Rightarrow> if t = ''a'' then 1 else if t = ''b'' then 2 else 3)"

definition dev_precedes :: "int \<Rightarrow> int \<Rightarrow> bool" where
  "dev_precedes d e \<longleftrightarrow> d \<noteq> 0 \<and> (e = 0 \<or> d < e)"

definition semver_precedes :: "semver \<Rightarrow> semver \<Rightarrow> bool" where
  "semver_precedes v w \<longleftrightarrow>
     sv_major v < sv_major w \<or> sv_major v = sv_major w \<and>
     (sv_minor v < sv_minor w \<or> sv_minor v = sv_minor w \<and>
      (sv_patch v < sv_patch w \<or> sv_patch v = sv_patch w \<and>
       (semver_stage v < semver_stage w \<or> semver_stage v = semver_stage w \<and>
        (or_zero (sv_prerelease v) < or_zero (sv_prerelease w)
         \<or> or_zero (sv_prerelease v) = or_zero (sv_prerelease w)
           \<and> dev_precedes (sv_dev_count v) (sv_dev_count w)))))"

lemma rc_order: 
  "(''a'' :: string) < ''b''" "(''a'' :: string) < ''rc''" "(''a'' :: string) < ''z''"
  "(''b'' :: string) < ''rc''" "(''b'' :: string) < ''z''" "(''rc'' :: string) < ''z''"
  by (code_simp)+

lemma semver_sort_key_wf:
  assumes "semver_wf v"
  shows "semver_sort_key v =
    Inr (sv_major v, sv_minor v, sv_patch v, if semver_stage v = 0 then 0 else 1,
         (case sv_prerelease_type v of None \<Rightarrow> ''z'' | Some t \<Rightarrow> t), sv_prerelease v,
         if sv_dev_count v \<noteq> 0 then sv_dev_count v else maxsize)"
  using assms
  by (cases rule: semver_wf_cases)
     (auto simp: semver_sort_key_def rc_lookup_def semver_stage_def)

text \<open>The two key entries after the release number encode the stage.\<close>

abbreviation key_rc :: "semver \<Rightarrow> string" where
  "key_rc v \<equiv> (case sv_prerelease_type v of None \<Rightarrow> ''z'' | Some t \<Rightarrow> t)"

lemma semver_stage_cases:
  assumes "semver_wf v"
  shows "semver_stage v = 0 \<and> key_rc v = ''z'' \<or> semver_stage v = 1 \<and> key_rc v = ''a''
    \<or> semver_stage v = 2 \<and> key_rc v = ''b'' \<or> semver_stage v = 3 \<and> key_rc v = ''rc''
    \<or> semver_stage v = 4 \<and> key_rc v = ''z''"
  using assms by (cases rule: semver_wf_cases) (auto simp: semver_stage_def)

lemma key_rc_stage:
  assumes "semver_wf v" "semver_wf w" "semver_stage v \<noteq> 0 \<longleftrightarrow> semver_stage w \<noteq> 0"
  shows "key_rc v < key_rc w \<longleftrightarrow> semver_stage v < semver_stage w"
    "key_rc v = key_rc w \<longleftrightarrow> semver_stage v = semver_stage w"
  using semver_stage_cases [OF assms(1)] semver_stage_cases [OF assms(2)] assms(3)
  by (elim disjE conjE; simp add: rc_order less_imp_not_less)+

lemma key_prerelease:
  assumes "semver_wf v" "semver_wf w" "semver_stage v = semver_stage w"
  shows "sv_prerelease v < sv_prerelease w
      \<longleftrightarrow> or_zero (sv_prerelease v) < or_zero (sv_prerelease w)"
    "sv_prerelease v = sv_prerelease w
      \<longleftrightarrow> or_zero (sv_prerelease v) = or_zero (sv_prerelease w)"
proof -
  have "sv_prerelease_type v = None \<longleftrightarrow> sv_prerelease_type w = None"
    using assms(3) by (auto simp: semver_stage_def split: option.splits if_splits)
  then show "sv_prerelease v < sv_prerelease w
      \<longleftrightarrow> or_zero (sv_prerelease v) < or_zero (sv_prerelease w)"
    "sv_prerelease v = sv_prerelease w
      \<longleftrightarrow> or_zero (sv_prerelease v) = or_zero (sv_prerelease w)"
    using assms(1,2) by (auto simp: semver_wf_def split: option.splits)
qed

lemma semver_lt_precedes:
  assumes v: "semver_wf v" and w: "semver_wf w"
  shows "semver_lt v w = Inr (semver_precedes v w)"
proof -
  have "0 \<le> sv_dev_count v" "sv_dev_count v < maxsize"
    "0 \<le> sv_dev_count w" "sv_dev_count w < maxsize"
    using v w by (auto simp: semver_wf_def)
  then have dev: "(if sv_dev_count v \<noteq> 0 then sv_dev_count v else maxsize)
      < (if sv_dev_count w \<noteq> 0 then sv_dev_count w else maxsize)
      \<longleftrightarrow> dev_precedes (sv_dev_count v) (sv_dev_count w)"
    by (auto simp: dev_precedes_def)
  consider "semver_stage v = 0" "semver_stage w = 0" | "semver_stage v = 0" "semver_stage w \<noteq> 0"
    | "semver_stage v \<noteq> 0" "semver_stage w = 0" | "semver_stage v \<noteq> 0" "semver_stage w \<noteq> 0"
    by blast
  then show ?thesis
  proof cases
    case 1
    with key_rc_stage [OF v w] key_prerelease [OF v w] dev show ?thesis
      by (simp add: semver_lt_def semver_sort_key_wf v w semver_precedes_def less_prod_def')
  next
    case 4
    with key_rc_stage [OF v w] key_prerelease [OF v w] dev show ?thesis
      by (auto simp add: semver_lt_def semver_sort_key_wf v w semver_precedes_def less_prod_def')
  qed (simp_all add: semver_lt_def semver_sort_key_wf v w semver_precedes_def less_prod_def')
qed

text \<open>
  C2: On well-formed versions the sort-key comparison of __lt__ never raises and decides the
  precedence specification: numbers first, then stage (dev of a final, alpha, beta, candidate,
  final), then serial, then dev count where no dev count comes last.
\<close>
theorem semver_order_refines_precedence:
  assumes "semver_wf v" "semver_wf w"
  shows "semver_lt v w = Inr (semver_precedes v w)"
  by (rule semver_lt_precedes [OF assms])

theorem semver_order_refines_precedence_witness:
  "semver_lt (SemanticVersion 1 2 3 (Some ''rc'') (Some 2) (Some 7))
     (SemanticVersion 1 2 3 (Some ''rc'') (Some 2) None) = Inr True"
proof -
  let ?v = "SemanticVersion 1 2 3 (Some ''rc'') (Some 2) (Some 7)"
  let ?w = "SemanticVersion 1 2 3 (Some ''rc'') (Some 2) None"
  have "semver_wf ?v" "semver_wf ?w" by (simp_all add: semver_wf_def maxsize_def)
  moreover have "semver_precedes ?v ?w" by (simp add: semver_precedes_def semver_stage_def dev_precedes_def)
  ultimately show ?thesis using semver_order_refines_precedence by simp
qed

lemma semver_precedes_irrefl: "\<not> semver_precedes v v"
  by (auto simp: semver_precedes_def dev_precedes_def)

lemma semver_precedes_trans:
  assumes "semver_wf u" "semver_wf v" "semver_wf w"
    and "semver_precedes u v" "semver_precedes v w"
  shows "semver_precedes u w"
proof -
  obtain k l m where k: "semver_sort_key u = Inr k" "semver_sort_key v = Inr l"
      "semver_sort_key w = Inr m"
    using assms(1-3) semver_sort_key_wf by blast
  then have "k < l" "l < m"
    using semver_lt_precedes [OF assms(1,2)] semver_lt_precedes [OF assms(2,3)] assms(4,5)
    by (auto simp: semver_lt_def)
  then have "k < m" by (rule less_trans)
  then show ?thesis
    using semver_lt_precedes [OF assms(1,3)] k by (simp add: semver_lt_def)
qed

lemma semver_sort_key_inj:
  assumes "semver_wf v" "semver_wf w" "semver_sort_key v = semver_sort_key w"
  shows "v = w"
proof -
  have "0 \<le> sv_dev_count v" "sv_dev_count v < maxsize" "0 \<le> sv_dev_count w"
      "sv_dev_count w < maxsize" using assms by (auto simp: semver_wf_def)
  with assms show ?thesis
    by (cases v; cases w)
       (auto simp: semver_sort_key_wf semver_wf_def split: option.splits if_splits)
qed

lemma semver_precedes_total:
  assumes "semver_wf v" "semver_wf w"
  shows "semver_precedes v w \<or> v = w \<or> semver_precedes w v"
proof -
  obtain k l where k: "semver_sort_key v = Inr k" "semver_sort_key w = Inr l"
    using assms semver_sort_key_wf by blast
  then show ?thesis
    using semver_lt_precedes [OF assms] semver_lt_precedes [OF assms(2,1)]
      semver_sort_key_inj [OF assms] less_linear [of k l]
    by (auto simp: semver_lt_def)
qed

section \<open>Round trip\<close>

lemma dropWhile_keeps: "c \<in> set s \<Longrightarrow> \<not> P c \<Longrightarrow> c \<in> set (dropWhile P s)"
  by (induction s) auto

lemma strip_keeps: "c \<in> set s \<Longrightarrow> \<not> is_ws c \<Longrightarrow> c \<in> set (strip s)"
  by (simp add: strip_def lstrip_def rstrip_def dropWhile_keeps)

lemma alpha_not_ws [simp]: "is_alpha c \<Longrightarrow> \<not> is_ws c"
  by (auto simp: is_alpha_def is_ws_def)

lemma py_int_alpha_None:
  assumes "c \<in> set s" "is_alpha c"
  shows "py_int s = None"
proof -
  have c: "c \<in> set (strip s)" using assms by (simp add: strip_keeps)
  have "c \<noteq> CHR ''-''" "c \<noteq> CHR ''+''" "\<not> is_digit c"
    using assms(2) by (auto simp: is_alpha_def is_digit_def)
  with c show ?thesis
    by (auto simp: py_int_def unsigned_int_def str_isdigit_def list_all_iff split: list.splits)
qed

lemma nat_str_no_char: "\<not> is_digit c \<Longrightarrow> c \<notin> set (nat_str n)"
  using nat_str_digit_in by blast

lemma is_digit_dot [simp]: "\<not> is_digit CHR ''.''"
  by (simp add: is_digit_def)

lemma takeWhile_nat_str: "takeWhile is_digit (nat_str n) = nat_str n"
  using nat_str_digit_in [of _ n] by (simp add: takeWhile_eq_all_conv)

lemma takeWhile_all_append: "list_all P xs \<Longrightarrow> takeWhile P (xs @ ys) = xs @ takeWhile P ys"
  by (induction xs) auto

lemma hd_nat_str_digit: "is_digit (hd (nat_str n))"
  using nat_str_digit_in [of "hd (nat_str n)" n] by simp

lemma semver_wf_nonneg:
  assumes "semver_wf v"
  shows "0 \<le> sv_major v" "0 \<le> sv_minor v" "0 \<le> sv_patch v" "0 \<le> sv_dev_count v"
  using assms by (auto simp: semver_wf_def)

text \<open>The components of a canonical release string.\<close>

definition release_segments :: "semver \<Rightarrow> string list" where
  "release_segments v =
     [nat_str (nat (sv_major v)), nat_str (nat (sv_minor v)), nat_str (nat (sv_patch v))]
     @ (case sv_prerelease_type v of None \<Rightarrow> []
        | Some t \<Rightarrow> [CHR ''0'' # t @ nat_str (nat (or_zero (sv_prerelease v)))])
     @ (if sv_dev_count v = 0 then [] else [''dev'' @ nat_str (nat (sv_dev_count v))])"

lemma release_string_segments:
  assumes "semver_wf v"
  shows "semver_release_string v = join ''.'' (release_segments v)"
  using assms semver_wf_nonneg [OF assms]
  by (cases rule: semver_wf_cases)
     (auto simp: semver_release_string_def semver_long_version_def
        semver_brief_string_def release_segments_def int_str_nonneg fmt_int_option_def)

lemma release_segments_no_dot:
  assumes "semver_wf v" "w \<in> set (release_segments v)"
  shows "CHR ''.'' \<notin> set w"
  using assms
  by (cases rule: semver_wf_cases)
     (auto simp: release_segments_def nat_str_no_char)

lemma split_release_string:
  assumes "semver_wf v"
  shows "split_on CHR ''.'' (semver_release_string v) = release_segments v"
  unfolding release_string_segments [OF assms]
  using release_segments_no_dot [OF assms]
  by (intro split_on_join) (auto simp: release_segments_def)

lemma not_isdigit_alpha: "c \<in> set s \<Longrightarrow> is_alpha c \<Longrightarrow> \<not> str_isdigit s"
  by (metis py_int_alpha_None py_int_digits option.distinct(1))

lemma release_components:
  assumes "semver_wf v"
  shows "semver_components (semver_release_string v) = Inr (release_segments v)"
proof -
  have "filter str_isdigit (release_segments v) =
     [nat_str (nat (sv_major v)), nat_str (nat (sv_minor v)), nat_str (nat (sv_patch v))]"
    using assms
    by (cases rule: semver_wf_cases)
       (auto simp: release_segments_def not_isdigit_alpha is_alpha_def str_isdigit_def is_digit_def)
  then show ?thesis
    unfolding semver_components_def split_release_string [OF assms]
    by (simp add: release_segments_def)
qed

lemma parse_type_canonical:
  assumes "t \<in> set [''a'', ''b'', ''rc'']"
  shows "semver_parse_type (CHR ''0'' # t @ nat_str n) = Inr (t, int n)"
proof -
  have "takeWhile is_alpha (nat_str n) = []"
    using hd_nat_str_digit [of n] by (cases "nat_str n") auto
  with assms show ?thesis
    by (auto simp: semver_parse_type_def Let_def is_digit_def is_alpha_def int_or_raise_def
        takeWhile_all_append)
qed

lemmas parse_type_kinds = parse_type_canonical [of "''a''", simplified]
  parse_type_canonical [of "''b''", simplified] parse_type_canonical [of "''rc''", simplified]

lemma parse_suffix_canonical:
  assumes "semver_wf v"
  shows "semver_parse_suffix (drop 3 (release_segments v)) =
     Inr (sv_prerelease_type v, sv_prerelease v,
          if sv_dev_count v = 0 then None else Some (sv_dev_count v), None)"
  using assms
  by (cases rule: semver_wf_cases)
     (auto simp: release_segments_def semver_parse_suffix_def parse_type_kinds
        int_or_raise_def py_int_alpha_None [where c = "CHR ''d''"]
        py_int_alpha_None [where c = "CHR ''a''"] py_int_alpha_None [where c = "CHR ''b''"]
        py_int_alpha_None [where c = "CHR ''r''"] is_alpha_def)

lemma release_string_parses:
  assumes "semver_wf v"
  shows "from_pip_string (semver_release_string v) = Inr v"
proof -
  let ?s = "semver_release_string v"
  have hd: "\<exists>c r. ?s = c # r \<and> is_digit c"
    using hd_nat_str_digit [of "nat (sv_major v)"]
    unfolding release_string_segments [OF assms] release_segments_def
    by (cases "nat_str (nat (sv_major v))") auto
  then have strip: "dropWhile (\<lambda>c. c \<in> set ''vV'') ?s = ?s" "str_isdigit (take 1 ?s)"
    by (auto simp: is_digit_def str_isdigit_def)
  have "from_pip_string_unsafe ?s = Inr v"
    unfolding from_pip_string_unsafe_def Let_def strip(1)
    using strip(2) parse_suffix_canonical [OF assms] semver_wf_rebuild [OF assms]
      semver_wf_nonneg [OF assms]
    by (simp add: release_components [OF assms] release_segments_def int_or_raise_def
        split del: if_split)
  then show ?thesis by (simp add: from_pip_string_def)
qed

text \<open>
  C1: Parsing the release string of a well-formed semantic version (non-negative numbers, a
  known pre-release type, a dev count below sys.maxsize) gives back exactly that version.
\<close>
theorem from_pip_string_release_string:
  assumes "semver_wf v"
  shows "from_pip_string (semver_release_string v) = Inr v"
  by (rule release_string_parses [OF assms])

theorem from_pip_string_release_string_witness:
  "from_pip_string ''1.2.3.0rc4.dev5'' = Inr (SemanticVersion 1 2 3 (Some ''rc'') (Some 4) (Some 5))"
proof -
  let ?v = "SemanticVersion 1 2 3 (Some ''rc'') (Some 4) (Some 5)"
  have "semver_wf ?v" by (simp add: semver_wf_def maxsize_def)
  moreover have "semver_release_string ?v = ''1.2.3.0rc4.dev5''" by code_simp
  ultimately show ?thesis using from_pip_string_release_string [of ?v] by simp
qed

section \<open>Errors of the parser\<close>

definition parse_exn :: "exn \<Rightarrow> bool" where
  "parse_exn e \<longleftrightarrow> e = IndexError \<or> (\<exists>m. e = ValueError m)"

lemma parse_exn_simps [simp]: "parse_exn IndexError" "parse_exn (ValueError m)"
  by (simp_all add: parse_exn_def)

lemma raises_components: "raises_only parse_exn (semver_components s)"
  unfolding semver_components_def Let_def by (auto intro!: raises_intros)

lemma raises_remainder: "raises_only parse_exn (semver_parse_remainder r d p)"
  by (induction r d p rule: semver_parse_remainder.induct) (auto intro!: raises_intros)

lemma raises_parse_type: "raises_only parse_exn (semver_parse_type s)"
  unfolding semver_parse_type_def Let_def by (auto intro!: raises_intros)

lemma raises_suffix: "raises_only parse_exn (semver_parse_suffix r)"
  unfolding semver_parse_suffix_def Let_def
  by (auto split: list.splits option.splits intro!: raises_intros raises_remainder
      raises_parse_type)

lemma increment_total:
  "\<exists>w. semver_increment mi ma (SemanticVersion a b c t p d) = Inr w"
  by (auto simp: semver_increment_def split: option.splits)

lemma raises_increment: "raises_only P (semver_increment mi ma (SemanticVersion a b c t p d))"
  using increment_total [of mi ma a b c t p d] by auto

lemma raises_unsafe: "raises_only parse_exn (from_pip_string_unsafe s)"
  unfolding from_pip_string_unsafe_def Let_def
  by (auto intro!: raises_intros raises_components raises_suffix raises_increment
      split: option.splits)

text \<open>
  C5: from_pip_string raises nothing but ValueError: no IndexError, KeyError or TypeError of the
  parser escapes, for any input string.
\<close>
theorem from_pip_string_errors:
  "from_pip_string s = Inl e \<Longrightarrow> \<exists>m. e = ValueError m"
  using raises_unsafe [of s]
  by (cases "from_pip_string_unsafe s")
     (auto simp: from_pip_string_def parse_exn_def split: exn.splits)

theorem from_pip_string_errors_witness:
  "from_pip_string ''1..2'' = Inl (ValueError ''1..2'')
    \<and> (\<exists>m. (ValueError ''1..2'') = ValueError m)"
proof -
  have e: "from_pip_string ''1..2'' = Inl (ValueError ''1..2'')" by code_simp
  with from_pip_string_errors [OF e] show ?thesis by simp
qed

section \<open>The interface of the ordering\<close>

locale total_preference =
  fixes ok :: "'v \<Rightarrow> bool"
    and gt :: "'v \<Rightarrow> 'v \<Rightarrow> bool res"
    and prec :: "'v \<Rightarrow> 'v \<Rightarrow> bool"
  assumes gt_prec: "ok v \<Longrightarrow> ok w \<Longrightarrow> gt v w = Inr (prec w v)"
    and prec_irrefl: "\<not> prec v v"
    and prec_trans: "ok u \<Longrightarrow> ok v \<Longrightarrow> ok w \<Longrightarrow> prec u v \<Longrightarrow> prec v w \<Longrightarrow> prec u w"
    and prec_total: "ok v \<Longrightarrow> ok w \<Longrightarrow> prec v w \<or> v = w \<or> prec w v"
begin

lemma prec_asym: "ok v \<Longrightarrow> ok w \<Longrightarrow> prec v w \<Longrightarrow> \<not> prec w v"
  using prec_trans prec_irrefl by blast

text \<open>The maximum of a non-empty list is an element that nothing in the list exceeds.\<close>

lemma py_max_greatest:
  "ok m \<Longrightarrow> \<forall>x \<in> set xs. ok x \<Longrightarrow>
   \<exists>r. py_max gt m xs = Inr r \<and> r \<in> set (m # xs) \<and> (\<forall>x \<in> set (m # xs). x = r \<or> prec x r)"
proof (induction xs arbitrary: m)
  case (Cons y ys)
  let ?m = "if prec m y then y else m"
  have m: "ok ?m" "ok y" "\<forall>x \<in> set ys. ok x" using Cons.prems by auto
  from Cons.IH [OF m(1,3)] obtain r where r: "py_max gt ?m ys = Inr r"
      "r \<in> set (?m # ys)" "\<forall>x \<in> set (?m # ys). x = r \<or> prec x r" by blast
  have okr: "ok r" using r(2) m by auto
  have le: "x = ?m \<or> prec x ?m" if "x \<in> {m, y}" for x
    using that prec_total [OF \<open>ok m\<close> \<open>ok y\<close>] by auto
  have "x = r \<or> prec x r" if "x \<in> {m, y}" for x
    using le [OF that] r(3) prec_trans [of x ?m r] that Cons.prems okr m(1) by auto
  then have "\<forall>x \<in> set (m # y # ys). x = r \<or> prec x r" using r(3) by auto
  moreover have "r \<in> set (m # y # ys)" using r(2) by (auto split: if_splits)
  moreover have "py_max gt m (y # ys) = Inr r"
    using r(1) gt_prec [OF m(2) Cons.prems(1)] by simp
  ultimately show ?case by blast
qed simp

end

lemma semver_gt_precedes:
  assumes "semver_wf v" "semver_wf w"
  shows "semver_gt v w = Inr (semver_precedes w v)"
  using semver_lt_precedes [OF assms] semver_precedes_total [OF assms]
    semver_precedes_irrefl semver_precedes_trans [OF assms assms(1)]
  by (auto simp: semver_gt_def semver_le_def)

interpretation semver: total_preference semver_wf semver_gt semver_precedes
  by unfold_locales
     (auto simp: semver_gt_precedes semver_precedes_irrefl
        dest: semver_precedes_total intro: semver_precedes_trans)

text \<open>
  C25: On well-formed versions __lt__, __gt__, __le__ and __ge__ all return, exactly one of
  less, equal and greater holds, and <= and >= are the negations of > and <.
\<close>
theorem semver_comparison_trichotomy:
  assumes "semver_wf v" "semver_wf w"
  shows "\<exists>lt gt. semver_lt v w = Inr lt \<and> semver_gt v w = Inr gt
     \<and> semver_le v w = Inr (\<not> gt) \<and> semver_ge v w = Inr (\<not> lt)
     \<and> (lt \<or> v = w \<or> gt) \<and> \<not> (lt \<and> gt) \<and> (v = w \<longrightarrow> \<not> lt \<and> \<not> gt)"
  using assms semver.prec_total [OF assms] semver.prec_asym [OF assms]
  by (auto simp: semver_lt_precedes semver_gt_precedes semver_ge_def semver_le_def
      semver_precedes_irrefl)

theorem semver_comparison_trichotomy_witness:
  "\<exists>lt gt. semver_lt (SemanticVersion 1 2 3 None None (Some 4)) (SemanticVersion 1 2 3 None None None)
       = Inr lt
     \<and> semver_gt (SemanticVersion 1 2 3 None None (Some 4)) (SemanticVersion 1 2 3 None None None)
       = Inr gt \<and> (lt \<or> gt)"
proof -
  let ?v = "SemanticVersion 1 2 3 None None (Some 4)" and ?w = "SemanticVersion 1 2 3 None None None"
  have v: "semver_wf ?v" and w: "semver_wf ?w" by (simp_all add: semver_wf_def maxsize_def)
  have "?v \<noteq> ?w" by (simp add: SemanticVersion_def)
  with semver_comparison_trichotomy [OF v w] show ?thesis by blast
qed

section \<open>Increment, decrement and development versions\<close>

lemma semver_increment_spec:
  assumes "semver_wf v"
  shows "\<exists>w. semver_increment minor major v = Inr w \<and> semver_wf w \<and> semver_precedes v w
           \<and> sv_dev_count w = 0"
  using assms semver_wf_nonneg [OF assms]
  by (cases rule: semver_wf_cases)
     (auto simp: semver_increment_def semver_wf_def semver_precedes_def semver_stage_def
        maxsize_def dev_precedes_def)

text \<open>
  C22: The development version pbr builds for untagged commits lies between the last release and
  the next one: for a well-formed version v, v < increment(v).to_dev(n) < increment(v), whatever
  is incremented.
\<close>
theorem semver_dev_between:
  assumes "semver_wf v" "0 < n" "n < maxsize"
  shows "\<exists>w. semver_increment minor major v = Inr w
     \<and> semver_precedes v (semver_to_dev n w) \<and> semver_precedes (semver_to_dev n w) w"
  using assms semver_wf_nonneg [OF assms(1)]
  by (cases rule: semver_wf_cases)
     (auto simp: semver_increment_def semver_to_dev_def semver_precedes_def semver_stage_def
        dev_precedes_def)

theorem semver_dev_between_witness:
  "\<exists>w. semver_increment False False (SemanticVersion 1 2 3 None None None) = Inr w
     \<and> semver_precedes (SemanticVersion 1 2 3 None None None) (semver_to_dev 5 w)"
  using semver_dev_between [of "SemanticVersion 1 2 3 None None None" 5 False False]
  by (auto simp: semver_wf_def maxsize_def)

theorem semver_decrement_precedes:
  assumes "semver_wf v"
  shows "semver_precedes (semver_decrement v) v
     \<longleftrightarrow> \<not> (sv_major v = 0 \<and> sv_minor v = 0 \<and> sv_patch v = 0)"
  using semver_wf_nonneg [OF assms]
  by (auto simp: semver_decrement_def semver_precedes_def semver_stage_def dev_precedes_def)

theorem semver_decrement_precedes_witness:
  "semver_precedes (semver_decrement (SemanticVersion 1 0 0 None None None))
       (SemanticVersion 1 0 0 None None None)
   \<and> \<not> semver_precedes (semver_decrement (SemanticVersion 0 0 0 None None (Some 1)))
         (SemanticVersion 0 0 0 None None (Some 1))"
  using semver_decrement_precedes [of "SemanticVersion 1 0 0 None None None"]
    semver_decrement_precedes [of "SemanticVersion 0 0 0 None None (Some 1)"]
  by (simp add: semver_wf_def maxsize_def)

section \<open>Legacy forms\<close>

text \<open>A version string of numeric components followed by others.\<close>

lemma components_numeric_prefix:
  assumes "list_all str_isdigit ds" "ds \<noteq> []" "length ds = 3"
    and "list_all (\<lambda>w. \<not> str_isdigit w) ws" "\<forall>w \<in> set (ds @ ws). CHR ''.'' \<notin> set w"
  shows "semver_components (join ''.'' (ds @ ws)) = Inr (ds @ ws)"
proof -
  have "split_on CHR ''.'' (join ''.'' (ds @ ws)) = ds @ ws"
    using assms by (intro split_on_join) auto
  moreover have "filter str_isdigit (ds @ ws) = ds"
    using assms by (auto simp: list_all_iff)
  ultimately show ?thesis
    using assms by (simp add: semver_components_def)
qed

lemma digit_lead:
  assumes "is_digit d"
  shows "dropWhile (\<lambda>c. c \<in> set ''vV'') (d # r) = d # r" "str_isdigit (take 1 (d # r))"
  using assms by (auto simp: is_digit_def str_isdigit_def)

lemma nat_str_lead:
  assumes "s = nat_str n @ r"
  shows "dropWhile (\<lambda>c. c \<in> set ''vV'') s = s" "str_isdigit (take 1 s)"
  using digit_lead [of "hd (nat_str n)" "tl (nat_str n) @ r"] hd_nat_str_digit [of n] assms
  by (metis append_Cons list.collapse nat_str_not_Nil)+

text \<open>Three numeric components and a suffix: the suffix alone decides the rest.\<close>

lemma from_pip_components:
  assumes comps: "semver_components s = Inr ([nat_str a, nat_str b, nat_str c] @ ws)"
    and lead: "dropWhile (\<lambda>c. c \<in> set ''vV'') s = s" "str_isdigit (take 1 s)"
    and suffix: "semver_parse_suffix ws = Inr (t, pre, dev, post)" "or_zero post = 0"
  shows "from_pip_string s = Inr (SemanticVersion (int a) (int b) (int c) t pre dev)"
proof -
  have "from_pip_string_unsafe s = Inr (SemanticVersion (int a) (int b) (int c) t pre dev)"
    unfolding from_pip_string_unsafe_def Let_def lead(1)
    using lead(2) suffix by (simp add: comps int_or_raise_def)
  then show ?thesis by (simp add: from_pip_string_def)
qed

lemma from_pip_post_components:
  assumes comps: "semver_components s = Inr ([nat_str a, nat_str b, nat_str c] @ ws)"
    and lead: "dropWhile (\<lambda>c. c \<in> set ''vV'') s = s" "str_isdigit (take 1 s)"
    and suffix: "semver_parse_suffix ws = Inr (None, None, None, Some n)" "n \<noteq> 0"
  shows "from_pip_string s = Inr (SemanticVersion (int a) (int b) (int c + 1) None None (Some n))"
proof -
  have "from_pip_string_unsafe s
      = Inr (SemanticVersion (int a) (int b) (int c + 1) None None (Some n))"
    unfolding from_pip_string_unsafe_def Let_def lead(1)
    using lead(2) suffix
    by (simp add: comps int_or_raise_def semver_increment_def semver_to_dev_def)
  then show ?thesis by (simp add: from_pip_string_def)
qed

lemma numeric_prefix_string:
  assumes "list_all (\<lambda>w. \<not> str_isdigit w) ws" "\<forall>w \<in> set ws. CHR ''.'' \<notin> set w" "ws \<noteq> []"
    and s: "s = nat_str a @ ''.'' @ nat_str b @ ''.'' @ nat_str c @ ''.'' @ join ''.'' ws"
  shows "semver_components s = Inr ([nat_str a, nat_str b, nat_str c] @ ws)"
    "dropWhile (\<lambda>c. c \<in> set ''vV'') s = s" "str_isdigit (take 1 s)"
proof -
  have "s = join ''.'' ([nat_str a, nat_str b, nat_str c] @ ws)"
    using assms(3) s by (simp add: join_Cons)
  then show "semver_components s = Inr ([nat_str a, nat_str b, nat_str c] @ ws)"
    using assms components_numeric_prefix [of "[nat_str a, nat_str b, nat_str c]" ws]
    by (auto simp: nat_str_no_char)
qed (rule nat_str_lead [OF s])+

theorem from_pip_string_post:
  assumes "0 < n"
  shows "from_pip_string (nat_str a @ ''.'' @ nat_str b @ ''.'' @ nat_str c @ ''.post'' @ nat_str n)
    = Inr (SemanticVersion (int a) (int b) (int c + 1) None None (Some (int n)))"
proof -
  let ?w = "''post'' @ nat_str n"
  have "py_int ?w = None" by (rule py_int_alpha_None [of "CHR ''p''"]) (auto simp: is_alpha_def)
  then have suffix: "semver_parse_suffix [?w] = Inr (None, None, None, Some (int n))"
    by (simp add: semver_parse_suffix_def int_or_raise_def)
  have nd: "list_all (\<lambda>w. \<not> str_isdigit w) [?w]"
    using not_isdigit_alpha [of "CHR ''p''" ?w] by (simp add: is_alpha_def)
  have nodot: "\<forall>w \<in> set [?w]. CHR ''.'' \<notin> set w" by (simp add: nat_str_no_char)
  show ?thesis
    by (rule from_pip_post_components [OF numeric_prefix_string [OF nd nodot] suffix])
       (use assms in auto)
qed

theorem from_pip_string_post_witness:
  "from_pip_string ''1.2.3.post5'' = Inr (SemanticVersion 1 2 4 None None (Some 5))"
proof -
  have "nat_str 1 @ ''.'' @ nat_str 2 @ ''.'' @ nat_str 3 @ ''.post'' @ nat_str 5 = ''1.2.3.post5''"
    by code_simp
  then show ?thesis using from_pip_string_post [of 5 1 2 3] by simp
qed

lemma parse_type_no_zero:
  assumes "k \<in> {''a'', ''b'', ''rc''}"
  shows "semver_parse_type (k @ nat_str n) = Inr (k, int n)"
proof -
  have "takeWhile is_alpha (nat_str n) = []"
    using hd_nat_str_digit [of n] by (cases "nat_str n") auto
  with assms show ?thesis
    by (auto simp: semver_parse_type_def Let_def is_digit_def is_alpha_def int_or_raise_def
        takeWhile_all_append)
qed

lemmas parse_type_short = parse_type_no_zero [of "''a''", simplified]
  parse_type_no_zero [of "''b''", simplified] parse_type_no_zero [of "''rc''", simplified]

lemma parse_suffix_prerelease:
  assumes "k \<in> {''a'', ''b'', ''rc''}"
  shows "semver_parse_suffix [''0'' @ k @ nat_str i] = Inr (Some k, Some (int i), None, None)"
    "semver_parse_suffix [k @ nat_str i] = Inr (Some k, Some (int i), None, None)"
  using assms
  by (auto simp: semver_parse_suffix_def parse_type_kinds parse_type_short
        py_int_alpha_None [where c = "CHR ''a''"] py_int_alpha_None [where c = "CHR ''b''"]
        py_int_alpha_None [where c = "CHR ''r''"] is_alpha_def)

lemma prerelease_segment:
  assumes "k \<in> {''a'', ''b'', ''rc''}" "CHR ''.'' \<notin> set z"
  shows "list_all (\<lambda>w. \<not> str_isdigit w) [z @ k @ nat_str i]"
    "\<forall>w \<in> set [z @ k @ nat_str i]. CHR ''.'' \<notin> set w"
proof -
  have "hd k \<in> set (z @ k @ nat_str i)" "is_alpha (hd k)"
    using assms by (auto simp: is_alpha_def)
  then show "list_all (\<lambda>w. \<not> str_isdigit w) [z @ k @ nat_str i]"
    using not_isdigit_alpha by simp
qed (use assms in \<open>auto simp: nat_str_no_char\<close>)

text \<open>The short legacy form, in which the last number and the marker share a component.\<close>

lemma legacy_short_components:
  assumes "k \<in> {''a'', ''b'', ''rc''}"
    and s: "s = nat_str a @ ''.'' @ nat_str b @ ''.'' @ nat_str c @ k @ nat_str i"
  shows "semver_components s = Inr ([nat_str a, nat_str b, nat_str c] @ [k @ nat_str i])"
proof -
  let ?m = "nat_str c @ k @ nat_str i"
  have nd: "\<not> str_isdigit ?m" and nodot: "CHR ''.'' \<notin> set ?m"
    using prerelease_segment [OF assms(1), of "nat_str c" i] by (auto simp: nat_str_no_char)
  have split: "split_on CHR ''.'' s = [nat_str a, nat_str b, ?m]"
  proof -
    have "s = join ''.'' [nat_str a, nat_str b, ?m]" using s by simp
    moreover have "\<And>w. w \<in> set [nat_str a, nat_str b, ?m] \<Longrightarrow> CHR ''.'' \<notin> set w"
      using nodot by (auto simp: nat_str_no_char)
    ultimately show ?thesis using split_on_join [of "[nat_str a, nat_str b, ?m]"] by blast
  qed
  have take: "takeWhile is_digit ?m = nat_str c"
    using assms(1) by (auto simp: takeWhile_all_append is_digit_def)
  have hd: "?m ! 0 = hd (nat_str c)" by (simp add: nth_append hd_conv_nth)
  show ?thesis
    unfolding semver_components_def Let_def split
    using nd take hd hd_nat_str_digit [of c] by (simp add: numeral_2_eq_2)
qed

theorem from_pip_string_legacy_prerelease:
  assumes "k \<in> {''a'', ''b'', ''rc''}"
  shows "\<forall>sep \<in> {''.0'', ''.'', ''''}.
    from_pip_string (nat_str a @ ''.'' @ nat_str b @ ''.'' @ nat_str c @ sep @ k @ nat_str i)
      = Inr (SemanticVersion (int a) (int b) (int c) (Some k) (Some (int i)) None)"
proof -
  let ?r = "Inr (SemanticVersion (int a) (int b) (int c) (Some k) (Some (int i)) None)"
  have "from_pip_string (nat_str a @ ''.'' @ nat_str b @ ''.'' @ nat_str c @ ''.0'' @ k @ nat_str i)
      = ?r"
    by (rule from_pip_components [OF numeric_prefix_string
          [OF prerelease_segment [OF assms, of "''0''"]] parse_suffix_prerelease(1) [OF assms]])
       auto
  moreover have "from_pip_string
      (nat_str a @ ''.'' @ nat_str b @ ''.'' @ nat_str c @ ''.'' @ k @ nat_str i) = ?r"
    by (rule from_pip_components [OF numeric_prefix_string
          [OF prerelease_segment [OF assms, of "[]"]]])
       (auto simp: parse_suffix_prerelease(2) [OF assms])
  moreover have "from_pip_string
      (nat_str a @ ''.'' @ nat_str b @ ''.'' @ nat_str c @ [] @ k @ nat_str i) = ?r"
    by (rule from_pip_components [OF legacy_short_components [OF assms]
          nat_str_lead [OF refl] parse_suffix_prerelease(2) [OF assms]]) auto
  ultimately show ?thesis by simp
qed

theorem from_pip_string_legacy_prerelease_witness:
  "from_pip_string ''1.2.0rc1'' = Inr (SemanticVersion 1 2 0 (Some ''rc'') (Some 1) None)"
proof -
  have "nat_str 1 @ ''.'' @ nat_str 2 @ ''.'' @ nat_str 0 @ [] @ ''rc'' @ nat_str 1 = ''1.2.0rc1''"
    by code_simp
  then show ?thesis using from_pip_string_legacy_prerelease [of "''rc''" 1 2 0 1] by simp
qed

section \<open>Version tuples\<close>

theorem semver_version_tuple_levels:
  assumes "semver_wf v"
  shows "\<exists>level serial. semver_version_tuple v
      = Inr (sv_major v, sv_minor v, sv_patch v, level, Some serial)
    \<and> 0 \<le> serial
    \<and> (level = ''final'' \<longleftrightarrow> semver_stage v = 4)
    \<and> (level = ''dev'' \<longleftrightarrow> semver_stage v = 0)
    \<and> (level \<in> {''alpha'', ''alphadev''} \<longleftrightarrow> semver_stage v = 1)
    \<and> (level \<in> {''beta'', ''betadev''} \<longleftrightarrow> semver_stage v = 2)
    \<and> (level \<in> {''candidate'', ''candidatedev''} \<longleftrightarrow> semver_stage v = 3)
    \<and> (suffix ''dev'' level \<longleftrightarrow> sv_dev_count v \<noteq> 0)
    \<and> (level = ''final'' \<longrightarrow> serial = 0)"
  using assms
  by (cases rule: semver_wf_cases)
     (auto simp: semver_version_tuple_def semver_type_map_def semver_stage_def suffix_def)

theorem semver_version_tuple_levels_witness:
  "\<exists>level serial. semver_version_tuple (SemanticVersion 1 2 3 (Some ''rc'') (Some 4) (Some 5))
     = Inr (1, 2, 3, level, Some serial) \<and> suffix ''dev'' level"
proof -
  let ?v = "SemanticVersion 1 2 3 (Some ''rc'') (Some 4) (Some 5)"
  have wf: "semver_wf ?v" by (simp add: semver_wf_def maxsize_def)
  obtain level serial where "semver_version_tuple ?v
        = Inr (sv_major ?v, sv_minor ?v, sv_patch ?v, level, Some serial)"
      "suffix ''dev'' level \<longleftrightarrow> sv_dev_count ?v \<noteq> 0"
    using semver_version_tuple_levels [OF wf] by (elim exE conjE) (rule that, assumption+)
  then show ?thesis by simp
qed

section \<open>Versions that parse but cannot be compared\<close>

theorem semver_parsed_incomparable:
  "\<exists>v. from_pip_string ''1.2.0alpha1'' = Inr v
     \<and> semver_lt v (SemanticVersion 1 2 0 None None None) = Inl (KeyError ''alpha'')
     \<and> semver_version_tuple v = Inl (KeyError ''alpha'')"
  by (rule exI [of _ "SemanticVersion 1 2 0 (Some ''alpha'') (Some 1) None"]) code_simp

lemma from_pip_string_drops_git_hash:
  "from_pip_string ''0.10.1.3.g83bef74'' = Inr (SemanticVersion 0 10 1 None None (Some 3))"
  by code_simp

lemma from_pip_string_rejects_dev_hash:
  "from_pip_string ''0.10.1.dev3.g83bef74'' = Inl (ValueError ''g83bef74'')"
  by code_simp

lemma from_pip_string_negative_dev:
  "from_pip_string ''1.2.-3'' = Inr (SemanticVersion 1 2 0 None None (Some (-3)))"
  by code_simp

lemma from_pip_string_dev_then_post:
  "from_pip_string ''1.2.3.dev6.post5'' = Inr (SemanticVersion 1 2 4 None None (Some 5))"
  "from_pip_string ''1.2.3.post5.dev6'' = Inl (ValueError ''1.2.3.post5.dev6'')"
  by code_simp+

section \<open>The caching version object as a state machine\<close>

text \<open>One call of a method, whatever the environment answers at that time.\<close>

inductive vi_step :: "version_info \<Rightarrow> version_info \<Rightarrow> bool" where
  call_semantic: "vi_semantic_version pv gv vi = Inr (v, vi') \<Longrightarrow> vi_step vi vi'"
| call_release: "vi_release_string pv gv vi = Inr (s, vi') \<Longrightarrow> vi_step vi vi'"
| call_version: "vi_version_string pv gv vi = Inr (s, vi') \<Longrightarrow> vi_step vi vi'"
| call_cached: "vi_cached_version_string pv gv p vi = Inr (s, vi') \<Longrightarrow> vi_step vi vi'"
| call_str: "vi_str pv gv vi = Inr (s, vi') \<Longrightarrow> vi_step vi vi'"
| call_repr: "vi_repr pv gv vi = Inr (s, vi') \<Longrightarrow> vi_step vi vi'"

inductive vi_reachable :: "string \<Rightarrow> version_info \<Rightarrow> bool" for package where
  start: "vi_reachable package (VersionInfo package)"
| step: "vi_reachable package vi \<Longrightarrow> vi_step vi vi' \<Longrightarrow> vi_reachable package vi'"

inductive_cases vi_step_cases: "vi_step vi vi'"

lemmas vi_defs = vi_semantic_version_def vi_release_string_def vi_version_string_def
  vi_cached_version_string_def vi_str_def vi_repr_def

text \<open>The version is looked up once and never replaced; the package never changes.\<close>

lemma vi_step_frame:
  "vi_step vi vi' \<Longrightarrow> vi_package vi' = vi_package vi
     \<and> (\<forall>v. vi_semantic vi = Some v \<longrightarrow> vi_semantic vi' = Some v)"
  by (erule vi_step_cases) (auto simp: vi_defs res_iff split: option.splits if_splits)

definition vi_inv :: "version_info \<Rightarrow> bool" where
  "vi_inv vi \<longleftrightarrow> (\<forall>s. vi_cached_version vi = Some s \<longrightarrow>
     (\<exists>v. vi_semantic vi = Some v \<and> suffix (semver_brief_string v) s))"

lemma vi_step_inv: "vi_step vi vi' \<Longrightarrow> vi_inv vi \<Longrightarrow> vi_inv vi'"
  by (erule vi_step_cases)
     (auto simp: vi_defs vi_inv_def res_iff suffix_def split: option.splits if_splits)

text \<open>
  C31: In every reachable state of a VersionInfo object a cached version string ends in the
  brief string of the semantic version the object has stored.
\<close>
theorem vi_reachable_cached:
  assumes "vi_reachable package vi" "vi_cached_version vi = Some s"
  shows "\<exists>v. vi_semantic vi = Some v \<and> suffix (semver_brief_string v) s"
proof -
  have "vi_inv (VersionInfo package)" by (simp add: vi_inv_def VersionInfo_def)
  with assms(1) have "vi_inv vi" by (induction rule: vi_reachable.induct) (auto intro: vi_step_inv)
  then show ?thesis using assms(2) by (simp add: vi_inv_def)
qed

theorem vi_reachable_cached_witness:
  "\<exists>vi v. vi_reachable ''glance'' vi \<and> vi_cached_version vi = Some ''v-1.2.3''
     \<and> vi_semantic vi = Some v \<and> suffix (semver_brief_string v) ''v-1.2.3''"
proof -
  obtain vi where vi: "vi_cached_version_string (\<lambda>_. Some ''1.2.3'') Inr ''v-'' (VersionInfo ''glance'')
      = Inr (''v-1.2.3'', vi)" and c: "vi_cached_version vi = Some ''v-1.2.3''"
    by (rule that [of "VersionInfo ''glance''\<lparr>vi_cached_version := Some ''v-1.2.3'',
          vi_semantic := Some (SemanticVersion 1 2 3 None None None)\<rparr>"]) code_simp+
  have r: "vi_reachable ''glance'' vi"
    by (rule vi_reachable.step [OF vi_reachable.start call_cached [OF vi]])
  from vi_reachable_cached [OF r c] r c show ?thesis by blast
qed

lemma semver_brief_not_Nil [simp]: "semver_brief_string v \<noteq> []"
  by (simp add: semver_brief_string_def)

theorem vi_cached_version_string_once:
  assumes "vi_cached_version_string pv gv pre vi = Inr (s, vi')"
    and "vi_step\<^sup>*\<^sup>* vi' vi''"
  shows "vi_cached_version_string pv' gv' pre' vi'' = Inr (s, vi'')"
proof -
  have init: "vi_cached_version vi' = Some s \<and> s \<noteq> []"
    using assms(1) by (auto simp: vi_cached_version_string_def truthy_def res_iff vi_version_string_def
        split: if_splits)
  from assms(2) init have "vi_cached_version vi'' = Some s \<and> s \<noteq> []"
    by (induction rule: rtranclp_induct)
       (auto elim!: vi_step_cases simp: vi_defs res_iff truthy_def split: option.splits if_splits)
  then show ?thesis by (simp add: vi_cached_version_string_def)
qed

theorem vi_cached_version_string_once_witness:
  "\<exists>vi. vi_cached_version_string (\<lambda>_. Some ''1.2.3'') Inr ''v-'' (VersionInfo ''glance'')
       = Inr (''v-1.2.3'', vi)
     \<and> vi_cached_version_string (\<lambda>_. Some ''9.9.9'') Inr ''other'' vi = Inr (''v-1.2.3'', vi)"
proof -
  obtain vi where vi: "vi_cached_version_string (\<lambda>_. Some ''1.2.3'') Inr ''v-'' (VersionInfo ''glance'')
      = Inr (''v-1.2.3'', vi)"
    by (rule that [of "VersionInfo ''glance''\<lparr>vi_cached_version := Some ''v-1.2.3'',
          vi_semantic := Some (SemanticVersion 1 2 3 None None None)\<rparr>"]) code_simp
  from vi_cached_version_string_once [OF vi rtranclp.rtrancl_refl] vi show ?thesis by blast
qed

end
