(* ===== verification/Pbr_Git.thy ===== *)
theory Pbr_Git
  imports Py_World Pbr_Version
begin

text \<open>
  \<^verbatim>\<open>pbr/git.py\<close> and \<^verbatim>\<open>pbr/options.py\<close>: reading the history of a git repository, and the ChangeLog and
  AUTHORS files built from it.  The answers of the git command, the file system and the process
  environment are the fields of \<open>git_env\<close>; the effects are the files written.  A generator is the
  list of what it yields and the exception it ends with, if any.  A set of tags is a list without
  duplicates, in the order the set is iterated.  Messages to the log are not modelled.
\<close>

section \<open>The environment\<close>

record git_env =
  run_command :: "string list \<Rightarrow> (int \<times> string) res"
  parse_version_gt :: "string \<Rightarrow> string \<Rightarrow> bool"
  file_exists :: "string \<Rightarrow> bool"
  file_writable :: "string \<Rightarrow> bool"
  file_open_write :: "string \<Rightarrow> unit res"
  file_read :: "string \<Rightarrow> string res"
  env_var :: "string \<Rightarrow> string option"

datatype file_event = OpenWrite string | WriteText string

type_synonym 'a files = "(file_event, 'a) io"

section \<open>options.py\<close>

definition true_values :: "string list" where
  "true_values = [''true'', ''1'', ''yes'']"

type_synonym option_dict = "(string \<times> string \<times> string) list"

definition get_boolean_option :: "git_env \<Rightarrow> option_dict \<Rightarrow> string \<Rightarrow> string \<Rightarrow> bool" where
  "get_boolean_option E option_dict option_name env_name \<longleftrightarrow>
     (case map_of option_dict option_name of
        Some (source, v) \<Rightarrow> lower v \<in> set true_values | None \<Rightarrow> False)
     \<or> lower (case env_var E env_name of Some s \<Rightarrow> s | None \<Rightarrow> ''None'') \<in> set true_values"

section \<open>Running git\<close>

text \<open>\<^verbatim>\<open>_run_shell_command\<close>; a command is a list of unicode strings, shown by its \<^verbatim>\<open>repr\<close>.\<close>

definition command_text :: "string list \<Rightarrow> string" where
  "command_text cmd = ''['' @ join '', '' (map repr_str cmd) @ '']''"

definition run_shell_command :: "git_env \<Rightarrow> string list \<Rightarrow> bool \<Rightarrow> string res" where
  "run_shell_command E cmd throw_on_error =
     rbind (run_command E cmd) (\<lambda>(returncode, out).
       if returncode \<noteq> 0 \<and> throw_on_error
         then Inl (DistutilsError (command_text cmd @ '' returned '' @ int_str returncode))
       else if strip out = [] then Inr [] else Inr (strip out))"

definition run_git_command :: "git_env \<Rightarrow> string list \<Rightarrow> string \<Rightarrow> bool \<Rightarrow> string res" where
  "run_git_command E cmd git_dir throw_on_error =
     run_shell_command E ([''git'', ''--git-dir='' @ git_dir] @ cmd) throw_on_error"

definition get_git_directory :: "git_env \<Rightarrow> string res" where
  "get_git_directory E = (case run_shell_command E [''git'', ''rev-parse'', ''--git-dir''] False of
       Inl (OSError errno) \<Rightarrow> if errno = ''ENOENT'' then Inr [] else Inl (OSError errno)
     | r \<Rightarrow> r)"

definition git_is_installed :: "git_env \<Rightarrow> bool res" where
  "git_is_installed E = (case run_shell_command E [''git'', ''--version''] False of
       Inl (OSError errno) \<Rightarrow> Inr False
     | Inl e \<Rightarrow> Inl e
     | Inr _ \<Rightarrow> Inr True)"

text \<open>\<open>None\<close> is Python's \<^verbatim>\<open>None\<close>, also returned for an empty directory name.\<close>

definition run_git_functions :: "git_env \<Rightarrow> string option res" where
  "run_git_functions E =
     rbind (git_is_installed E) (\<lambda>installed.
       if installed then rbind (get_git_directory E) (\<lambda>d. Inr (if d = [] then None else Some d))
       else Inr None)"

definition get_highest_tag :: "git_env \<Rightarrow> string list \<Rightarrow> string res" where
  "get_highest_tag E tags = (case tags of
       [] \<Rightarrow> Inl (ValueError ''max() arg is an empty sequence'')
     | t # ts \<Rightarrow> py_max (\<lambda>a b. Inr (parse_version_gt E a b)) t ts)"

definition find_git_files :: "git_env \<Rightarrow> string option \<Rightarrow> string list res" where
  "find_git_files E git_dir =
     rbind (case git_dir of None \<Rightarrow> run_git_functions E | Some d \<Rightarrow> Inr (Some d)) (\<lambda>dir.
     rbind (case dir of
              Some (c # d) \<Rightarrow> rbind (run_git_command E [''ls-files'', ''-z''] (c # d) False)
                                (\<lambda>out. Inr (split_on CHR 0x00 out))
            | _ \<Rightarrow> Inr []) (\<lambda>file_list.
     Inr (filter (\<lambda>f. f \<noteq> []) file_list)))"

datatype raw_tag_info = CommitsSince string | OnTag | NoTag

definition get_raw_tag_info :: "git_env \<Rightarrow> string \<Rightarrow> raw_tag_info res" where
  "get_raw_tag_info E git_dir =
     rbind (run_git_command E [''describe'', ''--always''] git_dir False) (\<lambda>describe.
       if CHR ''-'' \<in> set describe
       then (let parts = split_on CHR ''-'' describe in Inr (CommitsSince (parts ! (length parts - 2))))
       else if CHR ''.'' \<in> set describe then Inr OnTag
       else Inr NoTag)"

definition get_is_release :: "git_env \<Rightarrow> string \<Rightarrow> bool res" where
  "get_is_release E git_dir = rbind (get_raw_tag_info E git_dir) (\<lambda>i. Inr (i = OnTag))"

definition get_git_short_sha :: "git_env \<Rightarrow> string option \<Rightarrow> string option res" where
  "get_git_short_sha E git_dir =
     rbind (case git_dir of Some (c # d) \<Rightarrow> Inr (Some (c # d)) | _ \<Rightarrow> run_git_functions E) (\<lambda>dir.
       case dir of
         Some d \<Rightarrow> rbind (run_git_command E [''log'', ''-n1'', ''--pretty=format:%h''] d False)
                     (\<lambda>s. Inr (Some s))
       | None \<Rightarrow> Inr None)"

section \<open>The change log\<close>

type_synonym 'a gen = "'a list \<times> exn option"

type_synonym log_entry = "string \<times> string list \<times> string"

definition clean_changelog_message :: "string \<Rightarrow> string" where
  "clean_changelog_message msg =
     replace1 CHR 0x60 [CHR 0x5C, CHR 0x60]
       (replace1 CHR ''_'' [CHR 0x5C, CHR ''_'']
         (replace1 CHR ''*'' [CHR 0x5C, CHR ''*''] msg))"

text \<open>The chunks for one entry, and the release it belongs to.\<close>

fun changelog_chunks ::
    "git_env \<Rightarrow> bool \<Rightarrow> string option \<Rightarrow> log_entry list \<Rightarrow> (string option \<times> string) gen" where
  "changelog_chunks E first_line current_release [] = ([], None)"
| "changelog_chunks E first_line current_release ((sha, tags, msg) # changelog) =
     (case (if tags \<noteq> [] then rbind (get_highest_tag E tags) (\<lambda>t. Inr (Some t)) else Inr current_release) of
        Inl e \<Rightarrow> ([], Some e)
      | Inr release \<Rightarrow>
          (let tag_chunks =
             (if tags \<noteq> [] then
                (if first_line then [] else [(release, [CHR 0x0A])])
                @ [(release, the release @ [CHR 0x0A] @ replicate (length (the release)) CHR ''-''
                     @ [CHR 0x0A, CHR 0x0A])]
              else []);
             msg_chunks =
             (if startswith msg ''Merge '' then []
              else (let m = (if endswith msg ''.'' then butlast msg else msg)
                    in [(release, ''* '' @ clean_changelog_message m @ [CHR 0x0A])]))
           in (case changelog_chunks E False release changelog of
                 (rest, e) \<Rightarrow> (tag_chunks @ msg_chunks @ rest, e))))"

definition iter_changelog :: "git_env \<Rightarrow> log_entry gen \<Rightarrow> (string option \<times> string) gen" where
  "iter_changelog E changelog =
     (case changelog_chunks E True None (fst changelog) of
        (chunks, e) \<Rightarrow>
          ((None, ''CHANGES'' @ [CHR 0x0A] @ ''======='' @ [CHR 0x0A, CHR 0x0A]) # chunks,
           case e of None \<Rightarrow> snd changelog | Some x \<Rightarrow> Some x))"

definition is_valid_version :: "string \<Rightarrow> bool res" where
  "is_valid_version candidate = (case from_pip_string candidate of
       Inr _ \<Rightarrow> Inr True
     | Inl (ValueError _) \<Rightarrow> Inr False
     | Inl e \<Rightarrow> Inl e)"

text \<open>The tags named in the decoration of a commit.\<close>

definition tag_candidates :: "string \<Rightarrow> string list" where
  "tag_candidates refname =
     (if contains refname ''refs/tags/'' then
        map (\<lambda>tag_string. replace1 CHR ''-'' ''.'' (hd (split_sub '', '' tag_string)))
          (tl (split_sub ''refs/tags/'' (butlast (tl (strip refname)))))
      else [])"

definition valid_tags :: "string \<Rightarrow> string list res" where
  "valid_tags refname =
     rbind (mapR (\<lambda>c. rbind (is_valid_version c) (\<lambda>ok. Inr (c, ok))) (tag_candidates refname))
       (\<lambda>cs. Inr (remdups (map fst (filter snd cs))))"

fun log_entries :: "string list \<Rightarrow> log_entry gen" where
  "log_entries [] = ([], None)"
| "log_entries (line # lines) =
     (case split_on CHR 0x00 line of
        [sha, msg, refname] \<Rightarrow>
          (case valid_tags refname of
             Inl e \<Rightarrow> ([], Some e)
           | Inr tags \<Rightarrow> (case log_entries lines of (es, e) \<Rightarrow> ((sha, tags, msg) # es, e)))
      | _ \<Rightarrow> log_entries lines)"

definition iter_log_inner :: "git_env \<Rightarrow> string \<Rightarrow> log_entry gen" where
  "iter_log_inner E git_dir =
     (case run_git_command E [''log'', ''--decorate=full'', ''--format=%h%x00%s%x00%d''] git_dir False of
        Inl e \<Rightarrow> ([], Some e)
      | Inr changelog \<Rightarrow> log_entries (split_on CHR 0x0A changelog))"

text \<open>\<open>None\<close>: the empty list that is returned outside a repository; a generator otherwise.\<close>

definition iter_log_oneline :: "git_env \<Rightarrow> string option \<Rightarrow> log_entry gen option res" where
  "iter_log_oneline E git_dir =
     rbind (case git_dir of None \<Rightarrow> get_git_directory E | Some d \<Rightarrow> Inr d) (\<lambda>d.
       Inr (if d = [] then None else Some (iter_log_inner E d)))"

section \<open>Writing the files\<close>

definition write_all :: "(string option \<times> string) gen \<Rightarrow> unit files" where
  "write_all g =
     ibind (ifor (fst g) (\<lambda>(release, content). emit (WriteText content))) (\<lambda>_.
       case snd g of None \<Rightarrow> iret () | Some e \<Rightarrow> iraise e)"

definition in_dir :: "string \<Rightarrow> string \<Rightarrow> string" where
  "in_dir d f = (if d = [] \<or> endswith d ''/'' then d @ f else d @ ''/'' @ f)"

definition write_git_changelog ::
    "git_env \<Rightarrow> string option \<Rightarrow> string \<Rightarrow> option_dict \<Rightarrow> (string option \<times> string) gen option
     \<Rightarrow> unit files" where
  "write_git_changelog E git_dir dest_dir option_dict changelog =
     (if get_boolean_option E option_dict ''skip_changelog'' ''SKIP_WRITE_GIT_CHANGELOG'' then iret ()
      else ibind (case changelog of
                    Some g \<Rightarrow> iret (Some g)
                  | None \<Rightarrow> ilift (rbind (iter_log_oneline E git_dir)
                              (\<lambda>l. Inr (map_option (iter_changelog E) l)))) (\<lambda>changelog.
        case changelog of
          None \<Rightarrow> iret ()
        | Some g \<Rightarrow>
            (let new_changelog = in_dir dest_dir ''ChangeLog''
             in if file_exists E new_changelog \<and> \<not> file_writable E new_changelog then iret ()
                else ibind (ilift (file_open_write E new_changelog)) (\<lambda>_.
                     ibind (emit (OpenWrite new_changelog)) (\<lambda>_.
                     write_all g)))))"

definition ignored_author :: "string \<Rightarrow> bool" where
  "ignored_author a \<longleftrightarrow> list_ex (contains a)
     [''jenkins@review'', ''zuul@review'', ''infra@lists'', ''jenkins@openstack'']"

text \<open>\<^verbatim>\<open>re.findall('Co-authored-by:.+')\<close>: at most one match in a line, up to its end.\<close>

definition co_author_matches :: "string \<Rightarrow> string list" where
  "co_author_matches out =
     concat (map (\<lambda>line. take 1 (filter (\<lambda>t. startswith t ''Co-authored-by:'' \<and> 15 < length t)
                (rev (suffixes line)))) (split_on CHR 0x0A out))"

definition co_authors :: "string \<Rightarrow> string list" where
  "co_authors out = map (\<lambda>signed. strip (tl (dropWhile (\<lambda>c. c \<noteq> CHR '':'') signed))) (co_author_matches out)"

definition author_list :: "string \<Rightarrow> string \<Rightarrow> string list" where
  "author_list authors_out log_out =
     sort (remdups (filter (\<lambda>a. \<not> ignored_author a) (split_on CHR 0x0A authors_out) @ co_authors log_out))"

definition generate_authors :: "git_env \<Rightarrow> string option \<Rightarrow> string \<Rightarrow> option_dict \<Rightarrow> unit files" where
  "generate_authors E git_dir dest_dir option_dict =
     (if get_boolean_option E option_dict ''skip_authors'' ''SKIP_GENERATE_AUTHORS'' then iret ()
      else (let old_authors = in_dir dest_dir ''AUTHORS.in'';
                new_authors = in_dir dest_dir ''AUTHORS''
            in if file_exists E new_authors \<and> \<not> file_writable E new_authors then iret ()
               else ibind (ilift (case git_dir of None \<Rightarrow> get_git_directory E | Some d \<Rightarrow> Inr d)) (\<lambda>d.
                 if d = [] then iret ()
                 else ibind (ilift (run_git_command E [''log'', ''--format=%aN <%aE>''] d False)) (\<lambda>authors_out.
                      ibind (ilift (run_git_command E [''log''] d False)) (\<lambda>log_out.
                      ibind (ilift (file_open_write E new_authors)) (\<lambda>_.
                      ibind (emit (OpenWrite new_authors)) (\<lambda>_.
                      ibind (if file_exists E old_authors
                             then ibind (ilift (file_read E old_authors)) (\<lambda>s. emit (WriteText s))
                             else iret ()) (\<lambda>_.
                      emit (WriteText (join [CHR 0x0A] (author_list authors_out log_out) @ [CHR 0x0A]))))))))))"

section \<open>Escaping\<close>

definition escape :: "char \<Rightarrow> string" where
  "escape c = (if c \<in> set [CHR ''*'', CHR ''_'', CHR 0x60] then [CHR 0x5C, c] else [c])"

fun unescape :: "string \<Rightarrow> string" where
  "unescape (c # d # s) =
     (if c = CHR 0x5C \<and> d \<in> set [CHR ''*'', CHR ''_'', CHR 0x60] then d # unescape s
      else c # unescape (d # s))"
| "unescape s = s"

lemma clean_escape: "clean_changelog_message msg = concat (map escape msg)"
  by (induction msg) (auto simp: clean_changelog_message_def escape_def)

lemma escape_hd: "concat (map escape s) = d # r \<Longrightarrow> d \<notin> set [CHR ''*'', CHR ''_'', CHR 0x60]"
  by (cases s) (auto simp: escape_def split: if_splits)

lemma unescape_escape: "unescape (concat (map escape s)) = s"
proof (induction s)
  case (Cons c s)
  show ?case
  proof (cases "c \<in> set [CHR ''*'', CHR ''_'', CHR 0x60]")
    case True
    then show ?thesis using Cons by (simp add: escape_def)
  next
    case False
    then have e: "escape c = [c]" by (simp add: escape_def)
    show ?thesis
    proof (cases "concat (map escape s)")
      case Nil
      moreover from Cons Nil have "s = []" by simp
      ultimately show ?thesis by (simp add: e)
    next
      case (Cons d r)
      with escape_hd have "d \<notin> set [CHR ''*'', CHR ''_'', CHR 0x60]" by blast
      with Cons \<open>unescape (concat (map escape s)) = s\<close> show ?thesis by (simp add: e)
    qed
  qed
qed simp

theorem clean_changelog_message_escapes:
  "clean_changelog_message msg = concat (map escape msg) \<and> unescape (clean_changelog_message msg) = msg"
  by (simp add: clean_escape unescape_escape)

section \<open>Entries and tags\<close>

lemma from_pip_ValueError: "from_pip_string s = Inl e \<Longrightarrow> \<exists>m. e = ValueError m"
  using raises_unsafe [of s]
  by (cases "from_pip_string_unsafe s")
     (auto simp: from_pip_string_def parse_exn_def split: exn.splits)

lemma is_valid_version_returns:
  "is_valid_version c = Inr (\<exists>v. from_pip_string c = Inr v)"
  by (cases "from_pip_string c") (auto simp: is_valid_version_def dest: from_pip_ValueError)

lemma valid_tags_returns:
  "valid_tags refname = Inr (remdups (filter (\<lambda>c. \<exists>v. from_pip_string c = Inr v) (tag_candidates refname)))"
proof -
  have "mapR (\<lambda>c. rbind (is_valid_version c) (\<lambda>ok. Inr (c, ok))) cs
      = Inr (map (\<lambda>c. (c, \<exists>v. from_pip_string c = Inr v)) cs)" for cs
    by (rule mapR_Inr) (simp add: is_valid_version_returns)
  then show ?thesis
    by (simp add: valid_tags_def filter_map o_def)
qed

definition good_entry :: "log_entry \<Rightarrow> bool" where
  "good_entry e \<longleftrightarrow> (case e of (sha, tags, msg) \<Rightarrow>
     distinct tags \<and> (\<forall>tag \<in> set tags. \<exists>v. from_pip_string tag = Inr v)
     \<and> CHR 0x0A \<notin> set sha \<and> CHR 0x0A \<notin> set msg \<and> CHR 0x00 \<notin> set sha \<and> CHR 0x00 \<notin> set msg)"

lemma log_entries_returns:
  assumes "\<And>line. line \<in> set lines \<Longrightarrow> CHR 0x0A \<notin> set line"
  shows "\<exists>es. log_entries lines = (es, None) \<and> list_all good_entry es \<and> length es \<le> length lines"
  using assms
proof (induction lines)
  case (Cons line lines)
  then obtain es where es: "log_entries lines = (es, None)" "list_all good_entry es" "length es \<le> length lines"
    by auto
  show ?case
  proof (cases "\<exists>sha msg refname. split_on CHR 0x00 line = [sha, msg, refname]")
    case True
    then obtain sha msg refname where parts: "split_on CHR 0x00 line = [sha, msg, refname]" by blast
    have "set sha \<subseteq> set line"
      by (rule split_by_subset [of _ "\<lambda>x. x = CHR 0x00"]) (simp add: parts)
    moreover have "set msg \<subseteq> set line"
      by (rule split_by_subset [of _ "\<lambda>x. x = CHR 0x00"]) (simp add: parts)
    moreover have "CHR 0x00 \<notin> set sha" "CHR 0x00 \<notin> set msg"
      using split_by_no_sep [of sha "\<lambda>x. x = CHR 0x00" line] split_by_no_sep [of msg "\<lambda>x. x = CHR 0x00" line]
      by (auto simp: parts)
    moreover have "CHR 0x0A \<notin> set line" using Cons.prems by simp
    ultimately have "good_entry (sha, remdups (filter (\<lambda>c. \<exists>v. from_pip_string c = Inr v) (tag_candidates refname)), msg)"
      by (auto simp: good_entry_def)
    then show ?thesis using es by (simp add: parts valid_tags_returns)
  next
    case False
    then show ?thesis using es by (auto split: list.splits)
  qed
qed simp

theorem iter_log_inner_entries:
  assumes "run_git_command E [''log'', ''--decorate=full'', ''--format=%h%x00%s%x00%d''] git_dir False = Inr out"
  shows "\<exists>es. iter_log_inner E git_dir = (es, None) \<and> list_all good_entry es
     \<and> length es \<le> length (split_on CHR 0x0A out)"
  using log_entries_returns [of "split_on CHR 0x0A out"] split_by_no_sep
  by (fastforce simp: iter_log_inner_def assms)

section \<open>The chunks of the change log\<close>

text \<open>The chunks of one entry, given the release current after it.\<close>

definition entry_chunks :: "bool \<Rightarrow> string option \<Rightarrow> log_entry \<Rightarrow> (string option \<times> string) list" where
  "entry_chunks first release e = (case e of (sha, tags, msg) \<Rightarrow>
     (if tags = [] then []
      else (if first then [] else [(release, [CHR 0x0A])])
           @ [(release, the release @ [CHR 0x0A] @ replicate (length (the release)) CHR ''-''
                @ [CHR 0x0A, CHR 0x0A])])
     @ (if startswith msg ''Merge '' then []
        else [(release, ''* '' @ concat (map escape (if endswith msg ''.'' then butlast msg else msg))
                @ [CHR 0x0A])]))"

definition highest :: "git_env \<Rightarrow> string list \<Rightarrow> string" where
  "highest E tags = foldl (\<lambda>m t. if parse_version_gt E t m then t else m) (hd tags) (tl tags)"

fun releases :: "git_env \<Rightarrow> string option \<Rightarrow> log_entry list \<Rightarrow> string option list" where
  "releases E r [] = []"
| "releases E r ((sha, tags, msg) # es) =
     (let r' = (if tags = [] then r else Some (highest E tags)) in r' # releases E r' es)"

lemma py_max_fold: "py_max (\<lambda>a b. Inr (g a b)) m xs = Inr (foldl (\<lambda>m t. if g t m then t else m) m xs)"
  by (induction xs arbitrary: m) auto

lemma get_highest_tag_returns: "tags \<noteq> [] \<Longrightarrow> get_highest_tag E tags = Inr (highest E tags)"
  by (cases tags) (auto simp: get_highest_tag_def highest_def py_max_fold)

lemma changelog_chunks_entries:
  "changelog_chunks E first r es =
     (concat (map (\<lambda>(f, r, e). entry_chunks f r e)
        (zip (first # replicate (length es) False) (zip (releases E r es) es))), None)"
proof (induction es arbitrary: first r)
  case (Cons e es)
  obtain sha tags msg where e: "e = (sha, tags, msg)" by (cases e)
  show ?case
    using Cons.IH [of False] get_highest_tag_returns [of tags E]
    by (auto simp: e entry_chunks_def Let_def clean_escape split: prod.splits)
qed simp


section \<open>The files\<close>

lemma write_all_exec:
  "write_all (cs, e) t = (case e of None \<Rightarrow> Inr () | Some x \<Rightarrow> Inl x, t @ map (\<lambda>c. WriteText (snd c)) cs)"
proof -
  have "ifor cs (\<lambda>(release, content). emit (WriteText content)) t
      = (Inr (), t @ map (\<lambda>c. WriteText (snd c)) cs)" for t
    by (induction cs arbitrary: t) (auto simp: split_beta)
  then show ?thesis by (simp add: write_all_def ibind_def split: option.splits)
qed

text \<open>
  C21: write_git_changelog writes nothing when it is switched off or the file is not writable,
  else it opens the file and writes exactly the chunks of the changelog of the git log.
\<close>
theorem write_git_changelog_content:
  assumes "run_git_command E [''log'', ''--decorate=full'', ''--format=%h%x00%s%x00%d''] d False = Inr out"
    and "d \<noteq> []" "file_open_write E (in_dir dest ''ChangeLog'') = Inr ()"
  shows "write_git_changelog E (Some d) dest opts None t = (Inr (), t @
     (if get_boolean_option E opts ''skip_changelog'' ''SKIP_WRITE_GIT_CHANGELOG''
         \<or> file_exists E (in_dir dest ''ChangeLog'') \<and> \<not> file_writable E (in_dir dest ''ChangeLog'')
      then []
      else OpenWrite (in_dir dest ''ChangeLog'')
           # map (\<lambda>c. WriteText (snd c)) (fst (iter_changelog E (log_entries (split_on CHR 0x0A out))))))"
proof -
  obtain es where es: "log_entries (split_on CHR 0x0A out) = (es, None)"
    using log_entries_returns [of "split_on CHR 0x0A out"] split_by_no_sep by fastforce
  then obtain cs where "iter_changelog E (es, None) = (cs, None)"
    by (simp add: iter_changelog_def changelog_chunks_entries)
  then show ?thesis
    using assms es
    by (simp add: write_git_changelog_def iter_log_oneline_def iter_log_inner_def write_all_exec Let_def)
qed

theorem generate_authors_content:
  assumes "run_git_command E [''log'', ''--format=%aN <%aE>''] d False = Inr authors_out"
    and "run_git_command E [''log''] d False = Inr log_out" "d \<noteq> []"
    and "file_open_write E (in_dir dest ''AUTHORS'') = Inr ()"
    and "\<not> get_boolean_option E opts ''skip_authors'' ''SKIP_GENERATE_AUTHORS''"
    and "file_exists E (in_dir dest ''AUTHORS'') \<longrightarrow> file_writable E (in_dir dest ''AUTHORS'')"
    and "file_exists E (in_dir dest ''AUTHORS.in'') \<longrightarrow> file_read E (in_dir dest ''AUTHORS.in'') = Inr old"
  shows "\<exists>authors. generate_authors E (Some d) dest opts t = (Inr (), t @ [OpenWrite (in_dir dest ''AUTHORS'')]
       @ (if file_exists E (in_dir dest ''AUTHORS.in'') then [WriteText old] else [])
       @ [WriteText (join [CHR 0x0A] authors @ [CHR 0x0A])])
     \<and> sorted authors \<and> distinct authors
     \<and> set authors = {a \<in> set (split_on CHR 0x0A authors_out). \<not> ignored_author a} \<union> set (co_authors log_out)"
  using assms
  by (intro exI [of _ "author_list authors_out log_out"])
     (auto simp: generate_authors_def Let_def author_list_def ibind_assoc)

section \<open>A small repository\<close>

definition demo_git :: git_env where
  "demo_git = \<lparr>
     run_command = \<lambda>cmd.
       if ''--format=%h%x00%s%x00%d'' \<in> set cmd then
         Inr (0, ''a1'' @ [CHR 0x00] @ ''Fix *x*.'' @ [CHR 0x00] @ '' (tag: refs/tags/1.2.0)'' @ [CHR 0x0A]
                 @ ''b2'' @ [CHR 0x00] @ ''Merge y'' @ [CHR 0x00])
       else if ''--format=%aN <%aE>'' \<in> set cmd then
         Inr (0, ''Zoe <z@x>'' @ [CHR 0x0A] @ ''Jenkins <jenkins@review.x>'' @ [CHR 0x0A] @ ''Ann <a@x>'')
       else if cmd = [''git'', ''--git-dir=.git'', ''log''] then
         Inr (0, ''commit'' @ [CHR 0x0A] @ ''  Co-authored-by: Bob <b@x>'')
       else Inr (0, ''.git''),
     parse_version_gt = \<lambda>a b. a > b,
     file_exists = \<lambda>f. False, file_writable = \<lambda>f. True, file_open_write = \<lambda>f. Inr (),
     file_read = \<lambda>f. Inl (IOError f), env_var = \<lambda>v. None\<rparr>"

lemma demo_git_log: "\<exists>out. run_git_command demo_git
    [''log'', ''--decorate=full'', ''--format=%h%x00%s%x00%d''] ''.git'' False = Inr out"
  by (simp add: run_git_command_def run_shell_command_def demo_git_def)

theorem iter_log_inner_entries_witness:
  "\<exists>es. iter_log_inner demo_git ''.git'' = (es, None) \<and> list_all good_entry es"
  using demo_git_log iter_log_inner_entries [of demo_git "''.git''"] by blast

theorem write_git_changelog_content_witness:
  "\<exists>cs. write_git_changelog demo_git (Some ''.git'') [] [] None [] = (Inr (), OpenWrite ''ChangeLog'' # cs)"
proof -
  obtain out where "run_git_command demo_git
    [''log'', ''--decorate=full'', ''--format=%h%x00%s%x00%d''] ''.git'' False = Inr out"
    using demo_git_log by blast
  moreover have "file_open_write demo_git (in_dir [] ''ChangeLog'') = Inr ()"
    and "\<not> file_exists demo_git (in_dir [] ''ChangeLog'')" by (simp_all add: demo_git_def)
  moreover have "\<not> get_boolean_option demo_git [] ''skip_changelog'' ''SKIP_WRITE_GIT_CHANGELOG''"
    by code_simp
  ultimately show ?thesis
    using write_git_changelog_content [of demo_git "''.git''" out "[]" "[]" "[]"] by (simp add: in_dir_def)
qed

theorem generate_authors_content_witness:
  "\<exists>authors t'. generate_authors demo_git (Some ''.git'') ''.'' [] [] = (Inr (), t')
     \<and> sorted authors \<and> ''Bob <b@x>'' \<in> set authors \<and> ''Jenkins <jenkins@review.x>'' \<notin> set authors"
proof -
  let ?a = "''Zoe <z@x>'' @ [CHR 0x0A] @ ''Jenkins <jenkins@review.x>'' @ [CHR 0x0A] @ ''Ann <a@x>''"
  let ?l = "''commit'' @ [CHR 0x0A] @ ''  Co-authored-by: Bob <b@x>''"
  have a: "run_git_command demo_git [''log'', ''--format=%aN <%aE>''] ''.git'' False = Inr ?a" by code_simp
  have l: "run_git_command demo_git [''log''] ''.git'' False = Inr ?l" by code_simp
  have skip: "\<not> get_boolean_option demo_git [] ''skip_authors'' ''SKIP_GENERATE_AUTHORS''" by code_simp
  have co: "co_authors ?l = [''Bob <b@x>'']" by code_simp
  have ign: "ignored_author ''Jenkins <jenkins@review.x>''" by code_simp
  have rest: "''.git'' \<noteq> []" "file_open_write demo_git (in_dir ''.'' ''AUTHORS'') = Inr ()"
    "file_exists demo_git (in_dir ''.'' ''AUTHORS'') \<longrightarrow> file_writable demo_git (in_dir ''.'' ''AUTHORS'')"
    "file_exists demo_git (in_dir ''.'' ''AUTHORS.in'') \<longrightarrow>
       file_read demo_git (in_dir ''.'' ''AUTHORS.in'') = Inr []" by (simp_all add: demo_git_def)
  from generate_authors_content [OF a l rest(1,2) skip rest(3,4), of "[]"] obtain authors where
    "\<exists>t'. generate_authors demo_git (Some ''.git'') ''.'' [] [] = (Inr (), t')" "sorted authors"
    and set: "set authors = {x \<in> set (split_on CHR 0x0A ?a). \<not> ignored_author x} \<union> set (co_authors ?l)" by blast
  moreover have "''Bob <b@x>'' \<in> set authors" unfolding set co by simp
  moreover have "''Jenkins <jenkins@review.x>'' \<notin> set authors" unfolding set co using ign by simp
  ultimately show ?thesis by blast
qed

end
