(* ===== verification/Pbr_Requirements.thy ===== *)
theory Pbr_Requirements
  imports Pbr_Git
begin

text \<open>
  \<^verbatim>\<open>pbr/packaging.py\<close>, the requirements files: which files are read, how a line becomes a
  requirement or a dependency link, and files that include other files.  A line never contains a
  newline (it is an item of \<^verbatim>\<open>split('\n')\<close>), so that \<open>.*$\<close> matches the rest of it; the regular
  expressions are written out as functions on such lines.
\<close>

section \<open>The files\<close>

text \<open>The Python version is 2: the egg is built for it.\<close>

definition requirements_files :: "string list" where
  "requirements_files = [''requirements.txt'', ''tools/pip-requires'']"

definition py_requirements_files :: "string list" where
  "py_requirements_files = [''requirements-py2.txt'', ''tools/pip-requires-py2'']"

definition get_requirements_files :: "git_env \<Rightarrow> string list" where
  "get_requirements_files E =
     (let files = env_var E ''PBR_REQUIREMENTS_FILES''
      in if truthy files then map strip (split_on CHR '','' (the files))
         else py_requirements_files @ requirements_files)"

definition append_text_list ::
    "string \<Rightarrow> string list \<Rightarrow> (string \<times> string) list \<Rightarrow> (string \<times> string) list" where
  "append_text_list key text_list config =
     (let current_value = (case map_of config key of None \<Rightarrow> [] | Some v \<Rightarrow> v);
          new_value = (if current_value \<noteq> [] then [current_value] else []) @ text_list
      in dict_set key (join [CHR 0x0A] new_value) config)"

definition any_existing :: "git_env \<Rightarrow> string list \<Rightarrow> string list" where
  "any_existing E file_list = filter (file_exists E) file_list"

text \<open>The lines of the first existing file; the deprecation warning is not modelled.\<close>

definition get_reqs_from_files :: "git_env \<Rightarrow> string list \<Rightarrow> string list res" where
  "get_reqs_from_files E files =
     (case filter (\<lambda>f. f \<notin> set py_requirements_files) (any_existing E files) of
        [] \<Rightarrow> Inr []
      | f # _ \<Rightarrow> rbind (file_read E f) (\<lambda>s. Inr (split_on CHR 0x0A s)))"

section \<open>Lines\<close>

definition word_char :: "char \<Rightarrow> bool" where
  "word_char c \<longleftrightarrow> is_alpha c \<or> is_digit c \<or> c = CHR ''_''"

definition name_char :: "char \<Rightarrow> bool" where
  "name_char c \<longleftrightarrow> word_char c \<or> c = CHR ''.''"

definition version_char :: "char \<Rightarrow> bool" where
  "version_char c \<longleftrightarrow> name_char c \<or> c = CHR ''-''"

text \<open>\<^verbatim>\<open>re.sub(r'([\w.]+)-([\w.-]+)', r'\1>=\2', s)\<close>\<close>

function sub_versions :: "string \<Rightarrow> string" where
  "sub_versions [] = []"
| "sub_versions (c # s) =
     (let name = takeWhile name_char (c # s); rest = dropWhile name_char (c # s);
          version = takeWhile version_char (tl rest)
      in if name \<noteq> [] \<and> startswith rest ''-'' \<and> version \<noteq> []
         then name @ ''>='' @ version @ sub_versions (dropWhile version_char (tl rest))
         else c # sub_versions s)"
  by pat_completeness auto
termination
proof (relation "measure length", goal_cases)
  case (2 c s name rest version)
  then show ?case
    using length_dropWhile_le [of version_char "tl rest"] length_dropWhile_le [of name_char s]
    by (auto simp: less_Suc_eq_le split: if_splits intro: le_trans)
qed simp_all

text \<open>
  The group of \<^verbatim>\<open>.*#egg=([^&]+).*$\<close> in the rest of a line: \<^verbatim>\<open>.*\<close> is greedy, so that the last
  \<^verbatim>\<open>#egg=\<close> with a following character other than \<^verbatim>\<open>&\<close> counts.
\<close>

fun egg_group :: "string \<Rightarrow> string option" where
  "egg_group [] = None"
| "egg_group (c # s) =
     (case egg_group s of
        Some g \<Rightarrow> Some g
      | None \<Rightarrow>
          (let g = takeWhile (\<lambda>x. x \<noteq> CHR ''&'') (drop 5 (c # s))
           in if startswith (c # s) ''#egg='' \<and> g \<noteq> [] then Some g else None))"

text \<open>What follows \<^verbatim>\<open>\s*-e\s\<close>, \<^verbatim>\<open>\s*-f\s\<close> and \<^verbatim>\<open>\s*(https?|git(\+(https|ssh))?):\<close> at the start.\<close>

definition after_flag :: "char \<Rightarrow> string \<Rightarrow> string option" where
  "after_flag k line = (case dropWhile is_ws line of
       a # b # w # rest \<Rightarrow> if a = CHR ''-'' \<and> b = k \<and> is_ws w then Some rest else None
     | _ \<Rightarrow> None)"

definition url_schemes :: "string list" where
  "url_schemes = [''http:'', ''https:'', ''git:'', ''git+https:'', ''git+ssh:'']"

definition after_scheme :: "string \<Rightarrow> string option" where
  "after_scheme line =
     (let s = dropWhile is_ws line
      in case filter (\<lambda>p. startswith s p) url_schemes of
           [] \<Rightarrow> None | p # _ \<Rightarrow> Some (drop (length p) s))"

definition egg_fragment :: "string \<Rightarrow> string \<Rightarrow> string" where
  "egg_fragment rest line = (case egg_group rest of None \<Rightarrow> line | Some g \<Rightarrow> sub_versions g)"

definition index_option :: "string \<Rightarrow> bool" where
  "index_option line \<longleftrightarrow> list_ex (\<lambda>p. startswith (dropWhile is_ws line) p)
     [''-i'', ''--index-url'', ''--extra-index-url'', ''--find-links'']"

text \<open>The requirement of a line that is no comment, index option or inclusion, if any.\<close>

definition requirement_of :: "string \<Rightarrow> string option" where
  "requirement_of line =
     (case after_flag CHR ''e'' line of
        Some rest \<Rightarrow> Some (egg_fragment rest line)
      | None \<Rightarrow> (case after_scheme line of
          Some rest \<Rightarrow> Some (egg_fragment rest line)
        | None \<Rightarrow> if after_flag CHR ''f'' line \<noteq> None then None else Some line))"

definition strip_line :: "bool \<Rightarrow> string \<Rightarrow> string" where
  "strip_line strip_markers line =
     (let line = takeWhile (\<lambda>c. c \<noteq> CHR ''#'') line
      in if strip_markers then takeWhile (\<lambda>c. c \<noteq> CHR '';'') line else line)"

section \<open>parse\_requirements\<close>

text \<open>
  \<open>parse\<close> is \<^verbatim>\<open>pkg_resources.Requirement.parse\<close>, of which only the exception matters.  The depth of
  the nested calls is bounded by the recursion limit of the interpreter, \<open>fuel\<close>: exceeding it is
  a \<^verbatim>\<open>RuntimeError\<close>.
\<close>

definition line_requirements ::
    "(string \<Rightarrow> unit res) \<Rightarrow> (string \<Rightarrow> string list res) \<Rightarrow> bool \<Rightarrow> string \<Rightarrow> string list res" where
  "line_requirements parse nested strip_markers line =
     (if strip line = [] \<or> startswith line ''#'' then Inr []
      else if index_option line then Inr []
      else if startswith line ''-r'' then nested (tl (dropWhile (\<lambda>c. c \<noteq> CHR '' '') line))
      else rbind (case parse line of Inl (ValueError m) \<Rightarrow> Inr () | r \<Rightarrow> r) (\<lambda>_.
        case requirement_of line of
          None \<Rightarrow> Inr []
        | Some l \<Rightarrow> Inr [strip_line strip_markers l]))"

fun parse_requirements ::
    "nat \<Rightarrow> git_env \<Rightarrow> (string \<Rightarrow> unit res) \<Rightarrow> bool \<Rightarrow> string list \<Rightarrow> string list res" where
  "parse_requirements 0 E parse strip_markers files =
     Inl (RuntimeError ''maximum recursion depth exceeded'')"
| "parse_requirements (Suc fuel) E parse strip_markers files =
     rbind (get_reqs_from_files E files) (\<lambda>lines.
     rbind (mapR (line_requirements parse
              (\<lambda>f. parse_requirements fuel E parse strip_markers [f]) strip_markers) lines) (\<lambda>rs.
     Inr (concat rs)))"

section \<open>parse\_dependency\_links\<close>

definition flag_at :: "string \<Rightarrow> string option" where
  "flag_at s = (case after_flag CHR ''e'' s of
       Some rest \<Rightarrow> Some (dropWhile is_ws rest)
     | None \<Rightarrow> (case after_flag CHR ''f'' s of
         Some rest \<Rightarrow> Some (dropWhile is_ws rest) | None \<Rightarrow> None))"

lemma after_flag_shorter: "after_flag k s = Some r \<Longrightarrow> length r < length s"
  using length_dropWhile_le [of is_ws s]
  by (auto simp: after_flag_def split: list.splits if_splits)

lemma flag_at_shorter: "flag_at s = Some r \<Longrightarrow> length r < length s"
proof -
  have "length (dropWhile is_ws rest) < length s" if "after_flag k s = Some rest" for k rest
    using after_flag_shorter [OF that] length_dropWhile_le [of is_ws rest] by simp
  then show "flag_at s = Some r \<Longrightarrow> length r < length s"
    by (auto simp: flag_at_def split: option.splits)
qed

text \<open>\<^verbatim>\<open>re.sub(r'\s*-[ef]\s+', '', s)\<close>\<close>

function sub_flags :: "string \<Rightarrow> string" where
  "sub_flags [] = []"
| "sub_flags (c # s) = (case flag_at (c # s) of Some r \<Rightarrow> sub_flags r | None \<Rightarrow> c # sub_flags s)"
  by pat_completeness auto
termination
  by (relation "measure length") (auto dest: flag_at_shorter)

definition dependency_link :: "string \<Rightarrow> string option" where
  "dependency_link line =
     (let s = dropWhile is_ws line
      in if s = [] \<or> startswith s ''#'' then None
         else if flag_at line \<noteq> None then Some (sub_flags line)
         else if after_scheme line \<noteq> None then Some line
         else None)"

definition parse_dependency_links :: "git_env \<Rightarrow> string list \<Rightarrow> string list res" where
  "parse_dependency_links E files =
     rbind (get_reqs_from_files E files) (\<lambda>lines. Inr (List.map_filter dependency_link lines))"

section \<open>Requirements are clean\<close>

lemma set_takeWhile_sub: "set (takeWhile P s) \<subseteq> set s"
  by (auto dest: set_takeWhileD)

lemma set_dropWhile_sub: "set (dropWhile P s) \<subseteq> set s"
  by (auto dest: set_dropWhileD)

lemma set_tl_sub: "set (tl s) \<subseteq> set s"
  by (cases s) auto

lemma set_sub_versions: "set (sub_versions s) \<subseteq> set s \<union> set ''>=''"
proof (induction s rule: sub_versions.induct)
  case (2 c s)
  let ?r = "dropWhile name_char (c # s)"
  have tl: "set (tl ?r) \<subseteq> set (c # s)" by (rule order_trans [OF set_tl_sub set_dropWhile_sub])
  note sub = order_trans [OF set_takeWhile_sub tl] order_trans [OF set_dropWhile_sub tl] set_takeWhile_sub
  show ?case
  proof (cases "takeWhile name_char (c # s) \<noteq> [] \<and> startswith ?r ''-'' \<and> takeWhile version_char (tl ?r) \<noteq> []")
    case True
    from 2(1) [OF refl refl refl True] sub(2) [of version_char]
    have ih: "set (sub_versions (dropWhile version_char (tl ?r))) \<subseteq> set (c # s) \<union> set ''>=''" by blast
    show ?thesis
      unfolding sub_versions.simps Let_def if_P [OF True] set_append
      using ih sub(1) [of version_char] sub(3) [of name_char "c # s"] by blast
  next
    case False
    from 2(2) [OF refl refl refl False] show ?thesis
      unfolding sub_versions.simps Let_def if_not_P [OF False] by auto
  qed
qed simp

lemma set_egg_group: "egg_group s = Some g \<Longrightarrow> set g \<subseteq> set s"
proof (induction s)
  case (Cons c s)
  have "set (takeWhile (\<lambda>x. x \<noteq> CHR ''&'') (drop 5 (c # s))) \<subseteq> set (c # s)"
    by (rule order_trans [OF set_takeWhile_sub set_drop_subset])
  with Cons show ?case by (auto simp: Let_def split: option.splits if_splits)
qed simp

lemma set_after_flag: 
  assumes "after_flag k s = Some r"
  shows "set r \<subseteq> set s"
proof -
  from assms obtain a b w where "dropWhile is_ws s = a # b # w # r"
    by (auto simp: after_flag_def split: list.splits if_splits)
  with set_dropWhile_sub [of is_ws s] show ?thesis by auto
qed

lemma set_after_scheme: "after_scheme s = Some r \<Longrightarrow> set r \<subseteq> set s"
  using order_trans [OF set_drop_subset set_dropWhile_sub [of is_ws s]]
  by (auto simp: after_scheme_def Let_def split: list.splits)

lemma set_egg_fragment: "set rest \<subseteq> set line \<Longrightarrow> set (egg_fragment rest line) \<subseteq> set line \<union> set ''>=''"
  using set_egg_group [of rest] set_sub_versions
  by (auto simp: egg_fragment_def split: option.splits) blast

lemma set_requirement_of: "requirement_of line = Some l \<Longrightarrow> set l \<subseteq> set line \<union> set ''>=''"
  using set_egg_fragment [OF set_after_flag, of "CHR ''e''" line] set_egg_fragment [OF set_after_scheme, of line]
  by (auto simp: requirement_of_def split: option.splits if_splits)

definition clean :: "bool \<Rightarrow> string \<Rightarrow> bool" where
  "clean strip_markers r \<longleftrightarrow> CHR 0x0A \<notin> set r \<and> CHR ''#'' \<notin> set r \<and> (strip_markers \<longrightarrow> CHR '';'' \<notin> set r)"

lemma clean_strip_line: "CHR 0x0A \<notin> set l \<Longrightarrow> clean m (strip_line m l)"
  by (auto simp: clean_def strip_line_def Let_def dest!: set_takeWhileD)

lemma clean_line:
  assumes "CHR 0x0A \<notin> set line" "line_requirements parse nested m line = Inr rs"
    and "\<And>f rs. nested f = Inr rs \<Longrightarrow> \<forall>r \<in> set rs. clean m r"
  shows "\<forall>r \<in> set rs. clean m r"
proof -
  have "CHR 0x0A \<notin> set l" if "requirement_of line = Some l" for l
    using set_requirement_of [OF that] assms(1) by auto
  then have "clean m (strip_line m l)" if "requirement_of line = Some l" for l
    using that by (intro clean_strip_line) blast
  then show ?thesis using assms(2,3)
    by (auto simp: line_requirements_def rbind_eq_Inr split: if_splits option.splits)
qed

lemma mapR_all: "mapR f xs = Inr ys \<Longrightarrow> (\<And>x y. x \<in> set xs \<Longrightarrow> f x = Inr y \<Longrightarrow> P y) \<Longrightarrow> \<forall>y \<in> set ys. P y"
  by (induction xs arbitrary: ys) (auto simp: rbind_eq_Inr, blast+)

lemma reqs_lines: "get_reqs_from_files E files = Inr lines \<Longrightarrow> \<forall>line \<in> set lines. CHR 0x0A \<notin> set line"
  using split_by_no_sep [of _ "\<lambda>x. x = CHR 0x0A"]
  by (fastforce simp: get_reqs_from_files_def rbind_eq_Inr split: list.splits)

text \<open>
  C19: No requirement returned contains a newline, a comment character or, when markers are
  stripped, a semicolon, through all nested files; hence splitting the joined list gives it
  back.
\<close>
theorem parse_requirements_clean:
  assumes "parse_requirements fuel E parse strip_markers files = Inr rs"
  shows "(\<forall>r \<in> set rs. clean strip_markers r) \<and> (rs \<noteq> [] \<longrightarrow> split_on CHR 0x0A (join [CHR 0x0A] rs) = rs)"
proof -
  have "\<forall>r \<in> set rs. clean strip_markers r" using assms
  proof (induction fuel arbitrary: files rs)
    case (Suc fuel)
    then obtain lines rss where l: "get_reqs_from_files E files = Inr lines" "rs = concat rss"
      "mapR (line_requirements parse (\<lambda>f. parse_requirements fuel E parse strip_markers [f]) strip_markers) lines = Inr rss"
      by (auto simp: rbind_eq_Inr)
    have "\<forall>rs \<in> set rss. \<forall>r \<in> set rs. clean strip_markers r"
      by (rule mapR_all [OF l(3)]) (use reqs_lines [OF l(1)] clean_line Suc.IH in blast)
    then show ?case by (auto simp: l(2))
  qed simp
  then show ?thesis using split_on_join [of rs "CHR 0x0A"] by (auto simp: clean_def)
qed

section \<open>Nested files\<close>

definition included :: "string \<Rightarrow> string list" where
  "included line =
     (if strip line \<noteq> [] \<and> \<not> startswith line ''#'' \<and> \<not> index_option line \<and> startswith line ''-r''
      then [tl (dropWhile (\<lambda>c. c \<noteq> CHR '' '') line)] else [])"

definition inclusions :: "git_env \<Rightarrow> string list \<Rightarrow> string list" where
  "inclusions E files = (case get_reqs_from_files E files of
       Inl _ \<Rightarrow> [] | Inr lines \<Rightarrow> concat (map included lines))"

definition readable :: "git_env \<Rightarrow> (string \<Rightarrow> unit res) \<Rightarrow> bool" where
  "readable E parse \<longleftrightarrow> (\<forall>f. file_exists E f \<longrightarrow> (\<exists>s. file_read E f = Inr s))
     \<and> (\<forall>l. parse l = Inr () \<or> (\<exists>m. parse l = Inl (ValueError m)))"

lemma readable_reqs: "readable E parse \<Longrightarrow> \<exists>lines. get_reqs_from_files E files = Inr lines"
proof -
  assume "readable E parse"
  moreover have "file_exists E f" if "filter (\<lambda>f. f \<notin> set py_requirements_files) (any_existing E files) = f # fs" for f fs
    using arg_cong [OF that, of set] by (auto simp: any_existing_def)
  ultimately show ?thesis
    by (fastforce simp: get_reqs_from_files_def readable_def split: list.splits)
qed

lemma mapR_returns: "(\<And>x. x \<in> set xs \<Longrightarrow> \<exists>y. f x = Inr y) \<Longrightarrow> \<exists>ys. mapR f xs = Inr ys"
  by (induction xs) fastforce+

lemma line_returns:
  assumes "readable E parse" "\<And>f. f \<in> set (included line) \<Longrightarrow> \<exists>rs. nested f = Inr rs"
  shows "\<exists>rs. line_requirements parse nested m line = Inr rs"
proof -
  have "parse line = Inr () \<or> (\<exists>m. parse line = Inl (ValueError m))" using assms(1) by (simp add: readable_def)
  with assms(2) show ?thesis
    by (auto simp: line_requirements_def included_def split: option.splits if_splits)
qed

lemma parse_requirements_returns:
  assumes "readable E parse" "\<And>f g. g \<in> set (inclusions E [f]) \<Longrightarrow> rank g < rank f"
    and "\<forall>g \<in> set (inclusions E files). rank g < fuel"
  shows "\<exists>rs. parse_requirements (Suc fuel) E parse m files = Inr rs"
  using assms(3)
proof (induction fuel arbitrary: files)
  case 0
  obtain lines where l: "get_reqs_from_files E files = Inr lines" using readable_reqs [OF assms(1)] by blast
  with 0 have "\<forall>line \<in> set lines. included line = []"
    by (auto simp: inclusions_def) (metis last_in_set)
  then have "\<exists>rss. mapR (line_requirements parse (\<lambda>f. parse_requirements 0 E parse m [f]) m) lines = Inr rss"
    by (intro mapR_returns line_returns [OF assms(1)]) simp
  then show ?case by (auto simp: l)
next
  case (Suc fuel)
  obtain lines where l: "get_reqs_from_files E files = Inr lines" using readable_reqs [OF assms(1)] by blast
  have "\<exists>rs. parse_requirements (Suc fuel) E parse m [g] = Inr rs"
    if "line \<in> set lines" "g \<in> set (included line)" for line g
  proof (rule Suc.IH)
    have "rank g < Suc fuel" using Suc.prems that by (auto simp: inclusions_def l)
    then show "\<forall>h \<in> set (inclusions E [g]). rank h < fuel" using assms(2) by fastforce
  qed
  then have "\<exists>rss. mapR (line_requirements parse (\<lambda>f. parse_requirements (Suc fuel) E parse m [f]) m) lines = Inr rss"
    by (intro mapR_returns line_returns [OF assms(1)]) (simp del: parse_requirements.simps)
  then show ?case unfolding parse_requirements.simps(2) [of "Suc fuel"] l
    by (auto simp del: parse_requirements.simps)
qed

text \<open>
  C18: When the files include each other along a decreasing rank and can be read,
  parse_requirements returns for every recursion limit above the ranks of the included files.
\<close>
theorem parse_requirements_terminates:
  assumes "readable E parse" "\<And>f g. g \<in> set (inclusions E [f]) \<Longrightarrow> rank g < rank f"
    and "\<forall>g \<in> set (inclusions E files). rank g < limit" "limit < fuel"
  shows "\<exists>rs. parse_requirements fuel E parse strip_markers files = Inr rs"
proof -
  obtain k where "fuel = Suc k" "limit \<le> k" using assms(4) by (cases fuel) auto
  with parse_requirements_returns [OF assms(1,2), where fuel = k] assms(3) show ?thesis by fastforce
qed

text \<open>One file directly includes the other.\<close>

definition inclusion :: "git_env \<Rightarrow> (string \<times> string) set" where
  "inclusion E = {(f, g). g \<in> set (inclusions E [f])}"

lemma nested_returns:
  assumes "line_requirements parse nested m line = Inr rs" "g \<in> set (included line)"
  shows "\<exists>rs. nested g = Inr rs"
  using assms by (auto simp: line_requirements_def included_def split: if_splits)

lemma mapR_each: "mapR f xs = Inr ys \<Longrightarrow> x \<in> set xs \<Longrightarrow> \<exists>y. f x = Inr y"
  by (induction xs arbitrary: ys) (auto simp: rbind_eq_Inr)

lemma inclusion_returns:
  assumes "parse_requirements (Suc fuel) E parse m [f] = Inr rs" "(f, g) \<in> inclusion E"
  shows "\<exists>rs. parse_requirements fuel E parse m [g] = Inr rs"
proof -
  from assms(1) obtain lines rss where l: "get_reqs_from_files E [f] = Inr lines"
    "mapR (line_requirements parse (\<lambda>f. parse_requirements fuel E parse m [f]) m) lines = Inr rss"
    by (auto simp: rbind_eq_Inr)
  from assms(2) l(1) obtain line where "line \<in> set lines" "g \<in> set (included line)"
    by (auto simp: inclusion_def inclusions_def)
  with mapR_each [OF l(2)] nested_returns show ?thesis by blast
qed

text \<open>
  C35: A requirements file that includes itself, directly or through others, raises for every
  recursion limit: the nesting is never cut.
\<close>
theorem requirement_cycles_raise:
  assumes "(f, f) \<in> (inclusion E)\<^sup>+"
  shows "\<exists>e. parse_requirements fuel E parse strip_markers [f] = Inl e"
  using assms
proof (induction fuel arbitrary: f)
  case (Suc fuel)
  from Suc.prems obtain g where g: "(f, g) \<in> inclusion E" "(g, f) \<in> (inclusion E)\<^sup>*"
    by (metis tranclD)
  then have "(g, g) \<in> (inclusion E)\<^sup>+" by (meson rtrancl_into_trancl1)
  with Suc.IH have "\<nexists>rs. parse_requirements fuel E parse strip_markers [g] = Inr rs" by fastforce
  with inclusion_returns [OF _ g(1)] show ?case
    by (cases "parse_requirements (Suc fuel) E parse strip_markers [f]") blast+
qed simp

section \<open>Editable requirements\<close>

lemma takeWhile_all: "(\<And>x. x \<in> set s \<Longrightarrow> P x) \<Longrightarrow> takeWhile P s = s"
  by (induction s) auto

lemma egg_group_none: "CHR ''#'' \<notin> set s \<Longrightarrow> egg_group s = None"
  by (induction s) (auto simp: Let_def)

lemma egg_group_last:
  assumes "g \<noteq> []" "CHR ''#'' \<notin> set g" "CHR ''&'' \<notin> set g"
  shows "egg_group (u @ ''#egg='' @ g) = Some g"
proof (induction u)
  case Nil
  have tw: "takeWhile (\<lambda>x. x \<noteq> CHR ''&'') g = g" by (rule takeWhile_all) (use assms(3) in auto)
  have step: "egg_group (CHR ''#'' # t) = Some g" if "egg_group t = None" "startswith t ''egg=''" "drop 4 t = g" for t
    using that assms(1) by (simp add: Let_def tw del: takeWhile_eq_all_conv)
  have "egg_group (''egg='' @ g) = None" using assms(2) by (intro egg_group_none) simp
  from step [OF this] show ?case by simp
qed simp

lemma sub_versions_one:
  assumes "name \<noteq> []" "version \<noteq> []" "list_all name_char name" "list_all version_char version"
  shows "sub_versions (name @ ''-'' @ version) = name @ ''>='' @ version"
proof -
  obtain c s where n: "name = c # s" using assms(1) by (cases name) auto
  have "\<not> name_char CHR ''-''" by (simp add: name_char_def word_char_def is_alpha_def is_digit_def)
  with assms(3) have t: "takeWhile name_char (c # s @ ''-'' @ version) = name"
    "dropWhile name_char (c # s @ ''-'' @ version) = ''-'' @ version"
    using takeWhile_append2 [of name name_char "''-'' @ version"] dropWhile_append2 [of name name_char "''-'' @ version"]
    by (auto simp: n list_all_iff)
  moreover have "takeWhile version_char version = version" "dropWhile version_char version = []"
    using assms(4) by (auto simp: list_all_iff intro: takeWhile_all)
  ultimately show ?thesis using assms(1,2) unfolding n append_Cons
    by (subst sub_versions.simps) (simp del: takeWhile.simps dropWhile.simps list.pred_inject takeWhile_eq_all_conv dropWhile_eq_Nil_conv add: Let_def)
qed

lemma no_hash:
  assumes "list_all version_char s"
  shows "CHR ''#'' \<notin> set s" "CHR '';'' \<notin> set s" "CHR ''&'' \<notin> set s"
proof -
  have "\<not> version_char CHR ''#''" "\<not> version_char CHR '';''" "\<not> version_char CHR ''&''" by code_simp+
  with assms show "CHR ''#'' \<notin> set s" "CHR '';'' \<notin> set s" "CHR ''&'' \<notin> set s"
    by (metis list_all_iff)+
qed

lemma url_requirement:
  assumes "p = ''-e '' \<or> p \<in> set url_schemes"
  shows "requirement_of (p @ rest) = Some (egg_fragment rest (p @ rest))"
    and "strip (p @ rest) \<noteq> []" "\<not> startswith (p @ rest) ''#''" "\<not> index_option (p @ rest)"
    and "\<not> startswith (p @ rest) ''-r''"
proof -
  have p: "p = ''-e '' \<or> p = ''http:'' \<or> p = ''https:'' \<or> p = ''git:'' \<or> p = ''git+https:'' \<or> p = ''git+ssh:''"
    using assms by (simp add: url_schemes_def)
  have ws: "\<not> is_ws CHR ''-''" "\<not> is_ws CHR ''h''" "\<not> is_ws CHR ''g''" "is_ws CHR '' ''" by code_simp+
  have d: "dropWhile is_ws (p @ rest) = p @ rest" using p ws(1-3) by (elim disjE) simp_all
  have "hd p \<in> set (p @ rest)" "\<not> is_ws (hd p)" using p ws(1-3) by (elim disjE; simp)+
  then have "hd p \<in> set (strip (p @ rest))" by (rule strip_keeps)
  then show "strip (p @ rest) \<noteq> []" by auto
  show "\<not> startswith (p @ rest) ''#''" "\<not> startswith (p @ rest) ''-r''" using p by (elim disjE; simp)+
  show "\<not> index_option (p @ rest)" unfolding index_option_def d using p by (elim disjE; simp)
  show "requirement_of (p @ rest) = Some (egg_fragment rest (p @ rest))"
    unfolding requirement_of_def after_flag_def after_scheme_def d Let_def url_schemes_def
    using p ws(4) by (elim disjE; simp)
qed

theorem editable_requirement:
  assumes "p = ''-e '' \<or> p \<in> set url_schemes"
    and "name \<noteq> []" "version \<noteq> []" "list_all name_char name" "list_all version_char version"
    and "line = p @ url @ ''#egg='' @ name @ ''-'' @ version" "parse line = Inl (ValueError msg)"
  shows "line_requirements parse nested strip_markers line = Inr [name @ ''>='' @ version]"
proof -
  define rest where "rest = url @ ''#egg='' @ name @ ''-'' @ version"
  have l: "line = p @ rest" using assms(6) by (simp add: rest_def)
  have v: "list_all version_char name" using assms(4) by (auto simp: list_all_iff version_char_def)
  have "egg_group (url @ ''#egg='' @ (name @ ''-'' @ version)) = Some (name @ ''-'' @ version)"
    by (rule egg_group_last) (use no_hash [OF v] no_hash [OF assms(5)] in auto)
  then have "egg_fragment rest line = name @ ''>='' @ version"
    using sub_versions_one [OF assms(2-5)] by (simp add: egg_fragment_def rest_def)
  moreover have "takeWhile (\<lambda>c. c \<noteq> x) (name @ ''>='' @ version) = name @ ''>='' @ version"
    if "x = CHR ''#'' \<or> x = CHR '';''" for x
    by (rule takeWhile_all) (use that no_hash [OF v] no_hash [OF assms(5)] in auto)
  then have "strip_line strip_markers (name @ ''>='' @ version) = name @ ''>='' @ version"
    by (simp only: strip_line_def Let_def simp_thms if_cancel)
  ultimately show ?thesis
    using url_requirement [OF assms(1), of rest] assms(7) by (simp add: line_requirements_def l)
qed

section \<open>Witnesses\<close>

definition demo_reqs :: git_env where
  "demo_reqs = demo_git\<lparr>file_exists := \<lambda>f. f = ''requirements.txt'' \<or> f = ''base.txt'',
     file_read := \<lambda>f. Inr (if f = ''base.txt'' then ''-e git://h/nova#egg=nova-1.2.3''
       else ''# needed'' @ [CHR 0x0A] @ ''-r base.txt'' @ [CHR 0x0A] @ ''six>=1.9;extra # note'')\<rparr>"

definition demo_parse :: "string \<Rightarrow> unit res" where
  "demo_parse line = (if startswith line ''-'' then Inl (ValueError line) else Inr ())"

lemma demo_result: "parse_requirements 3 demo_reqs demo_parse True [''requirements.txt'']
     = Inr [''nova>=1.2.3'', ''six>=1.9'']"
  by code_simp

theorem parse_requirements_clean_witness:
  "parse_requirements 3 demo_reqs demo_parse True [''requirements.txt''] = Inr [''nova>=1.2.3'', ''six>=1.9'']
     \<and> clean True ''six>=1.9''"
  using parse_requirements_clean [OF demo_result] demo_result by simp

lemma demo_inclusions: "set (inclusions demo_reqs [f]) \<subseteq> (if f = ''requirements.txt'' then {''base.txt''} else {})"
proof -
  consider "f = ''requirements.txt''" | "f = ''base.txt''" | "f \<noteq> ''requirements.txt''" "f \<noteq> ''base.txt''" by blast
  then show ?thesis
  proof cases
    case 1
    have "inclusions demo_reqs [''requirements.txt''] = [''base.txt'']" by code_simp
    with 1 show ?thesis by simp
  next
    case 2
    have "inclusions demo_reqs [''base.txt''] = []" by code_simp
    with 2 show ?thesis by simp
  next
    case 3
    then have "inclusions demo_reqs [f] = []"
      by (simp add: inclusions_def get_reqs_from_files_def any_existing_def demo_reqs_def)
    then show ?thesis by simp
  qed
qed

theorem parse_requirements_terminates_witness:
  "\<exists>rs. parse_requirements 1000 demo_reqs demo_parse False [''requirements.txt''] = Inr rs"
proof -
  let ?rank = "\<lambda>f. if f = ''requirements.txt'' then 1 else 0 :: nat"
  have r: "readable demo_reqs demo_parse" by (simp add: readable_def demo_reqs_def demo_parse_def)
  have base: "g = ''base.txt''" "f = ''requirements.txt''" if "g \<in> set (inclusions demo_reqs [f])" for f g
    using that demo_inclusions [of f] by (auto split: if_splits)
  have d: "?rank g < ?rank f" if "g \<in> set (inclusions demo_reqs [f])" for f g
    unfolding base [OF that] by simp
  have "\<forall>g \<in> set (inclusions demo_reqs [''requirements.txt'']). ?rank g < 1"
    using base(1) by fastforce
  from parse_requirements_terminates [where rank = ?rank, OF r d this] show ?thesis by simp
qed

definition demo_loop :: git_env where
  "demo_loop = demo_git\<lparr>file_exists := \<lambda>f. True,
     file_read := \<lambda>f. Inr (if f = ''a'' then ''-r b'' else ''-r a'')\<rparr>"

theorem requirement_cycles_raise_witness:
  "\<exists>e. parse_requirements 1000 demo_loop demo_parse False [''a''] = Inl e"
proof (rule requirement_cycles_raise)
  have "inclusions demo_loop [''a''] = [''b'']" "inclusions demo_loop [''b''] = [''a'']" by code_simp+
  then have "(''a'', ''b'') \<in> inclusion demo_loop" "(''b'', ''a'') \<in> inclusion demo_loop"
    by (simp_all add: inclusion_def)
  then show "(''a'', ''a'') \<in> (inclusion demo_loop)\<^sup>+" by (rule trancl_into_trancl2 [OF _ r_into_trancl])
qed

theorem editable_requirement_witness:
  "line_requirements demo_parse (\<lambda>_. Inr []) True ''-e git://h/x#egg=nova-1.2.3'' = Inr [''nova>=1.2.3'']"
proof -
  have "list_all name_char ''nova''" "list_all version_char ''1.2.3''" by code_simp+
  from editable_requirement [of "''-e ''" "''nova''" "''1.2.3''", OF _ _ _ this, of _ "''git://h/x''" demo_parse]
  show ?thesis by (simp add: demo_parse_def)
qed

end
