(* ===== verification/Pbr_Setup_Cfg.thy ===== *)
theory Pbr_Setup_Cfg
  imports Pbr_Shell Pbr_Requirements
begin

text \<open>
  \<^verbatim>\<open>pbr/util.py\<close>: from the options of \<^verbatim>\<open>setup.cfg\<close> to the keyword arguments of \<^verbatim>\<open>setup()\<close>.  A section
  is the association list of its options, the configuration the association list of its
  sections; an association list stands for a dictionary, in insertion order.  Python objects that
  names resolve to are values of a type parameter.
\<close>

section \<open>The environment\<close>

type_synonym section_config = "(string \<times> string) list"
type_synonym config = "(string \<times> section_config) list"

text \<open>
  \<open>cls_command\<close> is \<^verbatim>\<open>cls(dist).get_command_name()\<close>, \<open>obj_string\<close> a string attribute of a class if
  present; \<open>recursion_limit\<close> and \<open>parse_requirement\<close> belong to \<^verbatim>\<open>parse_requirements\<close>.
\<close>

record 'o util_env =
  ue_git :: git_env
  recursion_limit :: nat
  parse_requirement :: "string \<Rightarrow> unit res"
  import_module :: "string list \<Rightarrow> string \<Rightarrow> 'o res"
  get_attr :: "'o \<Rightarrow> string \<Rightarrow> 'o res"
  empty_string :: 'o
  cls_command :: "'o \<Rightarrow> string res"
  obj_string :: "'o \<Rightarrow> string \<Rightarrow> string option"
  evaluate_marker :: "string \<Rightarrow> bool res"

definition has_get_option :: "config \<Rightarrow> string \<Rightarrow> string \<Rightarrow> string option" where
  "has_get_option config sect opt =
     (case map_of config sect of None \<Rightarrow> None | Some options \<Rightarrow> map_of options opt)"

section \<open>resolve\_name\<close>

text \<open>\<open>cursor\<close> parts are imported as a module, the next part being the \<^verbatim>\<open>fromlist\<close>; the object after no import at all is \<^verbatim>\<open>''\<close>.\<close>

fun import_prefix :: "'o util_env \<Rightarrow> string list \<Rightarrow> nat \<Rightarrow> ('o \<times> nat) res" where
  "import_prefix E parts 0 = Inr (empty_string E, 0)"
| "import_prefix E parts (Suc n) =
     (case import_module E (take (Suc n) parts) (parts ! Suc n) of
        Inr ret \<Rightarrow> Inr (ret, Suc n)
      | Inl (ImportError m) \<Rightarrow> import_prefix E parts n
      | Inl e \<Rightarrow> Inl e)"

definition resolve_name :: "'o util_env \<Rightarrow> string \<Rightarrow> 'o res" where
  "resolve_name E name =
     (let parts = split_on CHR ''.'' name; cursor = length parts - 1
      in if cursor = 0 then Inl (UnboundLocalError ''ret'')
         else rbind (import_prefix E parts cursor) (\<lambda>(ret, cursor).
           foldR (\<lambda>ret part. case get_attr E ret part of
                    Inl (AttributeError m) \<Rightarrow> Inl (ImportError name)
                  | r \<Rightarrow> r) ret (drop cursor parts)))"

section \<open>The fields of setup.cfg\<close>

definition d1_d2_setup_args :: "(string \<times> string list) list" where
  "d1_d2_setup_args =
    [(''name'', [''metadata'']),
     (''version'', [''metadata'']),
     (''author'', [''metadata'']),
     (''author_email'', [''metadata'']),
     (''maintainer'', [''metadata'']),
     (''maintainer_email'', [''metadata'']),
     (''url'', [''metadata'', ''home_page'']),
     (''project_urls'', [''metadata'']),
     (''description'', [''metadata'', ''summary'']),
     (''keywords'', [''metadata'']),
     (''long_description'', [''metadata'', ''description'']),
     (''long_description_content_type'', [''metadata'', ''description_content_type'']),
     (''download_url'', [''metadata'']),
     (''classifiers'', [''metadata'', ''classifier'']),
     (''platforms'', [''metadata'', ''platform'']),
     (''license'', [''metadata'']),
     (''install_requires'', [''metadata'', ''requires_dist'']),
     (''setup_requires'', [''metadata'', ''setup_requires_dist'']),
     (''python_requires'', [''metadata'']),
     (''provides'', [''metadata'', ''provides_dist'']),
     (''provides_extras'', [''metadata'']),
     (''obsoletes'', [''metadata'', ''obsoletes_dist'']),
     (''package_dir'', [''files'', ''packages_root'']),
     (''packages'', [''files'']),
     (''package_data'', [''files'']),
     (''namespace_packages'', [''files'']),
     (''data_files'', [''files'']),
     (''scripts'', [''files'']),
     (''py_modules'', [''files'', ''modules'']),
     (''cmdclass'', [''global'', ''commands'']),
     (''use_2to3'', [''backwards_compat'', ''use_2to3'']),
     (''zip_safe'', [''backwards_compat'', ''zip_safe'']),
     (''tests_require'', [''backwards_compat'', ''tests_require'']),
     (''dependency_links'', [''backwards_compat'']),
     (''include_package_data'', [''backwards_compat''])]"

definition multi_fields :: "string list" where
  "multi_fields =
    [''classifiers'', ''platforms'', ''install_requires'', ''provides'', ''obsoletes'',
     ''namespace_packages'', ''packages'', ''package_data'', ''data_files'', ''scripts'',
     ''py_modules'', ''dependency_links'', ''setup_requires'', ''tests_require'', ''keywords'',
     ''cmdclass'', ''provides_extras'']"

definition map_fields :: "string list" where
  "map_fields = [''project_urls'']"

definition bool_fields :: "string list" where
  "bool_fields = [''use_2to3'', ''zip_safe'', ''include_package_data'']"

text \<open>The values of keyword arguments; the fields of an extension module are lists or macros.\<close>

datatype ext_field = EList "string list" | EMacros "(string \<times> string option) list"

datatype 'o kwarg =
    KStr string
  | KBool bool
  | KList "string list"
  | KMap "(string \<times> string) list"
  | KFiles "(string \<times> string list) list"
  | KCommands "(string \<times> 'o) list"
  | KExtensions "(string \<times> (string \<times> ext_field) list) list"

fun kwarg_true :: "'o kwarg \<Rightarrow> bool" where
  "kwarg_true (KStr s) \<longleftrightarrow> s \<noteq> []"
| "kwarg_true (KBool b) \<longleftrightarrow> b"
| "kwarg_true (KList l) \<longleftrightarrow> l \<noteq> []"
| "kwarg_true (KMap m) \<longleftrightarrow> m \<noteq> []"
| "kwarg_true (KFiles f) \<longleftrightarrow> f \<noteq> []"
| "kwarg_true (KCommands c) \<longleftrightarrow> c \<noteq> []"
| "kwarg_true (KExtensions e) \<longleftrightarrow> e \<noteq> []"

definition section_option :: "string \<Rightarrow> string list \<Rightarrow> string \<times> string" where
  "section_option arg spec = (hd spec, if length spec = 2 then spec ! 1 else arg)"

text \<open>The contents of the description files.\<close>

definition description_of_files :: "'o util_env \<Rightarrow> string \<Rightarrow> string res" where
  "description_of_files E files = foldR (\<lambda>value filename.
       rbind (file_read (ue_git E) filename) (\<lambda>s. Inr (value @ strip s @ [CHR 0x0A, CHR 0x0A])))
     [] (split_multiline files)"

text \<open>\<^verbatim>\<open>k, v = i.split('=', 1)\<close>\<close>

definition map_item :: "string \<Rightarrow> (string \<times> string) res" where
  "map_item i = (if CHR ''='' \<in> set i
     then Inr (strip (takeWhile (\<lambda>c. c \<noteq> CHR ''='') i), strip (tl (dropWhile (\<lambda>c. c \<noteq> CHR ''='') i)))
     else Inl (ValueError ''need more than 1 value to unpack''))"

definition field_value :: "string \<Rightarrow> string \<Rightarrow> 'o kwarg res" where
  "field_value arg v =
     (if arg \<in> set multi_fields then Inr (KList (split_multiline v))
      else if arg \<in> set map_fields then
        rbind (foldR (\<lambda>d i. rbind (map_item i) (\<lambda>(k, v). Inr (dict_set k v d))) [] (split_multiline v))
          (\<lambda>d. Inr (KMap d))
      else if arg \<in> set bool_fields then
        Inr (KBool (lower v \<in> set [''true'', ''t'', ''1'', ''yes'', ''y'']))
      else Inr (KStr v))"

section \<open>Requirements\<close>

text \<open>\<^verbatim>\<open>_VERSION_SPEC_RE.sub(r'\1\2', pred)\<close> on a stripped line: \<^verbatim>\<open>foo (>1)\<close> becomes \<^verbatim>\<open>foo>1\<close>.\<close>

definition version_spec :: "string \<Rightarrow> string" where
  "version_spec pred =
     (if CHR ''('' \<in> set pred \<and> endswith pred '')''
      then rstrip (takeWhile (\<lambda>c. c \<noteq> CHR ''('') pred)
           @ butlast (tl (dropWhile (\<lambda>c. c \<noteq> CHR ''('') pred))
      else pred)"

text \<open>
  \<^verbatim>\<open>(?P<package>[^sep]*)sep?(?P<env_marker>[^#]*?)(?:\s*#.*)?$\<close> on a line: what precedes the separator,
  and what follows it up to a comment.
\<close>

definition package_marker :: "char \<Rightarrow> string \<Rightarrow> string \<times> string" where
  "package_marker sep r =
     (let m = tl (dropWhile (\<lambda>c. c \<noteq> sep) r)
      in (strip (takeWhile (\<lambda>c. c \<noteq> sep) r),
          if CHR ''#'' \<in> set m then rstrip (takeWhile (\<lambda>c. c \<noteq> CHR ''#'') m) else m))"

type_synonym requirements = "(string \<times> (string \<times> string) list) list"

definition install_requirements :: "string list \<Rightarrow> (string \<times> string) list" where
  "install_requirements reqs =
     map (\<lambda>r. case package_marker CHR '';'' r of (p, m) \<Rightarrow> (p, strip m)) reqs"

section \<open>package\_data and data\_files\<close>

text \<open>\<open>prev\<close> is the key whose list the variable \<^verbatim>\<open>prev\<close> shares, \<open>None\<close> on the first line.\<close>

definition data_files_line ::
    "(string \<times> string list) list \<times> string option \<Rightarrow> string
     \<Rightarrow> ((string \<times> string list) list \<times> string option) res" where
  "data_files_line = (\<lambda>(data_files, prev) line.
     if CHR ''='' \<in> set line then
       rbind (shlex_split (strip (takeWhile (\<lambda>c. c \<noteq> CHR ''='') line))) (\<lambda>ks.
       rbind (at ks 0) (\<lambda>key.
       rbind (shlex_split (strip (tl (dropWhile (\<lambda>c. c \<noteq> CHR ''='') line)))) (\<lambda>ws.
         (case map_of data_files key of
            Some l \<Rightarrow> Inr (dict_set key (l @ ws) data_files, Some key)
          | None \<Rightarrow> Inr (dict_set (strip key) ws data_files, Some (strip key))))))
     else (case prev of
         None \<Rightarrow> Inl (DistutilsError (''malformed package_data first line '' @ repr_bytes line @ '' (misses '' @ [CHR 0x22] @ ''='' @ [CHR 0x22] @ '')''))
       | Some key \<Rightarrow> rbind (shlex_split (strip line)) (\<lambda>ws.
           Inr (dict_set key (the (map_of data_files key) @ ws) data_files, prev))))"

definition parse_data_files :: "string list \<Rightarrow> (string \<times> string list) list res" where
  "parse_data_files lines =
     rbind (foldR data_files_line ([], None) lines) (\<lambda>(data_files, prev). Inr data_files)"

section \<open>setup\_cfg\_to\_setup\_kwargs\<close>

type_synonym 'o kwargs = "(string \<times> 'o kwarg) list"

definition command_classes :: "'o util_env \<Rightarrow> string list \<Rightarrow> (string \<times> 'o) list res" where
  "command_classes E names = foldR (\<lambda>cmdclass cls_name.
     rbind (resolve_name E cls_name) (\<lambda>cls.
     rbind (cls_command E cls) (\<lambda>n. Inr (dict_set n cls cmdclass)))) [] names"

text \<open>The treatment of the fields with a syntax of their own; other fields keep their value.\<close>

definition refine_field ::
    "'o util_env \<Rightarrow> string \<Rightarrow> 'o kwarg \<Rightarrow> requirements \<Rightarrow> ('o kwarg \<times> requirements) res" where
  "refine_field E arg v reqs =
     (if \<not> kwarg_true v then Inr (v, reqs)
      else (case v of
          KList l \<Rightarrow>
            (let l' = (if arg \<in> set [''install_requires'', ''tests_require''] then map version_spec l else l)
             in if arg = ''install_requires''
                then Inr (KList l', dict_set [] (install_requirements l') reqs)
                else if arg \<in> set [''package_data'', ''data_files'']
                then rbind (parse_data_files l') (\<lambda>d. Inr (KFiles d, reqs))
                else if arg = ''cmdclass''
                then rbind (command_classes E l') (\<lambda>c. Inr (KCommands c, reqs))
                else Inr (KList l', reqs))
        | KStr s \<Rightarrow> Inr (if arg = ''package_dir'' then KMap [([], s)] else KStr s, reqs)
        | _ \<Rightarrow> Inr (v, reqs)))"

definition setup_arg ::
    "'o util_env \<Rightarrow> config \<Rightarrow> 'o kwargs \<times> requirements \<Rightarrow> string \<times> string list
     \<Rightarrow> ('o kwargs \<times> requirements) res" where
  "setup_arg E config = (\<lambda>(kwargs, reqs) (arg, spec).
     case section_option arg spec of (sect, opt) \<Rightarrow>
       (let keep = (\<lambda>v. rbind (refine_field E arg v reqs) (\<lambda>(v', reqs').
                     Inr (dict_set arg v' kwargs, reqs')));
            v = has_get_option config sect opt
        in if truthy v then rbind (field_value arg (the v)) keep
           else if arg = ''long_description'' then
             (let files = has_get_option config sect ''description_file''
              in if truthy files
                 then rbind (description_of_files E (the files)) (\<lambda>s. keep (KStr s))
                 else keep (case files of None \<Rightarrow> KBool False | Some s \<Rightarrow> KStr s))
           else Inr (kwargs, reqs)))"

definition test_requirements_files :: "string list" where
  "test_requirements_files = [''test-requirements.txt'', ''tools/test-requires'']"

definition add_test_extra :: "'o util_env \<Rightarrow> section_config \<Rightarrow> section_config res" where
  "add_test_extra E extras =
     (if map_of extras ''test'' \<noteq> None then Inr extras
      else rbind (parse_requirements (recursion_limit E) (ue_git E) (parse_requirement E) False
                    test_requirements_files) (\<lambda>rs.
        Inr (dict_set ''test'' (replace1 CHR '';'' '':'' (join [CHR 0x0A] rs)) extras)))"

definition extra_requirements :: "string \<Rightarrow> (string \<times> string) list" where
  "extra_requirements value = map (package_marker CHR '':'') (split_multiline value)"

text \<open>The key of \<^verbatim>\<open>extras_require\<close> under which a requirement is put.\<close>

definition requirement_key ::
    "'o util_env \<Rightarrow> string list \<Rightarrow> string \<Rightarrow> string \<Rightarrow> string res" where
  "requirement_key E script_args req_group env_marker =
     (if env_marker \<noteq> [] then
        (let extras_key = req_group @ '':('' @ env_marker @ '')''
         in if ''bdist_wheel'' \<notin> set script_args
            then rbind (evaluate_marker E (''('' @ env_marker @ '')'')) (\<lambda>b.
                   Inr (if b then req_group else extras_key))
            else Inr extras_key)
      else Inr req_group)"

definition dict_append :: "string \<Rightarrow> 'v \<Rightarrow> (string \<times> 'v list) list \<Rightarrow> (string \<times> 'v list) list" where
  "dict_append k x d = dict_set k ((case map_of d k of None \<Rightarrow> [] | Some l \<Rightarrow> l) @ [x]) d"

definition extras_require ::
    "'o util_env \<Rightarrow> string list \<Rightarrow> requirements \<Rightarrow> (string \<times> string list) list res" where
  "extras_require E script_args all_requirements =
     foldR (\<lambda>d (req_group, requirement, env_marker).
         rbind (requirement_key E script_args req_group env_marker) (\<lambda>k.
           Inr (dict_append k requirement d))) []
       (concat (map (\<lambda>(g, rs). map (\<lambda>r. (g, r)) rs) all_requirements))"

definition setup_cfg_to_setup_kwargs ::
    "'o util_env \<Rightarrow> config \<Rightarrow> string list \<Rightarrow> ('o kwargs \<times> config) res" where
  "setup_cfg_to_setup_kwargs E config script_args =
     rbind (foldR (setup_arg E config) ([], []) d1_d2_setup_args) (\<lambda>(kwargs, reqs).
     rbind (case map_of config ''extras'' of
              None \<Rightarrow> Inr (reqs, config)
            | Some extras \<Rightarrow> rbind (add_test_extra E extras) (\<lambda>extras'.
                Inr (foldl (\<lambda>d (extra, value). dict_set extra (extra_requirements value) d) reqs extras',
                     dict_set ''extras'' extras' config))) (\<lambda>(all_requirements, config').
     rbind (extras_require E script_args all_requirements) (\<lambda>d.
       Inr (dict_set ''extras_require'' (KFiles (dict_del [] d))
              (dict_set ''install_requires'' (KList (case map_of d [] of None \<Rightarrow> [] | Some l \<Rightarrow> l)) kwargs),
            config'))))"

section \<open>The groups of requirements\<close>

definition listed :: "(string \<times> 'v list) list \<Rightarrow> string \<Rightarrow> 'v list" where
  "listed d k = (case map_of d k of None \<Rightarrow> [] | Some l \<Rightarrow> l)"

lemma listed_append [simp]: "listed (dict_append k x d) j = listed d j @ (if j = k then [x] else [])"
  by (simp add: listed_def dict_append_def)

lemma extras_require_listed:
  assumes "foldR (\<lambda>d (g, r, m). rbind (requirement_key E script_args g m) (\<lambda>k. Inr (dict_append k r d))) d xs = Inr d'"
  shows "listed d' k = listed d k
     @ map (\<lambda>(g, r, m). r) (filter (\<lambda>(g, r, m). requirement_key E script_args g m = Inr k) xs)"
  using assms
proof (induction xs arbitrary: d)
  case (Cons x xs)
  obtain g r m where x: "x = (g, r, m)" by (cases x) auto
  with Cons.prems obtain j where j: "requirement_key E script_args g m = Inr j"
    "foldR (\<lambda>d (g, r, m). rbind (requirement_key E script_args g m) (\<lambda>k. Inr (dict_append k r d)))
       (dict_append j r d) xs = Inr d'" by (auto simp: rbind_eq_Inr)
  from Cons.IH [OF j(2)] show ?case using j(1) x by auto
qed simp


section \<open>Markers and wheels\<close>

lemma marker_update [simp]:
  "ue_git (E\<lparr>evaluate_marker := f\<rparr>) = ue_git E" "empty_string (E\<lparr>evaluate_marker := f\<rparr>) = empty_string E"
  "import_prefix (E\<lparr>evaluate_marker := f\<rparr>) parts n = import_prefix E parts n"
  "resolve_name (E\<lparr>evaluate_marker := f\<rparr>) = resolve_name E"
proof -
  show ip: "import_prefix (E\<lparr>evaluate_marker := f\<rparr>) parts n = import_prefix E parts n" for parts n
    by (induction n) (simp_all split: sum.split exn.split)
  show "resolve_name (E\<lparr>evaluate_marker := f\<rparr>) = resolve_name E"
  proof
    have "get_attr (E\<lparr>evaluate_marker := f\<rparr>) = get_attr E" by simp
    then show "resolve_name (E\<lparr>evaluate_marker := f\<rparr>) name = resolve_name E name" for name
      unfolding resolve_name_def ip by (simp only:)
  qed
qed simp_all

lemma setup_arg_marker [simp]: "setup_arg (E\<lparr>evaluate_marker := f\<rparr>) = setup_arg E"
proof -
  have "refine_field (E\<lparr>evaluate_marker := f\<rparr>) = refine_field E"
  proof (intro ext)
    have "command_classes (E\<lparr>evaluate_marker := f\<rparr>) = command_classes E"
      by (rule ext) (simp add: command_classes_def)
    then show "refine_field (E\<lparr>evaluate_marker := f\<rparr>) arg v reqs = refine_field E arg v reqs" for arg v reqs
      unfolding refine_field_def by (simp only:)
  qed
  moreover have "description_of_files (E\<lparr>evaluate_marker := f\<rparr>) = description_of_files E"
    by (rule ext) (simp add: description_of_files_def)
  ultimately show ?thesis unfolding setup_arg_def by (simp only:)
qed

text \<open>
  C38: Building a wheel never depends on how this machine evaluates environment markers: the
  keyword arguments are the same for any evaluation function, even a failing one.
\<close>
theorem wheel_ignores_markers:
  assumes "''bdist_wheel'' \<in> set script_args"
  shows "setup_cfg_to_setup_kwargs (E\<lparr>evaluate_marker := f\<rparr>) config script_args
     = setup_cfg_to_setup_kwargs E config script_args"
proof -
  have "requirement_key (E\<lparr>evaluate_marker := f\<rparr>) script_args = requirement_key E script_args"
    using assms by (intro ext) (simp add: requirement_key_def)
  then have "extras_require (E\<lparr>evaluate_marker := f\<rparr>) script_args = extras_require E script_args"
    by (intro ext) (simp add: extras_require_def)
  moreover have "add_test_extra (E\<lparr>evaluate_marker := f\<rparr>) = add_test_extra E"
    by (intro ext) (simp add: add_test_extra_def)
  ultimately show ?thesis unfolding setup_cfg_to_setup_kwargs_def by (simp only: setup_arg_marker)
qed

section \<open>Types of the keyword arguments\<close>

definition kwarg_typed :: "string \<Rightarrow> 'o kwarg \<Rightarrow> bool" where
  "kwarg_typed arg v =
     (if arg \<in> set [''package_data'', ''data_files''] then v = KList [] \<or> (\<exists>f. v = KFiles f)
      else if arg = ''cmdclass'' then v = KList [] \<or> (\<exists>c. v = KCommands c)
      else if arg = ''extras_require'' then \<exists>f. v = KFiles f
      else if arg \<in> set multi_fields then \<exists>l. v = KList l
      else if arg \<in> set bool_fields then \<exists>b. v = KBool b
      else if arg \<in> set map_fields \<or> arg = ''package_dir'' then \<exists>m. v = KMap m
      else if arg = ''long_description'' then v = KBool False \<or> (\<exists>s. v = KStr s)
      else \<exists>s. v = KStr s \<and> s \<noteq> [])"

lemma field_value_shape:
  assumes "field_value arg s = Inr v" "s \<noteq> []"
  shows "if arg \<in> set multi_fields then \<exists>l. v = KList l else if arg \<in> set map_fields then \<exists>m. v = KMap m
     else if arg \<in> set bool_fields then \<exists>b. v = KBool b else v = KStr s"
  using assms by (auto simp: field_value_def rbind_eq_Inr split: if_splits)

lemma refine_field_typed:
  assumes "refine_field E arg v reqs = Inr (v', reqs')" "arg \<noteq> ''extras_require''"
    and "if arg \<in> set multi_fields then \<exists>l. v = KList l else if arg \<in> set map_fields then \<exists>m. v = KMap m
     else if arg \<in> set bool_fields then \<exists>b. v = KBool b
     else (\<exists>s. v = KStr s \<and> (s \<noteq> [] \<or> arg = ''long_description'')) \<or> v = KBool False \<and> arg = ''long_description''"
  shows "kwarg_typed arg v'"
proof -
  have sets: "set [''install_requires'', ''tests_require'', ''package_data'', ''data_files'', ''cmdclass''] \<subseteq> set multi_fields"
    "set map_fields \<inter> set multi_fields = {}" "set bool_fields \<inter> (set map_fields \<union> set multi_fields) = {}"
    "''package_dir'' \<notin> set multi_fields \<union> set map_fields \<union> set bool_fields"
    "''long_description'' \<notin> set multi_fields \<union> set map_fields \<union> set bool_fields" by code_simp+
  show ?thesis
  proof (cases "arg \<in> set multi_fields")
    case True
    with assms(3) obtain l where v: "v = KList l" by auto
    let ?pd = "arg \<in> set [''package_data'', ''data_files'']"
    have ext: "arg \<noteq> ''extras_require''" by (rule assms(2))
    have goal: "kwarg_typed arg v' \<longleftrightarrow> (if ?pd then v' = KList [] \<or> (\<exists>f. v' = KFiles f)
        else if arg = ''cmdclass'' then v' = KList [] \<or> (\<exists>c. v' = KCommands c) else \<exists>l. v' = KList l)"
      unfolding kwarg_typed_def if_P [OF True] if_not_P [OF ext] by (rule refl)
    show ?thesis
    proof (cases "l = []")
      case True
      with assms(1) v have "v' = KList []" by (simp add: refine_field_def)
      then show ?thesis unfolding goal by simp
    next
      case False
      then have true: "\<not> \<not> kwarg_true v" by (simp add: v)
      note run = assms(1) [unfolded refine_field_def if_not_P [OF true], unfolded v kwarg.case Let_def]
      show ?thesis
      proof (cases "arg = ''install_requires''")
        case True
        with run show ?thesis unfolding goal by auto
      next
        case inst: False
        show ?thesis
          using run unfolding goal if_not_P [OF inst]
          by (cases ?pd; cases "arg = ''cmdclass''") (auto simp: rbind_eq_Inr simp del: list.set)
      qed
    qed
  next
    case False
    then have no: "arg \<notin> set [''install_requires'', ''tests_require'', ''package_data'', ''data_files'', ''cmdclass'']"
      using sets(1) by blast
    from False assms(3) consider m where "v = KMap m" "arg \<in> set map_fields"
      | b where "v = KBool b" "arg \<in> set bool_fields" "arg \<notin> set map_fields"
      | s where "v = KStr s" "s \<noteq> [] \<or> arg = ''long_description''" "arg \<notin> set map_fields" "arg \<notin> set bool_fields"
      | "v = KBool False" "arg = ''long_description''"
      by (auto split: if_splits)
    moreover have n: "arg \<notin> set [''package_data'', ''data_files'']" "arg \<noteq> ''cmdclass''" using no by auto
    have goal: "kwarg_typed arg v' \<longleftrightarrow>
       (if arg \<in> set bool_fields then \<exists>b. v' = KBool b
        else if arg \<in> set map_fields \<or> arg = ''package_dir'' then \<exists>m. v' = KMap m
        else if arg = ''long_description'' then v' = KBool False \<or> (\<exists>s. v' = KStr s)
        else \<exists>s. v' = KStr s \<and> s \<noteq> [])"
      unfolding kwarg_typed_def if_not_P [OF n(1)] if_not_P [OF n(2)] if_not_P [OF assms(2)] if_not_P [OF False]
      by (rule refl)
    ultimately show ?thesis
    proof cases
      case 1
      then have "arg \<notin> set bool_fields" using sets(3) by blast
      moreover have "v' = v" using assms(1) 1(1) by (simp add: refine_field_def split: if_splits)
      ultimately show ?thesis unfolding goal using 1 by simp
    next
      case 2
      moreover have "v' = v" using assms(1) 2(1) by (simp add: refine_field_def split: if_splits)
      ultimately show ?thesis unfolding goal by simp
    next
      case 3
      have "v' = (if arg = ''package_dir'' \<and> s \<noteq> [] then KMap [([], s)] else v)"
        using assms(1) 3(1) by (cases "s = []"; cases "arg = ''package_dir''") (simp_all add: refine_field_def)
      moreover have "''package_dir'' \<noteq> ''long_description''" by simp
      ultimately show ?thesis unfolding goal using 3 by (cases "arg = ''package_dir''"; cases "s = []") simp_all
    next
      case 4
      moreover have "v' = v" using assms(1) 4(1) by (simp add: refine_field_def)
      ultimately show ?thesis unfolding goal using sets(5) by simp
    qed
  qed
qed

lemma setup_arg_typed:
  assumes "setup_arg E config (kwargs, reqs) (arg, spec) = Inr (kwargs', reqs')"
    and "arg \<noteq> ''extras_require''" "\<And>a v. map_of kwargs a = Some v \<Longrightarrow> kwarg_typed a v"
  shows "map_of kwargs' a = Some v \<longrightarrow> kwarg_typed a v"
proof -
  obtain sect opt where so: "section_option arg spec = (sect, opt)" by (cases "section_option arg spec")
  have keep: "map_of kwargs' a = Some v \<longrightarrow> kwarg_typed a v"
    if "refine_field E arg w reqs = Inr (w', reqs')" "kwargs' = dict_set arg w' kwargs"
      "if arg \<in> set multi_fields then \<exists>l. w = KList l else if arg \<in> set map_fields then \<exists>m. w = KMap m
       else if arg \<in> set bool_fields then \<exists>b. w = KBool b
       else (\<exists>s. w = KStr s \<and> (s \<noteq> [] \<or> arg = ''long_description'')) \<or> w = KBool False \<and> arg = ''long_description''"
    for w w'
    using refine_field_typed [OF that(1) assms(2) that(3)] assms(3) that(2) by auto
  have ld: "''long_description'' \<notin> set multi_fields \<union> set map_fields \<union> set bool_fields" by code_simp
  let ?v = "has_get_option config sect opt"
  show ?thesis
  proof (cases "truthy ?v")
    case True
    then obtain s where s: "?v = Some s" "s \<noteq> []" by (cases ?v) auto
    with assms(1) obtain w where w: "field_value arg s = Inr w"
      "rbind (refine_field E arg w reqs) (\<lambda>(v', reqs'). Inr (dict_set arg v' kwargs, reqs')) = Inr (kwargs', reqs')"
      by (auto simp: setup_arg_def so Let_def rbind_eq_Inr)
    then obtain w' where "refine_field E arg w reqs = Inr (w', reqs')" "kwargs' = dict_set arg w' kwargs"
      by (auto simp: rbind_eq_Inr)
    then show ?thesis by (rule keep) (use field_value_shape [OF w(1) s(2)] s(2) in \<open>auto split: if_splits\<close>)
  next
    case False
    show ?thesis
    proof (cases "arg = ''long_description''")
      case True
      note run = assms(1) [unfolded setup_arg_def prod.case so Let_def if_not_P [OF False] if_P [OF True]]
      let ?files = "has_get_option config sect ''description_file''"
      have "\<exists>w w'. refine_field E arg w reqs = Inr (w', reqs') \<and> kwargs' = dict_set arg w' kwargs
          \<and> ((\<exists>s. w = KStr s) \<or> w = KBool False)"
        using run by (cases "truthy ?files"; cases ?files) (auto simp: rbind_eq_Inr)
      then obtain w w' where w: "refine_field E arg w reqs = Inr (w', reqs')"
        "kwargs' = dict_set arg w' kwargs" "(\<exists>s. w = KStr s) \<or> w = KBool False"
        by blast
      from keep [OF w(1,2)] w(3) True ld show ?thesis by auto
    next
      case f: False
      with False assms(1,3) show ?thesis by (auto simp: setup_arg_def so Let_def)
    qed
  qed
qed


section \<open>The data files\<close>

lemma dict_set_new: "k \<notin> fst ` set d \<Longrightarrow> dict_set k v d = d @ [(k, v)]"
  by (induction d) auto

lemma dict_set_last: "k \<notin> fst ` set d \<Longrightarrow> dict_set k v (d @ [(k, w)]) = d @ [(k, v)]"
  by (induction d) auto

lemma dict_set_same: "map_of d k = Some v \<Longrightarrow> dict_set k v d = d"
  by (induction d) auto

lemma dict_set_set: "dict_set k v (dict_set k w d) = dict_set k v d"
  by (induction d) auto

lemma map_of_append_new: "k \<notin> fst ` set d \<Longrightarrow> map_of (d @ [(k, v)]) k = Some v"
  by (induction d) auto

text \<open>The lines \<^verbatim>\<open>hooks/files.py\<close> writes for a target directory and its files, as they are split.\<close>

definition data_lines :: "string \<times> string list \<Rightarrow> string list" where
  "data_lines = (\<lambda>(target, files). (quoted target @ '' ='') # map quoted files)"

definition plain_name :: "string \<Rightarrow> bool" where
  "plain_name s \<longleftrightarrow> single_quote \<notin> set s \<and> CHR ''='' \<notin> set s \<and> CHR 0x0A \<notin> set s"

lemma quoted_stripped [simp]: "strip (quoted s) = quoted s"
  by (rule strip_id) (simp add: stripped_def quoted_def is_ws_def)

lemma quoted_eq_sign: "plain_name s \<Longrightarrow> CHR ''='' \<notin> set (quoted s)"
  by (simp add: plain_name_def quoted_def)

lemma data_line_target:
  assumes "plain_name t" "t \<notin> fst ` set d" "strip t = t"
  shows "data_files_line (d, prev) (quoted t @ '' ='') = Inr (dict_set t [] d, Some t)"
proof -
  have tk: "takeWhile (\<lambda>c. c \<noteq> CHR ''='') (quoted t @ '' ='') = quoted t @ '' ''"
    "dropWhile (\<lambda>c. c \<noteq> CHR ''='') (quoted t @ '' ='') = ''=''"
    using quoted_eq_sign [OF assms(1)]
    by (auto simp: takeWhile_append dropWhile_append)
  have st: "strip (quoted t @ '' '') = quoted t"
    using quoted_stripped [of t] by (simp add: strip_def lstrip_def rstrip_def quoted_def is_ws_def)
  have "map_of d t = None" using assms(2) by (simp add: map_of_eq_None_iff)
  then show ?thesis
    using assms(1,3) unfolding data_files_line_def prod.case tk st
    by (simp add: plain_name_def)
qed

lemma data_lines_files:
  assumes "\<forall>f \<in> set fs. plain_name f" "map_of d t = Some l"
  shows "foldR data_files_line (d, Some t) (map quoted fs) = Inr (dict_set t (l @ fs) d, Some t)"
  using assms
proof (induction fs arbitrary: d l)
  case Nil
  then show ?case by (simp add: dict_set_same)
next
  case (Cons f fs)
  have "data_files_line (d, Some t) (quoted f) = Inr (dict_set t (l @ [f]) d, Some t)"
    using quoted_eq_sign [of f] Cons.prems by (simp add: data_files_line_def plain_name_def)
  with Cons.IH [of "dict_set t (l @ [f]) d" "l @ [f]"] Cons.prems show ?case by (simp add: dict_set_set)
qed

lemma parse_data_lines:
  assumes "\<forall>(t, fs) \<in> set entries. plain_name t \<and> strip t = t \<and> (\<forall>f \<in> set fs. plain_name f)"
    and "distinct (map fst (d @ entries))"
  shows "\<exists>prev'. foldR data_files_line (d, prev) (concat (map data_lines entries)) = Inr (d @ entries, prev')"
  using assms
proof (induction entries arbitrary: d prev)
  case (Cons e entries)
  obtain t fs where e: "e = (t, fs)" by (cases e)
  from Cons.prems have t: "plain_name t" "strip t = t" "t \<notin> fst ` set d" "\<forall>f \<in> set fs. plain_name f"
    by (auto simp: e)
  have d: "dict_set t l d = d @ [(t, l)]" for l using t(3) by (rule dict_set_new)
  have "foldR data_files_line (d, prev) (data_lines e) = Inr (d @ [(t, fs)], Some t)"
    using data_line_target [OF t(1,3,2)] t(3)
      data_lines_files [OF t(4) map_of_append_new [OF t(3), of "[]"]]
    by (simp add: e data_lines_def d dict_set_last)
  with Cons.IH [of "d @ [(t, fs)]" "Some t"] Cons.prems show ?case by (simp add: e foldR_append)
qed simp

theorem parse_data_files_inverts:
  assumes "\<forall>(t, fs) \<in> set entries. plain_name t \<and> strip t = t \<and> (\<forall>f \<in> set fs. plain_name f)"
    and "distinct (map fst entries)"
  shows "parse_data_files (concat (map data_lines entries)) = Inr entries"
  using parse_data_lines [OF assms(1), of "[]" None] assms(2) by (auto simp: parse_data_files_def)

section \<open>Witnesses\<close>

definition demo_util :: "string util_env" where
  "demo_util = \<lparr>ue_git = demo_reqs, recursion_limit = 3, parse_requirement = demo_parse,
     import_module = \<lambda>ps from_name. if ps = [''pkg''] then Inr ''pkg'' else Inl (ImportError ''no module''),
     get_attr = \<lambda>obj a. if obj = [] then Inl (AttributeError a) else Inr (obj @ ''.'' @ a),
     empty_string = [], cls_command = \<lambda>c. Inr (drop 4 c), obj_string = \<lambda>_ _. None,
     evaluate_marker = \<lambda>m. Inr (m = ''(py2)'')\<rparr>"

definition demo_setup_cfg :: config where
  "demo_setup_cfg =
    [(''metadata'', [(''name'', ''p''),
       (''requires_dist'', ''six (>=1.9)'' @ [CHR 0x0A] @ ''enum;py2'' @ [CHR 0x0A] @ ''foo;py3 # why'')]),
     (''global'', [(''commands'', ''pkg.Build'')]),
     (''backwards_compat'', [(''zip_safe'', ''No'')]),
     (''extras'', [(''test'', ''mock:py3'')])]"

lemma demo_kwargs:
  "setup_cfg_to_setup_kwargs demo_util demo_setup_cfg [] = Inr
     ([(''name'', KStr ''p''), (''long_description'', KBool False), (''install_requires'', KList [''six>=1.9'', ''enum'']),
       (''cmdclass'', KCommands [(''Build'', ''pkg.Build'')]),
       (''zip_safe'', KBool False),
       (''extras_require'', KFiles [('':(py3)'', [''foo'']), (''test:(py3)'', [''mock''])])], demo_setup_cfg)"
  by code_simp


definition demo_requirements :: requirements where
  "demo_requirements = [([], [(''six'', []), (''enum'', ''py2''), (''foo'', ''py3'')]), (''test'', [(''mock'', ''py2'')])]"


theorem wheel_ignores_markers_witness:
  "setup_cfg_to_setup_kwargs (demo_util\<lparr>evaluate_marker := \<lambda>_. Inl (ValueError ''marker'')\<rparr>) demo_setup_cfg [''bdist_wheel'']
     = setup_cfg_to_setup_kwargs demo_util demo_setup_cfg [''bdist_wheel'']"
  by (rule wheel_ignores_markers) simp

theorem parse_data_files_inverts_witness:
  "parse_data_files (concat (map data_lines [(''share/my doc'', [''a b'', ''#c'']), (''etc'', [])]))
     = Inr [(''share/my doc'', [''a b'', ''#c'']), (''etc'', [])]"
proof (rule parse_data_files_inverts)
  have "plain_name ''share/my doc'' \<and> plain_name ''a b'' \<and> plain_name ''#c'' \<and> plain_name ''etc''
      \<and> strip ''share/my doc'' = ''share/my doc'' \<and> strip ''etc'' = ''etc''" by code_simp
  then show "\<forall>(t, fs) \<in> set [(''share/my doc'', [''a b'', ''#c'']), (''etc'', [])].
      plain_name t \<and> strip t = t \<and> (\<forall>f \<in> set fs. plain_name f)" by simp
qed simp

section \<open>The longest importable prefix\<close>

text \<open>A name without a dot is no \<^verbatim>\<open>ImportError\<close>, as documented.\<close>

lemma resolve_name_undotted:
  assumes "CHR ''.'' \<notin> set name"
  shows "resolve_name E name = Inl (UnboundLocalError ''ret'')"
proof -
  have "split_on CHR ''.'' name = [name]" by (rule split_by_none) (use assms in auto)
  then show ?thesis by (simp add: resolve_name_def)
qed

text \<open>The longest importable prefix counts, and missing attributes after it are \<^verbatim>\<open>ImportError\<close>.\<close>

lemma import_prefix_longest:
  assumes "k \<le> n" "0 < k" "import_module E (take k parts) (parts ! k) = Inr m"
    and "\<And>j. k < j \<Longrightarrow> j \<le> n \<Longrightarrow> \<exists>msg. import_module E (take j parts) (parts ! j) = Inl (ImportError msg)"
  shows "import_prefix E parts n = Inr (m, k)"
  using assms
proof (induction n)
  case (Suc n)
  show ?case
  proof (cases "k = Suc n")
    case True
    with Suc.prems(3) show ?thesis by simp
  next
    case False
    with Suc.prems(1,4) obtain msg where "import_module E (take (Suc n) parts) (parts ! Suc n) = Inl (ImportError msg)"
      by (meson le_SucE le_imp_less_Suc order_refl)
    with Suc False show ?thesis by simp
  qed
qed simp

lemma resolve_name_longest:
  assumes "0 < k" "k < length (split_on CHR ''.'' name)"
    and "import_module E (take k (split_on CHR ''.'' name)) (split_on CHR ''.'' name ! k) = Inr m"
    and "\<And>j. k < j \<Longrightarrow> j < length (split_on CHR ''.'' name) \<Longrightarrow>
           \<exists>msg. import_module E (take j (split_on CHR ''.'' name)) (split_on CHR ''.'' name ! j) = Inl (ImportError msg)"
  shows "resolve_name E name = foldR (\<lambda>ret part. case get_attr E ret part of
      Inl (AttributeError msg) \<Rightarrow> Inl (ImportError name) | r \<Rightarrow> r) m (drop k (split_on CHR ''.'' name))"
proof -
  have "import_prefix E (split_on CHR ''.'' name) (length (split_on CHR ''.'' name) - 1) = Inr (m, k)"
    by (rule import_prefix_longest) (use assms in auto)
  moreover have "\<not> length (split_on CHR ''.'' name) - 1 = 0" using assms(1,2) by simp
  ultimately show ?thesis unfolding resolve_name_def Let_def by (simp only: if_False rbind_Inr prod.case)
qed

section \<open>A dictionary whose get stores the default\<close>

text \<open>\<^verbatim>\<open>DefaultGetDict.get\<close>: \<open>new\<close> is what the factory makes, \<open>None\<close> the default argument \<^verbatim>\<open>None\<close>.\<close>

definition default_dict_get :: "'v \<Rightarrow> (string \<times> 'v) list \<Rightarrow> string \<Rightarrow> 'v option \<Rightarrow> 'v \<times> (string \<times> 'v) list" where
  "default_dict_get new d key default_value =
     (let v = (case default_value of None \<Rightarrow> new | Some v \<Rightarrow> v)
      in case map_of d key of Some w \<Rightarrow> (w, d) | None \<Rightarrow> (v, dict_set key v d))"

lemma default_dict_get_again:
  assumes "default_dict_get new d key x = (v, d')"
  shows "default_dict_get new' d' key y = (v, d')" and "k \<noteq> key \<Longrightarrow> map_of d' k = map_of d k"
  using assms by (auto simp: default_dict_get_def Let_def split: option.splits)

end
