(* ===== verification/Pbr_Packaging.thy ===== *)
theory Pbr_Packaging
  imports Pbr_Git
begin

text \<open>
  \<^verbatim>\<open>pbr/packaging.py\<close>, the version computation: the increment asked for by \<^verbatim>\<open>Sem-Ver\<close> headers, the
  last tag and the distance to it, the version of a git checkout, the version in package metadata
  and \<^verbatim>\<open>get_version\<close>, which tries them in order.  A dictionary keyed by versions is an association
  list; the set of versions is the list of its keys.
\<close>

section \<open>The increment\<close>

text \<open>The symbols of the \<^verbatim>\<open>Sem-Ver:\<close> lines in the commit messages.\<close>

definition sem_ver_symbols :: "string \<Rightarrow> string list" where
  "sem_ver_symbols changelog =
     concat (map (\<lambda>line. map strip (split_on CHR '','' (strip (drop 8 line))))
       (filter (\<lambda>line. startswith (lower line) ''sem-ver:'') (split_on CHR 0x0A changelog)))"

text \<open>The keyword arguments \<^verbatim>\<open>minor\<close> and \<^verbatim>\<open>major\<close> of \<^verbatim>\<open>increment\<close>.\<close>

definition get_increment_kwargs :: "git_env \<Rightarrow> string \<Rightarrow> string \<Rightarrow> (bool \<times> bool) res" where
  "get_increment_kwargs E git_dir tag =
     (let version_spec = (if tag \<noteq> [] then tag @ ''..HEAD'' else ''HEAD'')
      in rbind (run_git_command E [''log'', ''--pretty=%B'', version_spec] git_dir False) (\<lambda>changelog.
           let symbols = sem_ver_symbols changelog
           in Inr (''feature'' \<in> set symbols \<or> ''deprecation'' \<in> set symbols,
                   ''api-break'' \<in> set symbols)))"

section \<open>The last tag\<close>

definition tag_versions :: "string list \<Rightarrow> (semver \<times> string) list" where
  "tag_versions tag_set = foldl (\<lambda>semver_to_tag tag.
       case from_pip_string tag of
         Inl _ \<Rightarrow> semver_to_tag
       | Inr semver \<Rightarrow> dict_set semver tag semver_to_tag) [] tag_set"

text \<open>\<open>n\<close> is the index of the next commit, \<open>row_count\<close> the loop variable so far.\<close>

fun revno_scan :: "nat \<Rightarrow> nat \<Rightarrow> log_entry list \<Rightarrow> exn option \<Rightarrow> (string \<times> nat) res" where
  "revno_scan n row_count [] e = (case e of None \<Rightarrow> Inr ([], row_count) | Some x \<Rightarrow> Inl x)"
| "revno_scan n row_count ((sha, tag_set, msg) # changelog) e =
     (case tag_versions tag_set of
        [] \<Rightarrow> revno_scan (n + 1) n changelog e
      | (v, tag) # semver_to_tag \<Rightarrow>
          rbind (py_max semver_gt v (map fst semver_to_tag)) (\<lambda>m.
            case map_of ((v, tag) # semver_to_tag) m of
              None \<Rightarrow> Inl (KeyError ''version'')
            | Some t \<Rightarrow> Inr (t, n)))"

definition get_revno_and_last_tag :: "git_env \<Rightarrow> string \<Rightarrow> (string \<times> nat) res" where
  "get_revno_and_last_tag E git_dir =
     rbind (iter_log_oneline E (Some git_dir)) (\<lambda>changelog.
       case changelog of
         None \<Rightarrow> Inr ([], 0)
       | Some (entries, e) \<Rightarrow> revno_scan 0 0 entries e)"

section \<open>The version of a checkout\<close>

definition target_conflict :: "semver \<Rightarrow> semver \<Rightarrow> exn" where
  "target_conflict new target = ValueError
     (''git history requires a target version of '' @ semver_repr new @ '', but target ''
      @ ''version is '' @ semver_repr target)"

definition get_version_from_git_target :: "git_env \<Rightarrow> string \<Rightarrow> semver option \<Rightarrow> semver res" where
  "get_version_from_git_target E git_dir target_version =
     rbind (get_revno_and_last_tag E git_dir) (\<lambda>(tag, distance).
     rbind (from_pip_string (if tag \<noteq> [] then tag else ''0'')) (\<lambda>last_semver.
     rbind (if distance = 0 then Inr last_semver
            else rbind (get_increment_kwargs E git_dir tag) (\<lambda>(minor, major).
                 semver_increment minor major last_semver)) (\<lambda>new_version.
     rbind (case target_version of None \<Rightarrow> Inr False | Some t \<Rightarrow> semver_gt new_version t) (\<lambda>conflict.
     if conflict then Inl (target_conflict new_version (the target_version))
     else if distance = 0 then Inr last_semver
     else (let new_dev = semver_to_dev (int distance) new_version
           in case target_version of
                None \<Rightarrow> Inr new_dev
              | Some t \<Rightarrow>
                  (let target_dev = semver_to_dev (int distance) t
                   in rbind (semver_gt target_dev new_dev) (\<lambda>b.
                        Inr (if b then target_dev else new_dev))))))))"

text \<open>The target: the tag of the checked out commit, else the version asked for, else none.\<close>

definition git_target_version :: "git_env \<Rightarrow> string \<Rightarrow> string option \<Rightarrow> semver option res" where
  "git_target_version E git_dir pre_version =
     (case rbind (run_git_command E [''describe'', ''--exact-match''] git_dir True)
             (\<lambda>s. from_pip_string (replace1 CHR ''-'' ''.'' s)) of
        Inr v \<Rightarrow> Inr (Some v)
      | Inl e \<Rightarrow>
          if is_Exception e then
            (if truthy pre_version
             then rbind (from_pip_string (the pre_version)) (\<lambda>v. Inr (Some v))
             else Inr None)
          else Inl e)"

definition get_version_from_git :: "git_env \<Rightarrow> string option \<Rightarrow> string res" where
  "get_version_from_git E pre_version =
     rbind (run_git_functions E) (\<lambda>git_dir. case git_dir of
         None \<Rightarrow> Inr []
       | Some d \<Rightarrow>
           rbind (git_target_version E d pre_version) (\<lambda>target_version.
           rbind (get_version_from_git_target E d target_version) (\<lambda>result.
           Inr (semver_release_string result))))"

section \<open>Package metadata and get\_version\<close>

text \<open>
  \<open>message\<close> reads and parses a metadata file: its headers, or the \<^verbatim>\<open>IOError\<close> or \<^verbatim>\<open>MessageError\<close> (here
  \<open>None\<close>) after which the loop continues.  Both files are read, the second one wins.
\<close>

definition get_version_from_pkg_metadata ::
    "(string \<Rightarrow> (string \<times> string) list option) \<Rightarrow> string \<Rightarrow> string option" where
  "get_version_from_pkg_metadata message package_name =
     (let pkg_metadata = foldl (\<lambda>d filename. case message filename of None \<Rightarrow> d | Some m \<Rightarrow> m) []
                           [''PKG-INFO'', ''METADATA'']
      in if map_of pkg_metadata ''Name'' \<noteq> Some package_name then None
         else map_of pkg_metadata ''Version'')"

definition unversioned :: "string \<Rightarrow> exn" where
  "unversioned package_name = PyException
     (''Versioning for this project requires either an sdist'' @ '' tarball, or access to an upstream git repository.''
      @ '' It's also possible that there is a mismatch between'' @ '' the package name in setup.cfg and the argument given''
      @ '' to pbr.version.VersionInfo. Project name '' @ package_name @ '' was'' @ '' given, but was not able to be found.'')"

definition get_version ::
    "git_env \<Rightarrow> (string \<Rightarrow> (string \<times> string) list option) \<Rightarrow> string \<Rightarrow> string option \<Rightarrow> string res" where
  "get_version E message package_name pre_version =
     (let version = (case env_var E ''PBR_VERSION'' of
                       Some v \<Rightarrow> Some v | None \<Rightarrow> env_var E ''OSLO_PACKAGE_VERSION'')
      in if truthy version then Inr (the version)
         else (let version = get_version_from_pkg_metadata message package_name
               in if truthy version then Inr (the version)
                  else rbind (get_version_from_git E pre_version) (\<lambda>version.
                    if version \<noteq> [] then Inr version
                    else Inl (unversioned package_name))))"

section \<open>The last tag: properties\<close>

lemma tag_versions_foldl:
  "map_of (foldl (\<lambda>d tag. case from_pip_string tag of Inl _ \<Rightarrow> d | Inr v \<Rightarrow> dict_set v tag d) d tags) v = Some t \<Longrightarrow>
     (t \<in> set tags \<and> from_pip_string t = Inr v) \<or> map_of d v = Some t"
proof (induction tags arbitrary: d)
  case (Cons tag tags)
  show ?case
  proof (cases "from_pip_string tag")
    case (Inl e)
    then show ?thesis using Cons by auto
  next
    case (Inr w)
    with Cons.prems have "map_of (foldl (\<lambda>d tag. case from_pip_string tag of Inl _ \<Rightarrow> d | Inr v \<Rightarrow> dict_set v tag d)
        (dict_set w tag d) tags) v = Some t" by simp
    from Cons.IH [OF this] show ?thesis using Inr by (auto split: if_splits)
  qed
qed simp

lemma tag_versions_map:
  "map_of (tag_versions tags) v = Some t \<Longrightarrow> t \<in> set tags \<and> from_pip_string t = Inr v"
  using tag_versions_foldl [of "[]" tags v t] by (simp add: tag_versions_def)

lemma tag_versions_keys:
  "fst ` set (tag_versions tags) = {v. \<exists>t \<in> set tags. from_pip_string t = Inr v}"
proof -
  have "fst ` set (foldl (\<lambda>d tag. case from_pip_string tag of Inl _ \<Rightarrow> d | Inr v \<Rightarrow> dict_set v tag d) d tags)
      = fst ` set d \<union> {v. \<exists>t \<in> set tags. from_pip_string t = Inr v}" for d
  proof (induction tags arbitrary: d)
    case (Cons tag tags)
    show ?case
    proof (cases "from_pip_string tag")
      case (Inl e)
      then show ?thesis using Cons.IH by simp
    next
      case (Inr w)
      let ?f = "\<lambda>d tag. case from_pip_string tag of Inl _ \<Rightarrow> d | Inr v \<Rightarrow> dict_set v tag d"
      let ?V = "\<lambda>ts. {v. \<exists>t \<in> set ts. from_pip_string t = Inr v}"
      have V: "?V (tag # tags) = {v. from_pip_string tag = Inr v} \<union> ?V tags"
        by (simp add: Collect_disj_eq)
      have "fst ` set (foldl ?f d (tag # tags)) = fst ` set (foldl ?f (dict_set w tag d) tags)"
        by (simp add: Inr)
      also have "\<dots> = insert w (fst ` set d) \<union> ?V tags"
        using Cons.IH [of "dict_set w tag d"] by (simp only: keys_dict_set)
      also have "\<dots> = fst ` set d \<union> ?V (tag # tags)"
        unfolding V by (simp only: Inr sum.inject singleton_conv2 Un_insert_left Un_insert_right Un_empty_left)
      finally show ?thesis .
    qed
  qed simp
  then show ?thesis by (simp add: tag_versions_def)
qed

text \<open>A tag of an entry is the best one when no version among its tags exceeds it.\<close>

definition best_tag :: "string list \<Rightarrow> string \<Rightarrow> bool" where
  "best_tag tags t \<longleftrightarrow> t \<in> set tags \<and> (\<exists>v. from_pip_string t = Inr v
     \<and> (\<forall>s \<in> set tags. \<forall>w. from_pip_string s = Inr w \<longrightarrow> w = v \<or> semver_precedes w v))"

definition comparable_tags :: "string list \<Rightarrow> bool" where
  "comparable_tags tags \<longleftrightarrow> (\<forall>t \<in> set tags. \<forall>v. from_pip_string t = Inr v \<longrightarrow> semver_wf v)"

definition has_version :: "string list \<Rightarrow> bool" where
  "has_version tags \<longleftrightarrow> (\<exists>t \<in> set tags. \<exists>v. from_pip_string t = Inr v)"

lemma tag_versions_Nil: "tag_versions tags = [] \<longleftrightarrow> \<not> has_version tags"
  using tag_versions_keys [of tags] by (auto simp: has_version_def)

lemma revno_scan_entry:
  assumes "comparable_tags tags" "has_version tags"
  shows "\<exists>t. revno_scan n row ((sha, tags, msg) # es) e = Inr (t, n) \<and> best_tag tags t"
proof -
  from assms(2) obtain v tag d where tv: "tag_versions tags = (v, tag) # d"
    using tag_versions_Nil [of tags] by (cases "tag_versions tags") auto
  have keys: "set (v # map fst d) = {v. \<exists>t \<in> set tags. from_pip_string t = Inr v}"
    using tag_versions_keys [of tags] by (simp add: tv)
  have wf: "semver_wf x" if "x \<in> set (v # map fst d)" for x
  proof -
    from that have "x \<in> {v. \<exists>t \<in> set tags. from_pip_string t = Inr v}" by (simp only: keys)
    then show ?thesis using assms(1) unfolding comparable_tags_def by blast
  qed
  then have "semver_wf v" "\<forall>x \<in> set (map fst d). semver_wf x" by auto
  from semver.py_max_greatest [OF this] obtain m where m: "py_max semver_gt v (map fst d) = Inr m"
    "m \<in> set (v # map fst d)" "\<forall>x \<in> set (v # map fst d). x = m \<or> semver_precedes x m" by blast
  have "m \<in> fst ` set (tag_versions tags)" using m(2) by (simp add: tv)
  then obtain t where t: "map_of (tag_versions tags) m = Some t"
    by (metis domD dom_map_of_conv_image_fst)
  from tag_versions_map [OF t] m(3) keys have "best_tag tags t"
    unfolding best_tag_def by auto
  moreover have "revno_scan n row ((sha, tags, msg) # es) e = Inr (t, n)"
    using m(1) t by (simp add: tv)
  ultimately show ?thesis by blast
qed

lemma revno_scan_untagged:
  "\<forall>(sha, tags, msg) \<in> set es. \<not> has_version tags \<Longrightarrow>
     revno_scan n row (es @ fs) e = revno_scan (n + length es) (if es = [] then row else n + length es - 1) fs e"
proof (induction es arbitrary: n row)
  case (Cons x es)
  obtain sha tags msg where x: "x = (sha, tags, msg)" by (cases x)
  with Cons.prems have "tag_versions tags = []" by (simp add: tag_versions_Nil)
  then have "revno_scan n row ((x # es) @ fs) e = revno_scan (n + 1) n (es @ fs) e" by (simp add: x)
  also have "\<dots> = revno_scan (n + 1 + length es) (if es = [] then n else n + 1 + length es - 1) fs e"
    by (rule Cons.IH) (use Cons.prems in simp)
  finally show ?case by simp
qed simp

lemma revno_scan_first_tag:
  assumes "\<forall>(sha, tags, msg) \<in> set es. \<not> has_version tags" "comparable_tags tags" "has_version tags"
  shows "\<exists>t. revno_scan 0 0 (es @ (sha, tags, msg) # fs) e = Inr (t, length es) \<and> best_tag tags t"
  using revno_scan_untagged [OF assms(1), of 0 0 "(sha, tags, msg) # fs" e]
    revno_scan_entry [OF assms(2,3)] by (simp del: revno_scan.simps)


section \<open>The version of a checkout: properties\<close>

lemma to_dev_spec:
  assumes "semver_wf v" "0 < n" "n < maxsize"
  shows "semver_wf (semver_to_dev n v) \<and> sv_dev_count (semver_to_dev n v) = n
     \<and> (sv_dev_count v = 0 \<longrightarrow> semver_precedes (semver_to_dev n v) v)"
  using assms semver_wf_nonneg [OF assms(1)]
  by (cases rule: semver_wf_cases)
     (auto simp: semver_to_dev_def semver_wf_def semver_precedes_def semver_stage_def dev_precedes_def)

lemma target_between:
  assumes rev: "get_revno_and_last_tag E d = Inr (tag, n)"
    and last: "from_pip_string (if tag \<noteq> [] then tag else ''0'') = Inr latest" "semver_wf latest"
    and n: "0 < n" "int n < maxsize"
    and inc: "get_increment_kwargs E d tag = Inr (minor, major)" "semver_increment minor major latest = Inr new"
    and target: "\<forall>t. target = Some t \<longrightarrow> semver_wf t \<and> sv_dev_count t = 0"
  shows "if \<exists>t. target = Some t \<and> semver_precedes t new
     then get_version_from_git_target E d target = Inl (target_conflict new (the target))
     else \<exists>r. get_version_from_git_target E d target = Inr r \<and> semver_wf r \<and> sv_dev_count r = int n
       \<and> semver_precedes latest r \<and> semver_precedes r (case target of None \<Rightarrow> new | Some t \<Rightarrow> t)"
proof -
  have n': "0 < int n" using n by simp
  have new: "semver_wf new" "sv_dev_count new = 0"
    using semver_increment_spec [OF last(2), of minor major] inc(2) by auto
  define nd where "nd = semver_to_dev (int n) new"
  have nd: "semver_wf nd" "sv_dev_count nd = int n" "semver_precedes nd new" "semver_precedes latest nd"
    using to_dev_spec [OF new(1) n' n(2)] new(2) semver_dev_between [OF last(2) n' n(2), of minor major] inc(2)
    by (auto simp: nd_def)
  note run = get_version_from_git_target_def rev last(1) inc
  show ?thesis
  proof (cases target)
    case None
    with n nd show ?thesis by (simp add: run nd_def [symmetric])
  next
    case (Some t)
    with target have t: "semver_wf t" "sv_dev_count t = 0" by auto
    define td where "td = semver_to_dev (int n) t"
    have td: "semver_wf td" "sv_dev_count td = int n" "semver_precedes td t"
      using to_dev_spec [OF t(1) n' n(2)] t(2) by (auto simp: td_def)
    have gt: "semver_gt new t = Inr (semver_precedes t new)" "semver_gt td nd = Inr (semver_precedes nd td)"
      by (rule semver_gt_precedes [OF new(1) t(1)], rule semver_gt_precedes [OF td(1) nd(1)])
    show ?thesis
    proof (cases "semver_precedes t new")
      case True
      then show ?thesis using n by (simp add: Some run gt)
    next
      case False
      then have "new = t \<or> semver_precedes new t" using semver_precedes_total [OF new(1) t(1)] by blast
      then have "semver_precedes nd t" using nd semver_precedes_trans [OF nd(1) new(1) t(1)] by blast
      moreover have "semver_precedes nd td \<Longrightarrow> semver_precedes latest td"
        using nd(4) by (rule semver_precedes_trans [OF last(2) nd(1) td(1)])
      ultimately show ?thesis using n False nd td
        by (simp add: Some run gt nd_def [symmetric] td_def [symmetric])
    qed
  qed
qed


section \<open>Witnesses\<close>

text \<open>A checkout one commit after the tag 1.2.0, whose message asks for a feature release.\<close>

definition demo_checkout :: git_env where
  "demo_checkout = demo_git\<lparr>run_command := \<lambda>cmd.
     if ''--format=%h%x00%s%x00%d'' \<in> set cmd then
       Inr (0, ''b2'' @ [CHR 0x00] @ ''Add y'' @ [CHR 0x00] @ [CHR 0x0A]
               @ ''a1'' @ [CHR 0x00] @ ''Fix x'' @ [CHR 0x00] @ '' (tag: refs/tags/1.2.0)'')
     else if ''--pretty=%B'' \<in> set cmd then Inr (0, ''Add y'' @ [CHR 0x0A] @ ''Sem-Ver: feature'')
     else if ''describe'' \<in> set cmd then Inr (128, ''fatal: no tag'')
     else Inr (0, ''.git'')\<rparr>"

lemma demo_checkout_runs:
  "run_git_functions demo_checkout = Inr (Some ''.git'')"
  "git_target_version demo_checkout ''.git'' None = Inr None"
  "git_target_version demo_checkout ''.git'' (Some ''1.2.5'') = Inr (Some (SemanticVersion 1 2 5 None None None))"
  "get_revno_and_last_tag demo_checkout ''.git'' = Inr (''1.2.0'', 1)"
  "get_increment_kwargs demo_checkout ''.git'' ''1.2.0'' = Inr (True, False)"
  "from_pip_string ''1.2.0'' = Inr (SemanticVersion 1 2 0 None None None)"
  "semver_increment True False (SemanticVersion 1 2 0 None None None) = Inr (SemanticVersion 1 3 0 None None None)"
  by code_simp+



section \<open>Sources of the version\<close>

lemma from_git_not_empty:
  assumes "get_version_from_git E pre = Inr s" "s \<noteq> []"
  shows "\<exists>d. run_git_functions E = Inr (Some d)"
  using assms by (auto simp: get_version_from_git_def rbind_eq_Inr split: option.splits)

lemma get_version_origin:
  assumes "get_version E message name pre_version = Inr v"
  shows "v \<noteq> []
     \<and> (env_var E ''PBR_VERSION'' = Some v
        \<or> env_var E ''PBR_VERSION'' = None \<and> env_var E ''OSLO_PACKAGE_VERSION'' = Some v
        \<or> (\<exists>f \<in> {''PKG-INFO'', ''METADATA''}. \<exists>m. message f = Some m
             \<and> map_of m ''Name'' = Some name \<and> map_of m ''Version'' = Some v)
        \<or> get_version_from_git E pre_version = Inr v \<and> (\<exists>d. run_git_functions E = Inr (Some d)))"
proof -
  have md: "\<exists>f \<in> {''PKG-INFO'', ''METADATA''}. \<exists>m. message f = Some m
        \<and> map_of m ''Name'' = Some name \<and> map_of m ''Version'' = Some w"
    if "get_version_from_pkg_metadata message name = Some w" for w
    using that by (auto simp: get_version_from_pkg_metadata_def split: option.splits if_splits)
  show ?thesis
    using assms md from_git_not_empty [of E pre_version v]
    by (auto simp: get_version_def Let_def rbind_eq_Inr truthy_def split: if_splits option.splits)
qed

theorem get_version_sources:
  assumes "get_version E message name pre_version = Inr v"
  shows "v \<noteq> []
     \<and> (env_var E ''PBR_VERSION'' = Some v
        \<or> env_var E ''PBR_VERSION'' = None \<and> env_var E ''OSLO_PACKAGE_VERSION'' = Some v
        \<or> (\<exists>f \<in> {''PKG-INFO'', ''METADATA''}. \<exists>m. message f = Some m
             \<and> map_of m ''Name'' = Some name \<and> map_of m ''Version'' = Some v)
        \<or> get_version_from_git E pre_version = Inr v \<and> (\<exists>d. run_git_functions E = Inr (Some d)))"
  by (rule get_version_origin [OF assms])

theorem get_version_sources_witness:
  "get_version demo_checkout (\<lambda>_. None) ''p'' None = Inr ''1.3.0.dev1''
     \<and> get_version_from_git demo_checkout None = Inr ''1.3.0.dev1''"
proof -
  have v: "get_version demo_checkout (\<lambda>_. None) ''p'' None = Inr ''1.3.0.dev1''" by code_simp
  moreover have "env_var demo_checkout x = None" for x by (simp add: demo_checkout_def demo_git_def)
  ultimately show ?thesis using get_version_sources [OF v] by simp
qed

end
