(* ===== verification/Pbr_Hooks.thy ===== *)
theory Pbr_Hooks
  imports Pbr_Setup_Cfg Pbr_Packaging
begin

text \<open>
  \<^verbatim>\<open>pbr/hooks\<close> and \<^verbatim>\<open>pbr/find_package.py\<close>: the four configuration objects that complete the
  configuration read from \<^verbatim>\<open>setup.cfg\<close>.  Each of them takes its section, lets its \<^verbatim>\<open>hook\<close> change
  it, and saves it.  The host is a POSIX system.
\<close>

section \<open>The environment\<close>

text \<open>
  \<open>pkg_message\<close> are the headers of a metadata file, \<open>walk\<close> is \<^verbatim>\<open>os.walk\<close> without the names of the
  directories, \<open>found_packages\<close> is \<^verbatim>\<open>setuptools.find_packages\<close>.
\<close>

record 'o hook_env =
  he_util :: "'o util_env"
  pkg_message :: "string \<Rightarrow> (string \<times> string) list option"
  have_sphinx :: bool
  have_testr :: bool
  have_nose :: bool
  is_dir :: "string \<Rightarrow> bool"
  found_packages :: "string \<Rightarrow> string list"
  walk :: "string \<Rightarrow> (string \<times> string list) list"
  sys_prefix :: string

abbreviation he_git :: "'o hook_env \<Rightarrow> git_env" where
  "he_git H \<equiv> ue_git (he_util H)"

definition requirements_of :: "'o hook_env \<Rightarrow> bool \<Rightarrow> string list \<Rightarrow> string list res" where
  "requirements_of H strip_markers files =
     parse_requirements (recursion_limit (he_util H)) (he_git H) (parse_requirement (he_util H))
       strip_markers files"

section \<open>base.py\<close>

definition load_section :: "config \<Rightarrow> string \<Rightarrow> section_config" where
  "load_section config sect = (case map_of config sect of None \<Rightarrow> [] | Some s \<Rightarrow> s)"

text \<open>Loading, the hook and saving; a configuration whose hook raised is not looked at again.\<close>

definition run_config ::
    "string \<Rightarrow> (section_config \<Rightarrow> section_config res) \<Rightarrow> config \<Rightarrow> config res" where
  "run_config sect hook config =
     rbind (hook (load_section config sect)) (\<lambda>s. Inr (dict_set sect s config))"

section \<open>metadata.py and backwards.py\<close>

definition metadata_hook :: "'o hook_env \<Rightarrow> section_config \<Rightarrow> section_config res" where
  "metadata_hook H cfg =
     rbind (dict_get cfg ''name'') (\<lambda>name.
     rbind (get_version (he_git H) (pkg_message H) name (map_of cfg ''version'')) (\<lambda>version.
     rbind (requirements_of H False (get_requirements_files (he_git H))) (\<lambda>rs.
     Inr (append_text_list ''requires_dist'' rs (dict_set ''version'' version cfg)))))"

definition backwards_hook :: "'o hook_env \<Rightarrow> section_config \<Rightarrow> section_config res" where
  "backwards_hook H cfg =
     rbind (parse_dependency_links (he_git H) (get_requirements_files (he_git H))) (\<lambda>links.
     rbind (requirements_of H True test_requirements_files) (\<lambda>tests.
     Inr (append_text_list ''tests_require'' tests
            (append_text_list ''dependency_links'' links
              (dict_set ''include_package_data'' ''True'' cfg)))))"

section \<open>commands.py\<close>

text \<open>
  \<^verbatim>\<open>options.get_boolean_option\<close> on a section of strings: it takes the second character of the value
  where its other callers have a pair.
\<close>

definition get_string_option :: "git_env \<Rightarrow> section_config \<Rightarrow> string \<Rightarrow> string \<Rightarrow> bool res" where
  "get_string_option E cfg opt env_name =
     (let from_env = (case env_var E env_name of None \<Rightarrow> False | Some v \<Rightarrow> lower v \<in> set true_values)
      in case map_of cfg opt of
           None \<Rightarrow> Inr from_env
         | Some v \<Rightarrow> rbind (at v 1) (\<lambda>c. Inr (lower [c] \<in> set true_values \<or> from_env)))"

definition add_command :: "string \<Rightarrow> string \<Rightarrow> string" where
  "add_command commands command = commands @ [CHR 0x0A] @ command"

definition commands_hook :: "'o hook_env \<Rightarrow> section_config \<Rightarrow> section_config \<Rightarrow> section_config res" where
  "commands_hook H pbr_config cfg =
     (let commands = (case map_of cfg ''commands'' of None \<Rightarrow> [] | Some c \<Rightarrow> c);
          commands = foldl add_command commands
            [''pbr.packaging.LocalEggInfo'', ''pbr.packaging.LocalSDist'',
             ''pbr.packaging.LocalInstallScripts'', ''pbr.packaging.LocalDevelop'',
             ''pbr.packaging.LocalRPMVersion'', ''pbr.packaging.LocalDebVersion''];
          commands = (if have_sphinx H then add_command commands ''pbr.builddoc.LocalBuildDoc'' else commands);
          commands = (if file_exists (he_git H) ''.testr.conf'' \<and> have_testr H
                      then add_command commands ''pbr.packaging.TestrTest''
                      else if truthy (map_of cfg ''nosetests'') \<and> have_nose H
                      then add_command commands ''pbr.packaging.NoseTest''
                      else commands)
      in rbind (get_string_option (he_git H) pbr_config ''use-egg'' ''PBR_USE_EGG'') (\<lambda>use_egg.
         (let commands = (if map_of pbr_config ''manpages'' \<noteq> None \<or> \<not> use_egg
                          then add_command commands ''pbr.packaging.LocalInstall''
                          else add_command commands ''pbr.packaging.InstallWithGit'')
          in Inr (dict_set ''commands'' commands cfg))))"

section \<open>find\_package.py and files.py\<close>

text \<open>The set of packages is a list without duplicates.\<close>

definition smart_find_packages :: "'o hook_env \<Rightarrow> string \<Rightarrow> string" where
  "smart_find_packages H package_list =
     join [CHR 0x0A] (remdups (concat (map
       (\<lambda>pkg. pkg # map (\<lambda>f. pkg @ ''.'' @ f) (found_packages H (replace1 CHR ''.'' ''/'' pkg)))
       (split_on CHR 0x0A (strip package_list)))))"

definition get_manpath :: "'o hook_env \<Rightarrow> string" where
  "get_manpath H = (if file_exists (he_git H) (in_dir (sys_prefix H) ''man'') then ''man'' else ''share/man'')"

definition get_man_section :: "'o hook_env \<Rightarrow> string \<Rightarrow> string" where
  "get_man_section H sect = in_dir (get_manpath H) (''man'' @ sect)"

text \<open>\<^verbatim>\<open>s.replace(p, t, 1)\<close>\<close>

fun replace_first :: "string \<Rightarrow> string \<Rightarrow> string \<Rightarrow> string" where
  "replace_first p t [] = (if p = [] then t else [])"
| "replace_first p t (c # s) =
     (if startswith (c # s) p then t @ drop (length p) (c # s) else c # replace_first p t s)"

text \<open>The lines written for the directories of a walk.\<close>

definition glob_lines :: "'o hook_env \<Rightarrow> string \<Rightarrow> string \<Rightarrow> string list" where
  "glob_lines H unquoted_prefix unquoted_target = concat (map (\<lambda>(dirpath, fnames).
       (let new_prefix = replace_first unquoted_prefix unquoted_target dirpath
        in (quoted new_prefix @ '' = '') # map (\<lambda>f. '' '' @ quoted (in_dir dirpath f)) fnames))
     (walk H unquoted_prefix))"

definition expand_line :: "'o hook_env \<Rightarrow> string \<Rightarrow> string list res" where
  "expand_line H line =
     (if endswith (rstrip line) ''*'' \<and> CHR ''='' \<in> set line then
        (case split_on CHR ''='' line of
           [target, source_glob] \<Rightarrow>
             (let source_prefix = butlast (strip source_glob);
                  target = strip target;
                  target = (if endswith target ''/'' then target else target @ ''/'')
              in rbind (unquote_path source_prefix) (\<lambda>unquoted_prefix.
                 rbind (unquote_path target) (\<lambda>unquoted_target.
                 Inr (glob_lines H unquoted_prefix unquoted_target))))
         | _ \<Rightarrow> Inl (ValueError ''too many values to unpack''))
      else Inr [line])"

definition expand_globs :: "'o hook_env \<Rightarrow> string \<Rightarrow> string res" where
  "expand_globs H data_files =
     rbind (mapR (expand_line H) (split_on CHR 0x0A data_files)) (\<lambda>finished.
       Inr (join [CHR 0x0A] (concat finished)))"

definition add_man_path :: "string \<Rightarrow> string \<Rightarrow> string" where
  "add_man_path data_files man_path = data_files @ [CHR 0x0A] @ quoted man_path @ '' =''"

definition add_man_page :: "string \<Rightarrow> string \<Rightarrow> string" where
  "add_man_page data_files man_page = data_files @ [CHR 0x0A] @ ''  '' @ quoted man_page"

definition get_man_sections :: "string \<Rightarrow> (string \<times> string list) list" where
  "get_man_sections manpages = foldl (\<lambda>d page. dict_append [last page] page d) [] (words manpages)"

definition add_man_section :: "'o hook_env \<Rightarrow> string \<Rightarrow> string \<times> string list \<Rightarrow> string" where
  "add_man_section H data_files = (\<lambda>(sect, pages).
     foldl add_man_page (add_man_path data_files (get_man_section H sect)) pages)"

definition files_hook ::
    "'o hook_env \<Rightarrow> section_config \<Rightarrow> string \<Rightarrow> section_config \<Rightarrow> section_config res" where
  "files_hook H pbr_config name cfg =
     (let packages = strip (case map_of cfg ''packages'' of None \<Rightarrow> name | Some p \<Rightarrow> p);
          expanded = map (smart_find_packages H)
                       (filter (is_dir H) (map strip (split_on CHR 0x0A packages)));
          cfg' = dict_set ''packages'' (join [CHR 0x0A] expanded) cfg
      in rbind (expand_globs H (case map_of cfg ''data_files'' of None \<Rightarrow> [] | Some d \<Rightarrow> d)) (\<lambda>data_files.
         (let data_files = (case map_of pbr_config ''manpages'' of
                None \<Rightarrow> data_files
              | Some manpages \<Rightarrow> foldl (add_man_section H) data_files (get_man_sections manpages))
          in Inr (dict_set ''data_files'' data_files cfg'))))"

section \<open>setup\_hook\<close>

definition setup_hook :: "'o hook_env \<Rightarrow> config \<Rightarrow> config res" where
  "setup_hook H config =
     rbind (run_config ''metadata'' (metadata_hook H) config) (\<lambda>config.
     rbind (run_config ''backwards_compat'' (backwards_hook H) config) (\<lambda>config.
     rbind (run_config ''global'' (commands_hook H (load_section config ''pbr'')) config) (\<lambda>config.
     rbind (dict_get (load_section config ''metadata'') ''name'') (\<lambda>name.
     run_config ''files'' (files_hook H (load_section config ''pbr'') name) config))))"

section \<open>Commands\<close>

lemma split_multiline_append:
  "split_multiline (s @ CHR 0x0A # t) = split_multiline s @ split_multiline t"
  by (simp add: split_multiline_def split_by_append [of "\<lambda>x. x = CHR 0x0A" "CHR 0x0A" s t])

lemma split_multiline_line:
  assumes "CHR 0x0A \<notin> set l" "strip l = l" "l \<noteq> []" "\<not> startswith l ''#''"
  shows "split_multiline l = [l]"
proof -
  have "split_on CHR 0x0A l = [l]" by (rule split_by_none) (use assms in auto)
  with assms show ?thesis by (simp add: split_multiline_def)
qed

definition command_name :: "string \<Rightarrow> bool" where
  "command_name c \<longleftrightarrow> startswith c ''pbr.'' \<and> list_all (\<lambda>x. \<not> is_ws x) c"

lemma split_add_command:
  assumes "command_name c"
  shows "split_multiline (add_command cs c) = split_multiline cs @ [c]"
proof -
  obtain r where c: "c = ''pbr.'' @ r" "list_all (\<lambda>x. \<not> is_ws x) c"
    using assms by (auto simp: command_name_def prefix_def)
  have "split_multiline c = [c]"
  proof (rule split_multiline_line)
    show "CHR 0x0A \<notin> set c" using c(2) by (auto simp: list_all_iff is_ws_def)
    have "\<not> is_ws (last c)" using c last_in_set [of c] by (auto simp: list_all_iff)
    then show "strip c = c" by (intro strip_id) (simp add: stripped_def c(1) is_ws_def)
  qed (simp_all add: c(1))
  then show ?thesis by (simp add: add_command_def split_multiline_append)
qed

definition hook_commands :: "'o hook_env \<Rightarrow> section_config \<Rightarrow> section_config \<Rightarrow> bool \<Rightarrow> string list" where
  "hook_commands H pbr_config cfg use_egg =
     [''pbr.packaging.LocalEggInfo'', ''pbr.packaging.LocalSDist'', ''pbr.packaging.LocalInstallScripts'',
      ''pbr.packaging.LocalDevelop'', ''pbr.packaging.LocalRPMVersion'', ''pbr.packaging.LocalDebVersion'']
     @ (if have_sphinx H then [''pbr.builddoc.LocalBuildDoc''] else [])
     @ (if file_exists (he_git H) ''.testr.conf'' \<and> have_testr H then [''pbr.packaging.TestrTest'']
        else if truthy (map_of cfg ''nosetests'') \<and> have_nose H then [''pbr.packaging.NoseTest''] else [])
     @ [if map_of pbr_config ''manpages'' = None \<and> use_egg then ''pbr.packaging.InstallWithGit''
        else ''pbr.packaging.LocalInstall'']"

lemma split_add_commands:
  "list_all command_name cs \<Longrightarrow> split_multiline (foldl add_command c cs) = split_multiline c @ cs"
  by (induction cs arbitrary: c) (simp_all add: split_add_command)

text \<open>
  C37: After the commands hook the list of commands is the old one followed by the commands of
  pbr that apply, ending in exactly one of LocalInstall and InstallWithGit, and the other
  options are unchanged.
\<close>
theorem commands_hook_commands:
  assumes "commands_hook H pbr_config cfg = Inr cfg'"
  shows "\<exists>use_egg. get_string_option (he_git H) pbr_config ''use-egg'' ''PBR_USE_EGG'' = Inr use_egg
     \<and> split_multiline (the (map_of cfg' ''commands''))
       = split_multiline (case map_of cfg ''commands'' of None \<Rightarrow> [] | Some c \<Rightarrow> c)
         @ hook_commands H pbr_config cfg use_egg
     \<and> (\<forall>k. k \<noteq> ''commands'' \<longrightarrow> map_of cfg' k = map_of cfg k)"
proof -
  obtain use_egg where u: "get_string_option (he_git H) pbr_config ''use-egg'' ''PBR_USE_EGG'' = Inr use_egg"
    using assms by (auto simp: commands_hook_def Let_def rbind_eq_Inr)
  define c where "c = (case map_of cfg ''commands'' of None \<Rightarrow> [] | Some c \<Rightarrow> c)"
  have "list_all command_name (hook_commands H pbr_config cfg use_egg)"
    by (simp add: hook_commands_def command_name_def is_ws_def)
  from split_add_commands [OF this, of c]
  have s: "split_multiline (foldl add_command c (hook_commands H pbr_config cfg use_egg))
    = split_multiline c @ hook_commands H pbr_config cfg use_egg" .
  have "cfg' = dict_set ''commands'' (foldl add_command c (hook_commands H pbr_config cfg use_egg)) cfg"
    using assms unfolding commands_hook_def Let_def u rbind_Inr hook_commands_def c_def
    by (cases "have_sphinx H"; cases "file_exists (he_git H) ''.testr.conf'' \<and> have_testr H";
        cases "truthy (map_of cfg ''nosetests'') \<and> have_nose H";
        cases "map_of pbr_config ''manpages'' = None \<and> use_egg") auto
  with u s show ?thesis by (simp add: c_def)
qed

section \<open>Globs\<close>

definition glob_entries :: "'o hook_env \<Rightarrow> string \<Rightarrow> string \<Rightarrow> (string \<times> string list) list" where
  "glob_entries H p t = map (\<lambda>(d, fs). (replace_first p t d, map (in_dir d) fs)) (walk H p)"

lemma split_glob_target: 
  assumes "plain_name t"
  shows "split_multiline (quoted t @ '' = '') = [quoted t @ '' ='']"
proof -
  have "split_on CHR 0x0A (quoted t @ '' = '') = [quoted t @ '' = '']"
    by (rule split_by_none) (use assms in \<open>auto simp: plain_name_def quoted_def\<close>)
  moreover have "strip (quoted t @ '' = '') = quoted t @ '' =''"
    by (simp add: strip_def lstrip_def rstrip_def quoted_def is_ws_def)
  ultimately show ?thesis by (simp add: split_multiline_def quoted_def)
qed

lemma split_glob_file:
  assumes "plain_name f"
  shows "split_multiline ('' '' @ quoted f) = [quoted f]"
proof -
  have "split_on CHR 0x0A ('' '' @ quoted f) = ['' '' @ quoted f]"
    by (rule split_by_none) (use assms in \<open>auto simp: plain_name_def quoted_def\<close>)
  moreover have "strip ('' '' @ quoted f) = quoted f"
    by (simp add: strip_def lstrip_def rstrip_def quoted_def is_ws_def)
  ultimately show ?thesis by (simp add: split_multiline_def quoted_def)
qed

lemma split_multiline_joined:
  "split_multiline (join [CHR 0x0A] ls) = concat (map split_multiline ls)"
proof (induction ls)
  case (Cons l ls)
  then show ?case
    by (cases "ls = []") (simp_all add: join_Cons split_multiline_append)
qed (simp add: split_multiline_def)

lemma split_glob_lines:
  assumes "\<forall>(t, fs) \<in> set (glob_entries H p u). plain_name t \<and> (\<forall>f \<in> set fs. plain_name f)"
  shows "concat (map split_multiline (glob_lines H p u)) = concat (map data_lines (glob_entries H p u))"
proof -
  have "concat (map split_multiline (concat (map (\<lambda>(d, fs). (quoted (replace_first p u d) @ '' = '')
        # map (\<lambda>f. '' '' @ quoted (in_dir d f)) fs) w)))
      = concat (map data_lines (map (\<lambda>(d, fs). (replace_first p u d, map (in_dir d) fs)) w))"
    if "\<forall>(t, fs) \<in> set (map (\<lambda>(d, fs). (replace_first p u d, map (in_dir d) fs)) w).
      plain_name t \<and> (\<forall>f \<in> set fs. plain_name f)" for w
    using that
  proof (induction w)
    case (Cons x w)
    obtain d fs where x: "x = (d, fs)" by (cases x)
    with Cons.prems have pl: "plain_name (replace_first p u d)" "\<forall>f \<in> set fs. plain_name (in_dir d f)" by auto
    have "concat (map split_multiline (map (\<lambda>f. '' '' @ quoted (in_dir d f)) fs)) = map quoted (map (in_dir d) fs)"
      using pl(2)
    proof (induction fs)
      case (Cons f fs)
      have "split_multiline ('' '' @ quoted (in_dir d f)) = [quoted (in_dir d f)]"
        by (rule split_glob_file) (use Cons.prems in simp)
      with Cons show ?case by simp
    qed simp
    with split_glob_target [OF pl(1)] Cons show ?case by (simp add: x data_lines_def)
  qed simp
  from this [of "walk H p"] assms show ?thesis
    by (simp add: glob_lines_def glob_entries_def Let_def)
qed

lemma strip_space: "stripped s \<Longrightarrow> strip (s @ '' '') = s"
  using strip_id [of s] by (cases s) (auto simp: strip_def lstrip_def rstrip_def stripped_def is_ws_def)

lemma strip_glob: "stripped s \<Longrightarrow> strip ('' '' @ s @ ''*'') = s @ ''*''"
  by (cases s) (auto simp: strip_def lstrip_def rstrip_def stripped_def is_ws_def)


section \<open>setup\_hook\<close>

lemma run_config_Inr:
  assumes "run_config sect hook config = Inr config'"
  obtains s where "hook (load_section config sect) = Inr s" "config' = dict_set sect s config"
  using assms by (auto simp: run_config_def rbind_eq_Inr)

lemma load_section_set [simp]:
  "load_section (dict_set sect s config) t = (if t = sect then s else load_section config t)"
  by (simp add: load_section_def)

lemma map_of_append_text_list [simp]:
  "k \<noteq> j \<Longrightarrow> map_of (append_text_list j ts cfg) k = map_of cfg k"
  by (simp add: append_text_list_def Let_def)

lemma setup_hook_result:
  assumes "setup_hook H config = Inr config'"
  shows "\<exists>name version. map_of (load_section config ''metadata'') ''name'' = Some name
     \<and> get_version (he_git H) (pkg_message H) name (map_of (load_section config ''metadata'') ''version'') = Inr version
     \<and> map_of (load_section config' ''metadata'') ''name'' = Some name
     \<and> map_of (load_section config' ''metadata'') ''version'' = Some version
     \<and> map_of (load_section config' ''backwards_compat'') ''include_package_data'' = Some ''True''
     \<and> commands_hook H (load_section config ''pbr'') (load_section config ''global'') = Inr (load_section config' ''global'')
     \<and> files_hook H (load_section config ''pbr'') name (load_section config ''files'') = Inr (load_section config' ''files'')
     \<and> (\<forall>s. s \<notin> set [''metadata'', ''backwards_compat'', ''global'', ''files''] \<longrightarrow>
          map_of config' s = map_of config s)"
proof -
  from assms obtain c1 c2 c3 name' where c: "run_config ''metadata'' (metadata_hook H) config = Inr c1"
    "run_config ''backwards_compat'' (backwards_hook H) c1 = Inr c2"
    "run_config ''global'' (commands_hook H (load_section c2 ''pbr'')) c2 = Inr c3"
    "map_of (load_section c3 ''metadata'') ''name'' = Some name'"
    "run_config ''files'' (files_hook H (load_section c3 ''pbr'') name') c3 = Inr config'"
    by (auto simp: setup_hook_def rbind_eq_Inr dict_get_eq_Inr)
  from c(1) obtain s1 where s1: "metadata_hook H (load_section config ''metadata'') = Inr s1"
    "c1 = dict_set ''metadata'' s1 config" by (rule run_config_Inr)
  from c(2) obtain s2 where s2: "backwards_hook H (load_section c1 ''backwards_compat'') = Inr s2"
    "c2 = dict_set ''backwards_compat'' s2 c1" by (rule run_config_Inr)
  from c(3) obtain s3 where s3: "commands_hook H (load_section c2 ''pbr'') (load_section c2 ''global'') = Inr s3"
    "c3 = dict_set ''global'' s3 c2" by (rule run_config_Inr)
  from c(5) obtain s4 where s4: "files_hook H (load_section c3 ''pbr'') name' (load_section c3 ''files'') = Inr s4"
    "config' = dict_set ''files'' s4 c3" by (rule run_config_Inr)
  from s1(1) obtain name version rs where md: "map_of (load_section config ''metadata'') ''name'' = Some name"
    "get_version (he_git H) (pkg_message H) name (map_of (load_section config ''metadata'') ''version'') = Inr version"
    "s1 = append_text_list ''requires_dist'' rs (dict_set ''version'' version (load_section config ''metadata''))"
    by (auto simp: metadata_hook_def rbind_eq_Inr dict_get_eq_Inr)
  have m1: "map_of s1 ''name'' = Some name" "map_of s1 ''version'' = Some version"
    using md by simp_all
  from s2(1) have "map_of s2 ''include_package_data'' = Some ''True''"
    by (auto simp: backwards_hook_def rbind_eq_Inr)
  moreover have "name' = name" using c(4) m1 by (simp add: s2(2) s3(2) s1(2))
  ultimately show ?thesis using md(1,2) m1 s3(1) s4(1)
    by (simp add: s1(2) s2(2) s3(2) s4(2))
qed


section \<open>Witnesses\<close>

definition demo_hooks :: "string hook_env" where
  "demo_hooks = \<lparr>he_util = demo_util\<lparr>ue_git := demo_checkout\<rparr>, pkg_message = \<lambda>_. None, have_sphinx = True,
     have_testr = True, have_nose = False, is_dir = \<lambda>d. d = ''p'', found_packages = \<lambda>p. [''sub''],
     walk = \<lambda>p. if p = ''doc/'' then [(''doc/'', [''a b'', ''c'']), (''doc/img'', [])] else [],
     sys_prefix = ''/usr''\<rparr>"

theorem commands_hook_commands_witness:
  "\<exists>cfg'. commands_hook demo_hooks [] [(''commands'', ''x.Y'')] = Inr cfg'
     \<and> split_multiline (the (map_of cfg' ''commands''))
       = [''x.Y'', ''pbr.packaging.LocalEggInfo'', ''pbr.packaging.LocalSDist'',
          ''pbr.packaging.LocalInstallScripts'', ''pbr.packaging.LocalDevelop'', ''pbr.packaging.LocalRPMVersion'',
          ''pbr.packaging.LocalDebVersion'', ''pbr.builddoc.LocalBuildDoc'', ''pbr.packaging.LocalInstall'']"
proof -
  obtain cfg' where run: "commands_hook demo_hooks [] [(''commands'', ''x.Y'')] = Inr cfg'"
    by (simp add: commands_hook_def Let_def get_string_option_def)
  have opt: "get_string_option (he_git demo_hooks) [] ''use-egg'' ''PBR_USE_EGG'' = Inr False" by code_simp
  have "split_multiline ''x.Y'' @ hook_commands demo_hooks [] [(''commands'', ''x.Y'')] False
      = [''x.Y'', ''pbr.packaging.LocalEggInfo'', ''pbr.packaging.LocalSDist'',
          ''pbr.packaging.LocalInstallScripts'', ''pbr.packaging.LocalDevelop'', ''pbr.packaging.LocalRPMVersion'',
          ''pbr.packaging.LocalDebVersion'', ''pbr.builddoc.LocalBuildDoc'', ''pbr.packaging.LocalInstall'']"
    by code_simp
  with commands_hook_commands [OF run] opt run show ?thesis by auto
qed



end
