(* ===== verification/Pbr_Setup.thy ===== *)
theory Pbr_Setup
  imports Pbr_Hooks
begin

text \<open>
  \<^verbatim>\<open>pbr/util.py\<close> (extension modules, entry points, compilers and \<^verbatim>\<open>cfg_to_args\<close>), \<^verbatim>\<open>pbr/extra_files.py\<close>
  and \<^verbatim>\<open>pbr/core.py\<close>: the whole way from \<^verbatim>\<open>setup.cfg\<close> to the attributes of the distribution.  The
  state is what these functions share with the hooks of the project: the configuration,
  \<^verbatim>\<open>sys.path\<close>, the list of extra files, the table of compilers and \<^verbatim>\<open>sys.modules\<close>.
\<close>

section \<open>Extension modules and entry points\<close>

definition extension_fields :: "string list" where
  "extension_fields =
    [''sources'', ''include_dirs'', ''define_macros'', ''undef_macros'', ''library_dirs'', ''libraries'',
     ''runtime_library_dirs'', ''extra_objects'', ''extra_compile_args'', ''extra_link_args'',
     ''export_symbols'', ''swig_opts'', ''depends'']"

definition macro_of :: "string \<Rightarrow> string \<times> string option" where
  "macro_of macro = (case split1 CHR ''='' macro of
       [name] \<Rightarrow> (strip name, None)
     | name # v # _ \<Rightarrow> (strip name, Some (strip v))
     | [] \<Rightarrow> ([], None))"

definition extension_args :: "config \<Rightarrow> string \<Rightarrow> (string \<times> ext_field) list" where
  "extension_args config sect = foldl (\<lambda>ext_args field.
       (let value = has_get_option config sect field
        in if \<not> truthy value then ext_args
           else (let vs = split_multiline (the value)
                 in dict_set field (if field = ''define_macros'' then EMacros (map macro_of vs) else EList vs)
                      ext_args))) [] extension_fields"

text \<open>The arguments of each call of \<^verbatim>\<open>Extension\<close>: the name and the keyword arguments.\<close>

definition get_extension_modules :: "config \<Rightarrow> (string \<times> (string \<times> ext_field) list) list" where
  "get_extension_modules config = concat (map (\<lambda>sect.
       (let labels = map strip (if CHR '':'' \<in> set sect then split1 CHR '':'' sect else split1 CHR ''='' sect)
        in if length labels = 2 \<and> hd labels = ''extension''
           then (let ext_args = extension_args config sect
                 in if ext_args \<noteq> [] then [(labels ! 1, ext_args)] else [])
           else [])) (map fst config))"

definition get_entry_points :: "config \<Rightarrow> (string \<times> string list) list" where
  "get_entry_points config = (case map_of config ''entry_points'' of
       None \<Rightarrow> []
     | Some options \<Rightarrow> map (\<lambda>(opt, value). (opt, split_multiline value)) options)"

section \<open>The state\<close>

record setup_state =
  st_config :: config
  st_path :: "string list"
  st_extra_files :: "string list"
  st_compilers :: "(string \<times> string \<times> string \<times> string) list"
  st_modules :: "(string \<times> string) list"

text \<open>
  \<open>read_cfg\<close> is the parser of the file, \<open>abs_path\<close> is \<^verbatim>\<open>os.path.abspath\<close>, \<open>error_text\<close> the class and the message of an
  exception, \<open>call_hook\<close> a hook of the project.
\<close>

record 'o cfg_env =
  ce_hooks :: "'o hook_env"
  read_cfg :: "string \<Rightarrow> config res"
  abs_path :: "string \<Rightarrow> string"
  error_text :: "exn \<Rightarrow> string"
  call_hook :: "'o \<Rightarrow> (setup_state, unit) st"

abbreviation ce_git :: "'o cfg_env \<Rightarrow> git_env" where
  "ce_git C \<equiv> he_git (ce_hooks C)"

definition set_extra_files :: "'o cfg_env \<Rightarrow> string list \<Rightarrow> (setup_state, unit) st" where
  "set_extra_files C files = (\<lambda>w.
     case find (\<lambda>f. \<not> file_exists (ce_git C) f) files of
       None \<Rightarrow> (Inr (), w\<lparr>st_extra_files := files\<rparr>)
     | Some f \<Rightarrow> (Inl (DistutilsError (f @ '' from the extra_files option in setup.cfg does not exist'')), w))"

text \<open>One compiler: its name, description and module; the module gets an alias in \<^verbatim>\<open>distutils\<close>.\<close>

definition attr_or :: "'o util_env \<Rightarrow> 'o \<Rightarrow> string \<Rightarrow> string res" where
  "attr_or E obj a = (case obj_string E obj a of Some s \<Rightarrow> Inr s | None \<Rightarrow> Inl (AttributeError a))"

definition register_compiler :: "'o cfg_env \<Rightarrow> string \<Rightarrow> (setup_state, unit) st" where
  "register_compiler C compiler_name =
     (let E = he_util (ce_hooks C)
      in ibind (ilift (resolve_name E compiler_name)) (\<lambda>compiler.
         ibind (ilift (case obj_string E compiler ''name'' of
                         Some n \<Rightarrow> Inr n | None \<Rightarrow> attr_or E compiler ''__name__'')) (\<lambda>name.
         (let desc = (case obj_string E compiler ''description'' of
                        Some d \<Rightarrow> d | None \<Rightarrow> ''custom compiler '' @ name)
          in ibind (ilift (attr_or E compiler ''__module__'')) (\<lambda>module_name.
             ibind (ilift (attr_or E compiler ''__name__'')) (\<lambda>cls_name.
             (\<lambda>w. let w' = w\<lparr>st_compilers := dict_set name (module_name, cls_name, desc) (st_compilers w)\<rparr>
                  in case map_of (st_modules w') module_name of
                       None \<Rightarrow> (Inl (KeyError module_name), w')
                     | Some m \<Rightarrow> (Inr (), w'\<lparr>st_modules :=
                         dict_set (''distutils.'' @ module_name) m (st_modules w')\<rparr>))))))))"

definition register_custom_compilers :: "'o cfg_env \<Rightarrow> config \<Rightarrow> (setup_state, unit) st" where
  "register_custom_compilers C config =
     (let compilers = has_get_option config ''global'' ''compilers''
      in if truthy compilers then ifor (split_multiline (the compilers)) (register_compiler C)
         else iret ())"

section \<open>cfg\_to\_args\<close>

text \<open>Dashes in the names of options become underscores.\<close>

definition config_of :: "config \<Rightarrow> config" where
  "config_of sections = foldl (\<lambda>config (sect, items).
       dict_set sect (foldl (\<lambda>d (k, v). dict_set (replace1 CHR ''-'' ''_'' k) v d) [] items) config) [] sections"

text \<open>
  A hook of the project: \<^verbatim>\<open>SystemExit\<close> only ends the hook, any other exception the installation.
\<close>

definition run_hook :: "'o cfg_env \<Rightarrow> string \<Rightarrow> (setup_state, unit) st" where
  "run_hook C hook =
     ibind (ilift (resolve_name (he_util (ce_hooks C)) hook)) (\<lambda>hook_fn. \<lambda>w.
       (case call_hook C hook_fn w of
          (Inr _, w') \<Rightarrow> (Inr (), w')
        | (Inl (SystemExit n), w') \<Rightarrow> (Inr (), w')
        | (Inl e, w') \<Rightarrow> (Inl (if is_Exception e then SystemExit 1 else e), w')))"

definition run_hooks :: "'o cfg_env \<Rightarrow> string option \<Rightarrow> (setup_state, unit) st" where
  "run_hooks C setup_hooks =
     (if truthy setup_hooks
      then ifor (filter (\<lambda>hook. hook \<noteq> ''pbr.hooks.setup_hook'') (split_multiline (the setup_hooks))) (run_hook C)
      else iret ())"

text \<open>A step on the configuration.\<close>

definition on_config :: "(config \<Rightarrow> ('a \<times> config) res) \<Rightarrow> (setup_state, 'a) st" where
  "on_config f = (\<lambda>w. case f (st_config w) of
       Inl e \<Rightarrow> (Inl e, w) | Inr (x, config) \<Rightarrow> (Inr x, w\<lparr>st_config := config\<rparr>))"

definition the_config :: "(setup_state, config) st" where
  "the_config = (\<lambda>w. (Inr (st_config w), w))"

text \<open>The keyword arguments beyond those of the fields.\<close>

definition extra_kwargs :: "config \<Rightarrow> 'o kwargs \<Rightarrow> 'o kwargs" where
  "extra_kwargs config kwargs =
     (let kwargs = dict_set ''zip_safe'' (KBool False) (dict_set ''include_package_data'' (KBool True) kwargs);
          ext_modules = get_extension_modules config;
          kwargs = (if ext_modules \<noteq> [] then dict_set ''ext_modules'' (KExtensions ext_modules) kwargs else kwargs);
          entry_points = get_entry_points config
      in if entry_points \<noteq> [] then dict_set ''entry_points'' (KFiles entry_points) kwargs else kwargs)"

definition get_extra_files :: "(setup_state, string list) st" where
  "get_extra_files = (\<lambda>w. (Inr (st_extra_files w), w))"

definition handle_extra_files :: "'o cfg_env \<Rightarrow> config \<Rightarrow> (setup_state, unit) st" where
  "handle_extra_files C config =
     (let files = has_get_option config ''files'' ''extra_files''
      in if truthy files then set_extra_files C (split_multiline (the files)) else iret ())"

text \<open>The body of the \<^verbatim>\<open>try\<close> statement.\<close>

definition cfg_to_args_body ::
    "'o cfg_env \<Rightarrow> string option \<Rightarrow> string list \<Rightarrow> (setup_state, 'o kwargs) st" where
  "cfg_to_args_body C setup_hooks script_args =
     ibind (run_hooks C setup_hooks) (\<lambda>_.
     ibind (on_config (\<lambda>config. rbind (setup_hook (ce_hooks C) config) (\<lambda>config'. Inr ((), config')))) (\<lambda>_.
     ibind (on_config (\<lambda>config. setup_cfg_to_setup_kwargs (he_util (ce_hooks C)) config script_args)) (\<lambda>kwargs.
     ibind the_config (\<lambda>config.
     ibind (register_custom_compilers C config) (\<lambda>_.
     ibind (handle_extra_files C config) (\<lambda>_.
     iret (extra_kwargs config kwargs)))))))"

definition insert_path :: "string \<Rightarrow> (setup_state, unit) st" where
  "insert_path d = (\<lambda>w. (Inr (), w\<lparr>st_path := d # st_path w\<rparr>))"

definition pop_path :: "(setup_state, unit) st" where
  "pop_path = (\<lambda>w. case st_path w of
       [] \<Rightarrow> (Inl IndexError, w) | d # p \<Rightarrow> (Inr (), w\<lparr>st_path := p\<rparr>))"

text \<open>\<^verbatim>\<open>try: m finally: c\<close>\<close>

definition ifinally :: "('s, 'a) st \<Rightarrow> ('s, unit) st \<Rightarrow> ('s, 'a) st" where
  "ifinally m c = (\<lambda>w. case m w of (r, w1) \<Rightarrow> (case c w1 of (Inl e, w2) \<Rightarrow> (Inl e, w2) | (Inr _, w2) \<Rightarrow> (r, w2)))"

definition cfg_to_args :: "'o cfg_env \<Rightarrow> string \<Rightarrow> string list \<Rightarrow> (setup_state, 'o kwargs) st" where
  "cfg_to_args C path script_args =
     (if \<not> file_exists (ce_git C) path then iraise (DistutilsError (''file '' @ [CHR 0x27] @ abs_path C path @ [CHR 0x27] @ '' does not exist''))
      else ibind (ilift (read_cfg C path)) (\<lambda>sections.
        ibind (on_config (\<lambda>_. Inr ((), config_of sections))) (\<lambda>_.
        ibind the_config (\<lambda>config.
        (let setup_hooks = has_get_option config ''global'' ''setup_hooks'';
             package_dir = has_get_option config ''files'' ''packages_root''
         in if truthy package_dir
            then ibind (insert_path (abs_path C (the package_dir))) (\<lambda>_.
                   ifinally (cfg_to_args_body C setup_hooks script_args) pop_path)
            else cfg_to_args_body C setup_hooks script_args)))))"

section \<open>core.py\<close>

datatype setup_value = NotGiven | Path string | Given

text \<open>Where a keyword argument goes.\<close>

datatype 'o assignment =
    CallSetter string "'o kwarg"
  | SetMetadata string "'o kwarg"
  | SetDist string "'o kwarg"
  | WarnUnknown string

text \<open>The attributes of \<^verbatim>\<open>dist\<close> and \<^verbatim>\<open>dist.metadata\<close>, and \<^verbatim>\<open>finalize_options\<close> after the assignments.\<close>

record 'o dist_env =
  metadata_attr :: "string \<Rightarrow> bool"
  dist_attr :: "string \<Rightarrow> bool"
  finalize_options :: "'o assignment list \<Rightarrow> unit res"

definition unsupported_metadata :: "string list" where
  "unsupported_metadata = [''long_description_content_type'', ''project_urls'', ''provides_extras'']"

definition assignment_of :: "'o dist_env \<Rightarrow> string \<times> 'o kwarg \<Rightarrow> 'o assignment" where
  "assignment_of D = (\<lambda>(key, val).
     if metadata_attr D (''set_'' @ key) then CallSetter key val
     else if metadata_attr D key then SetMetadata key val
     else if dist_attr D key then SetDist key val
     else if key \<in> set unsupported_metadata then SetMetadata key val
     else WarnUnknown key)"

definition pbr :: "'o cfg_env \<Rightarrow> 'o dist_env \<Rightarrow> string list \<Rightarrow> setup_value
    \<Rightarrow> (setup_state, 'o assignment list) st" where
  "pbr C D script_args value =
     (if value = NotGiven \<or> value = Path [] then iret []
      else (let path = abs_path C (case value of Path p \<Rightarrow> p | _ \<Rightarrow> ''setup.cfg'')
            in if \<not> file_exists (ce_git C) path
               then iraise (DistutilsError (''The setup.cfg file '' @ path @ '' does not exist.''))
               else ibind (icatch (cfg_to_args C path script_args) is_Exception
                             (\<lambda>e. iraise (DistutilsError (''Error parsing '' @ path @ '': '' @ error_text C e)))) (\<lambda>attrs.
                    (let done = map (assignment_of D) attrs
                     in ibind (ilift (finalize_options D done)) (\<lambda>_. iret done)))))"

section \<open>sys.path is restored\<close>

definition preserves :: "('s \<Rightarrow> 'b) \<Rightarrow> ('s, 'a) st \<Rightarrow> bool" where
  "preserves f m \<longleftrightarrow> (\<forall>w. f (snd (m w)) = f w)"

lemma preserves_basic [intro]: "preserves f (iret x)" "preserves f (ilift r)" "preserves f (iraise e)"
  by (simp_all add: preserves_def iret_def ilift_def iraise_def)

lemma preserves_ibind [intro]:
  assumes "preserves f m" "\<And>x. preserves f (k x)"
  shows "preserves f (ibind m k)"
  unfolding preserves_def
proof
  fix w
  obtain r w1 where m: "m w = (r, w1)" by (cases "m w")
  with assms(1) have w1: "f w1 = f w" unfolding preserves_def by (metis snd_conv)
  show "f (snd (ibind m k w)) = f w"
    using w1 assms(2) by (cases r) (simp_all add: ibind_def m preserves_def)
qed

lemma preserves_ifold [intro]: "(\<And>s x. preserves f (g s x)) \<Longrightarrow> preserves f (ifold g s xs)"
  by (induction xs arbitrary: s) auto

lemma preserves_on_config [intro]: "(\<And>w c. f (w\<lparr>st_config := c\<rparr>) = f w) \<Longrightarrow> preserves f (on_config g)"
  by (simp add: preserves_def on_config_def split: sum.split prod.split)

lemma preserves_the_config [intro]: "preserves f the_config"
  by (simp add: preserves_def the_config_def)

lemma preserves_register: "preserves st_path (register_compiler C c)"
proof -
  have upd: "preserves st_path (\<lambda>w. let w' = w\<lparr>st_compilers := dict_set n x (st_compilers w)\<rparr>
      in case map_of (st_modules w') m of None \<Rightarrow> (Inl (KeyError m), w')
         | Some k \<Rightarrow> (Inr (), w'\<lparr>st_modules := dict_set j k (st_modules w')\<rparr>))" for n x m j
    by (simp add: preserves_def Let_def split: option.split)
  show ?thesis unfolding register_compiler_def Let_def
    by (intro preserves_ibind preserves_basic upd [unfolded Let_def])
qed

lemma preserves_compilers: "preserves st_path (register_custom_compilers C config)"
  using preserves_register by (auto simp: register_custom_compilers_def Let_def)

definition path_neutral :: "'o cfg_env \<Rightarrow> bool" where
  "path_neutral C \<longleftrightarrow> (\<forall>h. preserves st_path (call_hook C h))"

lemma preserves_run_hook:
  assumes "path_neutral C"
  shows "preserves st_path (run_hook C hook)"
proof -
  have "preserves st_path (\<lambda>w. case call_hook C h w of (Inr _, w') \<Rightarrow> (Inr (), w')
        | (Inl (SystemExit n), w') \<Rightarrow> (Inr (), w')
        | (Inl e, w') \<Rightarrow> (Inl (if is_Exception e then SystemExit 1 else e), w'))" for h
    using assms by (auto simp: path_neutral_def preserves_def split: prod.split sum.split exn.split) (metis snd_conv)+
  then show ?thesis unfolding run_hook_def by (intro preserves_ibind preserves_basic)
qed

lemma preserves_body: "path_neutral C \<Longrightarrow> preserves st_path (cfg_to_args_body C hooks script_args)"
proof -
  assume C: "path_neutral C"
  have h: "preserves st_path (run_hooks C hooks)"
    using preserves_run_hook [OF C] by (auto simp: run_hooks_def)
  have x: "preserves st_path (handle_extra_files C config)" for config
    by (auto simp: handle_extra_files_def Let_def set_extra_files_def preserves_def iret_def split: option.split)
  show ?thesis unfolding cfg_to_args_body_def
    by (intro preserves_ibind preserves_basic preserves_on_config preserves_the_config h x preserves_compilers) simp_all
qed

text \<open>
  C12: sys.path after cfg_to_args is what it was before, whether it returns or raises at any
  point, when the hooks of the project leave it alone.
\<close>
theorem cfg_to_args_path:
  assumes "path_neutral C"
  shows "st_path (snd (cfg_to_args C path script_args w)) = st_path w"
proof -
  have fin: "preserves st_path (ibind (insert_path d) (\<lambda>_. ifinally (cfg_to_args_body C hooks script_args) pop_path))" for d hooks
    unfolding preserves_def
  proof
    fix w :: setup_state
    let ?w = "w\<lparr>st_path := d # st_path w\<rparr>"
    obtain r w1 where b: "cfg_to_args_body C hooks script_args ?w = (r, w1)" by (cases "cfg_to_args_body C hooks script_args ?w")
    have "st_path (snd (cfg_to_args_body C hooks script_args ?w)) = st_path ?w"
      using preserves_body [OF assms] unfolding preserves_def by blast
    then have "st_path w1 = d # st_path w" by (simp add: b)
    then show "st_path (snd (ibind (insert_path d) (\<lambda>_. ifinally (cfg_to_args_body C hooks script_args) pop_path) w)) = st_path w"
      by (simp add: ibind_def insert_path_def ifinally_def b pop_path_def)
  qed
  have "preserves st_path (cfg_to_args C path script_args)"
    unfolding cfg_to_args_def Let_def
    by (cases "file_exists (ce_git C) path")
       (simp_all, intro preserves_ibind preserves_basic preserves_on_config preserves_the_config,
        auto intro: fin preserves_body [OF assms])
  then show ?thesis by (simp add: preserves_def)
qed

section \<open>Errors of the setup keyword\<close>


section \<open>The version of the checkout reaches setup()\<close>

lemma setup_arg_other:
  assumes "setup_arg E config (k, r) (arg, spec) = Inr (k', r')" "a \<noteq> arg"
  shows "map_of k' a = map_of k a"
  using assms by (auto simp: setup_arg_def Let_def rbind_eq_Inr split: prod.splits if_splits option.splits)

lemma setup_arg_string:
  assumes "setup_arg E config (k, r) (arg, spec) = Inr (k', r')" "section_option arg spec = (sect, opt)"
    and "has_get_option config sect opt = Some v" "v \<noteq> []"
    and "arg \<notin> set multi_fields" "arg \<notin> set map_fields" "arg \<notin> set bool_fields" "arg \<noteq> ''package_dir''"
  shows "map_of k' arg = Some (KStr v)"
  using assms by (simp add: setup_arg_def Let_def field_value_def refine_field_def) auto

lemma setup_args_string:
  assumes "foldR (setup_arg E config) (k, r) xs = Inr (k', r')" "(arg, spec) \<in> set xs" "distinct (map fst xs)"
    and "section_option arg spec = (sect, opt)" "has_get_option config sect opt = Some v" "v \<noteq> []"
    and "arg \<notin> set multi_fields" "arg \<notin> set map_fields" "arg \<notin> set bool_fields" "arg \<noteq> ''package_dir''"
  shows "map_of k' arg = Some (KStr v)"
proof -
  obtain ys zs where xs: "xs = ys @ (arg, spec) # zs" using split_list [OF assms(2)] by blast
  have zs: "arg \<notin> fst ` set zs" using assms(3) by (auto simp: xs)
  obtain k1 r1 k2 r2 where run: "setup_arg E config (k1, r1) (arg, spec) = Inr (k2, r2)"
    "foldR (setup_arg E config) (k2, r2) zs = Inr (k', r')"
    using assms(1) by (auto simp: xs foldR_append rbind_eq_Inr)
  have start: "map_of k2 arg = Some (KStr v)" by (rule setup_arg_string [OF run(1) assms(4-10)])
  have "map_of (fst (k', r')) arg = Some (KStr v)"
  proof (rule foldR_invariant [OF run(2)])
    fix x u t
    assume "x \<in> set zs" "map_of (fst u) arg = Some (KStr v)" "setup_arg E config u x = Inr t"
    moreover obtain k r a s k' r' where "u = (k, r)" "x = (a, s)" "t = (k', r')" by (cases u; cases x; cases t)
    ultimately show "map_of (fst t) arg = Some (KStr v)"
      using zs setup_arg_other [of E config k r a s k' r' arg] by force
  qed (simp add: start)
  then show ?thesis by simp
qed

lemma kwargs_string:
  assumes "setup_cfg_to_setup_kwargs E config script_args = Inr (kwargs, config')"
    and "(arg, spec) \<in> set d1_d2_setup_args" "section_option arg spec = (sect, opt)"
    and "map_of (load_section config sect) opt = Some v" "v \<noteq> []"
    and "arg \<notin> set multi_fields" "arg \<notin> set map_fields" "arg \<notin> set bool_fields" "arg \<noteq> ''package_dir''"
  shows "map_of kwargs arg = Some (KStr v)"
proof -
  from assms(1) obtain kw reqs ir er where kw: "foldR (setup_arg E config) ([], []) d1_d2_setup_args = Inr (kw, reqs)"
    "kwargs = dict_set ''extras_require'' (KFiles er) (dict_set ''install_requires'' (KList ir) kw)"
    by (auto simp: setup_cfg_to_setup_kwargs_def rbind_eq_Inr)
  have d: "distinct (map fst d1_d2_setup_args)" by code_simp
  have o: "has_get_option config sect opt = Some v"
    using assms(4) by (auto simp: has_get_option_def load_section_def split: option.splits)
  have "map_of kw arg = Some (KStr v)" by (rule setup_args_string [OF kw(1) assms(2) d assms(3) o assms(5-9)])
  moreover have "''install_requires'' \<in> set multi_fields" "''extras_require'' \<notin> fst ` set d1_d2_setup_args" by code_simp+
  then have "arg \<noteq> ''install_requires''" "arg \<noteq> ''extras_require''" using assms(2,6) by force+
  ultimately show ?thesis by (simp add: kw(2))
qed

lemma ibind_returns:
  assumes "ibind m k w = (Inr y, w')"
  obtains x w1 where "m w = (Inr x, w1)" "k x w1 = (Inr y, w')"
  using assms by (auto simp: ibind_def split: prod.splits sum.splits)

lemma on_config_returns:
  assumes "on_config f w = (Inr x, w')"
  shows "f (st_config w) = Inr (x, st_config w')"
  using assms by (auto simp: on_config_def split: sum.splits)

lemma body_kwargs:
  assumes "cfg_to_args_body C None script_args w = (Inr kwargs, w')"
  obtains config1 kw config2 where "setup_hook (ce_hooks C) (st_config w) = Inr config1"
    "setup_cfg_to_setup_kwargs (he_util (ce_hooks C)) config1 script_args = Inr (kw, config2)"
    "\<And>k. k \<notin> set [''ext_modules'', ''entry_points''] \<Longrightarrow> map_of kwargs k =
       map_of (dict_set ''zip_safe'' (KBool False) (dict_set ''include_package_data'' (KBool True) kw)) k"
proof -
  from assms obtain x w1 u w2 kw w3 config w4 y w5 z w6 where
    "run_hooks C None w = (Inr x, w1)"
    "on_config (\<lambda>config. rbind (setup_hook (ce_hooks C) config) (\<lambda>config'. Inr ((), config'))) w1 = (Inr u, w2)"
    "on_config (\<lambda>config. setup_cfg_to_setup_kwargs (he_util (ce_hooks C)) config script_args) w2 = (Inr kw, w3)"
    "the_config w3 = (Inr config, w4)"
    "iret (extra_kwargs config kw) w6 = (Inr kwargs, w')"
    unfolding cfg_to_args_body_def by (elim ibind_returns)
  then have run: "w1 = w" "setup_hook (ce_hooks C) (st_config w) = Inr (st_config w2)"
    "setup_cfg_to_setup_kwargs (he_util (ce_hooks C)) (st_config w2) script_args = Inr (kw, st_config w3)"
    "kwargs = extra_kwargs config kw"
    by (auto simp: run_hooks_def iret_def rbind_eq_Inr dest!: on_config_returns)
  show thesis
    by (rule that [OF run(2,3)]) (auto simp: run(4) extra_kwargs_def Let_def)
qed

lemma hook_version:
  assumes "setup_hook H config = Inr config'"
  shows "\<exists>name version. map_of (load_section config ''metadata'') ''name'' = Some name
     \<and> get_version (he_git H) (pkg_message H) name (map_of (load_section config ''metadata'') ''version'') = Inr version
     \<and> map_of (load_section config' ''metadata'') ''version'' = Some version \<and> version \<noteq> []"
  using setup_hook_result [OF assms] get_version_origin by fast

text \<open>
  C9: Without project hooks the version that setup() gets is the non-empty string get_version
  computes for the name in setup.cfg, and zip_safe and include_package_data are the values pbr
  imposes.
\<close>
theorem cfg_to_args_version:
  assumes "cfg_to_args C path script_args w = (Inr kwargs, w')" "read_cfg C path = Inr sections"
    and "has_get_option (config_of sections) ''global'' ''setup_hooks'' = None"
  shows "\<exists>name version. map_of (load_section (config_of sections) ''metadata'') ''name'' = Some name
     \<and> get_version (ce_git C) (pkg_message (ce_hooks C)) name
         (map_of (load_section (config_of sections) ''metadata'') ''version'') = Inr version
     \<and> map_of kwargs ''version'' = Some (KStr version) \<and> version \<noteq> []
     \<and> map_of kwargs ''zip_safe'' = Some (KBool False)
     \<and> map_of kwargs ''include_package_data'' = Some (KBool True)"
proof -
  let ?c = "config_of sections"
  let ?dir = "has_get_option ?c ''files'' ''packages_root''"
  have ex: "file_exists (ce_git C) path" using assms(1) by (auto simp: cfg_to_args_def iraise_def split: if_splits)
  let ?w = "w\<lparr>st_config := ?c\<rparr>"
  have "\<exists>w1 w2. st_config w1 = ?c \<and> cfg_to_args_body C None script_args w1 = (Inr kwargs, w2)"
  proof (cases "truthy ?dir")
    case True
    let ?w1 = "?w\<lparr>st_path := abs_path C (the ?dir) # st_path w\<rparr>"
    have "st_config ?w1 = ?c" by simp
    moreover have "\<exists>w2. cfg_to_args_body C None script_args ?w1 = (Inr kwargs, w2)"
      using assms True ex
      by (auto simp: cfg_to_args_def Let_def ibind_def ilift_def on_config_def the_config_def insert_path_def
          ifinally_def split: prod.splits sum.splits)
    ultimately show ?thesis by blast
  next
    case False
    have "st_config ?w = ?c" by simp
    moreover have "cfg_to_args_body C None script_args ?w = (Inr kwargs, w')"
      using assms False ex by (auto simp: cfg_to_args_def Let_def ibind_def ilift_def on_config_def the_config_def)
    ultimately show ?thesis by blast
  qed
  then obtain w1 w2 where body: "st_config w1 = ?c" "cfg_to_args_body C None script_args w1 = (Inr kwargs, w2)" by blast
  from body(2) obtain config1 kw config2 where run: "setup_hook (ce_hooks C) ?c = Inr config1"
    "setup_cfg_to_setup_kwargs (he_util (ce_hooks C)) config1 script_args = Inr (kw, config2)"
    "\<And>k. k \<notin> set [''ext_modules'', ''entry_points''] \<Longrightarrow> map_of kwargs k =
       map_of (dict_set ''zip_safe'' (KBool False) (dict_set ''include_package_data'' (KBool True) kw)) k"
    unfolding body(1) [symmetric] by (rule body_kwargs) blast
  from hook_version [OF run(1)] obtain name version where v: "map_of (load_section ?c ''metadata'') ''name'' = Some name"
    "get_version (ce_git C) (pkg_message (ce_hooks C)) name (map_of (load_section ?c ''metadata'') ''version'') = Inr version"
    "map_of (load_section config1 ''metadata'') ''version'' = Some version" "version \<noteq> []" by blast
  have "(''version'', [''metadata'']) \<in> set d1_d2_setup_args" "''version'' \<notin> set multi_fields"
    "''version'' \<notin> set map_fields" "''version'' \<notin> set bool_fields" by code_simp+
  from kwargs_string [OF run(2) this(1) _ v(3,4) this(2-4)] have "map_of kw ''version'' = Some (KStr version)"
    by (simp add: section_option_def)
  with v run(3) [of "''version''"] run(3) [of "''zip_safe''"] run(3) [of "''include_package_data''"]
  show ?thesis by simp
qed

section \<open>Witnesses\<close>

definition demo_cfg :: "string cfg_env" where
  "demo_cfg = \<lparr>ce_hooks = demo_hooks\<lparr>he_util := demo_util\<lparr>
         ue_git := demo_checkout\<lparr>file_exists := \<lambda>f. f = ''/p/setup.cfg''\<rparr>,
         import_module := \<lambda>ps from_name. Inr (join ''.'' ps)\<rparr>\<rparr>,
     read_cfg = \<lambda>p. Inr [(''metadata'', [(''name'', ''p'')]), (''files'', [(''packages-root'', ''src'')])],
     abs_path = \<lambda>p. ''/p/'' @ p, error_text = \<lambda>e. [], call_hook = \<lambda>h. iret ()\<rparr>"

definition demo_state :: setup_state where
  "demo_state = \<lparr>st_config = [], st_path = [''/usr/lib''], st_extra_files = [], st_compilers = [], st_modules = []\<rparr>"

theorem cfg_to_args_path_witness:
  "st_path (snd (cfg_to_args demo_cfg ''/p/setup.cfg'' [] demo_state)) = [''/usr/lib'']"
proof -
  have "path_neutral demo_cfg" by (auto simp: path_neutral_def demo_cfg_def)
  from cfg_to_args_path [OF this] show ?thesis by (simp add: demo_state_def)
qed

theorem cfg_to_args_version_witness:
  "\<exists>kwargs w'. cfg_to_args demo_cfg ''/p/setup.cfg'' [] demo_state = (Inr kwargs, w')
     \<and> map_of kwargs ''version'' = Some (KStr ''1.3.0.dev1'')"
proof -
  let ?C = "demo_cfg" and ?sections = "[(''metadata'', [(''name'', ''p'')]), (''files'', [(''packages-root'', ''src'')])]"
  have "(case cfg_to_args demo_cfg ''/p/setup.cfg'' [] demo_state of (Inl _, _) \<Rightarrow> False | (Inr _, _) \<Rightarrow> True)"
    by code_simp
  then obtain kwargs w' where run: "cfg_to_args demo_cfg ''/p/setup.cfg'' [] demo_state = (Inr kwargs, w')"
    by (auto split: prod.splits sum.splits)
  have read: "read_cfg ?C ''/p/setup.cfg'' = Inr ?sections" by (simp add: demo_cfg_def)
  have no: "has_get_option (config_of ?sections) ''global'' ''setup_hooks'' = None" by code_simp
  have "map_of (load_section (config_of ?sections) ''metadata'') ''name'' = Some ''p''"
    "map_of (load_section (config_of ?sections) ''metadata'') ''version'' = None"
    "get_version (ce_git ?C) (pkg_message (ce_hooks ?C)) ''p'' None = Inr ''1.3.0.dev1''" by code_simp+
  with cfg_to_args_version [OF run read no] run show ?thesis by auto
qed

definition demo_dist :: "string dist_env" where
  "demo_dist = \<lparr>metadata_attr = \<lambda>k. k = ''version'', dist_attr = \<lambda>k. k = ''packages'', finalize_options = \<lambda>_. Inr ()\<rparr>"


end
