(* ===== verification/Pbr_Commands.thy ===== *)
theory Pbr_Commands
  imports Pbr_Hooks
begin

text \<open>
  \<^verbatim>\<open>pbr/packaging.py\<close>, the distutils commands, and \<^verbatim>\<open>pbr/pbr_json.py\<close>: the scripts generated for
  entry points, the commands that install them, the manifest, the files written from the git log
  and the version commands.  What a command does is the list of its effects; the methods of its
  base class, \<^verbatim>\<open>setuptools\<close> and \<^verbatim>\<open>reno\<close> are effects or parameters.
\<close>

section \<open>Scripts\<close>

text \<open>\<^verbatim>\<open>template % values\<close>: the conversions \<^verbatim>\<open>%(name)s\<close> and \<^verbatim>\<open>%(name)r\<close> of unicode strings, and \<^verbatim>\<open>%%\<close>.\<close>

abbreviation (input) percent :: char where "percent \<equiv> CHR 0x25"

definition repr_unicode :: "string \<Rightarrow> string" where
  "repr_unicode v = ''u'' @ [CHR 0x27] @ v @ [CHR 0x27]"

definition convert :: "(string \<times> string) list \<Rightarrow> string \<Rightarrow> char \<Rightarrow> string res" where
  "convert d name k = (case map_of d name of
       None \<Rightarrow> Inl (KeyError name)
     | Some v \<Rightarrow> if k = CHR ''s'' then Inr v else if k = CHR ''r'' then Inr (repr_unicode v)
                 else Inl (ValueError ''unsupported format character''))"

function percent_format :: "(string \<times> string) list \<Rightarrow> string \<Rightarrow> string res" where
  "percent_format d [] = Inr []"
| "percent_format d (c # s) =
     (if c \<noteq> percent then rbind (percent_format d s) (\<lambda>r. Inr (c # r))
      else if startswith s [percent] then rbind (percent_format d (tl s)) (\<lambda>r. Inr (percent # r))
      else (let rest = dropWhile (\<lambda>x. x \<noteq> CHR '')'') s
            in if startswith s ''('' \<and> 2 \<le> length rest
               then rbind (convert d (takeWhile (\<lambda>x. x \<noteq> CHR '')'') (tl s)) (rest ! 1)) (\<lambda>x.
                    rbind (percent_format d (drop 2 rest)) (\<lambda>r. Inr (x @ r)))
               else Inl (ValueError ''incomplete format'')))"
  by pat_completeness auto
termination
proof (relation "measure (length o snd)", goal_cases)
  case (4 d c s rest)
  then show ?case using length_dropWhile_le [of "\<lambda>x. x \<noteq> CHR '')''" s] by simp
qed auto

definition script_text :: string where
  "script_text = join [CHR 0x0A]
    [''# PBR Generated from %(group)r'',
     [],
     ''import sys'',
     [],
     ''from %(module_name)s import %(import_target)s'',
     [],
     [],
     ''if __name__ == '' @ [CHR 0x22] @ ''__main__'' @ [CHR 0x22] @ '':'',
     ''    sys.exit(%(invoke_target)s())'',
     []]"

definition wsgi_text :: string where
  "wsgi_text = join [CHR 0x0A]
    [''#PBR Generated from %(group)r'',
     [],
     ''import threading'',
     [],
     ''from %(module_name)s import %(import_target)s'',
     [],
     ''if __name__ == '' @ [CHR 0x22] @ ''__main__'' @ [CHR 0x22] @ '':'',
     ''    import argparse'',
     ''    import socket'',
     ''    import sys'',
     ''    import wsgiref.simple_server as wss'',
     [],
     ''    parser = argparse.ArgumentParser('',
     ''        description=%(import_target)s.__doc__,'',
     ''        formatter_class=argparse.ArgumentDefaultsHelpFormatter,'',
     ''        usage='' @ [CHR 0x27] @ ''%%(prog)s [-h] [--port PORT] [--host IP] -- [passed options]'' @ [CHR 0x27] @ '')'',
     ''    parser.add_argument('' @ [CHR 0x27] @ ''--port'' @ [CHR 0x27] @ '', '' @ [CHR 0x27] @ ''-p'' @ [CHR 0x27] @ '', type=int, default=8000,'',
     ''                        help='' @ [CHR 0x27] @ ''TCP port to listen on'' @ [CHR 0x27] @ '')'',
     ''    parser.add_argument('' @ [CHR 0x27] @ ''--host'' @ [CHR 0x27] @ '', '' @ [CHR 0x27] @ ''-b'' @ [CHR 0x27] @ '', default='' @ [CHR 0x27] @ [CHR 0x27] @ '','',
     ''                        help='' @ [CHR 0x27] @ ''IP to bind the server to'' @ [CHR 0x27] @ '')'',
     ''    parser.add_argument('' @ [CHR 0x27] @ ''args'' @ [CHR 0x27] @ '','',
     ''                        nargs=argparse.REMAINDER,'',
     ''                        metavar='' @ [CHR 0x27] @ ''-- [passed options]'' @ [CHR 0x27] @ '','',
     ''                        help='' @ [CHR 0x22] @ [CHR 0x27] @ ''--'' @ [CHR 0x27] @ '' is the separator of the arguments used '' @ [CHR 0x22],
     ''                        '' @ [CHR 0x22] @ ''to start the WSGI server and the arguments passed '' @ [CHR 0x22],
     ''                        '' @ [CHR 0x22] @ ''to the WSGI application.'' @ [CHR 0x22] @ '')'',
     ''    args = parser.parse_args()'',
     ''    if args.args:'',
     ''        if args.args[0] == '' @ [CHR 0x27] @ ''--'' @ [CHR 0x27] @ '':'',
     ''            args.args.pop(0)'',
     ''        else:'',
     ''            parser.error('' @ [CHR 0x22] @ ''unrecognized arguments: %%s'' @ [CHR 0x22] @ '' %% '' @ [CHR 0x27] @ '' '' @ [CHR 0x27] @ ''.join(args.args))'',
     ''    sys.argv[1:] = args.args'',
     ''    server = wss.make_server(args.host, args.port, %(invoke_target)s())'',
     [],
     ''    print('' @ [CHR 0x22] @ ''*'' @ [CHR 0x22] @ '' * 80)'',
     ''    print('' @ [CHR 0x22] @ ''STARTING test server %(module_name)s.%(invoke_target)s'' @ [CHR 0x22] @ '')'',
     ''    url = '' @ [CHR 0x22] @ ''http://%%s:%%d/'' @ [CHR 0x22] @ '' %% (server.server_name, server.server_port)'',
     ''    print('' @ [CHR 0x22] @ ''Available at %%s'' @ [CHR 0x22] @ '' %% url)'',
     ''    print('' @ [CHR 0x22] @ ''DANGER! For testing only, do not use in production'' @ [CHR 0x22] @ '')'',
     ''    print('' @ [CHR 0x22] @ ''*'' @ [CHR 0x22] @ '' * 80)'',
     ''    sys.stdout.flush()'',
     [],
     ''    server.serve_forever()'',
     ''else:'',
     ''    application = None'',
     ''    app_lock = threading.Lock()'',
     [],
     ''    with app_lock:'',
     ''        if application is None:'',
     ''            application = %(invoke_target)s()'',
     [],
     []]"

definition entry_points_map :: "(string \<times> string) list" where
  "entry_points_map =
    [(''console_scripts'', script_text), (''gui_scripts'', script_text), (''wsgi_scripts'', wsgi_text)]"

record target =
  tg_module :: string
  tg_attrs :: "string list"

definition generate_script :: "string \<Rightarrow> target \<Rightarrow> string \<Rightarrow> string \<Rightarrow> string res" where
  "generate_script grp entry_point header template =
     (case tg_attrs entry_point of
        [] \<Rightarrow> Inl (ValueError ''Script targets must be of the form 'func' or 'Class.class_method'.'')
      | import_target # others \<Rightarrow>
          if 2 < length (tg_attrs entry_point)
          then Inl (ValueError ''Script targets must be of the form 'func' or 'Class.class_method'.'')
          else rbind (percent_format
                 [(''group'', grp), (''module_name'', tg_module entry_point),
                  (''import_target'', import_target), (''invoke_target'', join ''.'' (tg_attrs entry_point))]
                 template) (\<lambda>script_text. Inr (header @ script_text)))"

section \<open>Effects of commands\<close>

datatype command_event =
    Base string
  | RunCommand string
  | WriteScript string string
  | WriteFile string string
  | Git file_event
  | Printed string
  | ListAppend "string list"
  | ListSort
  | TemplateLine string
  | IncludePattern string string
  | RunManifest string

type_synonym 'a command = "(command_event, 'a) io"

text \<open>
  \<open>script_header\<close> is \<^verbatim>\<open>easy_install.get_script_header\<close>, \<open>entry_map\<close> the entry points of a group, \<open>have_run\<close>
  the commands that have run, \<open>no_ep\<close> and the others attributes of the command.
\<close>

record command_env =
  cm_git :: git_env
  cm_options :: option_dict
  script_header :: string
  entry_map :: "string \<Rightarrow> (string \<times> target) list"
  dist_scripts :: bool
  have_run :: "string list"
  no_ep :: bool
  exclude_scripts :: bool
  egg_info_dir :: string
  sys_argv :: "string list"
  extra_files :: "string list"

text \<open>Effects on the files, seen as effects of a command.\<close>

definition embed :: "'a files \<Rightarrow> 'a command" where
  "embed m = (\<lambda>t. case m [] of (r, evs) \<Rightarrow> (r, t @ map Git evs))"

definition write_scripts :: "command_env \<Rightarrow> string \<Rightarrow> string \<Rightarrow> unit command" where
  "write_scripts E grp template =
     ifor (entry_map E grp) (\<lambda>(name, ep).
       ibind (ilift (generate_script grp ep (script_header E) template)) (\<lambda>content.
         emit (WriteScript name content)))"

text \<open>Writing everything that the generator \<^verbatim>\<open>override_get_script_args\<close> yields.\<close>

definition override_get_script_args :: "command_env \<Rightarrow> unit command" where
  "override_get_script_args E = ifor entry_points_map (\<lambda>(grp, template). write_scripts E grp template)"

definition install_wrapper_scripts :: "command_env \<Rightarrow> unit command" where
  "install_wrapper_scripts E = (if exclude_scripts E then iret () else override_get_script_args E)"

definition make_wsgi_scripts_only :: "command_env \<Rightarrow> unit command" where
  "make_wsgi_scripts_only E = write_scripts E ''wsgi_scripts'' wsgi_text"

definition install_scripts_run :: "command_env \<Rightarrow> unit command" where
  "install_scripts_run E =
     ibind (emit (RunCommand ''egg_info'')) (\<lambda>_.
     ibind (if dist_scripts E then emit (Base ''install_scripts.run'') else iret ()) (\<lambda>_.
     ibind (if ''bdist_wheel'' \<in> set (have_run E) then make_wsgi_scripts_only E else iret ()) (\<lambda>_.
     if no_ep E then iret () else override_get_script_args E)))"

section \<open>Files from git\<close>

definition from_git :: "command_env \<Rightarrow> unit command" where
  "from_git E =
     ibind (ilift (iter_log_oneline (cm_git E) None)) (\<lambda>log.
     ibind (embed (write_git_changelog (cm_git E) None ''.'' (cm_options E)
              (map_option (iter_changelog (cm_git E)) log))) (\<lambda>_.
     embed (generate_authors (cm_git E) None ''.'' (cm_options E))))"

definition install_with_git_run :: "command_env \<Rightarrow> unit command" where
  "install_with_git_run E = ibind (from_git E) (\<lambda>_. emit (Base ''install.run''))"

definition local_install_run :: "command_env \<Rightarrow> unit command" where
  "local_install_run E = ibind (from_git E) (\<lambda>_. emit (Base ''du_install.install.run''))"

section \<open>sdist and release notes\<close>

text \<open>
  The attributes \<^verbatim>\<open>_has_reno\<close> (\<open>None\<close>: not set) and \<^verbatim>\<open>_files\<close>.  \<open>load_config\<close> is the import of \<^verbatim>\<open>reno\<close>
  (\<open>None\<close>: \<^verbatim>\<open>ImportError\<close>) and its \<^verbatim>\<open>load_config\<close>: the directory of the notes and the two files.
\<close>

record sdist =
  has_reno :: "bool option"
  reno_files :: "string list"

definition checking_reno ::
    "command_env \<Rightarrow> (string \<times> string \<times> string) option \<Rightarrow> sdist \<Rightarrow> bool \<times> sdist" where
  "checking_reno E load_config s =
     (case has_reno s of
        Some b \<Rightarrow> (b, s)
      | None \<Rightarrow>
          if get_boolean_option (cm_git E) (cm_options E) ''skip_reno'' ''SKIP_GENERATE_RENO''
          then (False, s\<lparr>has_reno := Some False\<rparr>)
          else (case load_config of
                  None \<Rightarrow> (False, s\<lparr>has_reno := Some False\<rparr>)
                | Some (notes, output_file, cache_file) \<Rightarrow>
                    if \<not> file_exists (cm_git E) notes then (False, s\<lparr>has_reno := Some False\<rparr>)
                    else (True, s\<lparr>reno_files := [output_file, cache_file], has_reno := Some True\<rparr>)))"

definition sdist_run :: "command_env \<Rightarrow> unit command" where
  "sdist_run E = ibind (from_git E) (\<lambda>_. emit (Base ''sdist.run''))"

definition make_distribution ::
    "command_env \<Rightarrow> (string \<times> string \<times> string) option \<Rightarrow> sdist \<Rightarrow> sdist command" where
  "make_distribution E load_config s =
     (case checking_reno E load_config s of (b, s') \<Rightarrow>
        ibind (if b then ibind (emit (ListAppend (reno_files s'))) (\<lambda>_. emit ListSort) else iret ()) (\<lambda>_.
        ibind (emit (Base ''sdist.make_distribution'')) (\<lambda>_. iret s')))"

section \<open>The manifest\<close>

definition add_pbr_defaults :: "unit command" where
  "add_pbr_defaults = ifor
     [''include AUTHORS'', ''include ChangeLog'', ''exclude .gitignore'', ''exclude .gitreview'',
      ''global-exclude *.pyc''] (\<lambda>line. emit (TemplateLine line))"

definition add_defaults :: "command_env \<Rightarrow> string \<Rightarrow> string \<Rightarrow> unit command" where
  "add_defaults E template manifest =
     ibind (emit (Base ''sdist.add_defaults'')) (\<lambda>_.
     ibind (emit (ListAppend [template])) (\<lambda>_.
     ibind (emit (ListAppend [manifest])) (\<lambda>_.
     ibind (emit (ListAppend (extra_files E))) (\<lambda>_.
     ibind (if \<not> get_boolean_option (cm_git E) (cm_options E) ''skip_git_sdist'' ''SKIP_GIT_SDIST''
            then ibind (ilift (find_git_files (cm_git E) None)) (\<lambda>rcfiles.
                   if rcfiles \<noteq> [] then emit (ListAppend rcfiles) else iret ())
            else if file_exists (cm_git E) manifest then emit (Base ''read_manifest'')
            else iret ()) (\<lambda>_.
     ibind add_pbr_defaults (\<lambda>_.
     emit (IncludePattern ''*'' (egg_info_dir E))))))))"

definition find_sources :: "command_env \<Rightarrow> unit command" where
  "find_sources E =
     (let manifest_filename = in_dir (egg_info_dir E) ''SOURCES.txt''
      in if \<not> file_exists (cm_git E) manifest_filename \<or> file_exists (cm_git E) ''.git''
            \<or> ''sdist'' \<in> set (sys_argv E)
         then emit (RunManifest manifest_filename)
         else ibind (ilift (file_read (cm_git E) manifest_filename)) (\<lambda>s.
           ifor (split_on CHR 0x0A s) (\<lambda>entry. emit (ListAppend [entry]))))"

section \<open>Versions\<close>

text \<open>\<open>provider\<close> is the version an installed distribution has, \<open>message\<close> reads metadata files.\<close>

definition project_version ::
    "command_env \<Rightarrow> (string \<Rightarrow> string option) \<Rightarrow> (string \<Rightarrow> (string \<times> string) list option) \<Rightarrow> string \<Rightarrow> semver res" where
  "project_version E provider message name =
     rbind (vi_semantic_version provider (\<lambda>p. get_version (cm_git E) message p None) (VersionInfo name)) (\<lambda>(v, vi). Inr v)"

definition rpm_version_run ::
    "command_env \<Rightarrow> (string \<Rightarrow> string option) \<Rightarrow> (string \<Rightarrow> (string \<times> string) list option) \<Rightarrow> string \<Rightarrow> unit command" where
  "rpm_version_run E provider message name =
     ibind (ilift (project_version E provider message name)) (\<lambda>v. emit (Printed (semver_rpm_string v)))"

definition deb_version_run ::
    "command_env \<Rightarrow> (string \<Rightarrow> string option) \<Rightarrow> (string \<Rightarrow> (string \<times> string) list option) \<Rightarrow> string \<Rightarrow> unit command" where
  "deb_version_run E provider message name =
     ibind (ilift (project_version E provider message name)) (\<lambda>v. emit (Printed (semver_debian_string v)))"

text \<open>\<^verbatim>\<open>json.dumps\<close> of the two values, with sorted keys; a hash has nothing to escape.\<close>

definition pbr_json_text :: "string \<Rightarrow> bool \<Rightarrow> string" where
  "pbr_json_text git_version is_release =
     ''{'' @ [CHR 0x22] @ ''git_version'' @ [CHR 0x22] @ '': '' @ [CHR 0x22] @ git_version @ [CHR 0x22] @ '', ''
       @ [CHR 0x22] @ ''is_release'' @ [CHR 0x22] @ '': '' @ (if is_release then ''true'' else ''false'') @ ''}''"

definition write_pbr_json :: "command_env \<Rightarrow> bool \<Rightarrow> string \<Rightarrow> unit command" where
  "write_pbr_json E uses_pbr filename =
     (if \<not> uses_pbr then iret ()
      else ibind (ilift (run_git_functions (cm_git E))) (\<lambda>git_dir. case git_dir of
          None \<Rightarrow> iret ()
        | Some d \<Rightarrow>
            ibind (ilift (get_git_short_sha (cm_git E) (Some d))) (\<lambda>git_version.
            ibind (ilift (get_is_release (cm_git E) d)) (\<lambda>is_release.
            (case git_version of
               None \<Rightarrow> iret ()
             | Some v \<Rightarrow> emit (WriteFile filename (pbr_json_text v is_release)))))))"

section \<open>The generated scripts\<close>

definition console_script :: "string \<Rightarrow> string \<Rightarrow> string \<Rightarrow> string \<Rightarrow> string" where
  "console_script grp module_name import_target invoke_target = join [CHR 0x0A]
     [''# PBR Generated from u'' @ [CHR 0x27] @ grp @ [CHR 0x27],
      [], ''import sys'', [],
      ''from '' @ module_name @ '' import '' @ import_target,
      [], [],
      ''if __name__ == '' @ [CHR 0x22] @ ''__main__'' @ [CHR 0x22] @ '':'',
      ''    sys.exit('' @ invoke_target @ ''())'',
      []]"

lemma generate_script_text:
  "generate_script grp ep header script_text =
     (if tg_attrs ep = [] \<or> 2 < length (tg_attrs ep)
      then Inl (ValueError ''Script targets must be of the form 'func' or 'Class.class_method'.'')
      else Inr (header @ console_script grp (tg_module ep) (hd (tg_attrs ep)) (join ''.'' (tg_attrs ep))))"
  by (cases "tg_attrs ep")
     (simp_all add: generate_script_def script_text_def convert_def repr_unicode_def console_script_def Let_def)

theorem generate_script_console:
  "generate_script grp ep header script_text =
     (if tg_attrs ep = [] \<or> 2 < length (tg_attrs ep)
      then Inl (ValueError ''Script targets must be of the form 'func' or 'Class.class_method'.'')
      else Inr (header @ console_script grp (tg_module ep) (hd (tg_attrs ep)) (join ''.'' (tg_attrs ep))))"
  by (rule generate_script_text)

section \<open>The installed scripts\<close>

fun scripts_of :: "command_event list \<Rightarrow> string list" where
  "scripts_of [] = []"
| "scripts_of (e # t) = (case e of WriteScript name content \<Rightarrow> [name] | _ \<Rightarrow> []) @ scripts_of t"

lemma scripts_of_append [simp]: "scripts_of (s @ t) = scripts_of s @ scripts_of t"
  by (induction s) auto

lemma ibind_returns_unit:
  assumes "ibind m k w = (Inr y, w')"
  obtains x w1 where "m w = (Inr x, w1)" "k x w1 = (Inr y, w')"
  using assms by (auto simp: ibind_def split: prod.splits sum.splits)

lemma ifor_scripts:
  assumes "\<And>x t t'. f x t = (Inr (), t') \<Longrightarrow> scripts_of t' = scripts_of t @ g x"
    and "ifor xs f t = (Inr (), t')"
  shows "scripts_of t' = scripts_of t @ concat (map g xs)"
  using assms(2)
proof (induction xs arbitrary: t)
  case (Cons x xs)
  then obtain t1 where "f x t = (Inr (), t1)" "ifor xs f t1 = (Inr (), t')"
    by (auto elim: ibind_returns_unit)
  with Cons.IH [of t1] assms(1) [of x t t1] show ?case by simp
qed (simp add: iret_def)

lemma write_scripts_names:
  assumes "write_scripts E grp template t = (Inr (), t')"
  shows "scripts_of t' = scripts_of t @ map fst (entry_map E grp)"
proof -
  have "scripts_of t' = scripts_of t @ concat (map (\<lambda>p. [fst p]) (entry_map E grp))"
    using assms unfolding write_scripts_def
    by (rule ifor_scripts [rotated]) (auto simp: ilift_def emit_def split: prod.splits elim!: ibind_returns_unit)
  then show ?thesis by (simp add: concat_map_singleton)
qed

lemma override_names:
  assumes "override_get_script_args E t = (Inr (), t')"
  shows "scripts_of t' = scripts_of t @ concat (map (\<lambda>g. map fst (entry_map E g)) [''console_scripts'', ''gui_scripts'', ''wsgi_scripts''])"
  using assms unfolding override_get_script_args_def
  by (rule ifor_scripts [rotated, where g = "\<lambda>p. map fst (entry_map E (fst p))", THEN trans])
     (auto simp: entry_points_map_def dest: write_scripts_names)

theorem install_scripts_written:
  assumes "install_scripts_run E t = (Inr (), t')"
  shows "scripts_of t' = scripts_of t
     @ (if ''bdist_wheel'' \<in> set (have_run E) then map fst (entry_map E ''wsgi_scripts'') else [])
     @ (if no_ep E then [] else concat (map (\<lambda>g. map fst (entry_map E g))
          [''console_scripts'', ''gui_scripts'', ''wsgi_scripts'']))"
proof -
  from assms obtain a t1 b t2 c t3 where r: "emit (RunCommand ''egg_info'') t = (Inr a, t1)"
    "(if dist_scripts E then emit (Base ''install_scripts.run'') else iret ()) t1 = (Inr b, t2)"
    "(if ''bdist_wheel'' \<in> set (have_run E) then make_wsgi_scripts_only E else iret ()) t2 = (Inr c, t3)"
    "(if no_ep E then iret () else override_get_script_args E) t3 = (Inr (), t')"
    unfolding install_scripts_run_def by (elim ibind_returns_unit)
  have "scripts_of t2 = scripts_of t" using r(1,2) by (auto simp: emit_def iret_def split: if_splits)
  moreover have "scripts_of t3 = scripts_of t2 @ (if ''bdist_wheel'' \<in> set (have_run E) then map fst (entry_map E ''wsgi_scripts'') else [])"
    using r(3) write_scripts_names by (auto simp: make_wsgi_scripts_only_def iret_def split: if_splits)
  moreover have "scripts_of t' = scripts_of t3 @ (if no_ep E then [] else concat (map (\<lambda>g. map fst (entry_map E g))
          [''console_scripts'', ''gui_scripts'', ''wsgi_scripts'']))"
    using r(4) override_names [of E t3 t'] by (auto simp: iret_def split: if_splits)
  ultimately show ?thesis by simp
qed

section \<open>Release notes\<close>

text \<open>The answer is computed once, whatever changes afterwards.\<close>

lemma checking_reno_once:
  "checking_reno E conf s = (b, s') \<Longrightarrow> checking_reno E' conf' s' = (b, s')"
  by (auto simp: checking_reno_def split: option.splits if_splits prod.splits)

section \<open>Versions of a checkout\<close>


section \<open>Witnesses\<close>

definition demo_command :: command_env where
  "demo_command = \<lparr>cm_git = demo_checkout, cm_options = [], script_header = ''#!python'' @ [CHR 0x0A],
     entry_map = \<lambda>g. if g = ''console_scripts'' then [(''tool'', \<lparr>tg_module = ''pkg.cli'', tg_attrs = [''main'']\<rparr>)] else [],
     dist_scripts = False, have_run = [''bdist_wheel''], no_ep = False, exclude_scripts = False,
     egg_info_dir = ''p.egg-info'', sys_argv = [], extra_files = []\<rparr>"

theorem install_scripts_written_witness:
  "\<exists>t'. install_scripts_run demo_command [] = (Inr (), t') \<and> scripts_of t' = [''tool'']"
proof -
  obtain t' where run: "install_scripts_run demo_command [] = (Inr (), t')"
    by (simp add: install_scripts_run_def make_wsgi_scripts_only_def override_get_script_args_def entry_points_map_def
        write_scripts_def generate_script_text demo_command_def ibind_def iret_def ilift_def emit_def)
  from install_scripts_written [OF run] run show ?thesis by (simp add: demo_command_def)
qed


end
