(* ===== verification/Pbr_Cmd.thy ===== *)
theory Pbr_Cmd
  imports Pbr_Commands "HOL-Library.Multiset"
begin

text \<open>
  The command line of pbr (\<^verbatim>\<open>pbr/cmd/main.py\<close>): the version and the commit of installed packages.
  The lines printed are the effects.
\<close>

section \<open>The installed packages\<close>

text \<open>
  \<open>get_distribution\<close> is the version of a distribution, \<open>Inr None\<close> the exception
  \<^verbatim>\<open>DistributionNotFound\<close> and \<open>Inl\<close> any other; \<open>dist_json\<close> is \<^verbatim>\<open>json.loads\<close> of its \<^verbatim>\<open>pbr.json\<close>, \<open>working_set\<close> the project
  names of the working set.
\<close>

record installed =
  get_distribution :: "string \<Rightarrow> string option res"
  dist_json :: "string \<Rightarrow> pyval res"
  working_set :: "string list"

type_synonym 'a console = "(string, 'a) io"

text \<open>The truth of a value.\<close>

definition py_truth :: "pyval \<Rightarrow> bool" where
  "py_truth v = (case v of
       PNone \<Rightarrow> False
     | PBool b \<Rightarrow> b
     | PInt i \<Rightarrow> i \<noteq> 0
     | PFloat s \<Rightarrow> s \<noteq> ''0.0'' \<and> s \<noteq> ''-0.0''
     | PStr s \<Rightarrow> s \<noteq> []
     | PList vs \<Rightarrow> vs \<noteq> []
     | PDict d \<Rightarrow> d \<noteq> [])"

section \<open>Information on a package\<close>

definition get_metadata :: "installed \<Rightarrow> string \<Rightarrow> pyval res" where
  "get_metadata I package_name =
     (case rbind (get_distribution I package_name) (\<lambda>d. case d of
             None \<Rightarrow> Inr None
           | Some _ \<Rightarrow> rbind (dist_json I package_name) (\<lambda>j. Inr (Some j))) of
        Inl e \<Rightarrow> if is_Exception e then Inr PNone else Inl e
      | Inr None \<Rightarrow> Inl (PyException (''Package '' @ package_name @ '' not installed''))
      | Inr (Some j) \<Rightarrow> Inr j)"

definition distribution_version :: "installed \<Rightarrow> string \<Rightarrow> string res" where
  "distribution_version I name =
     rbind (get_distribution I name) (\<lambda>d. case d of
         None \<Rightarrow> Inl (PyException (''The '' @ name @ '' distribution was not found''))
       | Some v \<Rightarrow> Inr v)"

record info =
  info_name :: string
  info_version :: string
  info_sha :: pyval
  info_released :: string

definition info_of_version :: "string \<Rightarrow> string \<Rightarrow> info" where
  "info_of_version name version =
     (let version_parts = split_on CHR ''.'' version
      in if startswith (last version_parts) ''g''
         then \<lparr>info_name = name, info_version = version, info_sha = PStr (tl (last version_parts)),
               info_released = ''pre-release''\<rparr>
         else \<lparr>info_name = name, info_version = version, info_sha = PStr [],
               info_released = (if list_all str_isdigit version_parts then ''released'' else ''pre-release'')\<rparr>)"

definition get_info_of :: "installed \<Rightarrow> string \<Rightarrow> info res" where
  "get_info_of I name =
     rbind (get_metadata I name) (\<lambda>metadata.
     rbind (distribution_version I name) (\<lambda>version.
       if py_truth metadata
       then rbind (getitem metadata ''is_release'') (\<lambda>is_release.
            rbind (getitem metadata ''git_version'') (\<lambda>sha.
              Inr \<lparr>info_name = name, info_version = version, info_sha = sha,
                   info_released = (if py_truth is_release then ''released'' else ''pre-release'')\<rparr>))
       else Inr (info_of_version name version)))"

section \<open>The commands\<close>

definition get_sha :: "installed \<Rightarrow> string \<Rightarrow> unit console" where
  "get_sha I name = ibind (ilift (get_info_of I name)) (\<lambda>i.
     if py_truth (info_sha i) then emit (py_str (info_sha i)) else iret ())"

definition get_info :: "installed \<Rightarrow> string \<Rightarrow> unit console" where
  "get_info I name = ibind (ilift (get_info_of I name)) (\<lambda>i.
     emit (info_name i @ [CHR 0x09] @ info_version i @ [CHR 0x09] @ info_released i @ [CHR 0x09] @ py_str (info_sha i)))"

definition freeze_line :: "info \<Rightarrow> string" where
  "freeze_line i = info_name i @ ''=='' @ info_version i
     @ (if py_truth (info_sha i) then ''  # git sha '' @ py_str (info_sha i) else [])"

definition freeze :: "installed \<Rightarrow> unit console" where
  "freeze I = ifor (sort_key lower (working_set I)) (\<lambda>name.
     ibind (ilift (get_info_of I name)) (\<lambda>i. emit (freeze_line i)))"

datatype subcommand = Sha string | Info string | Freeze

definition call_func :: "installed \<Rightarrow> subcommand \<Rightarrow> unit console" where
  "call_func I args = (case args of Sha n \<Rightarrow> get_sha I n | Info n \<Rightarrow> get_info I n | Freeze \<Rightarrow> freeze I)"

text \<open>
  \<open>pbr_version\<close> is \<^verbatim>\<open>str(VersionInfo('pbr'))\<close>, \<open>parsed\<close> what \<^verbatim>\<open>argparse\<close> makes of the command line (it leaves
  with \<^verbatim>\<open>SystemExit\<close> on a wrong one), \<open>text_of\<close> the text of an exception.
\<close>

definition pbr_main :: "installed \<Rightarrow> string res \<Rightarrow> subcommand res \<Rightarrow> (exn \<Rightarrow> string) \<Rightarrow> unit console" where
  "pbr_main I pbr_version parsed text_of =
     ibind (ilift pbr_version) (\<lambda>_.
     ibind (ilift parsed) (\<lambda>args.
     icatch (call_func I args) is_Exception (\<lambda>e. emit (text_of e))))"

section \<open>What is reported\<close>

lemma get_metadata_none:
  assumes "get_distribution I name = Inr (Some version)" "dist_json I name = Inl e" "is_Exception e"
  shows "get_metadata I name = Inr PNone"
  using assms by (simp add: get_metadata_def)

lemma nat_str_no_g [simp]: "\<not> startswith (nat_str n) ''g''"
  using hd_nat_str_digit [of n] nat_str_not_Nil [of n] by (cases "nat_str n") (auto simp: is_digit_def)

lemma prerelease_word_not_digits:
  assumes "t \<in> set [''a'', ''b'', ''rc'']"
  shows "\<not> str_isdigit (CHR ''0'' # t @ s)"
proof -
  have "hd t \<in> set (CHR ''0'' # t @ s)" "is_alpha (hd t)" using assms by (auto simp: is_alpha_def)
  then show ?thesis by (rule not_isdigit_alpha)
qed

lemma dev_word_not_digits: "\<not> str_isdigit (''dev'' @ s)"
proof -
  have "CHR ''d'' \<in> set (''dev'' @ s)" "is_alpha CHR ''d''" by (simp_all add: is_alpha_def)
  then show ?thesis by (rule not_isdigit_alpha)
qed

lemma release_segment_digits:
  assumes "semver_wf v"
  shows "list_all str_isdigit (release_segments v) \<longleftrightarrow> sv_prerelease_type v = None \<and> sv_dev_count v = 0"
    and "\<not> startswith (last (release_segments v)) ''g''"
  using assms prerelease_word_not_digits dev_word_not_digits
  by (cases rule: semver_wf_cases; simp add: release_segments_def)+

theorem info_of_release_string:
  assumes "semver_wf v" and "get_distribution I name = Inr (Some (semver_release_string v))"
    and "dist_json I name = Inl e" "is_Exception e"
  shows "get_info_of I name = Inr \<lparr>info_name = name, info_version = semver_release_string v, info_sha = PStr [],
    info_released = (if sv_prerelease_type v = None \<and> sv_dev_count v = 0 then ''released'' else ''pre-release'')\<rparr>"
  using release_segment_digits [OF assms(1)] assms(2) get_metadata_none [OF assms(2-4)]
  by (simp add: get_info_of_def distribution_version_def info_of_version_def split_release_string [OF assms(1)] py_truth_def)

text \<open>What setup wrote is what the commands report, when reading JSON inverts writing it.\<close>


section \<open>Errors and the order of freeze\<close>

theorem pbr_main_errors:
  assumes "pbr_main I (Inr v) parsed text_of t = (Inl e, t')"
  shows "parsed = Inl e \<or> \<not> is_Exception e"
  using assms by (auto simp: pbr_main_def icatch_def split: sum.splits prod.splits if_splits)

lemma freeze_loop:
  assumes "\<And>n. n \<in> set names \<Longrightarrow> get_info_of I n = Inr (i n)"
  shows "ifor names (\<lambda>name. ibind (ilift (get_info_of I name)) (\<lambda>i. emit (freeze_line i))) t
    = (Inr (), t @ map (\<lambda>n. freeze_line (i n)) names)"
  using assms by (induction names arbitrary: t) (simp_all add: ibind_def)

theorem freeze_lists:
  assumes "\<And>n. n \<in> set (working_set I) \<Longrightarrow> get_info_of I n = Inr (i n)"
  shows "\<exists>names. freeze I t = (Inr (), t @ map (\<lambda>n. freeze_line (i n)) names)
     \<and> mset names = mset (working_set I) \<and> sorted (map lower names)"
  using freeze_loop [of "sort_key lower (working_set I)" I i t] assms
  by (intro exI [of _ "sort_key lower (working_set I)"]) (simp add: freeze_def)

definition demo_installed :: "pyval res \<Rightarrow> installed" where
  "demo_installed json = \<lparr>get_distribution = \<lambda>n. Inr (if n = ''p'' then Some ''1.2.3.0rc4.dev5'' else if n = ''Q'' then Some ''2.0'' else None),
     dist_json = \<lambda>n. if n = ''p'' then json else Inl (IOError ''pbr.json''), working_set = [''p'', ''Q'']\<rparr>"

theorem info_of_release_string_witness:
  "\<exists>i. get_info_of (demo_installed (Inl (IOError ''pbr.json''))) ''p'' = Inr i \<and> info_released i = ''pre-release''"
proof -
  let ?v = "SemanticVersion 1 2 3 (Some ''rc'') (Some 4) (Some 5)"
  have "semver_wf ?v" by (simp add: semver_wf_def maxsize_def)
  moreover have "semver_release_string ?v = ''1.2.3.0rc4.dev5''" by code_simp
  ultimately show ?thesis
    using info_of_release_string [of ?v "demo_installed (Inl (IOError ''pbr.json''))" "''p''" "IOError ''pbr.json''"]
    by (simp add: demo_installed_def is_Exception_def)
qed


theorem pbr_main_errors_witness:
  "\<exists>t'. pbr_main (demo_installed (Inl KeyboardInterrupt)) (Inr ''5.3.1'') (Inr (Sha ''p'')) (\<lambda>_. []) [] = (Inl KeyboardInterrupt, t')
     \<and> \<not> is_Exception KeyboardInterrupt"
proof -
  have "pbr_main (demo_installed (Inl KeyboardInterrupt)) (Inr ''5.3.1'') (Inr (Sha ''p'')) (\<lambda>_. []) [] = (Inl KeyboardInterrupt, [])"
    by (simp add: pbr_main_def call_func_def get_sha_def get_info_of_def get_metadata_def demo_installed_def is_Exception_def icatch_def)
  from pbr_main_errors [OF this] this show ?thesis by auto
qed

theorem freeze_lists_witness:
  "\<exists>names. freeze (demo_installed (Inl (IOError ''pbr.json''))) []
     = (Inr (), map (\<lambda>n. freeze_line (info_of_version n (if n = ''p'' then ''1.2.3.0rc4.dev5'' else ''2.0''))) names)
   \<and> mset names = {#''p'', ''Q''#} \<and> sorted (map lower names)"
proof -
  let ?I = "demo_installed (Inl (IOError ''pbr.json''))"
  have "get_info_of ?I n = Inr (info_of_version n (if n = ''p'' then ''1.2.3.0rc4.dev5'' else ''2.0''))"
    if "n \<in> set (working_set ?I)" for n
    using that by (auto simp: demo_installed_def get_info_of_def get_metadata_def is_Exception_def distribution_version_def py_truth_def)
  from freeze_lists [of ?I _ "[]", OF this] show ?thesis by (simp add: demo_installed_def)
qed

end
