(* ===== verification/Pbr_Builddoc.thy ===== *)
theory Pbr_Builddoc
  imports Pbr_Commands
begin

text \<open>
  \<^verbatim>\<open>pbr/builddoc.py\<close>: the command \<^verbatim>\<open>build_sphinx\<close>, which writes an index of the modules and
  runs Sphinx, once or, for old versions of Sphinx, once for each builder.  The command object is
  a record that its methods return updated; Sphinx and the methods of the base class are parameters.
\<close>

section \<open>Shell patterns\<close>

text \<open>
  \<^verbatim>\<open>fnmatch.fnmatch\<close> of the standard library: the pattern is translated (an ill-formed range of characters is an
  error then), and matched against the whole name.
\<close>

datatype pattern = Star | AnyChar | OneOf bool "(char \<times> char) list" | Lit char

fun class_ranges :: "string \<Rightarrow> (char \<times> char) list res" where
  "class_ranges (a # b # c # s) =
     (if b = CHR ''-''
      then (if (of_char c :: nat) < of_char a then Inl (PyException ''bad character range'')
            else rbind (class_ranges s) (\<lambda>r. Inr ((a, c) # r)))
      else rbind (class_ranges (b # c # s)) (\<lambda>r. Inr ((a, a) # r)))"
| "class_ranges (a # s) = rbind (class_ranges s) (\<lambda>r. Inr ((a, a) # r))"
| "class_ranges [] = Inr []"

text \<open>The text of a class, up to its closing bracket, and the rest; a bracket that comes first is a member.\<close>

definition class_text :: "string \<Rightarrow> (bool \<times> string \<times> string) option" where
  "class_text s =
     (let negated = startswith s ''!'';
          body = (if negated then tl s else s);
          first = (if startswith body '']'' then ['']''] else []);
          more_text = takeWhile (\<lambda>c. c \<noteq> CHR '']'') (drop (length first) body);
          rest = drop (length first + length more_text) body
      in if rest = [] then None else Some (negated, concat first @ more_text, tl rest))"

lemma class_text_shorter: "class_text s = Some (n, b, r) \<Longrightarrow> length r < length s"
  by (auto simp: class_text_def Let_def split: if_splits)

function translate :: "string \<Rightarrow> pattern list res" where
  "translate [] = Inr []"
| "translate (c # s) =
     (if c = CHR ''*'' then rbind (translate s) (\<lambda>r. Inr (Star # r))
      else if c = CHR ''?'' then rbind (translate s) (\<lambda>r. Inr (AnyChar # r))
      else if c = CHR ''['' then
        (case class_text s of
           None \<Rightarrow> rbind (translate s) (\<lambda>r. Inr (Lit c # r))
         | Some (negated, body, rest) \<Rightarrow>
             rbind (class_ranges body) (\<lambda>ranges. rbind (translate rest) (\<lambda>r. Inr (OneOf (\<not> negated) ranges # r))))
      else rbind (translate s) (\<lambda>r. Inr (Lit c # r)))"
  by pat_completeness auto
termination
  by (relation "measure length") (auto dest: class_text_shorter)

definition in_ranges :: "(char \<times> char) list \<Rightarrow> char \<Rightarrow> bool" where
  "in_ranges ranges c = list_ex (\<lambda>(a, b). (of_char a :: nat) \<le> of_char c \<and> (of_char c :: nat) \<le> of_char b) ranges"

fun matches :: "pattern list \<Rightarrow> string \<Rightarrow> bool" where
  "matches [] s = (s = [])"
| "matches (Star # p) [] = matches p []"
| "matches (Star # p) (c # s) = (matches p (c # s) \<or> matches (Star # p) s)"
| "matches (AnyChar # p) s = (case s of [] \<Rightarrow> False | c # s' \<Rightarrow> matches p s')"
| "matches (OneOf positive ranges # p) s =
     (case s of [] \<Rightarrow> False | c # s' \<Rightarrow> in_ranges ranges c = positive \<and> matches p s')"
| "matches (Lit a # p) s = (case s of [] \<Rightarrow> False | c # s' \<Rightarrow> c = a \<and> matches p s')"

definition fnmatch :: "string \<Rightarrow> string \<Rightarrow> bool res" where
  "fnmatch name pat = rbind (translate pat) (\<lambda>p. Inr (matches p name))"

section \<open>The command\<close>

text \<open>The attribute \<^verbatim>\<open>builders\<close> (and \<^verbatim>\<open>builder\<close>) is a string or a list.\<close>

datatype builders_value = BText string | BList "string list"

text \<open>\<open>warning_is_error\<close> is \<open>None\<close> where the base class does not define it.\<close>

record build_doc =
  builders :: builders_value
  builder :: builders_value
  sphinx_initialized :: bool
  bd_project :: string
  bd_version :: string
  bd_release :: string
  bd_today :: string
  autodoc_tree_excludes :: "string list"
  warning_is_error :: "bool option"

datatype build_outcome = Built | Markup string | BuildFailed exn

datatype doc_event =
    Warn string
  | WarnDeprecated "string list" "string list"
  | MakeDirs string
  | OpenDoc string
  | WriteDoc string string
  | Apidoc "string list"
  | SphinxApp builders_value "(string \<times> pyval) list"
  | BuildApp
  | Symlink string string
  | DocGit file_event
  | BuildDocRun builders_value

type_synonym 'a docs = "(doc_event, 'a) io"

text \<open>
  \<open>walk\<close> is \<^verbatim>\<open>os.walk\<close> (directory and files), \<open>make_app\<close> and \<open>build\<close> the construction and the run of the
  Sphinx application, \<open>index_link\<close> the two names of the link to the index where it is asked for, and the \<open>base\<close>
  fields are the methods of the base class.
\<close>

record doc_env =
  de_git :: git_env
  de_pbr :: option_dict
  de_sphinx :: option_dict
  de_packages :: "string list"
  de_walk :: "string \<Rightarrow> (string \<times> string list) list"
  apidoc_use_padding :: bool
  de_name :: string
  de_version :: string
  de_sphinx_version :: string
  base_initialize :: "build_doc \<Rightarrow> build_doc"
  base_finalize :: "build_doc \<Rightarrow> build_doc"
  base_run :: "build_doc \<Rightarrow> unit res"
  make_app :: "build_doc \<Rightarrow> (string \<times> pyval) list \<Rightarrow> unit res"
  build_app :: "build_doc \<Rightarrow> (string \<times> pyval) list \<Rightarrow> build_outcome"
  index_link :: "(string \<times> string) option"

section \<open>The index of the modules\<close>

text \<open>\<^verbatim>\<open>os.path.join\<close> of two paths.\<close>

definition os_path_join :: "string \<Rightarrow> string \<Rightarrow> string" where
  "os_path_join a b = (if startswith b ''/'' then b else in_dir a b)"

definition find_modules :: "string \<times> string list \<Rightarrow> string list" where
  "find_modules entry = (case entry of (dirname, files) \<Rightarrow>
     map (\<lambda>filename. replace1 CHR ''/'' ''.'' dirname @ ''.'' @ take (length filename - 3) filename)
       (filter (\<lambda>filename. endswith filename ''.py'' \<and> filename \<noteq> ''__init__.py'') files))"

definition get_source_dir :: "doc_env \<Rightarrow> string docs" where
  "get_source_dir E =
     (let api_doc_dir = (case map_of (de_pbr E) ''api_doc_dir'' of Some (_, v) \<Rightarrow> v | None \<Rightarrow> ''api'');
          source_dir = (case map_of (de_sphinx E) ''source_dir'' of
              Some (_, v) \<Rightarrow> os_path_join v api_doc_dir
            | None \<Rightarrow> ''doc/source/'' @ api_doc_dir)
      in (\<lambda>t. if file_exists (de_git E) source_dir \<or> MakeDirs source_dir \<in> set t then (Inr source_dir, t)
              else (Inr source_dir, t @ [MakeDirs source_dir])))"

text \<open>\<^verbatim>\<open>any\<close> over the patterns stops at the first match.\<close>

fun excluded :: "string list \<Rightarrow> string \<Rightarrow> bool res" where
  "excluded [] module = Inr False"
| "excluded (pat # pats) module = rbind (fnmatch module pat) (\<lambda>b. if b then Inr True else excluded pats module)"

fun filterR :: "('a \<Rightarrow> bool res) \<Rightarrow> 'a list \<Rightarrow> 'a list res" where
  "filterR P [] = Inr []"
| "filterR P (x # xs) = rbind (P x) (\<lambda>b. rbind (filterR P xs) (\<lambda>r. Inr (if b then x # r else r)))"

definition modules_of :: "doc_env \<Rightarrow> string list" where
  "modules_of E = remdups (concat (map (\<lambda>pkg. if CHR ''.'' \<in> set pkg then [] else concat (map find_modules (de_walk E pkg)))
     (de_packages E)))"

definition module_list :: "doc_env \<Rightarrow> string list \<Rightarrow> string list res" where
  "module_list E excluded_modules =
     rbind (filterR (\<lambda>m. rbind (excluded excluded_modules m) (\<lambda>b. Inr (\<not> b))) (modules_of E)) (\<lambda>ms. Inr (sort ms))"

definition rst_template :: string where
  "rst_template = join [CHR 0x0A]
     [''%(heading)s'', ''%(underline)s'', [], ''.. automodule:: %(module)s'', ''  :members:'', ''  :undoc-members:'',
      ''  :show-inheritance:'', []]"

definition autoindex_header :: string where
  "autoindex_header = ''.. toctree::'' @ [CHR 0x0A] @ ''   :maxdepth: 1'' @ [CHR 0x0A, CHR 0x0A]"

definition open_doc :: "doc_env \<Rightarrow> string \<Rightarrow> unit docs" where
  "open_doc E f = ibind (ilift (file_open_write (de_git E) f)) (\<lambda>_. emit (OpenDoc f))"

definition write_module :: "doc_env \<Rightarrow> string \<Rightarrow> string \<Rightarrow> unit docs" where
  "write_module E source_dir module =
     (let output_filename = os_path_join source_dir (module @ ''.rst'');
          heading = ''The :mod:`'' @ module @ ''` Module'';
          underline = replicate (length heading) CHR ''=''
      in ibind (open_doc E output_filename) (\<lambda>_.
         ibind (ilift (percent_format [(''module'', module), (''heading'', heading), (''underline'', underline)] rst_template))
           (\<lambda>text. ibind (emit (WriteDoc output_filename text)) (\<lambda>_.
         emit (WriteDoc (os_path_join source_dir ''autoindex.rst'') (''   '' @ module @ ''.rst'' @ [CHR 0x0A]))))))"

definition generate_autoindex :: "doc_env \<Rightarrow> string list \<Rightarrow> unit docs" where
  "generate_autoindex E excluded_modules =
     ibind (get_source_dir E) (\<lambda>source_dir.
     ibind (ilift (module_list E excluded_modules)) (\<lambda>ms.
     ibind (open_doc E (os_path_join source_dir ''autoindex.rst'')) (\<lambda>_.
     ibind (emit (WriteDoc (os_path_join source_dir ''autoindex.rst'') autoindex_header)) (\<lambda>_.
     ifor ms (write_module E source_dir)))))"

section \<open>Running Sphinx\<close>

definition sphinx_tree :: "doc_env \<Rightarrow> build_doc \<Rightarrow> unit docs" where
  "sphinx_tree E s =
     ibind (get_source_dir E) (\<lambda>source_dir.
       emit (Apidoc ((if apidoc_use_padding E then [''apidoc''] else [])
         @ [''-H'', ''Modules'', ''-o'', source_dir, ''.''] @ autodoc_tree_excludes s)))"

definition confoverrides :: "build_doc \<Rightarrow> (string \<times> pyval) list" where
  "confoverrides s =
     filter (\<lambda>(k, v). v \<noteq> PStr [])
       [(''project'', PStr (bd_project s)), (''version'', PStr (bd_version s)), (''release'', PStr (bd_release s)),
        (''today'', PStr (bd_today s))]
     @ (if sphinx_initialized s
        then [(''suppress_warnings'', PList (map PStr [''app.add_directive'', ''app.add_role'', ''app.add_generic_role'',
                 ''app.add_node'', ''image.nonlocal_uri'']))]
        else [])"

text \<open>The report of a markup error refers to \<^verbatim>\<open>sys.stder\<close>, which does not exist.\<close>

definition sphinx_run :: "doc_env \<Rightarrow> build_doc \<Rightarrow> build_doc docs" where
  "sphinx_run E s =
     ibind (emit (SphinxApp (builder s) (confoverrides s))) (\<lambda>_.
     ibind (ilift (make_app E s (confoverrides s))) (\<lambda>_.
     ibind (emit BuildApp) (\<lambda>_.
     ibind (case build_app E s (confoverrides s) of
              Built \<Rightarrow> iret ()
            | Markup text \<Rightarrow> iraise (AttributeError ''stder'')
            | BuildFailed e \<Rightarrow> iraise e) (\<lambda>_.
     ibind (case index_link E of None \<Rightarrow> iret () | Some (link_source, link_target) \<Rightarrow> emit (Symlink link_source link_target)) (\<lambda>_.
     iret (s\<lparr>sphinx_initialized := True\<rparr>))))))"

definition initialize_options :: "doc_env \<Rightarrow> build_doc \<Rightarrow> build_doc" where
  "initialize_options E s = (base_initialize E s)\<lparr>autodoc_tree_excludes := [''setup.py'']\<rparr>"

definition configured_builders :: "option_dict \<Rightarrow> builders_value \<Rightarrow> builders_value" where
  "configured_builders options current =
     (let chosen = (case map_of options ''builder'' of
           Some (source, v) \<Rightarrow> if contains source ''command line'' then BText v else current
         | None \<Rightarrow> current)
      in case chosen of
           BText v \<Rightarrow> if v = [] then BText [] else BList (split_on CHR '','' v)
         | BList bs \<Rightarrow> BList bs)"

definition finalize_options :: "doc_env \<Rightarrow> build_doc \<Rightarrow> build_doc" where
  "finalize_options E s0 =
     (let s = base_finalize E s0
      in s\<lparr>builders := configured_builders (de_sphinx E) (builders s),
           bd_project := de_name E, bd_version := de_version E, bd_release := de_version E,
           autodoc_tree_excludes := (case map_of (de_pbr E) ''autodoc_tree_excludes'' of
               Some (_, v) \<Rightarrow> split_multiline v | None \<Rightarrow> autodoc_tree_excludes s),
           warning_is_error := Some (case warning_is_error s of Some b \<Rightarrow> b | None \<Rightarrow> False)\<rparr>)"

definition deprecated_options :: "string list" where
  "deprecated_options = [''autodoc_tree_index_modules'', ''autodoc_index_modules'', ''autodoc_tree_excludes'', ''autodoc_exclude_modules'']"

definition deprecated_envs :: "string list" where
  "deprecated_envs = [''AUTODOC_TREE_INDEX_MODULES'', ''AUTODOC_INDEX_MODULES'']"

text \<open>The lists of the warning, in place of its text.\<close>

definition warn_deprecated :: "doc_env \<Rightarrow> unit docs" where
  "warn_deprecated E =
     (let warn_opts = filter (\<lambda>opt. map_of (de_pbr E) opt \<noteq> None) deprecated_options;
          warn_env = filter (\<lambda>x. truthy (env_var (de_git E) x)) deprecated_envs
      in if warn_opts \<noteq> [] \<or> warn_env \<noteq> [] then emit (WarnDeprecated warn_opts warn_env) else iret ())"

definition embed_doc :: "'a files \<Rightarrow> 'a docs" where
  "embed_doc m = (\<lambda>t. case m [] of (r, evs) \<Rightarrow> (r, t @ map DocGit evs))"

definition git_documents :: "doc_env \<Rightarrow> unit docs" where
  "git_documents E = ibind (ilift (git_is_installed (de_git E))) (\<lambda>installed.
     if installed
     then ibind (embed_doc (write_git_changelog (de_git E) None ''.'' (de_pbr E) None)) (\<lambda>_.
          embed_doc (generate_authors (de_git E) None ''.'' (de_pbr E)))
     else iret ())"

definition index_modules :: "doc_env \<Rightarrow> build_doc \<Rightarrow> unit docs" where
  "index_modules E s =
     (let tree_index = get_boolean_option (de_git E) (de_pbr E) ''autodoc_tree_index_modules'' ''AUTODOC_TREE_INDEX_MODULES'';
          auto_index = get_boolean_option (de_git E) (de_pbr E) ''autodoc_index_modules'' ''AUTODOC_INDEX_MODULES''
      in if truthy (env_var (de_git E) ''SPHINX_DEBUG'') then iret ()
         else ibind (if tree_index then sphinx_tree E s else iret ()) (\<lambda>_.
              if auto_index
              then generate_autoindex E (remdups (words (case map_of (de_pbr E) ''autodoc_exclude_modules'' of
                     Some (_, v) \<Rightarrow> v | None \<Rightarrow> [])))
              else iret ()))"

text \<open>A string is iterated over by its characters.\<close>

definition iterated :: "builders_value \<Rightarrow> string list" where
  "iterated v = (case v of BText t \<Rightarrow> map (\<lambda>c. [c]) t | BList bs \<Rightarrow> bs)"

definition run_builders :: "doc_env \<Rightarrow> build_doc \<Rightarrow> build_doc docs" where
  "run_builders E s = ifold (\<lambda>s b. sphinx_run E (finalize_options E (s\<lparr>builder := BText b\<rparr>))) s (iterated (builders s))"

definition multibuilder_sphinx :: "doc_env \<Rightarrow> bool res" where
  "multibuilder_sphinx E =
     rbind (from_pip_string (de_sphinx_version E)) (\<lambda>v. semver_ge v (SemanticVersion 1 6 0 None None None))"

definition start_sphinx :: "doc_env \<Rightarrow> bool \<Rightarrow> build_doc \<Rightarrow> build_doc docs" where
  "start_sphinx E is_multibuilder_sphinx s =
     (if is_multibuilder_sphinx
      then ibind (emit (BuildDocRun (builder s))) (\<lambda>_. ibind (ilift (base_run E s)) (\<lambda>_. iret s))
      else run_builders E s)"

definition finish_run :: "doc_env \<Rightarrow> build_doc \<Rightarrow> build_doc docs" where
  "finish_run E s =
     ibind (ilift (multibuilder_sphinx E)) (\<lambda>multi.
     ibind (if multi then iret () else emit (Warn ''Support for Sphinx < 1.6 will be dropped'')) (\<lambda>_.
     ibind (if builders s \<noteq> BList [''html''] then emit (Warn ''the builders option has been deprecated'') else iret ()) (\<lambda>_.
     start_sphinx E multi (if builders s \<noteq> BList [''html''] \<and> multi then s\<lparr>builder := builders s\<rparr> else s))))"

definition build_doc_run :: "doc_env \<Rightarrow> build_doc \<Rightarrow> build_doc docs" where
  "build_doc_run E s =
     ibind (warn_deprecated E) (\<lambda>_.
     ibind (git_documents E) (\<lambda>_.
     ibind (index_modules E s) (\<lambda>_.
     finish_run E (finalize_options E s))))"

section \<open>What the index holds\<close>

fun written :: "string \<Rightarrow> doc_event list \<Rightarrow> string" where
  "written f [] = []"
| "written f (e # t) = (case e of WriteDoc g s \<Rightarrow> (if g = f then s else []) | _ \<Rightarrow> []) @ written f t"

lemma written_append [simp]: "written f (s @ t) = written f s @ written f t"
  by (induction s) auto

definition module_page :: "string \<Rightarrow> string" where
  "module_page module =
     (let heading = ''The :mod:`'' @ module @ ''` Module''
      in join [CHR 0x0A]
        [heading, replicate (length heading) CHR ''='', [], ''.. automodule:: '' @ module, ''  :members:'', ''  :undoc-members:'',
         ''  :show-inheritance:'', []])"

definition index_line :: "string \<Rightarrow> string" where
  "index_line module = ''   '' @ module @ ''.rst'' @ [CHR 0x0A]"

lemma module_text:
  "percent_format [(''module'', module), (''heading'', heading), (''underline'', underline)] rst_template
   = Inr (join [CHR 0x0A] [heading, underline, [], ''.. automodule:: '' @ module, ''  :members:'', ''  :undoc-members:'',
         ''  :show-inheritance:'', []])"
  by (simp add: rst_template_def convert_def Let_def)

lemma open_doc_effect: "open_doc E f t = (Inr (), t') \<Longrightarrow> t' = t @ [OpenDoc f]"
  by (auto simp: open_doc_def split: sum.splits)

lemma write_module_effect:
  assumes "write_module E d module t = (Inr (), t')"
  shows "t' = t @ [OpenDoc (os_path_join d (module @ ''.rst'')), WriteDoc (os_path_join d (module @ ''.rst'')) (module_page module),
     WriteDoc (os_path_join d ''autoindex.rst'') (index_line module)]"
  using assms by (auto simp: write_module_def Let_def module_text module_page_def index_line_def ibind_eq_Inr dest!: open_doc_effect)

lemma write_modules_effect:
  assumes "ifor ms (write_module E d) t = (Inr (), t')"
    and "\<And>m. m \<in> set ms \<Longrightarrow> os_path_join d (m @ ''.rst'') \<noteq> os_path_join d ''autoindex.rst''"
  shows "written (os_path_join d ''autoindex.rst'') t' = written (os_path_join d ''autoindex.rst'') t @ concat (map index_line ms)
     \<and> set t \<subseteq> set t' \<and> (\<forall>m \<in> set ms. WriteDoc (os_path_join d (m @ ''.rst'')) (module_page m) \<in> set t')"
  using assms
proof (induction ms arbitrary: t)
  case (Cons m ms)
  from Cons.prems(1) obtain u where u: "write_module E d m t = (Inr (), u)" "ifor ms (write_module E d) u = (Inr (), t')"
    by (auto simp: ibind_eq_Inr)
  from Cons.IH [OF u(2)] Cons.prems(2) [of m] Cons.prems(2) write_module_effect [OF u(1)] show ?case by auto
qed simp

lemma excluded_any:
  assumes "excluded pats m = Inr b"
  shows "b \<longleftrightarrow> (\<exists>pat \<in> set pats. fnmatch m pat = Inr True)"
  using assms by (induction pats) (auto simp: rbind_eq_Inr split: if_splits)

lemma filterR_set: "filterR P xs = Inr ys \<Longrightarrow> set ys = {x \<in> set xs. P x = Inr True} \<and> (distinct xs \<longrightarrow> distinct ys)"
  by (induction xs arbitrary: ys) (auto simp: rbind_eq_Inr split: if_splits)

lemma filterR_defined: "filterR P xs = Inr ys \<Longrightarrow> x \<in> set xs \<Longrightarrow> \<exists>b. P x = Inr b"
  by (induction xs arbitrary: ys) (auto simp: rbind_eq_Inr)

lemma module_list_spec:
  assumes "module_list E pats = Inr ms"
  shows "sorted ms" "distinct ms"
    "set ms = {m \<in> set (modules_of E). \<not> (\<exists>pat \<in> set pats. fnmatch m pat = Inr True)}"
proof -
  from assms obtain ns where ns: "filterR (\<lambda>m. rbind (excluded pats m) (\<lambda>b. Inr (\<not> b))) (modules_of E) = Inr ns" "ms = sort ns"
    by (auto simp: module_list_def rbind_eq_Inr)
  note spec = filterR_set [OF ns(1)]
  from ns(2) spec show "sorted ms" "distinct ms" by (auto simp: modules_of_def)
  have "\<exists>b. excluded pats m = Inr b" if "m \<in> set (modules_of E)" for m
    using filterR_defined [OF ns(1) that] by (auto simp: rbind_eq_Inr)
  then have "(rbind (excluded pats m) (\<lambda>b. Inr (\<not> b)) = Inr True) \<longleftrightarrow> \<not> (\<exists>pat \<in> set pats. fnmatch m pat = Inr True)"
    if "m \<in> set (modules_of E)" for m
    using that excluded_any by (fastforce simp: rbind_eq_Inr)
  with ns(2) spec show "set ms = {m \<in> set (modules_of E). \<not> (\<exists>pat \<in> set pats. fnmatch m pat = Inr True)}"
    by auto
qed

lemma found_module:
  assumes "m \<in> set (find_modules (dirname, files))"
  shows "CHR ''.'' \<in> set m \<and> hd m \<noteq> CHR ''/''"
proof -
  from assms obtain r where m: "m = replace1 CHR ''/'' ''.'' dirname @ ''.'' @ r" by (auto simp: find_modules_def)
  then show ?thesis by (cases dirname) auto
qed

lemma module_file_distinct:
  assumes "m \<in> set (modules_of E)"
  shows "os_path_join d (m @ ''.rst'') \<noteq> os_path_join d ''autoindex.rst''"
proof -
  from assms obtain pkg dirname files where "m \<in> set (find_modules (dirname, files))"
    by (auto simp: modules_of_def split: if_splits)
  note found_module [OF this]
  moreover from this obtain c m' where "m = c # m'" by (cases m) auto
  moreover from calculation have "m @ ''.rst'' \<noteq> ''autoindex.rst''"
  proof -
    have "m \<noteq> ''autoindex''" using calculation(1) by auto
    moreover have "''autoindex.rst'' = ''autoindex'' @ ''.rst''" by simp
    ultimately show ?thesis by (simp only: append_same_eq simp_thms)
  qed
  ultimately show ?thesis by (auto simp: os_path_join_def in_dir_def)
qed

lemma source_dir_effect:
  assumes "get_source_dir E t = (Inr d, t')"
  shows "written f t' = written f t"
  using assms by (auto simp: get_source_dir_def Let_def split: if_splits)

text \<open>
  C36: When generate_autoindex returns, autoindex.rst holds the header and one line for each
  found module that matches no exclusion pattern, sorted and without repetition, and the page of
  every such module has been written.
\<close>
theorem autoindex_written:
  assumes "generate_autoindex E pats t = (Inr (), t')"
  shows "\<exists>d ms. sorted ms \<and> distinct ms
     \<and> set ms = {m \<in> set (modules_of E). \<not> (\<exists>pat \<in> set pats. fnmatch m pat = Inr True)}
     \<and> written (os_path_join d ''autoindex.rst'') t'
         = written (os_path_join d ''autoindex.rst'') t @ autoindex_header @ concat (map index_line ms)
     \<and> (\<forall>m \<in> set ms. WriteDoc (os_path_join d (m @ ''.rst'')) (module_page m) \<in> set t')"
proof -
  from assms obtain d t1 ms u a t2 b v where r0: "get_source_dir E t = (Inr d, t1)" "ilift (module_list E pats) t1 = (Inr ms, u)"
    "open_doc E (os_path_join d ''autoindex.rst'') u = (Inr a, t2)"
    "emit (WriteDoc (os_path_join d ''autoindex.rst'') autoindex_header) t2 = (Inr b, v)" "ifor ms (write_module E d) v = (Inr (), t')"
    unfolding generate_autoindex_def by (elim ibind_returns_unit)
  then have r: "get_source_dir E t = (Inr d, t1)" "module_list E pats = Inr ms"
    "open_doc E (os_path_join d ''autoindex.rst'') t1 = (Inr (), t2)"
    "ifor ms (write_module E d) (t2 @ [WriteDoc (os_path_join d ''autoindex.rst'') autoindex_header]) = (Inr (), t')"
    by (simp_all add: ilift_def emit_def)
  note spec = module_list_spec [OF r(2)]
  have "written f t2 = written f t" for f
    using r(3) source_dir_effect [OF r(1)] by (auto dest!: open_doc_effect)
  moreover have "os_path_join d (m @ ''.rst'') \<noteq> os_path_join d ''autoindex.rst''" if "m \<in> set ms" for m
    using module_file_distinct that spec(3) by auto
  ultimately show ?thesis
    using write_modules_effect [OF r(4)] spec by (intro exI [of _ d] exI [of _ ms]) auto
qed

section \<open>The builders\<close>

text \<open>The builders of the Sphinx applications, in order.\<close>

fun apps :: "doc_event list \<Rightarrow> builders_value list" where
  "apps [] = []"
| "apps (e # t) = (case e of SphinxApp b over \<Rightarrow> [b] | _ \<Rightarrow> []) @ apps t"

lemma apps_append [simp]: "apps (s @ t) = apps s @ apps t"
  by (induction s) auto

abbreviation no_app :: "doc_event \<Rightarrow> bool" where
  "no_app e \<equiv> (case e of SphinxApp b over \<Rightarrow> False | _ \<Rightarrow> True)"

lemma apps_none: "list_all no_app t \<Longrightarrow> apps t = []"
  by (induction t) (auto split: doc_event.splits)

lemma emits_embed_doc: "emits no_app (embed_doc m)"
  by (auto simp: emits_def embed_doc_def list_all_iff split: prod.splits)

lemma emits_source_dir: "emits no_app (get_source_dir E)"
  by (auto simp: emits_def get_source_dir_def Let_def)

lemma emits_open_doc: "emits no_app (open_doc E f)"
  unfolding open_doc_def by (intro emits_ilift_bind) simp

lemma emits_write_module: "emits no_app (write_module E d m)"
  unfolding write_module_def Let_def by (intro emits_ibind emits_ilift_bind emits_open_doc) simp_all

lemma emits_before: 
  "emits no_app (warn_deprecated E)" "emits no_app (git_documents E)" "emits no_app (index_modules E s)"
  unfolding warn_deprecated_def git_documents_def index_modules_def sphinx_tree_def generate_autoindex_def Let_def
  by (auto intro!: emits_ibind emits_ilift_bind emits_ifold emits_embed_doc emits_source_dir emits_open_doc emits_write_module)

lemma emits_apps: "emits no_app m \<Longrightarrow> m t = (r, t') \<Longrightarrow> apps t' = apps t"
  unfolding emits_def using apps_none by (metis append_Nil2 apps_append snd_conv)

lemma sphinx_run_apps:
  assumes "sphinx_run E s t = (Inr s', t')"
  shows "apps t' = apps t @ [builder s] \<and> s' = s\<lparr>sphinx_initialized := True\<rparr>"
  using assms by (auto simp: sphinx_run_def ibind_eq_Inr split: build_outcome.splits option.splits sum.splits)

lemma run_builders_apps:
  assumes base: "\<And>s. builder (base_finalize E s) = builder s"
    and "ifold (\<lambda>s b. sphinx_run E (finalize_options E (s\<lparr>builder := BText b\<rparr>))) s bs t = (Inr s', t')"
  shows "apps t' = apps t @ map BText bs"
  using assms(2)
proof (induction bs arbitrary: s t)
  case (Cons b bs)
  from Cons.prems obtain s1 t1 where r: "sphinx_run E (finalize_options E (s\<lparr>builder := BText b\<rparr>)) t = (Inr s1, t1)"
    "ifold (\<lambda>s b. sphinx_run E (finalize_options E (s\<lparr>builder := BText b\<rparr>))) s1 bs t1 = (Inr s', t')"
    by (auto simp: ibind_eq_Inr)
  have "builder (finalize_options E (s\<lparr>builder := BText b\<rparr>)) = BText b"
    using base [of "s\<lparr>builder := BText b\<rparr>"] by (simp add: finalize_options_def Let_def)
  with sphinx_run_apps [OF r(1)] Cons.IH [OF r(2)] show ?case by simp
qed simp

lemma finish_run_apps:
  assumes base: "\<And>s. builder (base_finalize E s) = builder s" and run: "finish_run E s t = (Inr s', t')" and none: "apps t = []"
  shows "\<exists>multi. multibuilder_sphinx E = Inr multi \<and> apps t' = (if multi then [] else map BText (iterated (builders s)))
     \<and> (multi \<longrightarrow> last t' = BuildDocRun (if builders s \<noteq> BList [''html''] then builders s else builder s))"
proof -
  from run obtain multi t4 x4 t5 x5 t6 where r: "ilift (multibuilder_sphinx E) t = (Inr multi, t4)"
    "(if multi then iret () else emit (Warn ''Support for Sphinx < 1.6 will be dropped'')) t4 = (Inr x4, t5)"
    "(if builders s \<noteq> BList [''html''] then emit (Warn ''the builders option has been deprecated'') else iret ()) t5 = (Inr x5, t6)"
    "start_sphinx E multi (if builders s \<noteq> BList [''html''] \<and> multi then s\<lparr>builder := builders s\<rparr> else s) t6 = (Inr s', t')"
    unfolding finish_run_def by (elim ibind_returns_unit)
  have multi: "multibuilder_sphinx E = Inr multi" using r(1) by (simp add: ilift_def)
  have t6: "apps t6 = []" using r(1-3) none by (auto simp: ilift_def emit_def iret_def split: if_splits)
  show ?thesis
  proof (cases multi)
    case True
    define s2 where "s2 = (if builders s \<noteq> BList [''html''] \<and> multi then s\<lparr>builder := builders s\<rparr> else s)"
    have b2: "builder s2 = (if builders s \<noteq> BList [''html''] then builders s else builder s)" using True by (simp add: s2_def)
    have "t' = t6 @ [BuildDocRun (builder s2)]"
      using r(4) True unfolding s2_def [symmetric] by (auto simp: start_sphinx_def split: sum.splits)
    with t6 multi True b2 show ?thesis by (intro exI [of _ True]) simp
  next
    case False
    with r(4) have "run_builders E s t6 = (Inr s', t')" by (simp add: start_sphinx_def)
    from run_builders_apps [OF base this [unfolded run_builders_def]] t6 multi False show ?thesis by (intro exI [of _ False]) simp
  qed
qed

theorem build_doc_run_apps:
  assumes base: "\<And>s. builder (base_finalize E s) = builder s"
    and run: "build_doc_run E s [] = (Inr s', t)"
  shows "\<exists>multi. multibuilder_sphinx E = Inr multi
     \<and> apps t = (if multi then [] else map BText (iterated (builders (finalize_options E s))))
     \<and> (multi \<longrightarrow> last t = BuildDocRun (if builders (finalize_options E s) \<noteq> BList [''html'']
                               then builders (finalize_options E s) else builder s))"
proof -
  from run obtain x1 t1 x2 t2 x3 t3 where r: "warn_deprecated E [] = (Inr x1, t1)"
    "git_documents E t1 = (Inr x2, t2)" "index_modules E s t2 = (Inr x3, t3)" "finish_run E (finalize_options E s) t3 = (Inr s', t)"
    unfolding build_doc_run_def by (elim ibind_returns_unit)
  have "apps t3 = []" using emits_apps [OF emits_before(1) r(1)] emits_apps [OF emits_before(2) r(2)] emits_apps [OF emits_before(3) r(3)] by simp
  note finish = finish_run_apps [OF base r(4) this]
  have "builder (finalize_options E s) = builder s" using base by (simp add: finalize_options_def Let_def)
  with finish show ?thesis by (simp only:)
qed

lemma markup_error_raises:
  assumes "make_app E s (confoverrides s) = Inr ()" "build_app E s (confoverrides s) = Markup text"
  shows "fst (sphinx_run E s t) = Inl (AttributeError ''stder'')"
  using assms by (simp add: sphinx_run_def ibind_def)

section \<open>Witnesses\<close>

definition demo_docs :: "string \<Rightarrow> doc_env" where
  "demo_docs v = \<lparr>de_git = demo_git\<lparr>run_command := (\<lambda>cmd. Inr (0, [])), env_var := (\<lambda>_. None)\<rparr>,
     de_pbr = [(''autodoc_index_modules'', ''setup.cfg'', ''1''), (''autodoc_exclude_modules'', ''setup.cfg'', ''pkg.tests.*'')],
     de_sphinx = [(''builder'', ''command line'', ''html,man'')], de_packages = [''pkg'', ''pkg.tests''],
     de_walk = \<lambda>p. [(''pkg'', [''__init__.py'', ''b.py'', ''a.py'']), (''pkg/tests'', [''t.py''])],
     apidoc_use_padding = False, de_name = ''p'', de_version = ''1.0'', de_sphinx_version = v,
     base_initialize = id, base_finalize = id, base_run = \<lambda>_. Inr (), make_app = \<lambda>_ _. Inr (), build_app = \<lambda>_ _. Built,
     index_link = None\<rparr>"

definition demo_build_doc :: build_doc where
  "demo_build_doc = \<lparr>builders = BList [''html''], builder = BText ''html'', sphinx_initialized = False,
     bd_project = [], bd_version = [], bd_release = [], bd_today = [], autodoc_tree_excludes = [], warning_is_error = None\<rparr>"

theorem autoindex_written_witness:
  "\<exists>t' d ms. generate_autoindex (demo_docs ''1.5'') [''pkg.tests.*''] [] = (Inr (), t')
     \<and> written (os_path_join d ''autoindex.rst'') t' = autoindex_header @ concat (map index_line ms)
     \<and> set ms = {m \<in> {''pkg.b'', ''pkg.a'', ''pkg.tests.t''}. \<not> fnmatch m ''pkg.tests.*'' = Inr True}"
proof -
  let ?E = "demo_docs ''1.5''"
  have "fst (generate_autoindex ?E [''pkg.tests.*''] []) = Inr ()" by code_simp
  then obtain t' where run: "generate_autoindex ?E [''pkg.tests.*''] [] = (Inr (), t')" by (metis prod.collapse)
  have "modules_of ?E = [''pkg.b'', ''pkg.a'', ''pkg.tests.t'']" by code_simp
  with autoindex_written [OF run] run show ?thesis by auto
qed

theorem build_doc_run_apps_witness:
  "(\<exists>s t. build_doc_run (demo_docs ''1.5'') demo_build_doc [] = (Inr s, t) \<and> apps t = [BText ''html'', BText ''man''])
   \<and> (\<exists>s t. build_doc_run (demo_docs ''1.6'') demo_build_doc [] = (Inr s, t) \<and> apps t = []
        \<and> last t = BuildDocRun (BList [''html'', ''man'']))"
proof -
  have ok: "isl (fst (build_doc_run (demo_docs ''1.5'') demo_build_doc [])) = False"
    "isl (fst (build_doc_run (demo_docs ''1.6'') demo_build_doc [])) = False" by code_simp+
  have bs: "builders (finalize_options (demo_docs v) demo_build_doc) = BList [''html'', ''man'']" for v
    by (simp add: finalize_options_def Let_def demo_docs_def demo_build_doc_def configured_builders_def contains_def)
  have multi: "multibuilder_sphinx (demo_docs ''1.5'') = Inr False" "multibuilder_sphinx (demo_docs ''1.6'') = Inr True" by code_simp+
  have base: "builder (base_finalize (demo_docs v) s) = builder s" for v s by (simp add: demo_docs_def)
  obtain s1 t1 where 1: "build_doc_run (demo_docs ''1.5'') demo_build_doc [] = (Inr s1, t1)"
    using ok(1) by (metis isl_def prod.collapse sum.exhaust)
  obtain s2 t2 where 2: "build_doc_run (demo_docs ''1.6'') demo_build_doc [] = (Inr s2, t2)"
    using ok(2) by (metis isl_def prod.collapse sum.exhaust)
  show ?thesis
    using build_doc_run_apps [OF base 1] build_doc_run_apps [OF base 2] 1 2 bs multi by (auto simp: iterated_def)
qed

end
