(* ===== verification/Pbr_Sphinxext.thy ===== *)
theory Pbr_Sphinxext
  imports Pbr_Commands
begin

text \<open>
  The remaining plugins of pbr: the Sphinx extension \<^verbatim>\<open>pbr/sphinxext.py\<close>, which fills in the version of the
  documentation, and the command \<^verbatim>\<open>pbr/testr_command.py\<close>, which runs the tests.
\<close>

section \<open>The name of the project\<close>

text \<open>
  \<open>sx_read\<close> is what the parser makes of a file: \<open>Inr None\<close> when it cannot be read, and otherwise the value of an option in
  a section, where \<open>None\<close> is the exception \<^verbatim>\<open>configparser.Error\<close>.  The state is the cached name \<^verbatim>\<open>_project\<close>.
  \<open>unnamed\<close> is the exception for a package that is not named, the other fields are those of the version object.
\<close>

record sphinx_env =
  sx_exists :: "string \<Rightarrow> bool"
  sx_read :: "string \<Rightarrow> (string \<Rightarrow> string \<Rightarrow> string option) option res"
  sx_provider :: "string \<Rightarrow> string option"
  sx_get_version :: "string \<Rightarrow> string res"
  unnamed :: exn

definition find_setup_cfg :: "sphinx_env \<Rightarrow> string \<Rightarrow> string option" where
  "find_setup_cfg E srcdir =
     List.find (sx_exists E)
       [in_dir (in_dir srcdir ''..'') ''setup.cfg'', in_dir (in_dir (in_dir srcdir ''..'') ''..'') ''setup.cfg'']"

definition project_of :: "(string \<Rightarrow> string \<Rightarrow> string option) \<Rightarrow> string option" where
  "project_of get =
     (case get ''metadata'' ''name'' of
        None \<Rightarrow> None
      | Some project \<Rightarrow> if length (words project) = 1 \<and> 32 < length project then get ''metadata'' ''summary'' else Some project)"

definition get_project_name :: "sphinx_env \<Rightarrow> string \<Rightarrow> string option \<Rightarrow> (string option \<times> string option) res" where
  "get_project_name E srcdir cached =
     (case cached of
        Some project \<Rightarrow> Inr (Some project, cached)
      | None \<Rightarrow>
          (case find_setup_cfg E srcdir of
             None \<Rightarrow> Inr (None, None)
           | Some path \<Rightarrow> rbind (sx_read E path) (\<lambda>parser. case parser of
                 None \<Rightarrow> Inr (None, None)
               | Some get \<Rightarrow> Inr (project_of get, project_of get))))"

section \<open>The version of the documentation\<close>

record sphinx_config =
  config_version :: string
  config_release :: string

text \<open>The constructor \<^verbatim>\<open>VersionInfo\<close> raises nothing, so that its \<^verbatim>\<open>try\<close> has no handler to model.\<close>

definition builder_inited ::
    "sphinx_env \<Rightarrow> string \<Rightarrow> string option \<times> sphinx_config \<Rightarrow> (string option \<times> sphinx_config) res" where
  "builder_inited E srcdir st =
     rbind (get_project_name E srcdir (fst st)) (\<lambda>(name, cached).
       if config_version (snd st) = [] \<and> config_release (snd st) = []
       then (case name of
               None \<Rightarrow> Inl (unnamed E)
             | Some n \<Rightarrow>
                 rbind (vi_version_string (sx_provider E) (sx_get_version E) (VersionInfo n)) (\<lambda>(version, vi).
                 rbind (vi_release_string (sx_provider E) (sx_get_version E) vi) (\<lambda>(release, vi').
                 Inr (cached, \<lparr>config_version = version, config_release = release\<rparr>))))
       else Inr (cached, snd st))"

lemma brief_prefix_release: "prefix (semver_brief_string v) (semver_release_string v)"
  by (simp add: semver_release_string_def semver_long_version_def Let_def)

lemma version_then_release:
  assumes "vi_version_string pv gv (VersionInfo n) = Inr (s, vi)" "vi_release_string pv gv vi = Inr (r, vi')"
  shows "\<exists>v. vi_version_from_pkg_resources pv gv (VersionInfo n) = Inr v \<and> s = semver_brief_string v \<and> r = semver_release_string v"
  using assms
  by (auto simp: vi_version_string_def vi_release_string_def vi_semantic_version_def VersionInfo_def rbind_eq_Inr)

text \<open>A configured version is kept; one that is filled in is the one of the package, and a prefix of the release.\<close>

theorem builder_inited_version:
  assumes "builder_inited E srcdir (cached, cfg) = Inr (cached', cfg')"
  shows "if config_version cfg \<noteq> [] \<or> config_release cfg \<noteq> [] then cfg' = cfg
    else \<exists>n v. cached' = Some n \<and> vi_version_from_pkg_resources (sx_provider E) (sx_get_version E) (VersionInfo n) = Inr v
      \<and> config_version cfg' = semver_brief_string v \<and> config_release cfg' = semver_release_string v
      \<and> prefix (config_version cfg') (config_release cfg')"
proof (cases "config_version cfg \<noteq> [] \<or> config_release cfg \<noteq> []")
  case True
  with assms show ?thesis by (auto simp: builder_inited_def rbind_eq_Inr)
next
  case False
  with assms obtain n c s vi r vi' where run: "get_project_name E srcdir cached = Inr (Some n, cached')"
    "vi_version_string (sx_provider E) (sx_get_version E) (VersionInfo n) = Inr (s, vi)"
    "vi_release_string (sx_provider E) (sx_get_version E) vi = Inr (r, vi')"
    "cfg' = \<lparr>config_version = s, config_release = r\<rparr>"
    by (auto simp: builder_inited_def rbind_eq_Inr split: option.splits)
  from run(1) have "cached' = Some n"
    by (auto simp: get_project_name_def rbind_eq_Inr split: option.splits)
  with False run(4) version_then_release [OF run(2,3)] brief_prefix_release show ?thesis by auto
qed

definition demo_sphinx :: sphinx_env where
  "demo_sphinx = \<lparr>sx_exists = \<lambda>p. p = ''doc/../setup.cfg'', sx_read = \<lambda>p. Inr (Some (\<lambda>s k. if k = ''name'' then Some ''p'' else None)),
     sx_provider = \<lambda>n. Some ''1.2.3.dev4'', sx_get_version = \<lambda>n. Inr ''0'', unnamed = TypeError ''None''\<rparr>"

theorem builder_inited_version_witness:
  "\<exists>c. builder_inited demo_sphinx ''doc'' (None, \<lparr>config_version = [], config_release = []\<rparr>) = Inr (Some ''p'', c)
     \<and> prefix (config_version c) (config_release c)"
proof -
  have "builder_inited demo_sphinx ''doc'' (None, \<lparr>config_version = [], config_release = []\<rparr>)
    = Inr (Some ''p'', \<lparr>config_version = ''1.2.3'', config_release = ''1.2.3.dev4''\<rparr>)" by code_simp
  from builder_inited_version [OF this] this show ?thesis by auto
qed

text \<open>A version that cannot be computed fails the build, although the code means to go on without one.\<close>

lemma version_failure_escapes:
  assumes "sx_provider E n = None" "sx_get_version E n = Inl e"
  shows "builder_inited E srcdir (Some n, \<lparr>config_version = [], config_release = []\<rparr>) = Inl e"
  using assms
  by (simp add: builder_inited_def get_project_name_def vi_version_string_def vi_semantic_version_def
      vi_version_from_pkg_resources_def VersionInfo_def)

section \<open>testr\<close>

datatype testr_event =
    DeprecationWarning string
  | RunTestr "string list"
  | SetEnv string string
  | System string
  | TestrPrinted string

text \<open>
  \<open>arg0\<close> is \<^verbatim>\<open>sys.argv[0]\<close>, \<open>run_argv\<close> the exit code of \<^verbatim>\<open>testrepository\<close>, \<open>logging_attr\<close> an attribute of \<^verbatim>\<open>logging\<close>
  (20 is \<^verbatim>\<open>logging.INFO\<close>).
\<close>

record testr_env =
  arg0 :: string
  run_argv :: "testr_event list \<Rightarrow> string list \<Rightarrow> int"
  logging_attr :: "string \<Rightarrow> int option"
  has_testrepository :: bool
  distribution_name :: string

record testr =
  testr_args :: "string list"
  coverage :: bool
  omit :: string
  slowest :: bool
  coverage_package_name :: string
  no_parallel :: bool
  log_level :: int

text \<open>The options of the command line, strings that may be missing, and the flags.\<close>

record testr_options =
  opt_testr_args :: "string option"
  opt_omit :: string
  opt_log_level :: string

definition upper :: "string \<Rightarrow> string" where
  "upper s = map (\<lambda>c. let n = (of_char c :: nat) in if 97 \<le> n \<and> n \<le> 122 then char_of (n - 32) else c) s"

definition testr_initialize :: testr_options where
  "testr_initialize = \<lparr>opt_testr_args = None, opt_omit = [], opt_log_level = ''info''\<rparr>"

definition testr_finalize :: "testr_env \<Rightarrow> testr_options \<Rightarrow> testr \<Rightarrow> testr" where
  "testr_finalize E opts s =
     s\<lparr>log_level := (case logging_attr E (upper (opt_log_level opts)) of Some l \<Rightarrow> l | None \<Rightarrow> 20),
       testr_args := (case opt_testr_args opts of None \<Rightarrow> [] | Some a \<Rightarrow> words a),
       omit := (if opt_omit opts \<noteq> [] then ''--omit='' @ opt_omit opts else [])\<rparr>"

definition run_testr :: "testr_env \<Rightarrow> string list \<Rightarrow> (testr_event, int) io" where
  "run_testr E args = (\<lambda>t. (Inr (run_argv E t (arg0 E # args)), t @ [RunTestr (arg0 E # args)]))"

definition coverage_before :: "testr_env \<Rightarrow> testr \<Rightarrow> (testr_event, unit) io" where
  "coverage_before E s =
     (let name = distribution_name E;
          package = (if startswith name ''python-'' then drop 7 name else name);
          package' = (if coverage_package_name s \<noteq> [] then coverage_package_name s else package)
      in emit (SetEnv ''PYTHON'' (''coverage run --source '' @ package' @ '' --parallel-mode'')))"

definition coverage_after :: "testr \<Rightarrow> (testr_event, unit) io" where
  "coverage_after s =
     iseq (emit (System ''coverage combine''))
     (iseq (emit (System (''coverage html -d ./cover '' @ omit s)))
           (emit (System (''coverage xml -o ./cover/coverage.xml '' @ omit s))))"

definition testr_run :: "testr_env \<Rightarrow> bool \<Rightarrow> testr \<Rightarrow> (testr_event, unit) io" where
  "testr_run E has_repository s =
     ibind (emit (DeprecationWarning ''testr integration in pbr is deprecated'')) (\<lambda>_.
     ibind (if has_repository then iret 0 else run_testr E [''init'']) (\<lambda>_.
     ibind (if coverage s then coverage_before E s else iret ()) (\<lambda>_.
     ibind (run_testr E ((if no_parallel s then [''run''] else [''run'', ''--parallel'']) @ testr_args s)) (\<lambda>testr_ret.
     if testr_ret \<noteq> 0 then iraise (DistutilsError (''testr failed ('' @ int_str testr_ret @ '')''))
     else ibind (if slowest s
                 then ibind (emit (TestrPrinted ''Slowest Tests'')) (\<lambda>_. ibind (run_testr E [''slowest'']) (\<lambda>_. iret ()))
                 else iret ()) (\<lambda>_.
          if coverage s then coverage_after s else iret ())))))"

text \<open>The command where \<^verbatim>\<open>testrepository\<close> is missing.\<close>

definition testr_command :: "testr_env \<Rightarrow> bool \<Rightarrow> testr \<Rightarrow> (testr_event, unit) io" where
  "testr_command E has_repository s =
     (if has_testrepository E then testr_run E has_repository s
      else emit (TestrPrinted ''Install testrepository to run 'testr' command properly.''))"

text \<open>Coverage is never reported for a failed run, and the interpreter is set before the tests are run.\<close>

abbreviation is_system :: "testr_event \<Rightarrow> bool" where
  "is_system e \<equiv> (case e of System c \<Rightarrow> True | _ \<Rightarrow> False)"

lemma testr_failure:
  assumes "testr_command E has_repository s [] = (Inl e, t)"
  shows "\<exists>n. n \<noteq> 0 \<and> e = DistutilsError (''testr failed ('' @ int_str n @ '')'') \<and> filter is_system t = []"
  using assms
  by (auto simp: testr_command_def testr_run_def run_testr_def coverage_before_def coverage_after_def ibind_def Let_def
      split: if_splits)

section \<open>The test commands of packaging.py\<close>

text \<open>
  \<^verbatim>\<open>TestrTest\<close> warns and is the command above; \<^verbatim>\<open>NoseTest\<close> exists where \<^verbatim>\<open>nose\<close> can be imported and runs its command, here
  \<open>nosetests\<close>.
\<close>

definition testr_test_run :: "testr_env \<Rightarrow> bool \<Rightarrow> testr \<Rightarrow> (testr_event, unit) io" where
  "testr_test_run E has_repository s =
     iseq (emit (DeprecationWarning (''testr integration is deprecated in pbr 4.2 and will ''
         @ ''be removed in a future release. Please call your test '' @ ''runner directly'')))
       (testr_command E has_repository s)"

definition nose_test_run :: "(testr_event, unit) io \<Rightarrow> (testr_event, unit) io" where
  "nose_test_run nosetests =
     iseq (emit (DeprecationWarning (''nose integration in pbr is deprecated. Please use ''
         @ ''the native nose setuptools configuration or call '' @ ''nose directly'')))
       nosetests"

definition have_testr_command :: "testr_env \<Rightarrow> bool" where
  "have_testr_command E = has_testrepository E"

text \<open>A failing test run reports no coverage here either.\<close>

lemma testr_test_failure:
  assumes "testr_test_run E has_repository s [] = (Inl e, t)"
  shows "\<exists>n. n \<noteq> 0 \<and> e = DistutilsError (''testr failed ('' @ int_str n @ '')'') \<and> filter is_system t = []"
  using assms
  by (auto simp: testr_test_run_def testr_command_def testr_run_def run_testr_def coverage_before_def coverage_after_def ibind_def Let_def
      split: if_splits)

end
