(* ===== verification/Py_Samples.thy ===== *)
theory Py_Samples
  imports Py_World
begin

text \<open>
  The small programs of the repository: the REST service of \<^verbatim>\<open>coding/python/pecan\<close>, the gRPC client and server of
  \<^verbatim>\<open>coding/grpc/py_grpc_test\<close>, \<^verbatim>\<open>tox_example/hpa/sum.py\<close> and \<^verbatim>\<open>funcpointer/fp.py\<close>.  pecan, webob, gRPC and protocol buffers
  are parameters; what gRPC has to do with a message is the locale \<open>message_codec\<close>.
\<close>

section \<open>The REST service\<close>

text \<open>A response is its status and what the method returns; a redirection is an exception of pecan.\<close>

record response =
  status :: int
  body :: pyval

definition text_response :: "int \<Rightarrow> string \<Rightarrow> response" where
  "text_response s t = \<lparr>status = s, body = PStr t\<rparr>"

definition orders_get :: response where
  "orders_get = \<lparr>status = 200, body = PDict [(''100A'', PStr ''1 bag of corn''), (''293F'', PStr ''2 bags of potatoes''),
     (''207B'', PStr ''1 bag of carrots'')]\<rparr>"

definition orders_post :: response where
  "orders_post = text_response 201 (''POST SUCCESS!'' @ [CHR 0x0A])"

definition orders_put :: response where
  "orders_put = text_response 205 (''PUT SUCCESS!'' @ [CHR 0x0A])"

definition orders_delete :: response where
  "orders_delete = text_response 200 (''DELETE SUCCESS'' @ [CHR 0x0A])"

definition version_get :: response where
  "version_get = \<lparr>status = 200, body = PDict [(''api version'', PStr ''1.0'')]\<rparr>"

definition api_index :: response where
  "api_index = \<lparr>status = 200, body = PDict [(''version'', PStr ''1.0.0''), (''info'', PStr ''test api'')]\<rparr>"

definition index_post :: "string \<Rightarrow> string" where
  "index_post q = ''https://pecan.readthedocs.io/en/latest/search.html?q='' @ q"

text \<open>\<open>explanation\<close> is the text that webob has for a status, \<open>None\<close> for a status it does not know.\<close>

definition error_page :: "(int \<Rightarrow> string option) \<Rightarrow> string \<Rightarrow> pyval" where
  "error_page explanation code =
     (let s = (case py_int code of Some i \<Rightarrow> i | None \<Rightarrow> 500);
          message = (case explanation s of Some m \<Rightarrow> m | None \<Rightarrow> [])
      in PDict [(''status'', PInt s), (''message'', PStr message)])"

text \<open>The tree of the controllers: an attribute leads to the next one.\<close>

datatype controller = Root | Version | Api | Orders

definition subcontroller :: "controller \<Rightarrow> string \<Rightarrow> controller option" where
  "subcontroller c name =
     (case c of
        Root \<Rightarrow> if name = ''v1'' then Some Version else if name = ''api'' then Some Api else None
      | Api \<Rightarrow> if name = ''orders'' \<or> name = ''testhh'' then Some Orders else None
      | _ \<Rightarrow> None)"

fun find_controller :: "controller \<Rightarrow> string list \<Rightarrow> controller option" where
  "find_controller c [] = Some c"
| "find_controller c (name # path) = (case subcontroller c name of None \<Rightarrow> None | Some c' \<Rightarrow> find_controller c' path)"

definition rest_method :: "controller \<Rightarrow> string \<Rightarrow> response option" where
  "rest_method c verb =
     (case c of
        Orders \<Rightarrow> if verb = ''GET'' then Some orders_get else if verb = ''POST'' then Some orders_post
                  else if verb = ''PUT'' then Some orders_put else if verb = ''DELETE'' then Some orders_delete else None
      | Version \<Rightarrow> if verb = ''GET'' then Some version_get else None
      | _ \<Rightarrow> None)"

text \<open>The orders are found below two names.\<close>

lemma orders_paths:
  "find_controller Root path = Some Orders \<longleftrightarrow> path = [''api'', ''orders''] \<or> path = [''api'', ''testhh'']"
  by (cases path rule: remdups_adj.cases) (auto simp: subcontroller_def split: if_splits, (cases "tl (tl path)"; auto simp: subcontroller_def split: if_splits)+)

lemma error_page_status:
  "error_page explanation code = PDict [(''status'', PInt (case py_int code of Some i \<Rightarrow> i | None \<Rightarrow> 500)),
     (''message'', PStr (case explanation (case py_int code of Some i \<Rightarrow> i | None \<Rightarrow> 500) of Some m \<Rightarrow> m | None \<Rightarrow> []))]"
  by (simp add: error_page_def Let_def)

section \<open>The gRPC client and server\<close>

datatype grpc_event = ServerPrints string | ClientPrints string

definition service_path :: string where
  "service_path = ''/rpc_package.HelloWorldService/SayHello''"

text \<open>\<^verbatim>\<open>Hello.SayHello\<close>, and the servicer that is generated, which the class overrides.\<close>

definition SayHello :: "string \<Rightarrow> (grpc_event, string) io" where
  "SayHello name =
     ibind (emit (ServerPrints (''get '' @ name @ '' request''))) (\<lambda>_. iret (''Hello, '' @ name @ ''!''))"

definition servicer_SayHello :: "string \<Rightarrow> (grpc_event, string) io" where
  "servicer_SayHello name = iraise (PyException ''Method not implemented!'')"

text \<open>
  The handlers that are registered with the server, and a call that reaches it: the request is parsed, the handler of
  the path runs, the reply is serialised.  \<open>Inl\<close> is the failure of the call.
\<close>

definition registered :: "(string \<Rightarrow> (grpc_event, string) io) \<Rightarrow> string \<Rightarrow> (string \<Rightarrow> (grpc_event, string) io) option" where
  "registered servicer path = (if path = service_path then Some servicer else None)"

definition serve_call ::
    "(string \<Rightarrow> string option) \<Rightarrow> (string \<Rightarrow> string) \<Rightarrow> (string \<Rightarrow> (grpc_event, string) io) \<Rightarrow> string \<Rightarrow> string
     \<Rightarrow> (grpc_event, string) io" where
  "serve_call parse serialize servicer path request =
     (case registered servicer path of
        None \<Rightarrow> iraise (PyException ''UNIMPLEMENTED'')
      | Some handler \<Rightarrow>
          (case parse request of
             None \<Rightarrow> iraise (PyException ''INTERNAL'')
           | Some name \<Rightarrow> ibind (handler name) (\<lambda>reply. iret (serialize reply))))"

text \<open>The stub, and the client on a channel (a function from path and request to the reply).\<close>

definition stub_SayHello ::
    "(string \<Rightarrow> string) \<Rightarrow> (string \<Rightarrow> string option) \<Rightarrow> (string \<Rightarrow> string \<Rightarrow> (grpc_event, string) io) \<Rightarrow> string
     \<Rightarrow> (grpc_event, string) io" where
  "stub_SayHello serialize parse channel name =
     ibind (channel service_path (serialize name)) (\<lambda>reply. case parse reply of
         None \<Rightarrow> iraise (PyException ''INTERNAL'')
       | Some message \<Rightarrow> iret message)"

definition client_run ::
    "(string \<Rightarrow> string) \<Rightarrow> (string \<Rightarrow> string option) \<Rightarrow> (string \<Rightarrow> string \<Rightarrow> (grpc_event, string) io)
     \<Rightarrow> (grpc_event, unit) io" where
  "client_run serialize parse channel =
     ibind (stub_SayHello serialize parse channel ''eric'') (\<lambda>message.
       emit (ClientPrints (''hello client received: '' @ message)))"

text \<open>
  What the messages have to provide: parsing inverts serialising.  Then the client against the server is one request,
  answered, and both report it.
\<close>

locale message_codec =
  fixes serialize :: "string \<Rightarrow> string"
    and parse :: "string \<Rightarrow> string option"
  assumes parse_serialize: "parse (serialize s) = Some s"
begin

lemma client_meets_server:
  "client_run serialize parse (serve_call parse serialize SayHello) t
   = (Inr (), t @ [ServerPrints ''get eric request'', ClientPrints ''hello client received: Hello, eric!''])"
  by (simp add: client_run_def stub_SayHello_def serve_call_def registered_def SayHello_def parse_serialize ibind_def)

end

text \<open>
  The messages as the generated descriptor defines them, one string field with number 1, in the documented encoding of protocol
  buffers: the tag, the length as a number of variable size and the bytes; the empty string is not sent.
\<close>

fun varint :: "nat \<Rightarrow> string" where
  "varint n = (if n < 128 then [char_of n] else char_of (n mod 128 + 128) # varint (n div 128))"

declare varint.simps [simp del]

fun read_varint :: "string \<Rightarrow> (nat \<times> string) option" where
  "read_varint [] = None"
| "read_varint (c # s) =
     (let n = (of_char c :: nat)
      in if n < 128 then Some (n, s)
         else (case read_varint s of None \<Rightarrow> None | Some (m, r) \<Rightarrow> Some (n - 128 + 128 * m, r)))"

definition pb_serialize :: "string \<Rightarrow> string" where
  "pb_serialize s = (if s = [] then [] else CHR 0x0A # varint (length s) @ s)"

definition pb_parse :: "string \<Rightarrow> string option" where
  "pb_parse b =
     (case b of
        [] \<Rightarrow> Some []
      | c # r \<Rightarrow> if c \<noteq> CHR 0x0A then None
                 else (case read_varint r of
                         None \<Rightarrow> None
                       | Some (n, s) \<Rightarrow> if length s = n then Some s else None))"

lemma read_varint_varint: "read_varint (varint n @ s) = Some (n, s)"
proof (induction n rule: varint.induct)
  case (1 n)
  then show ?case
    by (subst varint.simps) (auto simp: Let_def mod_mult_div_eq)
qed

interpretation pb: message_codec pb_serialize pb_parse
proof unfold_locales
  fix s :: string
  show "pb_parse (pb_serialize s) = Some s"
    by (simp add: pb_parse_def pb_serialize_def read_varint_varint)
qed

text \<open>The messages survive the wire, and the client prints the greeting of the server.\<close>

theorem hello_end_to_end:
  "client_run pb_serialize pb_parse (serve_call pb_parse pb_serialize SayHello) t
   = (Inr (), t @ [ServerPrints ''get eric request'', ClientPrints ''hello client received: Hello, eric!''])
   \<and> (\<forall>name. stub_SayHello pb_serialize pb_parse (serve_call pb_parse pb_serialize SayHello) name t
        = (Inr (''Hello, '' @ name @ ''!''), t @ [ServerPrints (''get '' @ name @ '' request'')]))"
  using pb.client_meets_server [of t]
  by (simp add: stub_SayHello_def serve_call_def registered_def SayHello_def pb.parse_serialize ibind_def)

section \<open>Sums and repeated calls\<close>

fun sum_from :: "int \<Rightarrow> int list \<Rightarrow> int" where
  "sum_from acc [] = acc"
| "sum_from acc (v # vs) = sum_from (acc + v) vs"

definition hpa_sum :: "int list \<Rightarrow> int" where
  "hpa_sum arg = sum_from 0 arg"

lemma hpa_sum_list: "hpa_sum xs = sum_list xs"
proof -
  have "sum_from a xs = a + sum_list xs" for a by (induction xs arbitrary: a) auto
  then show ?thesis by (simp add: hpa_sum_def)
qed

definition repeat :: "(string list \<Rightarrow> (string, unit) io) \<Rightarrow> string list \<Rightarrow> nat \<Rightarrow> (string, unit) io" where
  "repeat f params n = ifor [0..<n] (\<lambda>_. f params)"

definition print_are :: "string list \<Rightarrow> (string, unit) io" where
  "print_are params = ibind (ilift (py_format ''{} are {}'' params)) emit"

definition print_is :: "string list \<Rightarrow> (string, unit) io" where
  "print_is params = ibind (ilift (py_format ''{} is {}'' params)) emit"

definition fp_main :: "(string, unit) io" where
  "fp_main = iseq (repeat print_is [''roses'', ''red''] 4) (repeat print_are [''violets'', ''blue''] 4)"

lemma fp_main_prints:
  "fp_main t = (Inr (), t @ replicate 4 ''roses is red'' @ replicate 4 ''violets are blue'')"
  by (simp add: fp_main_def repeat_def print_is_def print_are_def ibind_def numeral_eq_Suc upt_rec)

section \<open>The set-up of the pecan application\<close>

text \<open>
  The values of \<^verbatim>\<open>config.py\<close> as they are written.  The dictionary of the errors has numbers as keys; \<open>Forced\<close> marks a dictionary with
  the entry \<^verbatim>\<open>__force_dict__\<close>, which pecan keeps as a dictionary.
\<close>

datatype setting =
    Str string
  | Flag bool
  | Strs "string list"
  | Settings "(string \<times> setting) list"
  | Forced "(string \<times> setting) list"
  | ForcedErrors "(int \<times> string) list"

definition server_settings :: "(string \<times> setting) list" where
  "server_settings = [(''port'', Str ''18080''), (''host'', Str ''0.0.0.0'')]"

definition app_settings :: "(string \<times> setting) list" where
  "app_settings =
     [(''root'', Str ''pecanrest.controllers.root.RootController''),
      (''modules'', Strs [''pecanrest'']),
      (''static_root'', Str ''%(confdir)s/public''),
      (''template_path'', Str ''%(confdir)s/pecanrest/templates''),
      (''debug'', Flag True),
      (''errors'', ForcedErrors [(404, ''/error/404'')])]"

definition logging_settings :: "(string \<times> setting) list" where
  "logging_settings =
     [(''root'', Settings [(''level'', Str ''INFO''), (''handlers'', Strs [''console''])]),
      (''loggers'', Forced
        [(''pecanrest'', Settings [(''level'', Str ''DEBUG''), (''handlers'', Strs [''console'']), (''propagate'', Flag False)]),
         (''pecan'', Settings [(''level'', Str ''DEBUG''), (''handlers'', Strs [''console'']), (''propagate'', Flag False)]),
         (''py.warnings'', Settings [(''handlers'', Strs [''console''])])]),
      (''handlers'', Settings
        [(''console'', Settings
           [(''level'', Str ''DEBUG''), (''class'', Str ''logging.StreamHandler''), (''formatter'', Str ''color'')])]),
      (''formatters'', Settings
        [(''simple'', Settings
           [(''format'', Str (''%(asctime)s %(levelname)-5.5s [%(name)s]'' @ ''[%(threadName)s] %(message)s''))]),
         (''color'', Forced
           [(''()'', Str ''pecan.log.ColorFormatter''),
            (''format'', Str (''%(asctime)s [%(padded_color_levelname)s] [%(name)s]'' @ ''[%(threadName)s] %(message)s''))])])]"

text \<open>\<^verbatim>\<open>setup_app\<close>: \<open>make_app\<close> of pecan gets the root, the settings of the log and the other settings.\<close>

definition init_model :: "('ev, unit) io" where
  "init_model = iret ()"

definition setup_app ::
    "(setting \<Rightarrow> setting \<Rightarrow> (string \<times> setting) list \<Rightarrow> ('ev, 'a) io) \<Rightarrow> (string \<times> (string \<times> setting) list) list
     \<Rightarrow> ('ev, 'a) io" where
  "setup_app make_app config =
     iseq init_model
      (case map_of config ''app'' of
         None \<Rightarrow> iraise (AttributeError ''app'')
       | Some app_conf \<Rightarrow>
           (case map_of app_conf ''root'' of
              None \<Rightarrow> iraise (KeyError ''root'')
            | Some root \<Rightarrow>
                make_app root (Settings (case map_of config ''logging'' of Some l \<Rightarrow> l | None \<Rightarrow> [])) (dict_del ''root'' app_conf)))"

text \<open>The root that pecan is told is the class whose paths are described above; every other setting reaches pecan as it is written.\<close>

lemma setup_app_settings:
  "\<exists>kwargs. setup_app make_app [(''server'', server_settings), (''app'', app_settings), (''logging'', logging_settings)] t
      = make_app (Str ''pecanrest.controllers.root.RootController'') (Settings logging_settings) kwargs t
    \<and> (\<forall>k. map_of kwargs k = (if k = ''root'' then None else map_of app_settings k))"
  by (rule exI [of _ "dict_del ''root'' app_settings"]) (simp add: setup_app_def init_model_def app_settings_def)

section \<open>The life of the gRPC server\<close>

text \<open>
  The server sleeps until a sleep is interrupted; \<open>sleep n\<close> is the exception that ends the sleep number \<open>n\<close>.  The loop need not end:
  not returning is \<open>None\<close>.
\<close>

datatype server_event =
    CreateServer int
  | AddHandlers string
  | AddPort string
  | StartServer
  | Sleep int
  | StopServer int

partial_function (option) sleep_loop :: "(nat \<Rightarrow> exn option) \<Rightarrow> nat \<Rightarrow> (nat \<times> exn) option" where
  "sleep_loop sleep n = (case sleep n of None \<Rightarrow> sleep_loop sleep (Suc n) | Some e \<Rightarrow> Some (n, e))"

definition serve :: "(nat \<Rightarrow> exn option) \<Rightarrow> (unit res \<times> server_event list) option" where
  "serve sleep =
     (case sleep_loop sleep 0 of
        None \<Rightarrow> None
      | Some (n, e) \<Rightarrow>
          let before = [CreateServer 10, AddHandlers ''rpc_package.HelloWorldService'', AddPort ''[::]:50000'', StartServer]
                @ replicate (Suc n) (Sleep (60 * 60 * 24))
          in Some (if e = KeyboardInterrupt then (Inr (), before @ [StopServer 0]) else (Inl e, before)))"

text \<open>It returns exactly if a sleep is interrupted, by the first interruption, and stops the server for the keyboard only.\<close>

lemma sleep_loop_first:
  "sleep m = Some e \<Longrightarrow> n \<le> m \<Longrightarrow> \<forall>i. n \<le> i \<and> i < m \<longrightarrow> sleep i = None \<Longrightarrow> sleep_loop sleep n = Some (m, e)"
proof (induction "m - n" arbitrary: n)
  case 0
  then show ?case by (subst sleep_loop.simps) simp
next
  case (Suc d)
  then have "sleep n = None" "n < m" by auto
  with Suc have "sleep_loop sleep (Suc n) = Some (m, e)" by (intro Suc.hyps) auto
  with \<open>sleep n = None\<close> show ?case by (subst sleep_loop.simps) simp
qed

lemma sleep_loop_interrupted: "sleep_loop sleep n = Some r \<Longrightarrow> sleep (fst r) = Some (snd r)"
  by (erule sleep_loop.raw_induct [of "\<lambda>sleep n r. sleep (fst r) = Some (snd r)", rotated]) (auto split: option.splits)

lemma serve_returns:
  "(\<exists>r. serve sleep = Some r) \<longleftrightarrow> (\<exists>n. sleep n \<noteq> None)"
proof
  assume "\<exists>r. serve sleep = Some r"
  then obtain m e where "sleep_loop sleep 0 = Some (m, e)" by (auto simp: serve_def split: option.splits)
  from sleep_loop_interrupted [OF this] show "\<exists>n. sleep n \<noteq> None" by auto
next
  assume "\<exists>n. sleep n \<noteq> None"
  then have least: "sleep (LEAST n. sleep n \<noteq> None) \<noteq> None" by (rule LeastI_ex)
  then obtain e where e: "sleep (LEAST n. sleep n \<noteq> None) = Some e" by blast
  have "sleep_loop sleep 0 = Some (LEAST n. sleep n \<noteq> None, e)"
    using e by (intro sleep_loop_first) (auto dest: not_less_Least)
  then show "\<exists>r. serve sleep = Some r" by (simp add: serve_def Let_def)
qed

lemma serve_stops:
  "serve sleep = Some (r, evs) \<Longrightarrow> r = Inr () \<longleftrightarrow> last evs = StopServer 0"
  by (auto simp: serve_def Let_def split: option.splits if_splits)

section \<open>The examples for porting\<close>

text \<open>A program reads a line of its input at most once; what it prints are its effects.\<close>

definition greet :: "string \<Rightarrow> (string, unit) io" where
  "greet name = emit (''Hello, '' @ name @ ''!'')"

definition example_main :: "string res \<Rightarrow> (string, unit) io" where
  "example_main raw_input = iseq (emit ''What's your name?'') (ibind (ilift raw_input) greet)"

definition example_p_1 :: "(string, unit) io" where
  "example_p_1 = emit (''a'' @ ''b'' @ ''c'')"

definition example_p_2 :: "(string, unit) io" where
  "example_p_2 = emit ''a''"

lemma example_prints:
  "example_main (Inr name) t = (Inr (), t @ [''What's your name?'', ''Hello, '' @ name @ ''!''])"
  "example_main (Inl e) t = (Inl e, t @ [''What's your name?''])"
  by (simp_all add: example_main_def greet_def ibind_def)

end
