(* ===== verification/Six_Moves.thy ===== *)
theory Six_Moves
  imports Py_World
begin

text \<open>
  The lazy modules of \<^verbatim>\<open>six.py\<close>: \<^verbatim>\<open>six.moves\<close> and its submodules.  An attribute of such a module is a
  descriptor that imports what it stands for at its first use, stores it in the instance and removes itself from the
  class; the importer makes the submodules importable by their names.  The state is \<^verbatim>\<open>sys.modules\<close>, the classes and
  the instances of the lazy modules and the names that were really imported, in order.  Modules of Python are values of
  a type parameter, importing one (its package is imported already) and reading its attributes are parameters.
\<close>

section \<open>Moves\<close>

text \<open>What a descriptor needs: its name, the module and the attribute for the running version of Python.\<close>

datatype move = Attribute string string string | Module string string

fun move_name :: "move \<Rightarrow> string" where
  "move_name (Attribute name module attr) = name"
| "move_name (Module name module) = name"

definition or_else :: "'a option \<Rightarrow> 'a \<Rightarrow> 'a" where
  "or_else x d = (case x of None \<Rightarrow> d | Some y \<Rightarrow> y)"

definition attribute :: "bool \<Rightarrow> string \<Rightarrow> string \<Rightarrow> string option \<Rightarrow> string option \<Rightarrow> string option \<Rightarrow> move" where
  "attribute py3 name old_mod new_mod old_attr new_attr =
     (if py3 then Attribute name (or_else new_mod name) (or_else new_attr (or_else old_attr name))
      else Attribute name old_mod (or_else old_attr name))"

definition module :: "bool \<Rightarrow> string \<Rightarrow> string \<Rightarrow> string option \<Rightarrow> move" where
  "module py3 name old new = Module name (if py3 then or_else new name else old)"

text \<open>The tables; \<open>py34\<close> tells Python 3.4 and later.\<close>

definition moved_attributes_all :: "bool \<Rightarrow> bool \<Rightarrow> move list" where
  "moved_attributes_all py3 py34 =
    [attribute py3 ''cStringIO'' ''cStringIO'' (Some ''io'') (Some ''StringIO'') None,
     attribute py3 ''filter'' ''itertools'' (Some ''builtins'') (Some ''ifilter'') (Some ''filter''),
     attribute py3 ''filterfalse'' ''itertools'' (Some ''itertools'') (Some ''ifilterfalse'') (Some ''filterfalse''),
     attribute py3 ''input'' ''__builtin__'' (Some ''builtins'') (Some ''raw_input'') (Some ''input''),
     attribute py3 ''intern'' ''__builtin__'' (Some ''sys'') None None,
     attribute py3 ''map'' ''itertools'' (Some ''builtins'') (Some ''imap'') (Some ''map''),
     attribute py3 ''getcwd'' ''os'' (Some ''os'') (Some ''getcwdu'') (Some ''getcwd''),
     attribute py3 ''getcwdb'' ''os'' (Some ''os'') (Some ''getcwd'') (Some ''getcwdb''),
     attribute py3 ''getoutput'' ''commands'' (Some ''subprocess'') None None,
     attribute py3 ''range'' ''__builtin__'' (Some ''builtins'') (Some ''xrange'') (Some ''range''),
     attribute py3 ''reload_module'' ''__builtin__'' (Some (if py34 then ''importlib'' else ''imp'')) (Some ''reload'') None,
     attribute py3 ''reduce'' ''__builtin__'' (Some ''functools'') None None,
     attribute py3 ''shlex_quote'' ''pipes'' (Some ''shlex'') (Some ''quote'') None,
     attribute py3 ''StringIO'' ''StringIO'' (Some ''io'') None None,
     attribute py3 ''UserDict'' ''UserDict'' (Some ''collections'') None None,
     attribute py3 ''UserList'' ''UserList'' (Some ''collections'') None None,
     attribute py3 ''UserString'' ''UserString'' (Some ''collections'') None None,
     attribute py3 ''xrange'' ''__builtin__'' (Some ''builtins'') (Some ''xrange'') (Some ''range''),
     attribute py3 ''zip'' ''itertools'' (Some ''builtins'') (Some ''izip'') (Some ''zip''),
     attribute py3 ''zip_longest'' ''itertools'' (Some ''itertools'') (Some ''izip_longest'') (Some ''zip_longest''),
     module py3 ''builtins'' ''__builtin__'' None,
     module py3 ''configparser'' ''ConfigParser'' None,
     module py3 ''copyreg'' ''copy_reg'' None,
     module py3 ''dbm_gnu'' ''gdbm'' (Some ''dbm.gnu''),
     module py3 ''_dummy_thread'' ''dummy_thread'' (Some ''_dummy_thread''),
     module py3 ''http_cookiejar'' ''cookielib'' (Some ''http.cookiejar''),
     module py3 ''http_cookies'' ''Cookie'' (Some ''http.cookies''),
     module py3 ''html_entities'' ''htmlentitydefs'' (Some ''html.entities''),
     module py3 ''html_parser'' ''HTMLParser'' (Some ''html.parser''),
     module py3 ''http_client'' ''httplib'' (Some ''http.client''),
     module py3 ''email_mime_base'' ''email.MIMEBase'' (Some ''email.mime.base''),
     module py3 ''email_mime_image'' ''email.MIMEImage'' (Some ''email.mime.image''),
     module py3 ''email_mime_multipart'' ''email.MIMEMultipart'' (Some ''email.mime.multipart''),
     module py3 ''email_mime_nonmultipart'' ''email.MIMENonMultipart'' (Some ''email.mime.nonmultipart''),
     module py3 ''email_mime_text'' ''email.MIMEText'' (Some ''email.mime.text''),
     module py3 ''BaseHTTPServer'' ''BaseHTTPServer'' (Some ''http.server''),
     module py3 ''CGIHTTPServer'' ''CGIHTTPServer'' (Some ''http.server''),
     module py3 ''SimpleHTTPServer'' ''SimpleHTTPServer'' (Some ''http.server''),
     module py3 ''cPickle'' ''cPickle'' (Some ''pickle''),
     module py3 ''queue'' ''Queue'' None,
     module py3 ''reprlib'' ''repr'' None,
     module py3 ''socketserver'' ''SocketServer'' None,
     module py3 ''_thread'' ''thread'' (Some ''_thread''),
     module py3 ''tkinter'' ''Tkinter'' None,
     module py3 ''tkinter_dialog'' ''Dialog'' (Some ''tkinter.dialog''),
     module py3 ''tkinter_filedialog'' ''FileDialog'' (Some ''tkinter.filedialog''),
     module py3 ''tkinter_scrolledtext'' ''ScrolledText'' (Some ''tkinter.scrolledtext''),
     module py3 ''tkinter_simpledialog'' ''SimpleDialog'' (Some ''tkinter.simpledialog''),
     module py3 ''tkinter_tix'' ''Tix'' (Some ''tkinter.tix''),
     module py3 ''tkinter_ttk'' ''ttk'' (Some ''tkinter.ttk''),
     module py3 ''tkinter_constants'' ''Tkconstants'' (Some ''tkinter.constants''),
     module py3 ''tkinter_dnd'' ''Tkdnd'' (Some ''tkinter.dnd''),
     module py3 ''tkinter_colorchooser'' ''tkColorChooser'' (Some ''tkinter.colorchooser''),
     module py3 ''tkinter_commondialog'' ''tkCommonDialog'' (Some ''tkinter.commondialog''),
     module py3 ''tkinter_tkfiledialog'' ''tkFileDialog'' (Some ''tkinter.filedialog''),
     module py3 ''tkinter_font'' ''tkFont'' (Some ''tkinter.font''),
     module py3 ''tkinter_messagebox'' ''tkMessageBox'' (Some ''tkinter.messagebox''),
     module py3 ''tkinter_tksimpledialog'' ''tkSimpleDialog'' (Some ''tkinter.simpledialog''),
     module py3 ''urllib_parse'' ''six.moves.urllib_parse'' (Some ''urllib.parse''),
     module py3 ''urllib_error'' ''six.moves.urllib_error'' (Some ''urllib.error''),
     module py3 ''urllib'' ''six.moves.urllib'' (Some ''six.moves.urllib''),
     module py3 ''urllib_robotparser'' ''robotparser'' (Some ''urllib.robotparser''),
     module py3 ''xmlrpc_client'' ''xmlrpclib'' (Some ''xmlrpc.client''),
     module py3 ''xmlrpc_server'' ''SimpleXMLRPCServer'' (Some ''xmlrpc.server'')]"

definition moved_attributes :: "bool \<Rightarrow> bool \<Rightarrow> bool \<Rightarrow> move list" where
  "moved_attributes py3 py34 win32 =
     moved_attributes_all py3 py34 @ (if win32 then [module py3 ''winreg'' ''_winreg'' None] else [])"

definition urllib_parse_moved_attributes :: "bool \<Rightarrow> move list" where
  "urllib_parse_moved_attributes py3 =
    [attribute py3 ''ParseResult'' ''urlparse'' (Some ''urllib.parse'') None None,
     attribute py3 ''SplitResult'' ''urlparse'' (Some ''urllib.parse'') None None,
     attribute py3 ''parse_qs'' ''urlparse'' (Some ''urllib.parse'') None None,
     attribute py3 ''parse_qsl'' ''urlparse'' (Some ''urllib.parse'') None None,
     attribute py3 ''urldefrag'' ''urlparse'' (Some ''urllib.parse'') None None,
     attribute py3 ''urljoin'' ''urlparse'' (Some ''urllib.parse'') None None,
     attribute py3 ''urlparse'' ''urlparse'' (Some ''urllib.parse'') None None,
     attribute py3 ''urlsplit'' ''urlparse'' (Some ''urllib.parse'') None None,
     attribute py3 ''urlunparse'' ''urlparse'' (Some ''urllib.parse'') None None,
     attribute py3 ''urlunsplit'' ''urlparse'' (Some ''urllib.parse'') None None,
     attribute py3 ''quote'' ''urllib'' (Some ''urllib.parse'') None None,
     attribute py3 ''quote_plus'' ''urllib'' (Some ''urllib.parse'') None None,
     attribute py3 ''unquote'' ''urllib'' (Some ''urllib.parse'') None None,
     attribute py3 ''unquote_plus'' ''urllib'' (Some ''urllib.parse'') None None,
     attribute py3 ''unquote_to_bytes'' ''urllib'' (Some ''urllib.parse'') (Some ''unquote'') (Some ''unquote_to_bytes''),
     attribute py3 ''urlencode'' ''urllib'' (Some ''urllib.parse'') None None,
     attribute py3 ''splitquery'' ''urllib'' (Some ''urllib.parse'') None None,
     attribute py3 ''splittag'' ''urllib'' (Some ''urllib.parse'') None None,
     attribute py3 ''splituser'' ''urllib'' (Some ''urllib.parse'') None None,
     attribute py3 ''splitvalue'' ''urllib'' (Some ''urllib.parse'') None None,
     attribute py3 ''uses_fragment'' ''urlparse'' (Some ''urllib.parse'') None None,
     attribute py3 ''uses_netloc'' ''urlparse'' (Some ''urllib.parse'') None None,
     attribute py3 ''uses_params'' ''urlparse'' (Some ''urllib.parse'') None None,
     attribute py3 ''uses_query'' ''urlparse'' (Some ''urllib.parse'') None None,
     attribute py3 ''uses_relative'' ''urlparse'' (Some ''urllib.parse'') None None]"

definition urllib_error_moved_attributes :: "bool \<Rightarrow> move list" where
  "urllib_error_moved_attributes py3 =
    [attribute py3 ''URLError'' ''urllib2'' (Some ''urllib.error'') None None,
     attribute py3 ''HTTPError'' ''urllib2'' (Some ''urllib.error'') None None,
     attribute py3 ''ContentTooShortError'' ''urllib'' (Some ''urllib.error'') None None]"

definition urllib_request_moved_attributes :: "bool \<Rightarrow> move list" where
  "urllib_request_moved_attributes py3 =
    [attribute py3 ''urlopen'' ''urllib2'' (Some ''urllib.request'') None None,
     attribute py3 ''install_opener'' ''urllib2'' (Some ''urllib.request'') None None,
     attribute py3 ''build_opener'' ''urllib2'' (Some ''urllib.request'') None None,
     attribute py3 ''pathname2url'' ''urllib'' (Some ''urllib.request'') None None,
     attribute py3 ''url2pathname'' ''urllib'' (Some ''urllib.request'') None None,
     attribute py3 ''getproxies'' ''urllib'' (Some ''urllib.request'') None None,
     attribute py3 ''Request'' ''urllib2'' (Some ''urllib.request'') None None,
     attribute py3 ''OpenerDirector'' ''urllib2'' (Some ''urllib.request'') None None,
     attribute py3 ''HTTPDefaultErrorHandler'' ''urllib2'' (Some ''urllib.request'') None None,
     attribute py3 ''HTTPRedirectHandler'' ''urllib2'' (Some ''urllib.request'') None None,
     attribute py3 ''HTTPCookieProcessor'' ''urllib2'' (Some ''urllib.request'') None None,
     attribute py3 ''ProxyHandler'' ''urllib2'' (Some ''urllib.request'') None None,
     attribute py3 ''BaseHandler'' ''urllib2'' (Some ''urllib.request'') None None,
     attribute py3 ''HTTPPasswordMgr'' ''urllib2'' (Some ''urllib.request'') None None,
     attribute py3 ''HTTPPasswordMgrWithDefaultRealm'' ''urllib2'' (Some ''urllib.request'') None None,
     attribute py3 ''AbstractBasicAuthHandler'' ''urllib2'' (Some ''urllib.request'') None None,
     attribute py3 ''HTTPBasicAuthHandler'' ''urllib2'' (Some ''urllib.request'') None None,
     attribute py3 ''ProxyBasicAuthHandler'' ''urllib2'' (Some ''urllib.request'') None None,
     attribute py3 ''AbstractDigestAuthHandler'' ''urllib2'' (Some ''urllib.request'') None None,
     attribute py3 ''HTTPDigestAuthHandler'' ''urllib2'' (Some ''urllib.request'') None None,
     attribute py3 ''ProxyDigestAuthHandler'' ''urllib2'' (Some ''urllib.request'') None None,
     attribute py3 ''HTTPHandler'' ''urllib2'' (Some ''urllib.request'') None None,
     attribute py3 ''HTTPSHandler'' ''urllib2'' (Some ''urllib.request'') None None,
     attribute py3 ''FileHandler'' ''urllib2'' (Some ''urllib.request'') None None,
     attribute py3 ''FTPHandler'' ''urllib2'' (Some ''urllib.request'') None None,
     attribute py3 ''CacheFTPHandler'' ''urllib2'' (Some ''urllib.request'') None None,
     attribute py3 ''UnknownHandler'' ''urllib2'' (Some ''urllib.request'') None None,
     attribute py3 ''HTTPErrorProcessor'' ''urllib2'' (Some ''urllib.request'') None None,
     attribute py3 ''urlretrieve'' ''urllib'' (Some ''urllib.request'') None None,
     attribute py3 ''urlcleanup'' ''urllib'' (Some ''urllib.request'') None None,
     attribute py3 ''URLopener'' ''urllib'' (Some ''urllib.request'') None None,
     attribute py3 ''FancyURLopener'' ''urllib'' (Some ''urllib.request'') None None,
     attribute py3 ''proxy_bypass'' ''urllib'' (Some ''urllib.request'') None None,
     attribute py3 ''parse_http_list'' ''urllib2'' (Some ''urllib.request'') None None,
     attribute py3 ''parse_keqv_list'' ''urllib2'' (Some ''urllib.request'') None None]"

definition urllib_response_moved_attributes :: "bool \<Rightarrow> move list" where
  "urllib_response_moved_attributes py3 =
    [attribute py3 ''addbase'' ''urllib'' (Some ''urllib.response'') None None,
     attribute py3 ''addclosehook'' ''urllib'' (Some ''urllib.response'') None None,
     attribute py3 ''addinfo'' ''urllib'' (Some ''urllib.response'') None None,
     attribute py3 ''addinfourl'' ''urllib'' (Some ''urllib.response'') None None]"

definition urllib_robotparser_moved_attributes :: "bool \<Rightarrow> move list" where
  "urllib_robotparser_moved_attributes py3 =
    [attribute py3 ''RobotFileParser'' ''robotparser'' (Some ''urllib.robotparser'') None None]"

section \<open>The state\<close>

text \<open>
  A module made by \<^verbatim>\<open>six.py\<close>, or \<^verbatim>\<open>six\<close> itself, is known by its name, any other is a value.  The attributes of classes
  are the descriptors, those of instances what was stored in them; \<open>move_attrs\<close> are the attributes that were
  stored in a \<^verbatim>\<open>MovedModule\<close>.
\<close>

datatype 'o obj = Native 'o | Lazy string

record 'o six_world =
  sys_modules :: "(string \<times> 'o obj) list"
  class_attrs :: "string \<Rightarrow> (string \<times> move) list"
  instance_dict :: "string \<Rightarrow> (string \<times> 'o obj) list"
  move_attrs :: "string \<times> string \<Rightarrow> (string \<times> 'o obj) list"
  imported :: "string list"

text \<open>The importer knows a \<^verbatim>\<open>MovedModule\<close>, by its name and its module, or a module made by \<^verbatim>\<open>six.py\<close>.\<close>

datatype known = KnownMove string string | KnownLazy string

record 'o six_env =
  known_modules :: "(string \<times> known) list"
  native_import :: "string \<Rightarrow> 'o res"
  native_getattr :: "'o \<Rightarrow> string \<Rightarrow> 'o res"

type_synonym ('o, 'a) six = "('o six_world, 'a) st"

definition set_module :: "string \<Rightarrow> 'o obj \<Rightarrow> ('o, 'o obj) six" where
  "set_module name m = (\<lambda>w. (Inr m, w\<lparr>sys_modules := dict_set name m (sys_modules w)\<rparr>))"

definition import_native :: "'o six_env \<Rightarrow> string \<Rightarrow> ('o, 'o obj) six" where
  "import_native E name =
     ibind (ilift (native_import E name)) (\<lambda>x.
     (\<lambda>w. (Inr (Native x), w\<lparr>sys_modules := dict_set name (Native x) (sys_modules w), imported := imported w @ [name]\<rparr>)))"

section \<open>The importer\<close>

definition find_module :: "'o six_env \<Rightarrow> string \<Rightarrow> bool" where
  "find_module E fullname \<longleftrightarrow> map_of (known_modules E) fullname \<noteq> None"

definition get_known :: "'o six_env \<Rightarrow> string \<Rightarrow> known res" where
  "get_known E fullname =
     (case map_of (known_modules E) fullname of
        None \<Rightarrow> Inl (ImportError (''This loader does not know module '' @ fullname))
      | Some k \<Rightarrow> Inr k)"

text \<open>\<open>imp\<close> is \<^verbatim>\<open>_import_module\<close>.\<close>

definition load_module :: "(string \<Rightarrow> ('o, 'o obj) six) \<Rightarrow> 'o six_env \<Rightarrow> string \<Rightarrow> ('o, 'o obj) six" where
  "load_module imp E fullname =
     (\<lambda>w. case map_of (sys_modules w) fullname of
        Some m \<Rightarrow> (Inr m, w)
      | None \<Rightarrow>
          ibind (ilift (get_known E fullname)) (\<lambda>k.
          ibind (case k of KnownMove _ md \<Rightarrow> imp md | KnownLazy i \<Rightarrow> iret (Lazy i))
                (set_module fullname)) w)"

definition get_module :: "'o six_env \<Rightarrow> string \<Rightarrow> known res" where
  "get_module E fullname = dict_get (known_modules E) (''six.'' @ fullname)"

definition get_code :: "'o six_env \<Rightarrow> string \<Rightarrow> unit res" where
  "get_code E fullname = rbind (get_known E fullname) (\<lambda>_. Inr ())"

text \<open>
  The statement \<^verbatim>\<open>import\<close>, \<^verbatim>\<open>__import__(name)\<close>: the packages of a dotted name are imported from left to right, each is loaded by the
  importer if that knows it, and is made an attribute of its package.
\<close>

fun dotted_from :: "string \<Rightarrow> string \<Rightarrow> string list" where
  "dotted_from before [] = [before]"
| "dotted_from before (c # cs) = (if c = CHR ''.'' then [before] else []) @ dotted_from (before @ [c]) cs"

definition dotted :: "string \<Rightarrow> string list" where
  "dotted = dotted_from []"

definition parent_name :: "string \<Rightarrow> string" where
  "parent_name name = rev (tl (dropWhile (\<lambda>c. c \<noteq> CHR ''.'') (rev name)))"

definition last_name :: "string \<Rightarrow> string" where
  "last_name name = rev (takeWhile (\<lambda>c. c \<noteq> CHR ''.'') (rev name))"

definition bind_in_parent :: "string \<Rightarrow> 'o obj \<Rightarrow> ('o, unit) six" where
  "bind_in_parent name m = (\<lambda>w.
     (Inr (), case map_of (sys_modules w) (parent_name name) of
                Some (Lazy i) \<Rightarrow> w\<lparr>instance_dict := (instance_dict w)(i := dict_set (last_name name) m (instance_dict w i))\<rparr>
              | _ \<Rightarrow> w))"

definition import_step :: "(string \<Rightarrow> ('o, 'o obj) six) \<Rightarrow> 'o six_env \<Rightarrow> string \<Rightarrow> ('o, unit) six" where
  "import_step imp E name = (\<lambda>w.
     case map_of (sys_modules w) name of
       Some _ \<Rightarrow> (Inr (), w)
     | None \<Rightarrow> ibind (if find_module E name then load_module imp E name else import_native E name) (bind_in_parent name) w)"

definition module_named :: "string \<Rightarrow> ('o, 'o obj) six" where
  "module_named name = (\<lambda>w. case map_of (sys_modules w) name of Some m \<Rightarrow> (Inr m, w) | None \<Rightarrow> (Inl (KeyError name), w))"

text \<open>\<^verbatim>\<open>_import_module\<close>.  The fuel is the recursion limit of the interpreter.\<close>

fun import_module :: "nat \<Rightarrow> 'o six_env \<Rightarrow> string \<Rightarrow> ('o, 'o obj) six" where
  "import_module 0 E name = iraise (RuntimeError ''maximum recursion depth exceeded'')"
| "import_module (Suc n) E name =
     iseq (ifor (dotted name) (import_step (import_module n E) E)) (module_named name)"

section \<open>Attributes of lazy modules\<close>

definition store_attr :: "string \<Rightarrow> string \<Rightarrow> 'o obj \<Rightarrow> ('o, 'o obj) six" where
  "store_attr i name result = (\<lambda>w. (Inr result,
     w\<lparr>instance_dict := (instance_dict w)(i := dict_set name result (instance_dict w i)),
       class_attrs := (class_attrs w)(i := dict_del name (class_attrs w i))\<rparr>))"

text \<open>\<^verbatim>\<open>getattr\<close> on a module, and \<^verbatim>\<open>MovedAttribute._resolve\<close>, given \<^verbatim>\<open>_import_module\<close> and the attributes of lazy modules.\<close>

definition getattr_of ::
    "(string \<Rightarrow> string \<Rightarrow> ('o, 'o obj) six) \<Rightarrow> 'o six_env \<Rightarrow> 'o obj \<Rightarrow> string \<Rightarrow> ('o, 'o obj) six" where
  "getattr_of lazy E m attr = (case m of
       Native x \<Rightarrow> ibind (ilift (native_getattr E x attr)) (\<lambda>v. iret (Native v))
     | Lazy i \<Rightarrow> lazy i attr)"

definition resolve_attribute ::
    "(string \<Rightarrow> ('o, 'o obj) six) \<Rightarrow> (string \<Rightarrow> string \<Rightarrow> ('o, 'o obj) six) \<Rightarrow> 'o six_env \<Rightarrow> string \<Rightarrow> string
     \<Rightarrow> ('o, 'o obj) six" where
  "resolve_attribute imp lazy E md attr = ibind (imp md) (\<lambda>m. getattr_of lazy E m attr)"

fun lazy_getattr :: "nat \<Rightarrow> 'o six_env \<Rightarrow> string \<Rightarrow> string \<Rightarrow> ('o, 'o obj) six" where
  "lazy_getattr 0 E i name = iraise (RuntimeError ''maximum recursion depth exceeded'')"
| "lazy_getattr (Suc n) E i name =
     (\<lambda>w. case map_of (instance_dict w i) name of
        Some v \<Rightarrow> (Inr v, w)
      | None \<Rightarrow>
          (case map_of (class_attrs w i) name of
             None \<Rightarrow> (Inl (AttributeError name), w)
           | Some mv \<Rightarrow>
               ibind (case mv of
                        Module _ md \<Rightarrow> import_module n E md
                      | Attribute _ md attr \<Rightarrow>
                          resolve_attribute (import_module n E) (lazy_getattr n E) E md attr)
                 (store_attr i name) w))"

text \<open>An attribute of a \<^verbatim>\<open>MovedModule\<close> that it does not define itself.\<close>

definition moved_getattr :: "nat \<Rightarrow> 'o six_env \<Rightarrow> string \<times> string \<Rightarrow> string \<Rightarrow> ('o, 'o obj) six" where
  "moved_getattr n E mv attr = (\<lambda>w.
     case map_of (move_attrs w mv) attr of
       Some v \<Rightarrow> (Inr v, w)
     | None \<Rightarrow>
         ibind (import_module n E (snd mv)) (\<lambda>m.
         ibind (getattr_of (lazy_getattr n E) E m attr) (\<lambda>v.
         (\<lambda>w. (Inr v, w\<lparr>move_attrs := (move_attrs w)(mv := dict_set attr v (move_attrs w mv))\<rparr>)))) w)"

text \<open>The modules with a \<^verbatim>\<open>__path__\<close>, \<^verbatim>\<open>hasattr\<close> (which forgives any \<^verbatim>\<open>Exception\<close> in Python 2) and \<^verbatim>\<open>is_package\<close>.\<close>

definition has_path :: "string \<Rightarrow> bool" where
  "has_path i \<longleftrightarrow> i \<in> set [''six'', ''six.moves'', ''six.moves.urllib'']"

definition no_attribute :: "bool \<Rightarrow> exn \<Rightarrow> bool" where
  "no_attribute py3 e = (if py3 then (case e of AttributeError _ \<Rightarrow> True | _ \<Rightarrow> False) else is_Exception e)"

definition is_package :: "bool \<Rightarrow> nat \<Rightarrow> 'o six_env \<Rightarrow> string \<Rightarrow> ('o, bool) six" where
  "is_package py3 n E fullname =
     ibind (ilift (get_known E fullname)) (\<lambda>k. case k of
         KnownLazy i \<Rightarrow> iret (has_path i)
       | KnownMove name md \<Rightarrow>
           icatch (ibind (moved_getattr n E (name, md) ''__path__'') (\<lambda>_. iret True)) (no_attribute py3) (\<lambda>_. iret False))"

definition moves_id :: string where
  "moves_id = ''six.moves''"

definition add_move :: "move \<Rightarrow> ('o, unit) six" where
  "add_move move = (\<lambda>w. (Inr (),
     w\<lparr>class_attrs := (class_attrs w)(moves_id := dict_set (move_name move) move (class_attrs w moves_id))\<rparr>))"

definition remove_move :: "string \<Rightarrow> ('o, unit) six" where
  "remove_move name = (\<lambda>w.
     if map_of (class_attrs w moves_id) name \<noteq> None
     then (Inr (), w\<lparr>class_attrs := (class_attrs w)(moves_id := dict_del name (class_attrs w moves_id))\<rparr>)
     else if map_of (instance_dict w moves_id) name \<noteq> None
     then (Inr (), w\<lparr>instance_dict := (instance_dict w)(moves_id := dict_del name (instance_dict w moves_id))\<rparr>)
     else (Inl (AttributeError (''no such move, '' @ repr_bytes name)), w))"

section \<open>The module as it is loaded\<close>

definition add_module :: "known \<Rightarrow> string list \<Rightarrow> (string \<times> known) list \<Rightarrow> (string \<times> known) list" where
  "add_module m fullnames known = foldl (\<lambda>k name. dict_set (''six.'' @ name) m k) known fullnames"

definition descriptors :: "move list \<Rightarrow> (string \<times> move) list" where
  "descriptors = foldl (\<lambda>d mv. dict_set (move_name mv) mv d) []"

text \<open>The loop over the moves of \<^verbatim>\<open>six.moves\<close>, and its instance.\<close>

definition register_moves :: "move list \<Rightarrow> (string \<times> known) list" where
  "register_moves mvs =
     foldl (\<lambda>k mv. case mv of Module name md \<Rightarrow> add_module (KnownMove name md) [''moves.'' @ name] k | Attribute _ _ _ \<Rightarrow> k) [] mvs"

definition register_moves_module :: "(string \<times> known) list \<Rightarrow> (string \<times> known) list" where
  "register_moves_module = add_module (KnownLazy ''six.moves'') [''moves'']"

text \<open>The submodules, each with its class and the names it is known by.\<close>

definition urllib_parse_class :: "bool \<Rightarrow> (string \<times> move) list" where
  "urllib_parse_class py3 = descriptors (urllib_parse_moved_attributes py3)"

definition register_urllib_parse :: "(string \<times> known) list \<Rightarrow> (string \<times> known) list" where
  "register_urllib_parse = add_module (KnownLazy ''six.moves.urllib_parse'') [''moves.urllib_parse'', ''moves.urllib.parse'']"

definition urllib_error_class :: "bool \<Rightarrow> (string \<times> move) list" where
  "urllib_error_class py3 = descriptors (urllib_error_moved_attributes py3)"

definition register_urllib_error :: "(string \<times> known) list \<Rightarrow> (string \<times> known) list" where
  "register_urllib_error = add_module (KnownLazy ''six.moves.urllib.error'') [''moves.urllib_error'', ''moves.urllib.error'']"

definition urllib_request_class :: "bool \<Rightarrow> (string \<times> move) list" where
  "urllib_request_class py3 = descriptors (urllib_request_moved_attributes py3)"

definition register_urllib_request :: "(string \<times> known) list \<Rightarrow> (string \<times> known) list" where
  "register_urllib_request =
     add_module (KnownLazy ''six.moves.urllib.request'') [''moves.urllib_request'', ''moves.urllib.request'']"

definition urllib_response_class :: "bool \<Rightarrow> (string \<times> move) list" where
  "urllib_response_class py3 = descriptors (urllib_response_moved_attributes py3)"

definition register_urllib_response :: "(string \<times> known) list \<Rightarrow> (string \<times> known) list" where
  "register_urllib_response =
     add_module (KnownLazy ''six.moves.urllib.response'') [''moves.urllib_response'', ''moves.urllib.response'']"

definition urllib_robotparser_class :: "bool \<Rightarrow> (string \<times> move) list" where
  "urllib_robotparser_class py3 = descriptors (urllib_robotparser_moved_attributes py3)"

definition register_urllib_robotparser :: "(string \<times> known) list \<Rightarrow> (string \<times> known) list" where
  "register_urllib_robotparser =
     add_module (KnownLazy ''six.moves.urllib.robotparser'') [''moves.urllib_robotparser'', ''moves.urllib.robotparser'']"

definition register_urllib :: "(string \<times> known) list \<Rightarrow> (string \<times> known) list" where
  "register_urllib = add_module (KnownLazy ''six.moves.urllib'') [''moves.urllib'']"

definition six_known :: "bool \<Rightarrow> bool \<Rightarrow> bool \<Rightarrow> (string \<times> known) list" where
  "six_known py3 py34 win32 =
     register_urllib (register_urllib_robotparser (register_urllib_response (register_urllib_request
       (register_urllib_error (register_urllib_parse (register_moves_module (register_moves (moved_attributes py3 py34 win32))))))))"

definition six_classes :: "bool \<Rightarrow> bool \<Rightarrow> bool \<Rightarrow> string \<Rightarrow> (string \<times> move) list" where
  "six_classes py3 py34 win32 i =
     (if i = ''six.moves'' then descriptors (moved_attributes py3 py34 win32)
      else if i = ''six.moves.urllib_parse'' then urllib_parse_class py3
      else if i = ''six.moves.urllib.error'' then urllib_error_class py3
      else if i = ''six.moves.urllib.request'' then urllib_request_class py3
      else if i = ''six.moves.urllib.response'' then urllib_response_class py3
      else if i = ''six.moves.urllib.robotparser'' then urllib_robotparser_class py3
      else [])"

text \<open>
  The class \<^verbatim>\<open>Module_six_moves_urllib\<close> holds its submodules as plain values; \<open>lazy_dir\<close> is \<^verbatim>\<open>dir()\<close> of an instance of one of the
  other classes, whose \<^verbatim>\<open>_moved_attributes\<close> is the table.
\<close>

definition urllib_namespace :: "(string \<times> 'o obj) list" where
  "urllib_namespace =
     [(''parse'', Lazy ''six.moves.urllib_parse''), (''error'', Lazy ''six.moves.urllib.error''),
      (''request'', Lazy ''six.moves.urllib.request''), (''response'', Lazy ''six.moves.urllib.response''),
      (''robotparser'', Lazy ''six.moves.urllib.robotparser'')]"

definition urllib_dir :: "string list" where
  "urllib_dir = [''parse'', ''error'', ''request'', ''response'', ''robotparser'']"

definition lazy_dir :: "move list \<Rightarrow> string list" where
  "lazy_dir mvs = [''__doc__'', ''__name__''] @ map move_name mvs"

definition six_loaded :: "bool \<Rightarrow> bool \<Rightarrow> bool \<Rightarrow> 'o six_world" where
  "six_loaded py3 py34 win32 =
     \<lparr>sys_modules = [(''six'', Lazy ''six'')], class_attrs = six_classes py3 py34 win32,
      instance_dict = (\<lambda>i. if i = ''six'' then [(''moves'', Lazy ''six.moves'')]
        else if i = ''six.moves.urllib'' then urllib_namespace else []),
      move_attrs = (\<lambda>_. []), imported = []\<rparr>"

text \<open>
  The end of \<^verbatim>\<open>six.py\<close>: an importer that another loading of the module left in \<^verbatim>\<open>sys.meta_path\<close> is removed, the new one is
  appended.  An importer is the name of its class and its attribute \<^verbatim>\<open>name\<close>.
\<close>

type_synonym importer = "string \<times> string"

fun remove_first :: "('a \<Rightarrow> bool) \<Rightarrow> 'a list \<Rightarrow> 'a list" where
  "remove_first P [] = []"
| "remove_first P (x # xs) = (if P x then xs else x # remove_first P xs)"

definition six_importer :: "string \<Rightarrow> importer \<Rightarrow> bool" where
  "six_importer name i \<longleftrightarrow> fst i = ''_SixMetaPathImporter'' \<and> snd i = name"

definition install_importer :: "string \<Rightarrow> importer list \<Rightarrow> importer list" where
  "install_importer name meta_path =
     remove_first (six_importer name) meta_path @ [(''_SixMetaPathImporter'', name)]"

section \<open>No module is imported twice\<close>

definition imports_inv :: "'o six_world \<Rightarrow> bool" where
  "imports_inv w \<longleftrightarrow> distinct (imported w) \<and> set (imported w) \<subseteq> fst ` set (sys_modules w)"

text \<open>A program that keeps a property of the state, whatever its outcome.\<close>

definition keeps :: "('s \<Rightarrow> bool) \<Rightarrow> ('s, 'a) st \<Rightarrow> bool" where
  "keeps P m \<longleftrightarrow> (\<forall>w. P w \<longrightarrow> P (snd (m w)))"

lemma keeps_bind [intro]: "keeps P m \<Longrightarrow> (\<And>x. keeps P (f x)) \<Longrightarrow> keeps P (ibind m f)"
  unfolding keeps_def ibind_def by (fastforce split: prod.split sum.split)

lemma bind_keeps: "P (snd (m w)) \<Longrightarrow> (\<And>x. keeps P (f x)) \<Longrightarrow> P (snd (ibind m f w))"
  unfolding keeps_def ibind_def by (fastforce split: prod.split sum.split)

lemma keeps_basic [simp]: "keeps P (iret x)" "keeps P (iraise e)" "keeps P (ilift r)"
  by (simp_all add: keeps_def)

lemma keeps_fold: "(\<And>s x. keeps P (f s x)) \<Longrightarrow> keeps P (ifold f s xs)"
  by (induction xs arbitrary: s) auto

lemma keeps_catch: "keeps P m \<Longrightarrow> (\<And>e. keeps P (h e)) \<Longrightarrow> keeps P (icatch m Q h)"
  unfolding keeps_def icatch_def by (fastforce split: prod.split sum.split)

lemma keeps_at: "(\<And>w. keeps P (m w)) \<Longrightarrow> keeps P (\<lambda>w. m w w)"
  by (simp add: keeps_def)

lemma known_module: "map_of (sys_modules w) name = None \<longleftrightarrow> name \<notin> fst ` set (sys_modules w)"
  by (simp add: map_of_eq_None_iff)

lemma keeps_set_module: "keeps imports_inv (set_module name m)"
  by (auto simp: keeps_def imports_inv_def set_module_def)

lemma imports_inv_native:
  assumes "imports_inv w" "map_of (sys_modules w) name = None"
  shows "imports_inv (snd (import_native E name w))"
  using assms by (auto simp: import_native_def imports_inv_def known_module split: sum.splits)

lemma keeps_load:
  assumes "\<And>md. keeps imports_inv (imp md)"
  shows "keeps imports_inv (load_module imp E name)"
proof -
  have "keeps imports_inv (ibind (ilift (get_known E name)) (\<lambda>k.
          ibind (case k of KnownMove _ md \<Rightarrow> imp md | KnownLazy i \<Rightarrow> iret (Lazy i)) (set_module name)))"
    using assms by (intro keeps_bind keeps_set_module) (auto split: known.split)
  then show ?thesis by (auto simp: keeps_def load_module_def split: option.split)
qed

lemma keeps_bind_in_parent: "keeps imports_inv (bind_in_parent name m)"
  by (auto simp: keeps_def bind_in_parent_def imports_inv_def split: option.split obj.split)

lemma keeps_import_step:
  assumes "\<And>md. keeps imports_inv (imp md)"
  shows "keeps imports_inv (import_step imp E name)"
  unfolding keeps_def
proof (intro allI impI)
  fix w :: "'a six_world" assume w: "imports_inv w"
  show "imports_inv (snd (import_step imp E name w))"
  proof (cases "map_of (sys_modules w) name")
    case None
    let ?load = "if find_module E name then load_module imp E name else import_native E name"
    have "imports_inv (snd (?load w))"
      using keeps_load [OF assms, where E = E and name = name] imports_inv_native [OF w None] w by (auto simp: keeps_def)
    then show ?thesis
      using bind_keeps [of imports_inv ?load w, OF _ keeps_bind_in_parent] None by (simp add: import_step_def)
  qed (simp add: import_step_def w)
qed

lemma keeps_module_named: "keeps P (module_named name)"
  by (auto simp: keeps_def module_named_def split: option.split)

lemma keeps_import: "keeps imports_inv (import_module n E name)"
proof (induction n arbitrary: name)
  case (Suc n)
  then show ?case by (auto intro!: keeps_fold keeps_import_step keeps_module_named)
qed simp

lemma keeps_store: "keeps imports_inv (store_attr i name v)"
  by (simp add: keeps_def store_attr_def imports_inv_def)

lemma keeps_lookup:
  assumes "\<And>j. keeps imports_inv (lazy j attr)"
  shows "keeps imports_inv (getattr_of lazy E m attr)"
  using assms by (auto simp: getattr_of_def split: obj.split)

lemma keeps_resolve:
  assumes "keeps imports_inv (imp md)" "\<And>j. keeps imports_inv (lazy j attr)"
  shows "keeps imports_inv (resolve_attribute imp lazy E md attr)"
  unfolding resolve_attribute_def using assms by (intro keeps_bind keeps_lookup)

lemma keeps_getattr: "keeps imports_inv (lazy_getattr n E i name)"
proof (induction n arbitrary: i name)
  case (Suc n)
  have "keeps imports_inv (ibind (case mv of
                        Module _ md \<Rightarrow> import_module n E md
                      | Attribute _ md attr \<Rightarrow>
                          resolve_attribute (import_module n E) (lazy_getattr n E) E md attr)
                 (store_attr i name))" for mv
    by (auto split: move.split intro!: keeps_import keeps_store keeps_resolve Suc.IH)
  then show ?case by (auto simp: keeps_def split: option.split)
qed simp

lemma keeps_moved_getattr: "keeps imports_inv (moved_getattr n E mv attr)"
proof -
  have "keeps imports_inv (\<lambda>w. (Inr v, w\<lparr>move_attrs := f w\<rparr>))" for v :: "'a obj" and f
    by (simp add: keeps_def imports_inv_def)
  then have "keeps imports_inv (ibind (import_module n E (snd mv)) (\<lambda>m.
         ibind (getattr_of (lazy_getattr n E) E m attr) (\<lambda>v.
         (\<lambda>w. (Inr v, w\<lparr>move_attrs := (move_attrs w)(mv := dict_set attr v (move_attrs w mv))\<rparr>)))))"
    by (intro keeps_bind keeps_import keeps_lookup keeps_getattr)
  then show ?thesis by (auto simp: keeps_def moved_getattr_def split: option.split)
qed

lemma keeps_is_package: "keeps imports_inv (is_package py3 n E name)"
  unfolding is_package_def by (intro keeps_bind keeps_basic) (auto split: known.split intro!: keeps_catch keeps_moved_getattr)

text \<open>What users of six and the interpreter do, in any order, whether it succeeds or not.\<close>

inductive six_step :: "'o six_env \<Rightarrow> 'o six_world \<Rightarrow> 'o six_world \<Rightarrow> bool" for E where
  step_getattr: "lazy_getattr n E i name w = (r, w') \<Longrightarrow> six_step E w w'"
| step_moved: "moved_getattr n E mv attr w = (r, w') \<Longrightarrow> six_step E w w'"
| step_import: "import_module n E name w = (r, w') \<Longrightarrow> six_step E w w'"
| step_load: "load_module (import_module n E) E name w = (r, w') \<Longrightarrow> six_step E w w'"
| step_package: "is_package py3 n E name w = (p, w') \<Longrightarrow> six_step E w w'"
| step_add: "add_move mv w = (u, w') \<Longrightarrow> six_step E w w'"
| step_remove: "remove_move name w = (u, w') \<Longrightarrow> six_step E w w'"

lemma keeps_moves: "keeps imports_inv (add_move mv)" "keeps imports_inv (remove_move name)"
  by (auto simp: keeps_def add_move_def remove_move_def imports_inv_def)

lemma keeps_step: "keeps P m \<Longrightarrow> m w = (r, w') \<Longrightarrow> P w \<Longrightarrow> P w'"
  unfolding keeps_def by (metis snd_conv)

lemma six_step_inv: "six_step E w w' \<Longrightarrow> imports_inv w \<Longrightarrow> imports_inv w'"
  by (induction rule: six_step.induct)
    (erule keeps_step [rotated], assumption,
     intro keeps_getattr keeps_moved_getattr keeps_import keeps_load keeps_is_package keeps_moves)+


section \<open>What the names stand for\<close>

lemma descriptors_snoc: "descriptors (xs @ [mv]) = dict_set (move_name mv) mv (descriptors xs)"
  by (simp add: descriptors_def)

lemma map_of_descriptors:
  "distinct (map move_name xs) \<Longrightarrow> mv \<in> set xs \<Longrightarrow> map_of (descriptors xs) (move_name mv) = Some mv"
proof (induction xs rule: rev_induct)
  case (snoc x xs)
  show ?case
  proof (cases "mv = x")
    case False
    with snoc.prems have "mv \<in> set xs" "move_name mv \<noteq> move_name x" by (auto, metis imageI)
    with snoc show ?thesis by (simp add: descriptors_snoc)
  qed (simp add: descriptors_snoc)
qed simp

lemma register_moves_snoc:
  "register_moves (xs @ [mv]) = (case mv of
     Module name md \<Rightarrow> dict_set (''six.moves.'' @ name) (KnownMove name md) (register_moves xs) | Attribute _ _ _ \<Rightarrow> register_moves xs)"
  by (cases mv) (simp_all add: register_moves_def, simp add: add_module_def)

lemma map_of_register_moves:
  "distinct (map move_name xs) \<Longrightarrow> Module name md \<in> set xs \<Longrightarrow> map_of (register_moves xs) (''six.moves.'' @ name) = Some (KnownMove name md)"
proof (induction xs rule: rev_induct)
  case (snoc x xs)
  show ?case
  proof (cases "Module name md = x")
    case False
    with snoc.prems have "Module name md \<in> set xs" "name \<noteq> move_name x" by (auto, metis imageI move_name.simps(2))
    with snoc show ?thesis by (auto simp: register_moves_snoc split: move.split)
  qed (auto simp: register_moves_snoc)
qed simp

lemma move_name_simps: "move_name (attribute py3 n a b c d) = n" "move_name (module py3 n a b) = n"
  by (simp_all add: attribute_def module_def)

lemma moves_names:
  "distinct (map move_name (moved_attributes py3 py34 win32))"
  "mv \<in> set (moved_attributes py3 py34 win32) \<Longrightarrow> CHR ''.'' \<notin> set (move_name mv)"
proof -
  have win: "map move_name (moved_attributes py3 py34 win32)
      = map move_name (moved_attributes_all py3 py34) @ (if win32 then [''winreg''] else [])"
    by (simp add: moved_attributes_def move_name_simps)
  have "map move_name (moved_attributes_all py3 py34) = map move_name (moved_attributes_all True True)"
    unfolding moved_attributes_all_def list.map move_name_simps ..
  note names = win [unfolded this]
  have "distinct (map move_name (moved_attributes_all True True) @ [''winreg''])" by code_simp
  then show "distinct (map move_name (moved_attributes py3 py34 win32))" unfolding names by (cases win32) simp_all
  have "list_all (\<lambda>n. CHR ''.'' \<notin> set n) (map move_name (moved_attributes_all True True) @ [''winreg''])" by code_simp
  then have "list_all (\<lambda>n. CHR ''.'' \<notin> set n) (map move_name (moved_attributes py3 py34 win32))"
    unfolding names by (cases win32) simp_all
  then show "mv \<in> set (moved_attributes py3 py34 win32) \<Longrightarrow> CHR ''.'' \<notin> set (move_name mv)"
    by (auto simp: list_all_iff)
qed

text \<open>The names of six and its modules; the importer knows no other.\<close>

definition six_name :: "string \<Rightarrow> bool" where
  "six_name n \<longleftrightarrow> n = ''six'' \<or> prefix ''six.'' n"

definition six_named :: "(string \<times> 'a) list \<Rightarrow> bool" where
  "six_named k \<longleftrightarrow> (\<forall>n \<in> fst ` set k. six_name n)"

lemma six_named_add: "six_named k \<Longrightarrow> six_named (add_module m names k)"
  unfolding add_module_def
proof (induction names arbitrary: k)
  case (Cons n names)
  have "six_named (dict_set (''six.'' @ n) m k)" using Cons.prems unfolding six_named_def by (simp add: six_name_def)
  from Cons.IH [OF this] show ?case by simp
qed simp

lemma six_named_moves: "six_named (register_moves mvs)"
proof (induction mvs rule: rev_induct)
  case (snoc mv mvs)
  have "register_moves (mvs @ [mv]) = (case mv of
      Module name md \<Rightarrow> add_module (KnownMove name md) [''moves.'' @ name] (register_moves mvs) | Attribute _ _ _ \<Rightarrow> register_moves mvs)"
    by (cases mv) (simp_all add: register_moves_def)
  with snoc show ?case by (cases mv) (simp_all only: move.case six_named_add)
qed (simp add: register_moves_def six_named_def)

lemmas registrations = register_urllib_def register_urllib_robotparser_def register_urllib_response_def
  register_urllib_request_def register_urllib_error_def register_urllib_parse_def register_moves_module_def

lemma six_known_unknown:
  assumes "\<not> six_name name"
  shows "map_of (six_known py3 py34 win32) name = None"
proof -
  have "six_named (six_known py3 py34 win32)"
    unfolding six_known_def registrations by (intro six_named_add six_named_moves)
  with assms show ?thesis unfolding six_named_def map_of_eq_None_iff by blast
qed

definition move_module :: "move \<Rightarrow> string" where
  "move_module mv = (case mv of Attribute _ md _ \<Rightarrow> md | Module _ md \<Rightarrow> md)"

text \<open>The modules that the importer knows under the name of a move, but that are not what the move stands for.\<close>

definition lazy_names :: "(string \<times> string) list" where
  "lazy_names =
     [(''urllib_parse'', ''six.moves.urllib_parse''), (''urllib_error'', ''six.moves.urllib.error''),
      (''urllib_robotparser'', ''six.moves.urllib.robotparser''), (''urllib'', ''six.moves.urllib'')]"

lemma six_known_lazy:
  "map_of lazy_names name = Some i \<Longrightarrow> map_of (six_known py3 py34 win32) (''six.moves.'' @ name) = Some (KnownLazy i)"
  by (auto simp: lazy_names_def six_known_def registrations add_module_def split: if_splits)

lemma six_known_moves: "map_of (six_known py3 py34 win32) ''six.moves'' = Some (KnownLazy ''six.moves'')"
  by (simp add: six_known_def registrations add_module_def)

lemma table_modules:
  assumes "mv \<in> set (moved_attributes py3 py34 win32)"
  shows "\<not> six_name (move_module mv)
    \<or> (\<exists>name i. mv = Module name (move_module mv) \<and> map_of lazy_names name = Some i \<and> move_module mv = ''six.moves.'' @ name)"
    and "move_name mv \<notin> set [''urllib_request'', ''urllib_response'']"
proof -
  let ?ok = "list_all (\<lambda>mv. (\<not> six_name (move_module mv) \<or> (case mv of Module name md \<Rightarrow> map_of lazy_names name \<noteq> None \<and> md = ''six.moves.'' @ name | _ \<Rightarrow> False))
     \<and> move_name mv \<notin> set [''urllib_request'', ''urllib_response''])"
  have "?ok (moved_attributes True True True)" "?ok (moved_attributes True False True)"
    "?ok (moved_attributes False True True)" "?ok (moved_attributes False False True)"
    by code_simp+
  then have "?ok (moved_attributes py3 py34 True)" by (cases py3; cases py34) simp_all
  then have "?ok (moved_attributes py3 py34 win32)" by (cases win32) (simp_all add: moved_attributes_def)
  with assms show "\<not> six_name (move_module mv)
      \<or> (\<exists>name i. mv = Module name (move_module mv) \<and> map_of lazy_names name = Some i \<and> move_module mv = ''six.moves.'' @ name)"
      "move_name mv \<notin> set [''urllib_request'', ''urllib_response'']"
    by (auto simp: list_all_iff move_module_def split: move.splits)
qed

lemma six_known_move:
  assumes "Module name md \<in> set (moved_attributes py3 py34 win32)" "map_of lazy_names name = None"
  shows "map_of (six_known py3 py34 win32) (''six.moves.'' @ name) = Some (KnownMove name md)"
proof -
  have "name \<notin> set [''urllib_parse'', ''urllib_error'', ''urllib_request'', ''urllib_response'', ''urllib_robotparser'', ''urllib'']"
    using table_modules(2) [OF assms(1)] assms(2) by (simp add: lazy_names_def split: if_splits)
  moreover have "CHR ''.'' \<notin> set name" using moves_names(2) [OF assms(1)] by simp
  then have "name \<notin> set [''urllib.parse'', ''urllib.error'', ''urllib.request'', ''urllib.response'', ''urllib.robotparser'']"
    by (intro notI) (simp, elim disjE; simp)
  ultimately show ?thesis using map_of_register_moves [OF moves_names(1) assms(1)]
    by (simp add: six_known_def registrations add_module_def)
qed

section \<open>Imports from the module as it is loaded\<close>

lemma dotted_from_plain: "CHR ''.'' \<notin> set cs \<Longrightarrow> dotted_from before cs = [before @ cs]"
  by (induction cs arbitrary: before) auto

lemma dotted_from_packages:
  "p \<in> set (dotted_from before cs) \<Longrightarrow> p = before @ cs \<or> (\<exists>t. before @ cs = p @ ''.'' @ t)"
  by (induction cs arbitrary: before) fastforce+

lemma dotted_self: "name \<in> set (dotted name)"
proof -
  have "before @ cs \<in> set (dotted_from before cs)" for before cs
  proof (induction cs arbitrary: before)
    case (Cons c cs)
    from Cons [of "before @ [c]"] show ?case by simp
  qed simp
  from this [of "[]"] show ?thesis by (simp add: dotted_def)
qed

lemma six_name_package: "six_name p \<Longrightarrow> six_name (p @ ''.'' @ t)"
  by (auto simp: six_name_def prefix_def)

lemma dotted_native: "p \<in> set (dotted name) \<Longrightarrow> \<not> six_name name \<Longrightarrow> \<not> six_name p"
  using dotted_from_packages [of p "[]" name] six_name_package by (auto simp: dotted_def)

lemma dotted_moves: "CHR ''.'' \<notin> set name \<Longrightarrow> dotted (''six.moves.'' @ name) = [''six'', ''six.moves'', ''six.moves.'' @ name]"
  by (simp add: dotted_def dotted_from_plain)

lemma parent_or_plain: "name = parent_name name @ ''.'' @ last_name name \<or> parent_name name = []"
proof (cases "CHR ''.'' \<in> set name")
  case True
  let ?P = "\<lambda>c. c \<noteq> CHR ''.''"
  have "dropWhile ?P (rev name) \<noteq> []" "hd (dropWhile ?P (rev name)) = CHR ''.''"
    using True hd_dropWhile [of ?P "rev name"] by auto
  then have "rev name = takeWhile ?P (rev name) @ CHR ''.'' # tl (dropWhile ?P (rev name))"
    by (metis takeWhile_dropWhile_id list.collapse)
  then have "name = rev (takeWhile ?P (rev name) @ CHR ''.'' # tl (dropWhile ?P (rev name)))" by (metis rev_rev_ident)
  then show ?thesis unfolding parent_name_def last_name_def by simp
next
  case False
  then have "dropWhile (\<lambda>c. c \<noteq> CHR ''.'') (rev name) = []" by (auto simp: dropWhile_eq_Nil_conv)
  then have "parent_name name = []" by (simp only: parent_name_def list.sel rev.simps)
  then show ?thesis ..
qed

lemma parent_native: "\<not> six_name name \<Longrightarrow> \<not> six_name (parent_name name)"
  using parent_or_plain [of name] six_name_package [of "parent_name name" "last_name name"] by (fastforce simp: six_name_def [of "[]"])

lemma parent_last: "CHR ''.'' \<notin> set b \<Longrightarrow> parent_name (a @ ''.'' @ b) = a \<and> last_name (a @ ''.'' @ b) = b"
proof -
  assume b: "CHR ''.'' \<notin> set b"
  let ?P = "\<lambda>c. c \<noteq> CHR ''.''"
  have "dropWhile ?P (rev b @ CHR ''.'' # rev a) = CHR ''.'' # rev a" "takeWhile ?P (rev b @ CHR ''.'' # rev a) = rev b"
    using b by (auto simp: dropWhile_append takeWhile_append)
  then show ?thesis by (simp add: parent_name_def last_name_def)
qed

text \<open>All modules that are not part of six have been imported for what they are.\<close>

definition native_ok :: "(string \<Rightarrow> 'o) \<Rightarrow> 'o six_world \<Rightarrow> bool" where
  "native_ok m w \<longleftrightarrow> (\<forall>n. \<not> six_name n \<longrightarrow> map_of (sys_modules w) n \<in> {None, Some (Native (m n))})"

text \<open>What importing other modules leaves as it is.\<close>

definition grows :: "'o six_world \<Rightarrow> 'o six_world \<Rightarrow> bool" where
  "grows w w' \<longleftrightarrow> instance_dict w' = instance_dict w \<and> class_attrs w' = class_attrs w
     \<and> (\<forall>n x. map_of (sys_modules w) n = Some x \<longrightarrow> map_of (sys_modules w') n = Some x)"

lemma grows_trans: "grows w w' \<Longrightarrow> grows w' w'' \<Longrightarrow> grows w w''"
  by (simp add: grows_def)

lemma native_step:
  assumes "known_modules E = six_known py3 py34 win32" "native_import E p = Inr (m p)" "\<not> six_name p" "native_ok m w"
  shows "\<exists>w'. import_step imp E p w = (Inr (), w') \<and> native_ok m w' \<and> grows w w' \<and> map_of (sys_modules w') p = Some (Native (m p))"
proof (cases "map_of (sys_modules w) p")
  case None
  let ?w = "w\<lparr>sys_modules := dict_set p (Native (m p)) (sys_modules w), imported := imported w @ [p]\<rparr>"
  have "native_ok m ?w" using assms(4) by (simp add: native_ok_def)
  moreover from this have "map_of (sys_modules ?w) (parent_name p) \<in> {None, Some (Native (m (parent_name p)))}"
    using parent_native [OF assms(3)] unfolding native_ok_def by blast
  then have "bind_in_parent p (Native (m p)) ?w = (Inr (), ?w)" by (auto simp: bind_in_parent_def)
  moreover have "\<not> find_module E p" using six_known_unknown [OF assms(3)] assms(1) by (simp add: find_module_def)
  ultimately show ?thesis using None assms(2) by (intro exI [of _ ?w]) (auto simp: import_step_def import_native_def ibind_def grows_def)
next
  case (Some x)
  with assms(3,4) have "x = Native (m p)" unfolding native_ok_def by (metis insertE option.distinct(1) option.inject singletonD)
  with Some assms(4) show ?thesis by (simp add: import_step_def grows_def)
qed

lemma native_steps:
  assumes "known_modules E = six_known py3 py34 win32" "\<And>n. native_import E n = Inr (m n)"
  shows "\<forall>p \<in> set ps. \<not> six_name p \<Longrightarrow> native_ok m w
    \<Longrightarrow> \<exists>w'. ifor ps (import_step imp E) w = (Inr (), w') \<and> native_ok m w' \<and> grows w w'
        \<and> (\<forall>p \<in> set ps. map_of (sys_modules w') p = Some (Native (m p)))"
proof (induction ps arbitrary: w)
  case Nil
  then show ?case by (simp add: grows_def)
next
  case (Cons p ps)
  then have "\<not> six_name p" "\<forall>p \<in> set ps. \<not> six_name p" by auto
  from native_step [where E = E and m = m and imp = imp, OF assms this(1) Cons.prems(2)] obtain w1
    where w1: "import_step imp E p w = (Inr (), w1)" "native_ok m w1" "grows w w1" "map_of (sys_modules w1) p = Some (Native (m p))" by auto
  from Cons.IH [OF \<open>\<forall>p \<in> set ps. \<not> six_name p\<close> w1(2)] obtain w2
    where w2: "ifor ps (import_step imp E) w1 = (Inr (), w2)" "native_ok m w2" "grows w1 w2"
      "\<forall>p \<in> set ps. map_of (sys_modules w2) p = Some (Native (m p))" by auto
  have "map_of (sys_modules w2) p = Some (Native (m p))" using w1(4) w2(3) by (simp add: grows_def)
  with w1 w2 grows_trans [OF w1(3) w2(3)] show ?case by (intro exI [of _ w2]) (simp add: ibind_def)
qed

lemma import_native_name:
  assumes "known_modules E = six_known py3 py34 win32" "\<And>n. native_import E n = Inr (m n)" "\<not> six_name name" "native_ok m w"
  shows "\<exists>w'. import_module (Suc n) E name w = (Inr (Native (m name)), w') \<and> native_ok m w' \<and> grows w w'"
proof -
  have "\<forall>p \<in> set (dotted name). \<not> six_name p" using dotted_native assms(3) by blast
  from native_steps [OF assms(1,2) this assms(4), of "import_module n E"] dotted_self [of name]
  show ?thesis by (auto simp: ibind_def module_named_def)
qed

lemma import_moves_name:
  fixes E :: "'o six_env"
  assumes known: "known_modules E = six_known py3 py34 win32"
    and name: "CHR ''.'' \<notin> set name" "map_of (known_modules E) (''six.moves.'' @ name) = Some k"
  defines "w0 \<equiv> (six_loaded py3 py34 win32 :: 'o six_world)"
  defines "w1 \<equiv> w0\<lparr>sys_modules := [(''six'', Lazy ''six''), (''six.moves'', Lazy ''six.moves'')]\<rparr>"
  assumes run: "(case k of KnownMove _ md \<Rightarrow> import_module n E md | KnownLazy i \<Rightarrow> iret (Lazy i)) w1 = (Inr v, w2)"
    and w2: "map_of (sys_modules w2) ''six.moves'' = Some (Lazy ''six.moves'')"
  shows "\<exists>w'. import_module (Suc n) E (''six.moves.'' @ name) w0 = (Inr v, w') \<and> map_of (instance_dict w' ''six.moves'') name = Some v"
proof -
  let ?step = "import_step (import_module n E) E" and ?n = "''six.moves.'' @ name"
  have six: "?step ''six'' w0 = (Inr (), w0)" by (simp add: import_step_def w0_def six_loaded_def)
  have "(instance_dict w0)(''six'' := dict_set ''moves'' (Lazy ''six.moves'') (instance_dict w0 ''six'')) = instance_dict w0"
    by (simp add: w0_def six_loaded_def fun_eq_iff)
  then have moves: "?step ''six.moves'' w0 = (Inr (), w1)"
    unfolding w1_def w0_def
    by (simp add: import_step_def six_loaded_def find_module_def known six_known_moves load_module_def get_known_def set_module_def
      ibind_def bind_in_parent_def parent_name_def last_name_def)
  have names: "parent_name ?n = ''six.moves''" "last_name ?n = name"
    using parent_last [OF name(1), of "''six.moves''"] by simp_all
  let ?w2 = "w2\<lparr>sys_modules := dict_set ?n v (sys_modules w2)\<rparr>"
  let ?w3 = "?w2\<lparr>instance_dict := (instance_dict w2)(''six.moves'' := dict_set name v (instance_dict w2 ''six.moves''))\<rparr>"
  have fresh: "map_of (sys_modules w1) ?n = None" by (simp add: w1_def)
  have "load_module (import_module n E) E ?n w1 = (Inr v, ?w2)"
    using fresh run name(2) by (simp add: load_module_def get_known_def ibind_def set_module_def)
  then have "?step ?n w1 = (Inr (), ?w3)"
    using fresh name(2) w2 unfolding import_step_def
    by (simp add: find_module_def ibind_def bind_in_parent_def names del: append.simps)
  with six moves dotted_moves [OF name(1)] show ?thesis
    by (intro exI [of _ ?w3]) (simp add: ibind_def module_named_def)
qed
lemma lazy_getattr_first:
  assumes "map_of (instance_dict w i) name = None" "map_of (class_attrs w i) name = Some mv"
    and "(case mv of Module _ md \<Rightarrow> import_module n E md
          | Attribute _ md attr \<Rightarrow> resolve_attribute (import_module n E) (lazy_getattr n E) E md attr) w = (Inr v, w')"
  shows "\<exists>w2. lazy_getattr (Suc n) E i name w = (Inr v, w2) \<and> map_of (instance_dict w2 i) name = Some v"
  using assms by (auto simp: ibind_def store_attr_def)

text \<open>The specification: what a move stands for, and what importing it from \<^verbatim>\<open>six.moves\<close> gives.\<close>

definition move_target :: "(string \<Rightarrow> 'o) \<Rightarrow> ('o \<Rightarrow> string \<Rightarrow> 'o) \<Rightarrow> move \<Rightarrow> 'o obj" where
  "move_target m a mv = (case mv of
       Attribute _ md attr \<Rightarrow> Native (a (m md) attr)
     | Module name md \<Rightarrow> (case map_of lazy_names name of
           Some i \<Rightarrow> if md = ''six.moves.'' @ name then Lazy i else Native (m md)
         | None \<Rightarrow> Native (m md)))"

definition import_target :: "(string \<Rightarrow> 'o) \<Rightarrow> string \<Rightarrow> string \<Rightarrow> 'o obj" where
  "import_target m name md = (case map_of lazy_names name of Some i \<Rightarrow> Lazy i | None \<Rightarrow> Native (m md))"

lemma native_ok_loaded: "native_ok m (six_loaded py3 py34 win32)"
  by (auto simp: native_ok_def six_loaded_def six_name_def)

lemma import_lazy_name:
  fixes E :: "'o six_env"
  assumes "known_modules E = six_known py3 py34 win32" "map_of lazy_names name = Some i" "CHR ''.'' \<notin> set name"
  shows "\<exists>w. import_module (Suc n) E (''six.moves.'' @ name) (six_loaded py3 py34 win32) = (Inr (Lazy i), w)
    \<and> map_of (instance_dict w ''six.moves'') name = Some (Lazy i)"
proof -
  have "map_of (known_modules E) (''six.moves.'' @ name) = Some (KnownLazy i)"
    using six_known_lazy [OF assms(2)] assms(1) by simp
  from import_moves_name [OF assms(1,3) this] show ?thesis by simp
qed

lemma import_moves_target:
  fixes E :: "'o six_env"
  assumes known: "known_modules E = six_known py3 py34 win32"
    and modules: "\<And>name. native_import E name = Inr (m name)"
    and mv: "Module name md \<in> set (moved_attributes py3 py34 win32)"
  shows "\<exists>w. import_module (Suc (Suc n)) E (''six.moves.'' @ name) (six_loaded py3 py34 win32) = (Inr (import_target m name md), w)
    \<and> map_of (instance_dict w ''six.moves'') name = Some (import_target m name md)"
proof -
  let ?w = "(six_loaded py3 py34 win32 :: 'o six_world)\<lparr>sys_modules := [(''six'', Lazy ''six''), (''six.moves'', Lazy ''six.moves'')]\<rparr>"
  have nodot: "CHR ''.'' \<notin> set name" using moves_names(2) [OF mv] by simp
  show ?thesis
  proof (cases "map_of lazy_names name")
    case (Some i)
    with import_lazy_name [OF known this nodot, of "Suc n"] show ?thesis by (simp add: import_target_def)
  next
    case None
    then have k: "map_of (known_modules E) (''six.moves.'' @ name) = Some (KnownMove name md)"
      using six_known_move [OF mv] known by simp
    have "\<not> six_name md" using table_modules(1) [OF mv] None by (auto simp: move_module_def)
    have "native_ok m ?w" by (auto simp: native_ok_def six_name_def)
    from import_native_name [OF known modules \<open>\<not> six_name md\<close> this, of n] obtain w2
      where "import_module (Suc n) E md ?w = (Inr (Native (m md)), w2)" "grows ?w w2" by auto
    moreover from this(2) have "map_of (sys_modules w2) ''six.moves'' = Some (Lazy ''six.moves'')" by (simp add: grows_def)
    ultimately show ?thesis
      using import_moves_name [OF known nodot k, of "Suc n" "Native (m md)" w2] None
      by (simp add: import_target_def del: import_module.simps)
  qed
qed

text \<open>They differ for the names that the importer knows as lazy modules although the table has a real one.\<close>

lemma targets_agree:
  assumes "Module name md \<in> set (moved_attributes py3 py34 win32)"
    and "name \<notin> set (if py3 then [''urllib_parse'', ''urllib_error'', ''urllib_robotparser''] else [''urllib_robotparser''])"
  shows "move_target m a (Module name md) = import_target m name md"
proof -
  let ?ok = "\<lambda>py3. list_all (\<lambda>mv. case mv of Attribute _ _ _ \<Rightarrow> True | Module name md \<Rightarrow>
      name \<in> set (if py3 then [''urllib_parse'', ''urllib_error'', ''urllib_robotparser''] else [''urllib_robotparser''])
      \<or> map_of lazy_names name = None \<or> md = ''six.moves.'' @ name)"
  have "?ok True (moved_attributes True True True)" "?ok True (moved_attributes True False True)"
    "?ok False (moved_attributes False True True)" "?ok False (moved_attributes False False True)"
    by code_simp+
  then have "?ok py3 (moved_attributes py3 py34 True)" by (cases py3; cases py34) simp_all
  then have "?ok py3 (moved_attributes py3 py34 win32)" by (cases win32) (simp_all add: moved_attributes_def)
  with assms have "map_of lazy_names name = None \<or> md = ''six.moves.'' @ name" unfolding list_all_iff by fastforce
  then show ?thesis by (auto simp: move_target_def import_target_def split: option.split)
qed

lemma module_move_resolves:
  fixes E :: "'o six_env"
  assumes known: "known_modules E = six_known py3 py34 win32"
    and modules: "\<And>name. native_import E name = Inr (m name)"
    and mv: "mv \<in> set (moved_attributes py3 py34 win32)" "mv = Module name md"
  shows "\<exists>w. import_module (Suc n) E md (six_loaded py3 py34 win32) = (Inr (move_target m a mv), w)"
proof (cases "six_name md")
  case True
  with table_modules(1) [OF mv(1)] mv(2) obtain i where "map_of lazy_names name = Some i" "md = ''six.moves.'' @ name"
    by (auto simp: move_module_def)
  with import_lazy_name [OF known this(1), of n] moves_names(2) [OF mv(1)] mv(2) show ?thesis by (auto simp: move_target_def)
next
  case False
  then have "md \<noteq> ''six.moves.'' @ name" by (auto simp: six_name_def)
  with import_native_name [OF known modules False native_ok_loaded [of m py3 py34 win32], of n] mv(2) show ?thesis
    by (auto simp: move_target_def split: option.split)
qed

lemma first_use:
  assumes "mv \<in> set (moved_attributes py3 py34 win32)"
    and "(case mv of Module _ md \<Rightarrow> import_module n E md
          | Attribute _ md attr \<Rightarrow> resolve_attribute (import_module n E) (lazy_getattr n E) E md attr) (six_loaded py3 py34 win32) = (Inr v, w')"
  shows "\<exists>w. lazy_getattr (Suc n) E ''six.moves'' (move_name mv) (six_loaded py3 py34 win32) = (Inr v, w)
    \<and> map_of (instance_dict w ''six.moves'') (move_name mv) = Some v"
proof (rule lazy_getattr_first [OF _ _ assms(2)])
  show "map_of (class_attrs (six_loaded py3 py34 win32) ''six.moves'') (move_name mv) = Some mv"
    using map_of_descriptors [OF moves_names(1) assms(1)] by (simp add: six_loaded_def six_classes_def)
qed (simp add: six_loaded_def)



lemma urllib_modules:
  assumes "known_modules E = six_known py3 py34 win32" "(name, m) \<in> set urllib_namespace"
  shows "\<exists>i. m = Lazy i \<and> get_module E (''moves.urllib_'' @ name) = Inr (KnownLazy i)
    \<and> get_module E (''moves.urllib.'' @ name) = Inr (KnownLazy i)"
  using assms by (auto simp: urllib_namespace_def get_module_def dict_get_def six_known_def registrations add_module_def)

section \<open>Adding and removing moves\<close>

text \<open>A move that was used is stored: reading it again imports nothing.\<close>

lemma resolved_again:
  assumes "lazy_getattr n E i name w = (Inr v, w')"
  shows "lazy_getattr (Suc k) E i name w' = (Inr v, w')"
  using assms by (cases n) (auto simp: ibind_eq_Inr store_attr_def split: option.splits)

text \<open>A used move hides one added later under its name, and outlives the removal.\<close>

lemma added_move_hidden:
  assumes "lazy_getattr n E moves_id (move_name mv) w = (Inr v, w1)"
    and "add_move mv w1 = (Inr (), w2)" "remove_move (move_name mv) w2 = (r, w3)"
  shows "lazy_getattr (Suc k) E moves_id (move_name mv) w2 = (Inr v, w2)"
    and "r = Inr ()" and "lazy_getattr (Suc k) E moves_id (move_name mv) w3 = (Inr v, w3)"
proof -
  have "lazy_getattr n E moves_id (move_name mv) w = (Inr v, w1) \<Longrightarrow> map_of (instance_dict w1 moves_id) (move_name mv) = Some v"
    by (cases n) (auto simp: ibind_eq_Inr store_attr_def split: option.splits)
  then have st: "map_of (instance_dict w1 moves_id) (move_name mv) = Some v" using assms(1) by simp
  show "lazy_getattr (Suc k) E moves_id (move_name mv) w2 = (Inr v, w2)" using assms(2) st by (auto simp: add_move_def)
  show "r = Inr ()" using assms(2,3) by (auto simp: add_move_def remove_move_def)
  show "lazy_getattr (Suc k) E moves_id (move_name mv) w3 = (Inr v, w3)"
    using assms(2,3) st by (auto simp: add_move_def remove_move_def)
qed

text \<open>Loading six any number of times leaves exactly one importer for it, and the others in their order.\<close>

lemma remove_first_none: "\<forall>x \<in> set xs. \<not> P x \<Longrightarrow> remove_first P xs = xs"
  by (induction xs) simp_all

lemma install_importer_once:
  assumes "length (filter (six_importer name) meta_path) \<le> 1"
  shows "filter (six_importer name) (install_importer name meta_path) = [(''_SixMetaPathImporter'', name)]
    \<and> filter (\<lambda>i. \<not> six_importer name i) (install_importer name meta_path) = filter (\<lambda>i. \<not> six_importer name i) meta_path"
proof -
  have "filter P (remove_first P xs) = [] \<and> filter (\<lambda>x. \<not> P x) (remove_first P xs) = filter (\<lambda>x. \<not> P x) xs"
    if "length (filter P xs) \<le> 1" for P and xs :: "importer list"
    using that by (induction xs) (auto split: if_splits)
  from this [OF assms] show ?thesis by (simp add: install_importer_def six_importer_def)
qed

section \<open>Witnesses\<close>

definition demo_six :: "string six_env" where
  "demo_six = \<lparr>known_modules = six_known False False False, native_import = Inr, native_getattr = \<lambda>x a. Inr (x @ ''.'' @ a)\<rparr>"



end
