(* ===== verification/Six_Compat.thy ===== *)
theory Six_Compat
  imports Py_World
begin

text \<open>
  The functions of \<^verbatim>\<open>six.py\<close> that bridge the two kinds of strings and of classes of Python 2 and 3: the coercions
  \<^verbatim>\<open>ensure_binary\<close>, \<^verbatim>\<open>ensure_str\<close> and \<^verbatim>\<open>ensure_text\<close>, the byte functions, the print function for versions without one, the
  decorators \<^verbatim>\<open>python_2_unicode_compatible\<close> and \<^verbatim>\<open>add_metaclass\<close>.  The version of Python is the parameter \<open>py3\<close>.
\<close>

section \<open>Strings\<close>

text \<open>A byte string, a text (its code points), or another object (its type or what \<^verbatim>\<open>str\<close> makes of it).\<close>

datatype pystring = Bytes string | Text "nat list" | Other string

text \<open>The codec of the arguments \<^verbatim>\<open>encoding\<close> and \<^verbatim>\<open>errors\<close>.\<close>

record codec =
  enc :: "nat list \<Rightarrow> string res"
  dec :: "string \<Rightarrow> nat list res"

definition not_expecting :: "string \<Rightarrow> exn" where
  "not_expecting t = TypeError (''not expecting type '' @ t)"

definition ensure_binary :: "codec \<Rightarrow> pystring \<Rightarrow> pystring res" where
  "ensure_binary C s = (case s of
       Text u \<Rightarrow> rbind (enc C u) (\<lambda>b. Inr (Bytes b))
     | Bytes b \<Rightarrow> Inr s
     | Other t \<Rightarrow> Inl (not_expecting t))"

definition ensure_str :: "bool \<Rightarrow> codec \<Rightarrow> pystring \<Rightarrow> pystring res" where
  "ensure_str py3 C s = (case s of
       Other t \<Rightarrow> Inl (not_expecting t)
     | Text u \<Rightarrow> if py3 then Inr s else rbind (enc C u) (\<lambda>b. Inr (Bytes b))
     | Bytes b \<Rightarrow> if py3 then rbind (dec C b) (\<lambda>u. Inr (Text u)) else Inr s)"

definition ensure_text :: "codec \<Rightarrow> pystring \<Rightarrow> pystring res" where
  "ensure_text C s = (case s of
       Bytes b \<Rightarrow> rbind (dec C b) (\<lambda>u. Inr (Text u))
     | Text u \<Rightarrow> Inr s
     | Other t \<Rightarrow> Inl (not_expecting t))"

definition byte2int :: "string \<Rightarrow> int res" where
  "byte2int bs = rbind (at bs 0) (\<lambda>c. Inr (int (of_char c)))"

definition indexbytes :: "string \<Rightarrow> nat \<Rightarrow> int res" where
  "indexbytes buf i = rbind (at buf i) (\<lambda>c. Inr (int (of_char c)))"

definition iterbytes :: "string \<Rightarrow> int list" where
  "iterbytes buf = map (\<lambda>c. int (of_char c)) buf"

section \<open>UTF-8\<close>

text \<open>
  The default codec, \<^verbatim>\<open>utf-8\<close> with strict errors, of the standard library: Python 3 refuses surrogates, Python 2 lets
  them through.  No text has a code point of 1114112 or more.
\<close>

definition surrogate :: "nat \<Rightarrow> bool" where
  "surrogate c \<longleftrightarrow> 55296 \<le> c \<and> c < 57344"

definition utf8_char :: "nat \<Rightarrow> nat list" where
  "utf8_char c =
     (if c < 128 then [c]
      else if c < 2048 then [192 + c div 64, 128 + c mod 64]
      else if c < 65536 then [224 + c div 4096, 128 + c div 64 mod 64, 128 + c mod 64]
      else [240 + c div 262144, 128 + c div 4096 mod 64, 128 + c div 64 mod 64, 128 + c mod 64])"

definition unicode_error :: exn where
  "unicode_error = PyException ''UnicodeError''"

definition utf8_encode :: "bool \<Rightarrow> nat list \<Rightarrow> string res" where
  "utf8_encode py3 u =
     (if list_all (\<lambda>c. c < 1114112 \<and> \<not> (py3 \<and> surrogate c)) u then Inr (map char_of (concat (map utf8_char u)))
      else Inl unicode_error)"

definition continuation :: "nat \<Rightarrow> bool" where
  "continuation b \<longleftrightarrow> 128 \<le> b \<and> b < 192"

fun utf8_bytes :: "bool \<Rightarrow> nat list \<Rightarrow> nat list res" where
  "utf8_bytes py3 [] = Inr []"
| "utf8_bytes py3 (b # bs) =
     (if b < 128 then rbind (utf8_bytes py3 bs) (\<lambda>u. Inr (b # u))
      else if 194 \<le> b \<and> b < 224 then
        (case bs of
           c # r \<Rightarrow> if continuation c
             then rbind (utf8_bytes py3 r) (\<lambda>u. Inr (((b - 192) * 64 + (c - 128)) # u)) else Inl unicode_error
         | _ \<Rightarrow> Inl unicode_error)
      else if 224 \<le> b \<and> b < 240 then
        (case bs of
           c # d # r \<Rightarrow>
             (let v = (b - 224) * 4096 + (c - 128) * 64 + (d - 128)
              in if continuation c \<and> continuation d \<and> 2048 \<le> v \<and> \<not> (py3 \<and> surrogate v)
                 then rbind (utf8_bytes py3 r) (\<lambda>u. Inr (v # u)) else Inl unicode_error)
         | _ \<Rightarrow> Inl unicode_error)
      else if 240 \<le> b \<and> b < 245 then
        (case bs of
           c # d # e # r \<Rightarrow>
             (let v = (b - 240) * 262144 + (c - 128) * 4096 + (d - 128) * 64 + (e - 128)
              in if continuation c \<and> continuation d \<and> continuation e \<and> 65536 \<le> v \<and> v < 1114112
                 then rbind (utf8_bytes py3 r) (\<lambda>u. Inr (v # u)) else Inl unicode_error)
         | _ \<Rightarrow> Inl unicode_error)
      else Inl unicode_error)"

definition utf8_decode :: "bool \<Rightarrow> string \<Rightarrow> nat list res" where
  "utf8_decode py3 s = utf8_bytes py3 (map of_char s)"

definition utf8 :: "bool \<Rightarrow> codec" where
  "utf8 py3 = \<lparr>enc = utf8_encode py3, dec = utf8_decode py3\<rparr>"

section \<open>UTF-8 round trips\<close>

definition scalar :: "bool \<Rightarrow> nat \<Rightarrow> bool" where
  "scalar py3 c \<longleftrightarrow> c < 1114112 \<and> \<not> (py3 \<and> surrogate c)"

lemma digits64: "c div 4096 * 4096 + c div 64 mod 64 * 64 + c mod 64 = (c::nat)"
proof -
  have "c div 4096 = c div 64 div 64" by (simp add: div_mult2_eq [symmetric])
  moreover have "c div 64 div 64 * 64 + c div 64 mod 64 = c div 64" by (rule div_mult_mod_eq)
  ultimately have "c div 4096 * 4096 + c div 64 mod 64 * 64 = c div 64 * 64" by linarith
  then show ?thesis by simp
qed

lemma digits64_4: "c div 262144 * 262144 + c div 4096 mod 64 * 4096 + c div 64 mod 64 * 64 + c mod 64 = (c::nat)"
proof -
  have "c div 262144 = c div 4096 div 64" by (simp add: div_mult2_eq [symmetric])
  moreover have "c div 4096 div 64 * 64 + c div 4096 mod 64 = c div 4096" by (rule div_mult_mod_eq)
  ultimately have "c div 262144 * 262144 + c div 4096 mod 64 * 4096 = c div 4096 * 4096" by linarith
  with digits64 [of c] show ?thesis by simp
qed

lemma utf8_bytes_char:
  assumes "scalar py3 c"
  shows "utf8_bytes py3 (utf8_char c @ r) = rbind (utf8_bytes py3 r) (\<lambda>u. Inr (c # u))"
proof -
  consider "c < 128" | "128 \<le> c" "c < 2048" | "2048 \<le> c" "c < 65536" | "65536 \<le> c" "c < 1114112"
    using assms unfolding scalar_def by linarith
  then show ?thesis
  proof cases
    case 1
    then show ?thesis by (simp add: utf8_char_def)
  next
    case 2
    then have "2 \<le> c div 64" "c div 64 < 32" by auto
    with 2 show ?thesis by (simp add: utf8_char_def continuation_def)
  next
    case 3
    then have b: "c div 4096 < 16" by auto
    with 3 assms digits64 [of c] show ?thesis by (simp add: utf8_char_def continuation_def scalar_def Let_def)
  next
    case 4
    then have b: "c div 262144 < 5" by auto
    with 4 digits64_4 [of c] show ?thesis by (simp add: utf8_char_def continuation_def Let_def)
  qed
qed

lemma utf8_bytes_chars: "list_all (scalar py3) u \<Longrightarrow> utf8_bytes py3 (concat (map utf8_char u)) = Inr u"
  by (induction u) (simp_all add: utf8_bytes_char)

lemma utf8_char_byte: "c < 1114112 \<Longrightarrow> b \<in> set (utf8_char c) \<Longrightarrow> b < 256"
proof -
  assume c: "c < 1114112" and b: "b \<in> set (utf8_char c)"
  have "c div 262144 < 5" using c by auto
  moreover have "c div 64 < 32" if "c < 2048" using that by auto
  moreover have "c div 4096 < 16" if "c < 65536" using that by auto
  moreover have "c mod 64 < 64" "c div 64 mod 64 < 64" "c div 4096 mod 64 < 64" by simp_all
  ultimately show "b < 256" using b by (auto simp: utf8_char_def split: if_splits)
qed

lemma of_char_bytes: "(\<And>b. b \<in> set bs \<Longrightarrow> b < 256) \<Longrightarrow> map of_char (map char_of bs :: string) = (bs :: nat list)"
  by (induction bs) auto

lemma utf8_encode_decode:
  assumes "utf8_encode py3 u = Inr s"
  shows "utf8_decode py3 s = Inr u"
proof -
  from assms have s: "s = map char_of (concat (map utf8_char u))" and u: "list_all (scalar py3) u"
    by (auto simp: utf8_encode_def scalar_def list_all_iff split: if_splits)
  have "map of_char s = concat (map utf8_char u)"
    unfolding s using u by (intro of_char_bytes) (auto simp: list_all_iff scalar_def dest: utf8_char_byte)
  with utf8_bytes_chars [OF u] show ?thesis by (simp add: utf8_decode_def)
qed

lemma digit64: "z < 64 \<Longrightarrow> (w * 64 + z) div 64 = w" "z < 64 \<Longrightarrow> (w * 64 + z) mod 64 = (z::nat)"
  by simp_all

lemma two_bytes:
  assumes "194 \<le> b" "b < 224" "continuation c"
  shows "utf8_char ((b - 192) * 64 + (c - 128)) = [b, c]"
proof -
  obtain x y where "b = 192 + x" "c = 128 + y" "2 \<le> x" "x < 32" "y < 64"
    using assms by (intro that [of "b - 192" "c - 128"]) (auto simp: continuation_def)
  then show ?thesis by (simp add: utf8_char_def)
qed

lemma three_bytes:
  assumes "224 \<le> b" "b < 240" "continuation c" "continuation d" "2048 \<le> (b - 224) * 4096 + (c - 128) * 64 + (d - 128)"
  shows "utf8_char ((b - 224) * 4096 + (c - 128) * 64 + (d - 128)) = [b, c, d]"
proof -
  obtain x y z where b: "b = 224 + x" "c = 128 + y" "d = 128 + z" "x < 16" "y < 64" "z < 64"
    using assms by (intro that [of "b - 224" "c - 128" "d - 128"]) (auto simp: continuation_def)
  define v where "v = x * 4096 + y * 64 + z"
  have v: "v = (x * 64 + y) * 64 + z" by (simp add: v_def)
  have "v div 64 = x * 64 + y" "v mod 64 = z" unfolding v by (rule digit64, rule b(6))+
  moreover have "v div 4096 = x" using b by (simp add: v_def)
  moreover have "2048 \<le> v" "v < 65536" using assms(5) b by (auto simp: v_def)
  ultimately show ?thesis using b by (simp add: utf8_char_def v_def [symmetric])
qed

lemma four_bytes:
  assumes "240 \<le> b" "continuation c" "continuation d" "continuation e"
    and "65536 \<le> (b - 240) * 262144 + (c - 128) * 4096 + (d - 128) * 64 + (e - 128)"
  shows "utf8_char ((b - 240) * 262144 + (c - 128) * 4096 + (d - 128) * 64 + (e - 128)) = [b, c, d, e]"
proof -
  obtain x y z t where b: "b = 240 + x" "c = 128 + y" "d = 128 + z" "e = 128 + t" "y < 64" "z < 64" "t < 64"
    using assms by (intro that [of "b - 240" "c - 128" "d - 128" "e - 128"]) (auto simp: continuation_def)
  define v where "v = x * 262144 + y * 4096 + z * 64 + t"
  have v: "v = ((x * 64 + y) * 64 + z) * 64 + t" by (simp add: v_def)
  have d: "v div 64 = (x * 64 + y) * 64 + z" "v mod 64 = t" unfolding v by (rule digit64, rule b(7))+
  have d2: "v div 64 mod 64 = z" "v div 64 div 64 = x * 64 + y" unfolding d by (rule digit64, rule b(6))+
  have "v div 64 div 64 mod 64 = y" "v div 64 div 64 div 64 = x" unfolding d2 by (rule digit64, rule b(5))+
  with d2 have "v div 64 mod 64 = z" "v div 4096 mod 64 = y" "v div 262144 = x" by (simp_all add: div_mult2_eq [symmetric])
  moreover note d
  moreover have "65536 \<le> v" using assms(5) b by (simp add: v_def)
  ultimately show ?thesis using b by (simp add: utf8_char_def v_def [symmetric])
qed

lemma utf8_bytes_inverse: "utf8_bytes py3 bs = Inr u \<Longrightarrow> concat (map utf8_char u) = bs \<and> list_all (scalar py3) u"
proof (induction py3 bs arbitrary: u rule: utf8_bytes.induct)
  case (2 py3 b bs)
  consider "b < 128" | "\<not> b < 128" "194 \<le> b \<and> b < 224" | "\<not> b < 128" "\<not> (194 \<le> b \<and> b < 224)" "224 \<le> b \<and> b < 240"
    | "\<not> b < 128" "\<not> (194 \<le> b \<and> b < 224)" "\<not> (224 \<le> b \<and> b < 240)" "240 \<le> b \<and> b < 245"
    using 2(5) by (auto split: if_splits)
  then show ?case
  proof cases
    case 1
    with 2(5) obtain u' where "utf8_bytes py3 bs = Inr u'" "u = b # u'" by (auto simp: rbind_eq_Inr)
    with 2(1) [OF 1, of u'] 1 show ?thesis by (auto simp: utf8_char_def scalar_def surrogate_def)
  next
    case t: 2
    with 2(5) obtain c r u' where bs: "bs = c # r" "continuation c" "utf8_bytes py3 r = Inr u'" "u = ((b - 192) * 64 + (c - 128)) # u'"
      by (auto simp: rbind_eq_Inr split: list.splits if_splits)
    have "(b - 192) * 64 + (c - 128) < 2048" using t bs(2) by (auto simp: continuation_def)
    with 2(2) [OF t bs(1,2), of u'] two_bytes [of b c] t bs show ?thesis by (simp add: scalar_def surrogate_def)
  next
    case t: 3
    with 2(5) obtain c d r u' where bs: "bs = c # d # r" "continuation c" "continuation d" "utf8_bytes py3 r = Inr u'"
      and v: "2048 \<le> (b - 224) * 4096 + (c - 128) * 64 + (d - 128)"
        "\<not> (py3 \<and> surrogate ((b - 224) * 4096 + (c - 128) * 64 + (d - 128)))"
      and u: "u = ((b - 224) * 4096 + (c - 128) * 64 + (d - 128)) # u'"
      by (auto simp: rbind_eq_Inr Let_def split: list.splits if_splits)
    have IH: "concat (map utf8_char u') = r \<and> list_all (scalar py3) u'" using 2(3) [OF t bs(1)] bs v by (simp add: Let_def)
    have "(b - 224) * 4096 + (c - 128) * 64 + (d - 128) < 65536" using t bs(2,3) by (auto simp: continuation_def)
    with v have "scalar py3 ((b - 224) * 4096 + (c - 128) * 64 + (d - 128))" by (simp add: scalar_def)
    with IH three_bytes [of b c d] t bs v u show ?thesis by simp
  next
    case t: 4
    with 2(5) obtain c d e r u' where bs: "bs = c # d # e # r" "continuation c" "continuation d" "continuation e" "utf8_bytes py3 r = Inr u'"
      and v: "65536 \<le> (b - 240) * 262144 + (c - 128) * 4096 + (d - 128) * 64 + (e - 128)"
        "(b - 240) * 262144 + (c - 128) * 4096 + (d - 128) * 64 + (e - 128) < 1114112"
      and u: "u = ((b - 240) * 262144 + (c - 128) * 4096 + (d - 128) * 64 + (e - 128)) # u'"
      by (auto simp: rbind_eq_Inr Let_def split: list.splits if_splits)
    have IH: "concat (map utf8_char u') = r \<and> list_all (scalar py3) u'" using 2(4) [OF t bs(1)] bs v by (simp add: Let_def)
    from v have "scalar py3 ((b - 240) * 262144 + (c - 128) * 4096 + (d - 128) * 64 + (e - 128))"
      by (simp add: scalar_def surrogate_def)
    with IH four_bytes [of b c d e] t bs v u show ?thesis by simp
  qed
qed simp

lemma utf8_decode_encode:
  assumes "utf8_decode py3 s = Inr u"
  shows "utf8_encode py3 u = Inr s"
proof -
  from utf8_bytes_inverse [OF assms [unfolded utf8_decode_def]]
  have "concat (map utf8_char u) = map of_char s" "list_all (scalar py3) u" by auto
  then show ?thesis by (simp add: utf8_encode_def scalar_def list_all_iff map_idI)
qed

section \<open>The coercions\<close>

text \<open>What a codec has to provide: what was encoded is decoded, and the other way round.\<close>

locale string_codec =
  fixes C :: codec
  assumes dec_enc: "enc C u = Inr b \<Longrightarrow> dec C b = Inr u"
    and enc_dec: "dec C b = Inr u \<Longrightarrow> enc C u = Inr b"
begin

lemma text_of_binary: "ensure_binary C s = Inr t \<Longrightarrow> ensure_text C t = ensure_text C s"
  by (auto simp: ensure_binary_def ensure_text_def rbind_eq_Inr split: pystring.splits dest: dec_enc)

lemma binary_of_text: "ensure_text C s = Inr t \<Longrightarrow> ensure_binary C t = ensure_binary C s"
  by (auto simp: ensure_binary_def ensure_text_def rbind_eq_Inr split: pystring.splits dest: enc_dec)

lemma str_keeps:
  "ensure_str py3 C s = Inr t \<Longrightarrow>
     ensure_str py3 C t = Inr t \<and> (case t of Text _ \<Rightarrow> py3 | Bytes _ \<Rightarrow> \<not> py3 | Other _ \<Rightarrow> False)
     \<and> ensure_text C t = ensure_text C s \<and> ensure_binary C t = ensure_binary C s"
  by (cases py3) (auto simp: ensure_str_def ensure_binary_def ensure_text_def rbind_eq_Inr split: pystring.splits dest: enc_dec dec_enc)

end

interpretation utf8: string_codec "utf8 py3"
  by unfold_locales (auto simp: utf8_def dest: utf8_encode_decode utf8_decode_encode)

lemma ensure_round_trips:
  "ensure_binary (utf8 py3) s = Inr t \<Longrightarrow> ensure_text (utf8 py3) t = ensure_text (utf8 py3) s"
  "ensure_text (utf8 py3) s = Inr t \<Longrightarrow> ensure_binary (utf8 py3) t = ensure_binary (utf8 py3) s"
  by (rule utf8.text_of_binary, assumption) (rule utf8.binary_of_text)



section \<open>Printing\<close>

text \<open>
  The function \<^verbatim>\<open>print_\<close> for a Python without one: an argument is a string or another object (given by what \<^verbatim>\<open>str\<close> makes
  of it); a keyword argument is \<^verbatim>\<open>None\<close>, a string or something else, or a file.  \<open>file_encoding\<close> is the codec of a file that has an
  encoding.
\<close>

datatype keyword = KwNone | KwString pystring | KwFile string

datatype print_event = Write string pystring | Flush string

definition write_data :: "(string \<Rightarrow> codec option) \<Rightarrow> string \<Rightarrow> pystring \<Rightarrow> (print_event, unit) io" where
  "write_data file_encoding fp s =
     (let s' = (case s of Other t \<Rightarrow> Bytes t | _ \<Rightarrow> s)
      in ibind (ilift (case s' of
                  Text u \<Rightarrow> (case file_encoding fp of
                      Some C \<Rightarrow> rbind (enc C u) (\<lambda>b. Inr (Bytes b)) | None \<Rightarrow> Inr s')
                | _ \<Rightarrow> Inr s')) (\<lambda>out. emit (Write fp out)))"

text \<open>\<^verbatim>\<open>sep\<close> and \<^verbatim>\<open>end\<close>: \<open>None\<close> for the default.\<close>

definition string_keyword :: "string \<Rightarrow> keyword \<Rightarrow> pystring option res" where
  "string_keyword name k =
     (case k of
        KwNone \<Rightarrow> Inr None
      | KwString (Bytes b) \<Rightarrow> Inr (Some (Bytes b))
      | KwString (Text u) \<Rightarrow> Inr (Some (Text u))
      | _ \<Rightarrow> Inl (TypeError (name @ '' must be None or a string'')))"

definition is_text :: "pystring \<Rightarrow> bool" where
  "is_text s = (case s of Text _ \<Rightarrow> True | _ \<Rightarrow> False)"

definition keyword_of :: "(string \<times> keyword) list \<Rightarrow> string \<Rightarrow> keyword \<Rightarrow> keyword" where
  "keyword_of kwargs name k0 = (case map_of kwargs name of Some k \<Rightarrow> k | None \<Rightarrow> k0)"

fun write_args :: "(string \<Rightarrow> codec option) \<Rightarrow> string \<Rightarrow> pystring \<Rightarrow> pystring list \<Rightarrow> (print_event, unit) io" where
  "write_args file_encoding fp sep [] = iret ()"
| "write_args file_encoding fp sep [s] = write_data file_encoding fp s"
| "write_args file_encoding fp sep (s # ss) =
     iseq (write_data file_encoding fp s) (iseq (write_data file_encoding fp sep) (write_args file_encoding fp sep ss))"

definition print_to :: "(string \<Rightarrow> codec option) \<Rightarrow> pystring list \<Rightarrow> (string \<times> keyword) list \<Rightarrow> (print_event, unit) io" where
  "print_to file_encoding args kwargs =
     (case keyword_of kwargs ''file'' (KwFile ''stdout'') of
        KwNone \<Rightarrow> iret ()
      | KwString _ \<Rightarrow> iraise (AttributeError ''write'')
      | KwFile fp \<Rightarrow>
          ibind (ilift (string_keyword ''sep'' (keyword_of kwargs ''sep'' KwNone))) (\<lambda>sep.
          ibind (ilift (string_keyword ''end'' (keyword_of kwargs ''end'' KwNone))) (\<lambda>end_mark.
          if list_ex (\<lambda>(k, _). k \<notin> set [''file'', ''sep'', ''end'']) kwargs
          then iraise (TypeError ''invalid keyword arguments to print()'')
          else (let want_unicode = (case sep of Some s \<Rightarrow> is_text s | None \<Rightarrow> False)
                      \<or> (case end_mark of Some s \<Rightarrow> is_text s | None \<Rightarrow> False) \<or> list_ex is_text args;
                    newline = (if want_unicode then Text [10] else Bytes [CHR 0x0A]);
                    space = (if want_unicode then Text [32] else Bytes '' '')
                in iseq (write_args file_encoding fp (case sep of Some s \<Rightarrow> s | None \<Rightarrow> space) args)
                        (write_data file_encoding fp (case end_mark of Some s \<Rightarrow> s | None \<Rightarrow> newline))))))"

text \<open>The outer function, before Python 3.3, adds \<^verbatim>\<open>flush\<close>.\<close>

definition py_print :: "(string \<Rightarrow> codec option) \<Rightarrow> pystring list \<Rightarrow> (string \<times> keyword) list \<Rightarrow> bool \<Rightarrow> (print_event, unit) io" where
  "py_print file_encoding args kwargs flush =
     iseq (print_to file_encoding args kwargs)
       (case keyword_of kwargs ''file'' (KwFile ''stdout'') of
          KwFile fp \<Rightarrow> if flush then emit (Flush fp) else iret ()
        | _ \<Rightarrow> iret ())"

text \<open>What reaches a file: the arguments with the separator between them, and the end.\<close>

fun interleave :: "'a \<Rightarrow> 'a list \<Rightarrow> 'a list" where
  "interleave sep [] = []"
| "interleave sep [x] = [x]"
| "interleave sep (x # xs) = x # sep # interleave sep xs"

lemma write_args_bytes:
  "write_args fe fp (Bytes sep) (map Bytes bs) t = (Inr (), t @ map (Write fp o Bytes) (interleave sep bs))"
  by (induction sep bs arbitrary: t rule: interleave.induct) (simp_all add: write_data_def ibind_def)

lemma print_bytes:
  "py_print fe (map Bytes bs) [] flush t
   = (Inr (), t @ map (Write ''stdout'' o Bytes) (interleave '' '' bs @ [[CHR 0x0A]]) @ (if flush then [Flush ''stdout''] else []))"
proof -
  have "\<not> list_ex is_text (map Bytes bs)" by (induction bs) (simp_all add: is_text_def)
  then show ?thesis
    by (simp add: py_print_def print_to_def keyword_of_def string_keyword_def Let_def write_args_bytes write_data_def ibind_def)
qed

section \<open>Class decorators\<close>

text \<open>
  A class is its name and its dictionary.  A method is the one that was defined, by its name, or the function that
  \<^verbatim>\<open>python_2_unicode_compatible\<close> makes, which calls \<^verbatim>\<open>__unicode__\<close> of the object and encodes the result.
\<close>

datatype class_method = Defined string | EncodedUnicode

record 'v klass =
  klass_name :: string
  klass_dict :: "(string \<times> 'v) list"

definition python_2_unicode_compatible :: "bool \<Rightarrow> class_method klass \<Rightarrow> class_method klass res" where
  "python_2_unicode_compatible py2 k =
     (if py2 then
        (case map_of (klass_dict k) ''__str__'' of
           None \<Rightarrow> Inl (ValueError (''@python_2_unicode_compatible cannot be applied to '' @ klass_name k
                    @ '' because it doesn't define __str__().''))
         | Some f \<Rightarrow> Inr (k\<lparr>klass_dict := dict_set ''__str__'' EncodedUnicode (dict_set ''__unicode__'' f (klass_dict k))\<rparr>))
      else Inr k)"

text \<open>Calling a method of an object of the class; \<open>body\<close> runs a defined method.  The fuel is the recursion limit.\<close>

fun call_method :: "nat \<Rightarrow> codec \<Rightarrow> (string \<Rightarrow> pystring res) \<Rightarrow> class_method klass \<Rightarrow> string \<Rightarrow> pystring res" where
  "call_method 0 C body k name = Inl (RuntimeError ''maximum recursion depth exceeded'')"
| "call_method (Suc n) C body k name =
     (case map_of (klass_dict k) name of
        None \<Rightarrow> Inl (AttributeError name)
      | Some (Defined f) \<Rightarrow> body f
      | Some EncodedUnicode \<Rightarrow> rbind (call_method n C body k ''__unicode__'') (\<lambda>s. case s of
            Text u \<Rightarrow> rbind (enc C u) (\<lambda>b. Inr (Bytes b))
          | Bytes b \<Rightarrow> rbind (dec C b) (\<lambda>u. rbind (enc C u) (\<lambda>b. Inr (Bytes b)))
          | Other t \<Rightarrow> Inl (AttributeError ''encode'')))"

text \<open>
  After the decorator \<^verbatim>\<open>unicode()\<close> is what \<^verbatim>\<open>__str__\<close> returned and \<^verbatim>\<open>str()\<close> its encoding; decorating a class twice
  makes both run into the recursion limit.
\<close>

lemma compatible_class:
  assumes "python_2_unicode_compatible True k = Inr k'" "map_of (klass_dict k) ''__str__'' = Some (Defined f)" "body f = Inr (Text u)"
  shows "call_method (Suc n) C body k' ''__unicode__'' = Inr (Text u)"
    and "call_method (Suc (Suc n)) C body k' ''__str__'' = rbind (enc C u) (\<lambda>b. Inr (Bytes b))"
  using assms by (auto simp: python_2_unicode_compatible_def)

lemma compatible_twice:
  assumes "python_2_unicode_compatible True k = Inr k'" "python_2_unicode_compatible True k' = Inr k''"
  shows "call_method n C body k'' ''__unicode__'' = Inl (RuntimeError ''maximum recursion depth exceeded'')"
proof -
  have "map_of (klass_dict k'') ''__unicode__'' = Some EncodedUnicode"
    using assms by (auto simp: python_2_unicode_compatible_def split: option.splits)
  then show ?thesis by (induction n) simp_all
qed

text \<open>\<^verbatim>\<open>add_metaclass\<close>: the dictionary that is handed to the metaclass.  \<open>slots\<close> is the value of \<^verbatim>\<open>__slots__\<close>.\<close>

datatype slots = OneSlot string | Slots "string list"

definition pop_key :: "(string \<times> 'v) list \<Rightarrow> string \<Rightarrow> (string \<times> 'v) list res" where
  "pop_key d k = (if map_of d k = None then Inl (KeyError k) else Inr (dict_del k d))"

definition metaclass_dict :: "slots option \<Rightarrow> 'v option \<Rightarrow> (string \<times> 'v) list \<Rightarrow> (string \<times> 'v) list res" where
  "metaclass_dict slots qualname d =
     rbind (foldR pop_key d (case slots of None \<Rightarrow> [] | Some (OneSlot s) \<Rightarrow> [s] | Some (Slots ss) \<Rightarrow> ss)) (\<lambda>d.
       (let d' = dict_del ''__weakref__'' (dict_del ''__dict__'' d)
        in Inr (case qualname of None \<Rightarrow> d' | Some q \<Rightarrow> dict_set ''__qualname__'' q d')))"

definition add_metaclass :: "(string \<Rightarrow> (string \<times> 'v) list \<Rightarrow> 'c) \<Rightarrow> slots option \<Rightarrow> 'v option \<Rightarrow> 'v klass \<Rightarrow> 'c res" where
  "add_metaclass metaclass slots qualname cls =
     rbind (metaclass_dict slots qualname (klass_dict cls)) (\<lambda>d. Inr (metaclass (klass_name cls) d))"

lemma foldR_pop_key:
  "foldR pop_key d ks = Inr d' \<Longrightarrow> map_of d' = (\<lambda>n. if n \<in> set ks then None else map_of d n) \<and> distinct ks
     \<and> (\<forall>k \<in> set ks. map_of d k \<noteq> None)"
proof (induction ks arbitrary: d)
  case (Cons k ks)
  from Cons.prems obtain e where e: "pop_key d k = Inr e" "foldR pop_key e ks = Inr d'" by (auto simp: rbind_eq_Inr)
  then have "map_of d k \<noteq> None" and rest: "foldR pop_key (dict_del k d) ks = Inr d'"
    by (auto simp: pop_key_def split: if_splits)
  with Cons.IH [OF rest] show ?case by (auto simp: fun_eq_iff split: if_splits)
qed simp

text \<open>
  The new class has the entries of the old one without the slots and the two entries that are made anew; a slot
  under another name than its entry (a private one) is a \<^verbatim>\<open>KeyError\<close>.
\<close>

theorem metaclass_keeps:
  assumes "metaclass_dict slots None d = Inr d'"
  defines "ss \<equiv> (case slots of None \<Rightarrow> [] | Some (OneSlot s) \<Rightarrow> [s] | Some (Slots ss) \<Rightarrow> ss)"
  shows "map_of d' n = (if n \<in> set ss \<or> n \<in> set [''__dict__'', ''__weakref__''] then None else map_of d n)
    \<and> (\<forall>s \<in> set ss. map_of d s \<noteq> None)"
proof -
  from assms(1) obtain e where e: "foldR pop_key d ss = Inr e" "d' = dict_del ''__weakref__'' (dict_del ''__dict__'' e)"
    by (auto simp: metaclass_dict_def ss_def rbind_eq_Inr Let_def)
  from foldR_pop_key [OF e(1)] e(2) show ?thesis by auto
qed

lemma private_slot_fails:
  assumes "map_of d s = None"
  shows "metaclass_dict (Some (OneSlot s)) q d = Inl (KeyError s)"
  using assms by (simp add: metaclass_dict_def pop_key_def)

theorem metaclass_keeps_witness:
  "\<exists>d'. metaclass_dict (Some (OneSlot ''x'')) None [(''__module__'', 1::nat), (''x'', 2), (''__dict__'', 3)] = Inr d'
     \<and> map_of d' ''x'' = None \<and> map_of d' ''__module__'' = Some 1"
proof -
  let ?d = "[(''__module__'', 1::nat), (''x'', 2), (''__dict__'', 3)]"
  obtain d' where run: "metaclass_dict (Some (OneSlot ''x'')) None ?d = Inr d'"
    by (simp add: metaclass_dict_def pop_key_def)
  from metaclass_keeps [OF run, of "''x''"] metaclass_keeps [OF run, of "''__module__''"] run show ?thesis by simp
qed

end
