(* ===== verification/Six_Objects.thy ===== *)
theory Six_Objects
  imports Six_Compat
begin

text \<open>
  The functions of \<^verbatim>\<open>six.py\<close> that hide the differences between the objects of Python 2 and 3: the largest size, functions and
  methods, the methods of dictionaries, literals, exceptions, wrappers and metaclasses.  An object of the interpreter is
  given by the attributes these functions read, with the names it has them under in each version.
\<close>

section \<open>Versions and sizes\<close>

text \<open>\<^verbatim>\<open>sys.version_info\<close> up to the minor version.\<close>

type_synonym version_info2 = "nat \<times> nat"

definition version_at_least :: "version_info2 \<Rightarrow> version_info2 \<Rightarrow> bool" where
  "version_at_least v w \<longleftrightarrow> fst w < fst v \<or> fst v = fst w \<and> snd w \<le> snd v"

definition is_PY2 :: "version_info2 \<Rightarrow> bool" where "is_PY2 v \<longleftrightarrow> fst v = 2"
definition is_PY3 :: "version_info2 \<Rightarrow> bool" where "is_PY3 v \<longleftrightarrow> fst v = 3"
definition is_PY34 :: "version_info2 \<Rightarrow> bool" where "is_PY34 v \<longleftrightarrow> version_at_least v (3, 4)"

text \<open>The types by their names; the text and the binary type decide which strings are native.\<close>

definition string_types :: "bool \<Rightarrow> string list" where
  "string_types py3 = (if py3 then [''str''] else [''basestring''])"

definition integer_types :: "bool \<Rightarrow> string list" where
  "integer_types py3 = (if py3 then [''int''] else [''int'', ''long''])"

definition class_types :: "bool \<Rightarrow> string list" where
  "class_types py3 = (if py3 then [''type''] else [''type'', ''types.ClassType''])"

definition text_type :: "bool \<Rightarrow> string" where
  "text_type py3 = (if py3 then ''str'' else ''unicode'')"

definition binary_type :: "bool \<Rightarrow> string" where
  "binary_type py3 = (if py3 then ''bytes'' else ''str'')"

text \<open>\<^verbatim>\<open>len(X())\<close> where \<^verbatim>\<open>__len__\<close> returns \<open>n\<close>: the size type of the interpreter has \<open>w\<close> bits.\<close>

definition ssize_max :: "nat \<Rightarrow> int" where
  "ssize_max w = 2 ^ (w - 1) - 1"

definition py_len :: "nat \<Rightarrow> int \<Rightarrow> int res" where
  "py_len w n = (if n < 0 then Inl (ValueError ''__len__() should return >= 0'')
     else if ssize_max w < n then Inl (PyException ''OverflowError'') else Inr n)"

definition MAXSIZE :: "bool \<Rightarrow> bool \<Rightarrow> nat \<Rightarrow> int" where
  "MAXSIZE py3 java w =
     (if py3 then ssize_max w
      else if java then push_bit 31 1 - 1
      else case py_len w (push_bit 31 1) of
             Inl _ \<Rightarrow> push_bit 31 1 - 1
           | Inr _ \<Rightarrow> push_bit 63 1 - 1)"

text \<open>The probe finds the size type of 32-bit and of 64-bit interpreters.\<close>

lemma MAXSIZE_probe: "w = 32 \<or> w = 64 \<Longrightarrow> MAXSIZE py3 False w = ssize_max w"
  by (auto simp: MAXSIZE_def py_len_def ssize_max_def push_bit_eq_mult)

section \<open>Functions and methods\<close>

text \<open>
  Functions, methods (their function, their object if they are bound, their class where there is one) and other objects.
  The attributes that the two versions know differ: Python 2.6 and later have both names.
\<close>

datatype 'o pyobj =
    Plain 'o
  | Function (closure_of: 'o) (code_of: 'o) (defaults_of: 'o) (globals_of: 'o)
  | Method "'o pyobj" "'o pyobj option" "'o pyobj option"

fun function_attr :: "bool \<Rightarrow> string \<Rightarrow> 'o pyobj \<Rightarrow> 'o res" where
  "function_attr py3 name (Function closure code defaults globals) =
     (case map_of ([(''__closure__'', closure), (''__code__'', code), (''__defaults__'', defaults), (''__globals__'', globals)]
             @ (if py3 then [] else [(''func_closure'', closure), (''func_code'', code), (''func_defaults'', defaults),
                  (''func_globals'', globals)])) name of
        Some x \<Rightarrow> Inr x
      | None \<Rightarrow> Inl (AttributeError name))"
| "function_attr py3 name _ = Inl (AttributeError name)"

text \<open>\<open>None\<close> is the value \<^verbatim>\<open>None\<close>: the attribute \<^verbatim>\<open>im_self\<close> of an unbound method.\<close>

fun method_attr :: "bool \<Rightarrow> string \<Rightarrow> 'o pyobj \<Rightarrow> 'o pyobj option res" where
  "method_attr py3 name (Method f self cls) =
     (if name = ''__func__'' \<or> \<not> py3 \<and> name = ''im_func'' then Inr (Some f)
      else if name = ''__self__'' \<or> \<not> py3 \<and> name = ''im_self'' then Inr self
      else Inl (AttributeError name))"
| "method_attr py3 name _ = Inl (AttributeError name)"

definition meth_func :: "bool \<Rightarrow> string" where "meth_func py3 = (if py3 then ''__func__'' else ''im_func'')"
definition meth_self :: "bool \<Rightarrow> string" where "meth_self py3 = (if py3 then ''__self__'' else ''im_self'')"
definition func_closure :: "bool \<Rightarrow> string" where "func_closure py3 = (if py3 then ''__closure__'' else ''func_closure'')"
definition func_code :: "bool \<Rightarrow> string" where "func_code py3 = (if py3 then ''__code__'' else ''func_code'')"
definition func_defaults :: "bool \<Rightarrow> string" where "func_defaults py3 = (if py3 then ''__defaults__'' else ''func_defaults'')"
definition func_globals :: "bool \<Rightarrow> string" where "func_globals py3 = (if py3 then ''__globals__'' else ''func_globals'')"

definition get_method_function :: "bool \<Rightarrow> 'o pyobj \<Rightarrow> 'o pyobj option res" where
  "get_method_function py3 = method_attr py3 (meth_func py3)"

definition get_method_self :: "bool \<Rightarrow> 'o pyobj \<Rightarrow> 'o pyobj option res" where
  "get_method_self py3 = method_attr py3 (meth_self py3)"

definition get_function_closure :: "bool \<Rightarrow> 'o pyobj \<Rightarrow> 'o res" where
  "get_function_closure py3 = function_attr py3 (func_closure py3)"

definition get_function_code :: "bool \<Rightarrow> 'o pyobj \<Rightarrow> 'o res" where
  "get_function_code py3 = function_attr py3 (func_code py3)"

definition get_function_defaults :: "bool \<Rightarrow> 'o pyobj \<Rightarrow> 'o res" where
  "get_function_defaults py3 = function_attr py3 (func_defaults py3)"

definition get_function_globals :: "bool \<Rightarrow> 'o pyobj \<Rightarrow> 'o res" where
  "get_function_globals py3 = function_attr py3 (func_globals py3)"

definition get_unbound_function :: "bool \<Rightarrow> 'o pyobj \<Rightarrow> 'o pyobj option res" where
  "get_unbound_function py3 unbound = (if py3 then Inr (Some unbound) else method_attr py3 ''im_func'' unbound)"

text \<open>\<open>cls\<close> is \<^verbatim>\<open>obj.__class__\<close>; methods of Python 3 have no class.\<close>

definition create_bound_method :: "bool \<Rightarrow> 'o pyobj \<Rightarrow> 'o pyobj \<Rightarrow> 'o pyobj \<Rightarrow> 'o pyobj" where
  "create_bound_method py3 func obj cls = (if py3 then Method func (Some obj) None else Method func (Some obj) (Some cls))"

definition create_unbound_method :: "bool \<Rightarrow> 'o pyobj \<Rightarrow> 'o pyobj \<Rightarrow> 'o pyobj" where
  "create_unbound_method py3 func cls = (if py3 then func else Method func None (Some cls))"

text \<open>What is put into a method comes out of it, under both versions, and the accessors of functions agree.\<close>

lemma method_round_trips:
  "get_method_function py3 (create_bound_method py3 func obj cls) = Inr (Some func)"
  "get_method_self py3 (create_bound_method py3 func obj cls) = Inr (Some obj)"
  "get_unbound_function py3 (create_unbound_method py3 func cls) = Inr (Some func)"
  by (simp_all add: get_method_function_def get_method_self_def get_unbound_function_def create_bound_method_def
      create_unbound_method_def meth_func_def meth_self_def)

lemma function_accessors:
  "get_function_closure py3 (Function cl co d g) = Inr cl" "get_function_code py3 (Function cl co d g) = Inr co"
  "get_function_defaults py3 (Function cl co d g) = Inr d" "get_function_globals py3 (Function cl co d g) = Inr g"
  by (simp_all add: get_function_closure_def get_function_code_def get_function_defaults_def get_function_globals_def
      func_closure_def func_code_def func_defaults_def func_globals_def)

text \<open>
  \<^verbatim>\<open>callable\<close> and \<^verbatim>\<open>next\<close> where the interpreter has none: the dictionaries of the classes in the order of resolution, and
  the method \<^verbatim>\<open>next\<close>; \<^verbatim>\<open>Iterator.next\<close> calls \<^verbatim>\<open>__next__\<close> of the class.
\<close>

definition py_callable :: "('o \<Rightarrow> bool) option \<Rightarrow> ('o \<Rightarrow> string list list) \<Rightarrow> 'o \<Rightarrow> bool" where
  "py_callable builtin mro obj =
     (case builtin of Some f \<Rightarrow> f obj | None \<Rightarrow> list_ex (\<lambda>d. ''__call__'' \<in> set d) (mro obj))"

definition advance_iterator :: "('o \<Rightarrow> 'r) option \<Rightarrow> ('o \<Rightarrow> string \<Rightarrow> 'r) \<Rightarrow> 'o \<Rightarrow> 'r" where
  "advance_iterator builtin call it = (case builtin of Some f \<Rightarrow> f it | None \<Rightarrow> call it ''next'')"

definition Iterator_next :: "('o \<Rightarrow> string \<Rightarrow> 'r) \<Rightarrow> 'o \<Rightarrow> 'r" where
  "Iterator_next class_method it = class_method it ''__next__''"

section \<open>Dictionaries\<close>

text \<open>What a method of a dictionary returns: a list, a view or an iterator, of keys, values or items.\<close>

datatype 'x elements = ListOf "'x list" | ViewOf "'x list" | IteratorOf "'x list"

fun py_iter :: "'x elements \<Rightarrow> 'x elements" where
  "py_iter (ListOf xs) = IteratorOf xs"
| "py_iter (ViewOf xs) = IteratorOf xs"
| "py_iter (IteratorOf xs) = IteratorOf xs"

text \<open>The methods of the built-in dictionary; only the dictionaries of other libraries have lists.\<close>

definition dict_method :: "bool \<Rightarrow> string \<Rightarrow> 'x list \<Rightarrow> string \<Rightarrow> 'x elements res" where
  "dict_method py3 kind xs name =
     (if name = kind then Inr (if py3 then ViewOf xs else ListOf xs)
      else if \<not> py3 \<and> name = ''iter'' @ kind then Inr (IteratorOf xs)
      else if \<not> py3 \<and> name = ''view'' @ kind then Inr (ViewOf xs)
      else Inl (AttributeError name))"

text \<open>\<^verbatim>\<open>iterkeys\<close>, \<^verbatim>\<open>itervalues\<close>, \<^verbatim>\<open>iteritems\<close> and \<^verbatim>\<open>iterlists\<close> call a method of the object.\<close>

definition iterkeys :: "bool \<Rightarrow> (string \<Rightarrow> 'x elements res) \<Rightarrow> 'x elements res" where
  "iterkeys py3 d = (if py3 then rbind (d ''keys'') (\<lambda>v. Inr (py_iter v)) else d ''iterkeys'')"

definition itervalues :: "bool \<Rightarrow> (string \<Rightarrow> 'x elements res) \<Rightarrow> 'x elements res" where
  "itervalues py3 d = (if py3 then rbind (d ''values'') (\<lambda>v. Inr (py_iter v)) else d ''itervalues'')"

definition six_iteritems :: "bool \<Rightarrow> (string \<Rightarrow> 'x elements res) \<Rightarrow> 'x elements res" where
  "six_iteritems py3 d = (if py3 then rbind (d ''items'') (\<lambda>v. Inr (py_iter v)) else d ''iteritems'')"

definition iterlists :: "bool \<Rightarrow> (string \<Rightarrow> 'x elements res) \<Rightarrow> 'x elements res" where
  "iterlists py3 d = (if py3 then rbind (d ''lists'') (\<lambda>v. Inr (py_iter v)) else d ''iterlists'')"

definition viewkeys :: "bool \<Rightarrow> (string \<Rightarrow> 'x elements res) \<Rightarrow> 'x elements res" where
  "viewkeys py3 d = d (if py3 then ''keys'' else ''viewkeys'')"

definition viewvalues :: "bool \<Rightarrow> (string \<Rightarrow> 'x elements res) \<Rightarrow> 'x elements res" where
  "viewvalues py3 d = d (if py3 then ''values'' else ''viewvalues'')"

definition viewitems :: "bool \<Rightarrow> (string \<Rightarrow> 'x elements res) \<Rightarrow> 'x elements res" where
  "viewitems py3 d = d (if py3 then ''items'' else ''viewitems'')"

text \<open>Under both versions they give an iterator and a view; there are no lists.\<close>

lemma dictionary_methods:
  "iterkeys py3 (dict_method py3 ''keys'' xs) = Inr (IteratorOf xs)" "viewkeys py3 (dict_method py3 ''keys'' xs) = Inr (ViewOf xs)"
  "itervalues py3 (dict_method py3 ''values'' xs) = Inr (IteratorOf xs)" "viewvalues py3 (dict_method py3 ''values'' xs) = Inr (ViewOf xs)"
  "six_iteritems py3 (dict_method py3 ''items'' xs) = Inr (IteratorOf xs)" "viewitems py3 (dict_method py3 ''items'' xs) = Inr (ViewOf xs)"
  "kind \<in> set [''keys'', ''values'', ''items''] \<Longrightarrow> \<exists>name. iterlists py3 (dict_method py3 kind xs) = Inl (AttributeError name)"
  by (simp_all add: iterkeys_def itervalues_def six_iteritems_def iterlists_def viewkeys_def viewvalues_def viewitems_def dict_method_def)
    (auto simp: dict_method_def)

section \<open>Literals\<close>

text \<open>
  The codec \<^verbatim>\<open>unicode_escape\<close> of the standard library.  \<open>names\<close> is the database of the names in \<^verbatim>\<open>\N{...}\<close>; the build
  has wide characters.
\<close>

definition hex_value :: "char \<Rightarrow> nat option" where
  "hex_value c =
     (let n = of_char c
      in if 48 \<le> n \<and> n \<le> 57 then Some (n - 48)
         else if 97 \<le> n \<and> n \<le> 102 then Some (n - 87)
         else if 65 \<le> n \<and> n \<le> 70 then Some (n - 55)
         else None)"

fun hex_number :: "nat \<Rightarrow> string \<Rightarrow> nat option" where
  "hex_number n [] = Some n"
| "hex_number n (c # cs) = (case hex_value c of Some d \<Rightarrow> hex_number (16 * n + d) cs | None \<Rightarrow> None)"

definition hex_escape :: "nat \<Rightarrow> string \<Rightarrow> (nat \<times> string) res" where
  "hex_escape digits s =
     (if length s < digits then Inl unicode_error
      else case hex_number 0 (take digits s) of
             Some n \<Rightarrow> if n < 1114112 then Inr (n, drop digits s) else Inl unicode_error
           | None \<Rightarrow> Inl unicode_error)"

definition is_octal :: "char \<Rightarrow> bool" where
  "is_octal c \<longleftrightarrow> (48::nat) \<le> of_char c \<and> of_char c \<le> (55::nat)"

fun octal_escape :: "nat \<Rightarrow> nat \<Rightarrow> string \<Rightarrow> nat \<times> string" where
  "octal_escape 0 n s = (n, s)"
| "octal_escape (Suc k) n [] = (n, [])"
| "octal_escape (Suc k) n (c # s) = (if is_octal c then octal_escape k (8 * n + (of_char c - 48)) s else (n, c # s))"

definition simple_escapes :: "(char \<times> nat list) list" where
  "simple_escapes =
     [(CHR 0x0A, []), (CHR 0x5C, [92]), (CHR 0x27, [39]), (CHR 0x22, [34]), (CHR ''b'', [8]), (CHR ''f'', [12]),
      (CHR ''t'', [9]), (CHR ''n'', [10]), (CHR ''r'', [13]), (CHR ''v'', [11]), (CHR ''a'', [7])]"

text \<open>What an escape stands for and what follows it; \<open>c\<close> is the character after the backslash.\<close>

definition read_escape :: "(string \<Rightarrow> nat option) \<Rightarrow> char \<Rightarrow> string \<Rightarrow> (nat list \<times> string) res" where
  "read_escape names c s =
     (case map_of simple_escapes c of
        Some u \<Rightarrow> Inr (u, s)
      | None \<Rightarrow>
          if is_octal c then (case octal_escape 2 (of_char c - 48) s of (n, r) \<Rightarrow> Inr ([n], r))
          else if c = CHR ''x'' then rbind (hex_escape 2 s) (\<lambda>(n, r). Inr ([n], r))
          else if c = CHR ''u'' then rbind (hex_escape 4 s) (\<lambda>(n, r). Inr ([n], r))
          else if c = CHR ''U'' then rbind (hex_escape 8 s) (\<lambda>(n, r). Inr ([n], r))
          else if c = CHR ''N'' then
            (case s of
               b # t \<Rightarrow> if b = CHR 0x7B \<and> CHR 0x7D \<in> set t then
                         (case names (takeWhile (\<lambda>x. x \<noteq> CHR 0x7D) t) of
                            Some n \<Rightarrow> Inr ([n], tl (dropWhile (\<lambda>x. x \<noteq> CHR 0x7D) t)) | None \<Rightarrow> Inl unicode_error)
                       else Inl unicode_error
             | [] \<Rightarrow> Inl unicode_error)
          else Inr ([92, of_char c], s))"

lemma octal_escape_shorter: "length (snd (octal_escape k n s)) \<le> length s"
  by (induction k n s rule: octal_escape.induct) auto

lemma read_escape_shorter: "read_escape names c s = Inr (u, r) \<Longrightarrow> length r \<le> length s"
  using octal_escape_shorter [of 2 "of_char c - 48" s] length_dropWhile_le [of "\<lambda>x. x \<noteq> CHR 0x7D" "tl s"]
  by (auto simp: read_escape_def rbind_eq_Inr hex_escape_def split: option.splits if_splits prod.splits list.splits)

function unicode_escape :: "(string \<Rightarrow> nat option) \<Rightarrow> string \<Rightarrow> nat list res" where
  "unicode_escape names [] = Inr []"
| "unicode_escape names [c] = (if c = CHR 0x5C then Inl unicode_error else Inr [of_char c])"
| "unicode_escape names (c # d # s) =
     (if c = CHR 0x5C then
        (case read_escape names d s of
           Inl e \<Rightarrow> Inl e
         | Inr (u, r) \<Rightarrow> rbind (unicode_escape names r) (\<lambda>v. Inr (u @ v)))
      else rbind (unicode_escape names (d # s)) (\<lambda>v. Inr (of_char c # v)))"
  by pat_completeness auto
termination
  by (relation "measure (\<lambda>(names, s). length s)") (auto dest: read_escape_shorter)

text \<open>\<^verbatim>\<open>b\<close> and \<^verbatim>\<open>u\<close> of a native string.\<close>

definition latin1 :: "nat list \<Rightarrow> string res" where
  "latin1 u = (if list_all (\<lambda>n. n < 256) u then Inr (map char_of u) else Inl unicode_error)"

definition six_b :: "pystring \<Rightarrow> bool \<Rightarrow> pystring res" where
  "six_b s py3 =
     (if py3 then (case s of Text u \<Rightarrow> rbind (latin1 u) (\<lambda>b. Inr (Bytes b)) | _ \<Rightarrow> Inl (AttributeError ''encode''))
      else Inr s)"

definition replace_sub :: "string \<Rightarrow> string \<Rightarrow> string \<Rightarrow> string" where
  "replace_sub old new s = join new (split_sub old s)"

definition six_u :: "(string \<Rightarrow> nat option) \<Rightarrow> bool \<Rightarrow> pystring \<Rightarrow> pystring res" where
  "six_u names py3 s =
     (if py3 then Inr s
      else case s of
        Bytes b \<Rightarrow> rbind (unicode_escape names (replace_sub [CHR 0x5C, CHR 0x5C] [CHR 0x5C, CHR 0x5C, CHR 0x5C, CHR 0x5C] b))
                     (\<lambda>u. Inr (Text u))
      | _ \<Rightarrow> Inl (TypeError ''decoding Unicode is not supported''))"

text \<open>A native literal: the string of the given characters.\<close>

definition native :: "bool \<Rightarrow> string \<Rightarrow> pystring" where
  "native py3 s = (if py3 then Text (map of_char s) else Bytes s)"

text \<open>Backslashes come in pairs only.\<close>

fun paired :: "string \<Rightarrow> bool" where
  "paired [] = True"
| "paired [c] = (c \<noteq> CHR 0x5C)"
| "paired (c # d # s) = (if c = CHR 0x5C then d = CHR 0x5C \<and> paired s else paired (d # s))"

lemma join_Cons_head: "ws \<noteq> [] \<Longrightarrow> join sep ((x # hd ws) # tl ws) = x # join sep ws"
  by (cases ws; cases "tl ws") auto

lemma replace_sub_Cons:
  "replace_sub old new (x # s) =
     (if old \<noteq> [] \<and> prefix old (x # s) then new @ replace_sub old new (drop (length old) (x # s)) else x # replace_sub old new s)"
proof -
  have "join new (case split_sub old s of [] \<Rightarrow> [[x]] | w # ws \<Rightarrow> (x # w) # ws) = x # join new (split_sub old s)"
    using join_Cons_head [of "split_sub old s" new x] by (cases "split_sub old s") auto
  then show ?thesis by (auto simp: replace_sub_def join_Cons)
qed

lemma unicode_escape_paired:
  "paired s \<Longrightarrow> unicode_escape names (replace_sub [CHR 0x5C, CHR 0x5C] [CHR 0x5C, CHR 0x5C, CHR 0x5C, CHR 0x5C] s) = Inr (map of_char s)"
proof (induction s rule: paired.induct)
  case 1
  then show ?case by (simp add: replace_sub_def)
next
  case (2 c)
  then show ?case by (simp add: replace_sub_Cons) (simp add: replace_sub_def)
next
  case (3 c d s)
  have plain: "unicode_escape names (x # t) = rbind (unicode_escape names t) (\<lambda>v. Inr (of_char x # v))" if "x \<noteq> CHR 0x5C" for x t
    using that by (cases t) auto
  show ?case
  proof (cases "c = CHR 0x5C")
    case True
    with 3 show ?thesis by (simp add: replace_sub_Cons read_escape_def simple_escapes_def)
  next
    case False
    with 3 show ?thesis by (simp add: replace_sub_Cons [of _ _ c] plain)
  qed
qed

text \<open>The two versions agree on such literals: every character stands for itself.\<close>

lemma six_u_agrees: "paired s \<Longrightarrow> six_u names py3 (native py3 s) = Inr (Text (map of_char s))"
  by (simp add: six_u_def native_def unicode_escape_paired)

lemma six_b_agrees: "six_b (native py3 s) py3 = Inr (Bytes s)"
  by (auto simp: six_b_def native_def latin1_def list_all_iff o_def)

text \<open>One byte: the exceptions differ, the bytes do not.\<close>

definition int2byte :: "bool \<Rightarrow> int \<Rightarrow> string res" where
  "int2byte py3 i =
     (if 0 \<le> i \<and> i < 256 then Inr [char_of (nat i)]
      else if py3 then Inl (PyException ''struct.error'') else Inl (ValueError ''chr() arg not in range(256)''))"

lemma int2byte_byte2int: "int2byte py3 i = Inr b \<Longrightarrow> byte2int b = Inr i \<and> iterbytes b = [i]"
  by (auto simp: int2byte_def byte2int_def iterbytes_def at_def split: if_splits)

section \<open>Assertions of unittest\<close>

text \<open>The methods are called by the name that the version has; \<open>minor\<close> is the minor version.\<close>

definition assert_count_equal :: "bool \<Rightarrow> string" where
  "assert_count_equal py3 = (if py3 then ''assertCountEqual'' else ''assertItemsEqual'')"

definition assert_raises_regex :: "bool \<Rightarrow> nat \<Rightarrow> string" where
  "assert_raises_regex py3 minor = (if py3 \<and> 1 < minor then ''assertRaisesRegex'' else ''assertRaisesRegexp'')"

definition assert_regex :: "bool \<Rightarrow> nat \<Rightarrow> string" where
  "assert_regex py3 minor = (if py3 \<and> 1 < minor then ''assertRegex'' else ''assertRegexpMatches'')"

definition assertCountEqual :: "bool \<Rightarrow> (string \<Rightarrow> 'a \<Rightarrow> 'r res) \<Rightarrow> 'a \<Rightarrow> 'r res" where
  "assertCountEqual py3 method args = method (assert_count_equal py3) args"

definition assertRaisesRegex :: "bool \<Rightarrow> nat \<Rightarrow> (string \<Rightarrow> 'a \<Rightarrow> 'r res) \<Rightarrow> 'a \<Rightarrow> 'r res" where
  "assertRaisesRegex py3 minor method args = method (assert_raises_regex py3 minor) args"

definition assertRegex :: "bool \<Rightarrow> nat \<Rightarrow> (string \<Rightarrow> 'a \<Rightarrow> 'r res) \<Rightarrow> 'a \<Rightarrow> 'r res" where
  "assertRegex py3 minor method args = method (assert_regex py3 minor) args"

section \<open>Exceptions and code\<close>

text \<open>An exception is its value, its traceback, its cause and whether its context is suppressed.\<close>

record ('v, 'tb) exception_object =
  exc_value :: 'v
  exc_traceback :: "'tb option"
  exc_cause :: "'v option"
  exc_suppress :: bool

text \<open>The exception that is raised; \<open>new\<close> is \<^verbatim>\<open>tp()\<close>, and \<open>value\<close> is an instance of \<^verbatim>\<open>tp\<close>.\<close>

definition reraise :: "bool \<Rightarrow> ('v, 'tb) exception_object \<Rightarrow> ('v, 'tb) exception_object option \<Rightarrow> 'tb option
    \<Rightarrow> ('v, 'tb) exception_object" where
  "reraise py3 new value tb =
     (let v = (case value of None \<Rightarrow> new | Some v \<Rightarrow> v)
      in if py3 then (if exc_traceback v \<noteq> tb then v\<lparr>exc_traceback := tb\<rparr> else v)
         else v\<lparr>exc_traceback := tb\<rparr>)"

definition raise_from :: "version_info2 \<Rightarrow> ('v, 'tb) exception_object \<Rightarrow> 'v option \<Rightarrow> ('v, 'tb) exception_object" where
  "raise_from v value from_value =
     (if v = (3, 2) then (if from_value = None then value else value\<lparr>exc_cause := from_value, exc_suppress := True\<rparr>)
      else if version_at_least v (3, 2) then value\<lparr>exc_cause := from_value, exc_suppress := True\<rparr>
      else value)"

lemma reraise_same: "reraise py3 new value tb = (case value of None \<Rightarrow> new | Some v \<Rightarrow> v)\<lparr>exc_traceback := tb\<rparr>"
  by (auto simp: reraise_def Let_def split: option.split)

text \<open>The namespaces that \<^verbatim>\<open>exec_\<close> runs the code in: those of the caller, or the globals for both.\<close>

definition exec_namespaces :: "'ns \<times> 'ns \<Rightarrow> 'ns option \<Rightarrow> 'ns option \<Rightarrow> 'ns \<times> 'ns" where
  "exec_namespaces frame globs locs =
     (case globs of
        None \<Rightarrow> (fst frame, case locs of None \<Rightarrow> snd frame | Some l \<Rightarrow> l)
      | Some g \<Rightarrow> (g, case locs of None \<Rightarrow> g | Some l \<Rightarrow> l))"

section \<open>Wrappers\<close>

text \<open>
  A function has the attributes that are assigned to a wrapper and a dictionary of others.  \<^verbatim>\<open>functools.wraps\<close> of the
  standard library: since Python 3.2 it skips missing attributes and sets \<^verbatim>\<open>__wrapped__\<close>, but only since 3.4 after the dictionary was
  updated.
\<close>

record 'v fn_object =
  fn_attrs :: "(string \<times> 'v) list"
  fn_dict :: "(string \<times> 'v) list"

definition dict_update :: "(string \<times> 'v) list \<Rightarrow> (string \<times> 'v) list \<Rightarrow> (string \<times> 'v) list" where
  "dict_update d e = foldl (\<lambda>d (k, v). dict_set k v d) d e"

definition assign_attr :: "bool \<Rightarrow> 'v fn_object \<Rightarrow> 'v fn_object \<Rightarrow> string \<Rightarrow> 'v fn_object res" where
  "assign_attr skip wrapped f name =
     (case map_of (fn_attrs wrapped) name of
        Some v \<Rightarrow> Inr (f\<lparr>fn_attrs := dict_set name v (fn_attrs f)\<rparr>)
      | None \<Rightarrow> if skip then Inr f else Inl (AttributeError name))"

definition set_wrapped :: "'v \<Rightarrow> 'v fn_object \<Rightarrow> 'v fn_object" where
  "set_wrapped w f = f\<lparr>fn_dict := dict_set ''__wrapped__'' w (fn_dict f)\<rparr>"

definition functools_wraps :: "version_info2 \<Rightarrow> string list \<Rightarrow> 'v \<Rightarrow> 'v fn_object \<Rightarrow> 'v fn_object \<Rightarrow> 'v fn_object res" where
  "functools_wraps v assigned w wrapped f =
     (let new = version_at_least v (3, 2);
          early = new \<and> \<not> version_at_least v (3, 4);
          f0 = (if early then set_wrapped w f else f)
      in rbind (foldR (assign_attr new wrapped) f0 assigned) (\<lambda>f.
         let f1 = f\<lparr>fn_dict := dict_update (fn_dict f) (fn_dict wrapped)\<rparr>
         in Inr (if version_at_least v (3, 4) then set_wrapped w f1 else f1)))"

definition wraps :: "version_info2 \<Rightarrow> string list \<Rightarrow> 'v \<Rightarrow> 'v fn_object \<Rightarrow> 'v fn_object \<Rightarrow> 'v fn_object res" where
  "wraps v assigned w wrapped f =
     (if \<not> version_at_least v (3, 4)
      then rbind (functools_wraps v assigned w wrapped f) (\<lambda>f. Inr (set_wrapped w f))
      else functools_wraps v assigned w wrapped f)"

text \<open>
  In every version \<^verbatim>\<open>__wrapped__\<close> is the function that was wrapped, also if that is a wrapper itself; in
  Python 3.3 \<^verbatim>\<open>functools.wraps\<close> leaves the function that the wrapped one wraps.
\<close>

lemma wraps_wrapped: "wraps v assigned w wrapped f = Inr g \<Longrightarrow> map_of (fn_dict g) ''__wrapped__'' = Some w"
  by (auto simp: wraps_def functools_wraps_def Let_def set_wrapped_def rbind_eq_Inr split: if_splits)

lemma functools_wraps_early:
  "functools_wraps (3, 3) [] w \<lparr>fn_attrs = [], fn_dict = [(''__wrapped__'', u)]\<rparr> f = Inr g \<Longrightarrow> map_of (fn_dict g) ''__wrapped__'' = Some u"
  by (auto simp: functools_wraps_def Let_def set_wrapped_def version_at_least_def dict_update_def)

section \<open>Metaclasses\<close>

text \<open>
  A class statement asks the metaclass of the bases for a namespace (since Python 3), runs the body in it and calls the metaclass.
  The result of \<^verbatim>\<open>with_metaclass\<close> is a class whose metaclass hands both over to the other one, with the bases it was given.
\<close>

record ('c, 'ns) metaclass =
  meta_prepare :: "string \<Rightarrow> 'c list \<Rightarrow> 'ns res"
  meta_call :: "string \<Rightarrow> 'c list \<Rightarrow> 'ns \<Rightarrow> 'c res"

definition class_statement :: "bool \<Rightarrow> 'ns \<Rightarrow> ('c, 'ns) metaclass \<Rightarrow> string \<Rightarrow> 'c list \<Rightarrow> ('ns \<Rightarrow> 'ns res) \<Rightarrow> 'c res" where
  "class_statement py3 ns0 meta name bases body =
     rbind (if py3 then meta_prepare meta name bases else Inr ns0) (\<lambda>ns.
     rbind (body ns) (meta_call meta name bases))"

definition with_metaclass :: "('c, 'ns) metaclass \<Rightarrow> 'c list \<Rightarrow> ('c, 'ns) metaclass" where
  "with_metaclass meta bases =
     \<lparr>meta_prepare = (\<lambda>name this_bases. meta_prepare meta name bases),
      meta_call = (\<lambda>name this_bases d. meta_call meta name bases d)\<rparr>"

lemma with_metaclass_class:
  "class_statement py3 ns0 (with_metaclass meta bases) name [temporary] body = class_statement py3 ns0 meta name bases body"
  by (simp add: class_statement_def with_metaclass_def)

end
