(* ===== verification/Spec2Isabelle.thy ===== *)
theory Spec2Isabelle
  imports Hpa_Runs Hpa_Policy_Models Hpa_Config Stv_Managers Stv_Example Stv_Sphinxext Vfc_Scripts
    Pbr_Setup Pbr_Cmd Pbr_Builddoc Pbr_Sphinxext Py_Samples Six_Moves Six_Objects
begin

text \<open>
  The Python programs of the repository: the ONAP deployment scripts (\<^verbatim>\<open>src/cloud/onap\<close>), the
  stevedore tutorial with the packages its set-up brings along (\<^verbatim>\<open>src/coding/python/stevedore/example\<close>: the
  tutorial's own plugins, and under \<^verbatim>\<open>.eggs\<close> stevedore 1.30.1, pbr 5.3.1 and six 1.12.0), and the small samples
  under \<^verbatim>\<open>src/coding\<close>.  Below, file names of stevedore, pbr and six are relative to their eggs.

  \<^bold>\<open>How the parts interact.\<close>  \<^verbatim>\<open>setup.py\<close> of the tutorial declares entry points; pbr turns a
  \<^verbatim>\<open>setup.cfg\<close> into the arguments of \<^verbatim>\<open>setup()\<close>: \<^verbatim>\<open>core.pbr\<close> calls \<^verbatim>\<open>util.cfg_to_args\<close>, which runs the hooks
  (\<^verbatim>\<open>hooks/\<close>), which ask \<^verbatim>\<open>packaging.get_version\<close> for the version; that one reads the tags and messages through
  \<^verbatim>\<open>git.py\<close> and computes with the versions of \<^verbatim>\<open>version.py\<close>; \<^verbatim>\<open>packaging.parse_requirements\<close> supplies the
  dependencies.  The commands pbr registers (\<^verbatim>\<open>packaging.py\<close>, \<^verbatim>\<open>builddoc.py\<close>, \<^verbatim>\<open>testr_command.py\<close>) and its command
  line (\<^verbatim>\<open>cmd/main.py\<close>) use the same functions later.  stevedore loads the entry points that were installed and
  the tutorial's programs print what these plugins produce.  six is what stevedore and pbr use to run on Python 2
  and 3.  The ONAP scripts and the samples stand alone.

  \<^bold>\<open>Theories.\<close>
  \<^item> \<open>Py_Prelude\<close>: exceptions, results (\<open>'a res\<close> is a sum, \<open>Inl\<close> the exception), ordered dictionaries and the string
    methods of Python 2 (8-bit strings).  \<open>Py_World\<close>: programs over a state (\<open>st\<close>) or over the trace of their effects
    (\<open>io\<close>), whose answers come from parameters that may depend on the whole trace; JSON values; \<^verbatim>\<open>str.format\<close>.
  \<^item> \<open>Hpa_Automation\<close>, \<open>Hpa_Policy_Models\<close>, \<open>Hpa_Runs\<close>, \<open>Hpa_Config\<close>: \<^verbatim>\<open>hpa_automation.py\<close> and \<^verbatim>\<open>insert_policy_models.py\<close>,
    one definition for each function of the scripts and one for the module body, the rows they insert, the shipped
    configuration.  \<open>Vfc_Scripts\<close>: the nine scripts of \<^verbatim>\<open>vfc-py\<close>.
  \<^item> \<open>Pbr_Version\<close>: \<^verbatim>\<open>version.py\<close>, class \<^verbatim>\<open>SemanticVersion\<close> as the record \<open>semver\<close>, class \<^verbatim>\<open>VersionInfo\<close> as the record
    \<open>version_info\<close> with its cached strings.  \<open>Pbr_Git\<close>: \<^verbatim>\<open>git.py\<close>, \<^verbatim>\<open>options.py\<close>.  \<open>Pbr_Packaging\<close>, \<open>Pbr_Requirements\<close>,
    \<open>Pbr_Commands\<close>: \<^verbatim>\<open>packaging.py\<close> (version computation, requirements files, commands) and \<^verbatim>\<open>pbr_json.py\<close>.
    \<open>Pbr_Shell\<close>: \<^verbatim>\<open>shlex\<close> and the list syntaxes.  \<open>Pbr_Setup_Cfg\<close>, \<open>Pbr_Setup\<close>: \<^verbatim>\<open>util.py\<close>, \<^verbatim>\<open>extra_files.py\<close>, \<^verbatim>\<open>core.py\<close>.
    \<open>Pbr_Hooks\<close>: \<^verbatim>\<open>hooks/\<close>, \<^verbatim>\<open>find_package.py\<close>.  \<open>Pbr_Cmd\<close>: \<^verbatim>\<open>cmd/main.py\<close>.  \<open>Pbr_Builddoc\<close>: \<^verbatim>\<open>builddoc.py\<close>.
    \<open>Pbr_Sphinxext\<close>: \<^verbatim>\<open>sphinxext.py\<close>, \<^verbatim>\<open>testr_command.py\<close>.
  \<^item> \<open>Stv_Extension\<close>, \<open>Stv_Enabled\<close>, \<open>Stv_Named\<close>, \<open>Stv_Managers\<close>: the managers (\<^verbatim>\<open>extension.py\<close>; \<^verbatim>\<open>enabled.py\<close>, \<^verbatim>\<open>dispatch.py\<close>;
    \<^verbatim>\<open>named.py\<close>, \<^verbatim>\<open>driver.py\<close>, \<^verbatim>\<open>hook.py\<close>).  The attributes of a manager are a record, a subclass extends the record
    of its base, and an overridden method is an argument of the inherited constructor; \<open>Stv_Managers\<close> has the
    steps of managers of all classes over their shared cache.  \<open>Stv_Example\<close>: the tutorial
    and the examples of stevedore.  \<open>Stv_Sphinxext\<close>: \<^verbatim>\<open>sphinxext.py\<close>.
  \<^item> \<open>Six_Moves\<close>, \<open>Six_Compat\<close>, \<open>Six_Objects\<close>: \<^verbatim>\<open>six.py\<close>, the lazy modules with their importer, the functions for
    strings, printing and class decorators, and those for the objects of the two versions of Python.
    \<open>Py_Samples\<close>: the pecan service and its set-up, the gRPC client and server, \<^verbatim>\<open>sum.py\<close>, \<^verbatim>\<open>fp.py\<close>, the
    examples for porting.

  \<^bold>\<open>State.\<close>  The mutable state of the code is explicit: the class attribute \<^verbatim>\<open>ENTRY_POINT_CACHE\<close> shared by all managers
  (step relation \<open>manager_step\<close>), \<^verbatim>\<open>sys.path\<close>, \<^verbatim>\<open>sys.modules\<close>, the configuration and the list of extra files shared with the hooks of a
  project (\<open>Pbr_Setup\<close>), the cached strings of \<^verbatim>\<open>VersionInfo\<close> (step relation \<open>vi_step\<close>), \<^verbatim>\<open>sys.modules\<close> and the classes
  and instances of the lazy modules (step relation \<open>six_step\<close>), the cached project name of \<^verbatim>\<open>sphinxext.py\<close>.  Everything else the
  programs change is the outside world: files written, commands run and requests sent are the trace.

  \<^bold>\<open>Interfaces.\<close>  \<open>total_preference\<close> is what a user of the version ordering relies on (interpreted on the comparison of
  \<^verbatim>\<open>SemanticVersion\<close>); \<open>plugin_loader\<close> is the contract between the loop that loads extensions and the three
  versions of \<^verbatim>\<open>_load_one_plugin\<close> (interpreted on all three); \<open>message_codec\<close> is what gRPC needs of the
  messages (interpreted on the encoding of protocol buffers); \<open>string_codec\<close> is what the coercions of six need
  of \<^verbatim>\<open>encode\<close> and \<^verbatim>\<open>decode\<close> (interpreted on UTF-8 for both versions of Python).

  \<^bold>\<open>What the lemmas show.\<close>
  \<^item> Versions: the comparison refines an explicit precedence and is a total order on well-formed versions; parsing and
    printing are inverse; development versions lie between releases; the parser raises only \<^verbatim>\<open>ValueError\<close>; the
    version of an untagged commit is bounded by the last tag and the next release, up to the package commands.
  \<^item> Requirements: every returned line is clean; reading returns for inclusions that decrease along a rank and raises for
    every recursion limit if a file includes itself.
  \<^item> Set-up: types of the keyword arguments, the version that reaches \<^verbatim>\<open>setup()\<close>, \<^verbatim>\<open>sys.path\<close> restored on every path,
    which sections the hooks change, the extras by markers, the exceptions that leave \<^verbatim>\<open>core.pbr\<close>.
  \<^item> ChangeLog, autoindex, \<^verbatim>\<open>pbr.json\<close>: exactly what is written, and what reads it back.
  \<^item> Managers: which extensions a manager holds, in which order, with which failures; one scan for each namespace
    in every state reachable with managers of all classes;
    \<^verbatim>\<open>map\<close> with and without propagation; the driver found or the exception.  Tutorial: what is printed.
  \<^item> Deployment: the order of the phases on every run, the run that aborts for \<^verbatim>\<open>-t sdc\<close>, and conditions under which a run
    completes, which the shipped configuration meets.  REST scripts: exactly one request.
  \<^item> six: every move resolves for both versions of Python, importing it agrees with reading it but for the names the
    importer keeps lazy, nothing is imported twice, the coercions give native strings with the same text.

  \<^bold>\<open>Recursion and fuel.\<close>  All other recursion is structural or has a measure.  Fuel stands for the recursion limit of the
  interpreter only, and running out of it is the exception the interpreter raises: in \<open>parse_requirements\<close> (enough is
  any number above the rank of the inclusions), in \<open>import_module\<close> and \<open>lazy_getattr\<close> of six (two is
  enough for every move of a fresh module, read or imported) and in \<open>call_method\<close> (a class decorated twice never has enough).

  \<^bold>\<open>Parameters.\<close>  Code outside \<^verbatim>\<open>src/\<close> is a field of an environment record or an argument: git, \<^verbatim>\<open>oclip\<close>, HTTP servers, MySQL,
  \<^verbatim>\<open>pkg_resources\<close>, setuptools, reno, Sphinx, docutils, testrepository, pecan, gRPC.  Of the standard library what
  the source uses is modelled (strings, \<^verbatim>\<open>shlex.split\<close>, \<^verbatim>\<open>textwrap.fill\<close>, \<^verbatim>\<open>fnmatch\<close>, \<^verbatim>\<open>str.format\<close>, UTF-8); the
  file system, \<^verbatim>\<open>json\<close>, \<^verbatim>\<open>email\<close>, \<^verbatim>\<open>argparse\<close> and \<^verbatim>\<open>os.walk\<close> are fields of the environment.

  \<^bold>\<open>Loops that need not end.\<close>  The loop of the gRPC server is a \<open>partial_function\<close>: not returning is \<open>None\<close>, and it returns
  exactly if one of its sleeps is interrupted.

  \<^bold>\<open>Not modelled.\<close>  Imports, documentation strings, class headers and log messages, which compute nothing; the metadata in
  calls of \<^verbatim>\<open>setup()\<close> other than entry points; the tables generated in \<^verbatim>\<open>helloworld_pb2.py\<close>; names of six that
  are bound to objects of the standard library (\<^verbatim>\<open>StringIO\<close>, \<^verbatim>\<open>unichr\<close>); branches of pbr for Windows; \<^verbatim>\<open>__hash__\<close> of
  versions.
\<close>

end
